(* ===== verification/DRS_Prelude.thy ===== *)
theory DRS_Prelude
  imports Main "HOL-Library.Sublist" "HOL-Library.Word" "HOL-Library.Signed_Division"
begin

unbundle bit_operations_syntax

text \<open>
  Shared vocabulary of the development.

  \<^item> C's unsigned integers are words of their width (\<open>u8\<close>, \<open>u16\<close>, \<open>u32\<close>, \<open>u64\<close>).
  \<^item> C's \<open>int64_t\<close> (\<open>i64\<close>) is an \<open>int\<close> whose arithmetic is written with the
    two's-complement wrap-around made explicit: \<open>s64\<close> is applied to the result of every
    addition, subtraction and multiplication, and the comparisons are those of \<open>int\<close>.
    C leaves signed overflow undefined; \<open>s64\<close> is what the two's-complement hardware
    computes, and the lemmas about arithmetic state the bounds under which no wrap happens.
  \<^item> C's signed division truncates: it is \<open>sdiv\<close> of \<open>HOL-Library.Signed_Division\<close>.
  \<^item> An array that is written modulo its size is read back by \<open>ring_slice\<close>.
\<close>

type_synonym u8 = "8 word"
type_synonym u16 = "16 word"
type_synonym u32 = "32 word"
type_synonym u64 = "64 word"
type_synonym i64 = int

named_theorems drs_const \<open>values of the configuration constants\<close>
named_theorems s64_simps \<open>removal of wrap-around under range facts\<close>

section \<open>Signed 64-bit arithmetic\<close>

definition s64 :: "int \<Rightarrow> i64" where
  "s64 x = (x + 9223372036854775808) mod 18446744073709551616 - 9223372036854775808"

definition in_i64 :: "int \<Rightarrow> bool" where
  "in_i64 x \<longleftrightarrow> - 9223372036854775808 \<le> x \<and> x \<le> 9223372036854775807"

definition INT64_MAX :: i64 where
  "INT64_MAX = 9223372036854775807"

definition INT64_MIN :: i64 where
  "INT64_MIN = - 9223372036854775808"

lemma s64_in_i64 [simp, intro]: "in_i64 (s64 x)"
proof -
  let ?r = "(x + 9223372036854775808) mod 18446744073709551616"
  have "0 \<le> ?r" and "?r < 18446744073709551616" by simp_all
  then show ?thesis unfolding s64_def in_i64_def by linarith
qed

lemma s64_id [s64_simps]: "in_i64 x \<Longrightarrow> s64 x = x"
  by (simp add: s64_def in_i64_def mod_pos_pos_trivial)

lemma s64_eq_iff: "s64 x = x \<longleftrightarrow> in_i64 x"
  using s64_id s64_in_i64 by metis

lemma s64_idem [simp]: "s64 (s64 x) = s64 x"
  by (simp add: s64_id)

lemma s64_cong:
  assumes "x mod 18446744073709551616 = y mod 18446744073709551616"
  shows "s64 x = s64 y"
proof -
  have "(x + 9223372036854775808) mod 18446744073709551616 =
        (y + 9223372036854775808) mod 18446744073709551616"
    using assms by (rule mod_add_cong) (rule refl)
  then show ?thesis unfolding s64_def by simp
qed

lemma s64_mod: "s64 x mod 18446744073709551616 = x mod 18446744073709551616"
  unfolding s64_def by (simp add: mod_diff_left_eq)

lemma s64_add_l [simp]: "s64 (s64 x + y) = s64 (x + y)"
  by (rule s64_cong) (metis s64_mod mod_add_left_eq)

lemma s64_add_r [simp]: "s64 (x + s64 y) = s64 (x + y)"
  by (rule s64_cong) (metis s64_mod mod_add_right_eq)

lemma s64_diff_l [simp]: "s64 (s64 x - y) = s64 (x - y)"
  by (rule s64_cong) (metis s64_mod mod_diff_left_eq)

lemma s64_diff_r [simp]: "s64 (x - s64 y) = s64 (x - y)"
  by (rule s64_cong) (metis s64_mod mod_diff_right_eq)

lemma s64_uminus [simp]: "s64 (- s64 x) = s64 (- x)"
  using s64_diff_r [of 0 x] by simp

lemma s64_0 [simp]: "s64 0 = 0"
  by (simp add: s64_def)

lemma in_i64_0 [simp]: "in_i64 0"
  by (simp add: in_i64_def)

lemma in_i64_MAX [simp]: "in_i64 INT64_MAX"
  by (simp add: in_i64_def INT64_MAX_def)

lemma in_i64_le_MAX: "in_i64 x \<Longrightarrow> x \<le> INT64_MAX"
  by (simp add: in_i64_def INT64_MAX_def)

lemma in_i64_between: "in_i64 a \<Longrightarrow> in_i64 b \<Longrightarrow> a \<le> x \<Longrightarrow> x \<le> b \<Longrightarrow> in_i64 x"
  by (simp add: in_i64_def)

lemma in_i64_sint [simp]: "in_i64 (sint (w :: u64))"
  using sint_greater_eq [of w] sint_less [of w] by (simp add: in_i64_def)

lemma sint_word_of_int_s64: "sint (word_of_int x :: u64) = s64 x"
proof -
  have "sint (word_of_int x :: u64) = signed_take_bit 63 x"
    by (simp add: signed_take_bit_int_eq_self sint_sbintrunc')
  also have "\<dots> = s64 x"
    by (simp add: signed_take_bit_eq_take_bit_shift take_bit_eq_mod s64_def)
  finally show ?thesis .
qed

lemma word_of_int_s64 [simp]: "(word_of_int (s64 x) :: u64) = word_of_int x"
proof -
  have "sint (word_of_int (s64 x) :: u64) = sint (word_of_int x :: u64)"
    by (simp only: sint_word_of_int_s64 s64_idem)
  then show ?thesis by (rule signed_word_eqI)
qed

text \<open>The absolute value as the code writes it: \<open>x < 0 ? -x : x\<close>.\<close>

definition c_abs64 :: "i64 \<Rightarrow> i64" where
  "c_abs64 x = (if x < 0 then s64 (- x) else x)"

lemma c_abs64_eq: "in_i64 x \<Longrightarrow> x \<noteq> INT64_MIN \<Longrightarrow> c_abs64 x = \<bar>x\<bar>"
  by (auto simp: c_abs64_def INT64_MIN_def in_i64_def s64_id)

section \<open>Truncating division\<close>

lemma sdiv_nonneg_eq: "0 \<le> a \<Longrightarrow> 0 < b \<Longrightarrow> (a :: int) sdiv b = a div b"
  by (cases "a = 0") (simp_all add: signed_divide_int_def)

lemma sdiv_neg_eq: "a < 0 \<Longrightarrow> 0 < b \<Longrightarrow> (a :: int) sdiv b = - ((- a) div b)"
  by (simp add: signed_divide_int_def)

lemma sdiv_minus: "(- a :: int) sdiv b = - (a sdiv b)"
  by (simp add: signed_divide_int_def)

text \<open>
  Division of two \<open>int64_t\<close> values. A zero divisor is undefined in C; the model gives 0, which
  is what the AArch64 instruction returns, and the callers are shown to pass positive divisors.
\<close>

definition c_div64 :: "i64 \<Rightarrow> i64 \<Rightarrow> i64" where
  "c_div64 a b = s64 (a sdiv b)"

lemma smod_nonneg_eq: "0 \<le> a \<Longrightarrow> 0 < b \<Longrightarrow> (a :: int) smod b = a mod b"
  by (cases "a = 0") (simp_all add: signed_modulo_int_def)

lemma abs_sdiv_le: "\<bar>(a :: int) sdiv b\<bar> \<le> \<bar>a\<bar>"
proof -
  have "\<bar>a sdiv b\<bar> = (if a = 0 \<or> b = 0 then 0 else \<bar>a\<bar> div \<bar>b\<bar>)"
    by (auto simp: signed_divide_int_def abs_mult abs_sgn_eq pos_imp_zdiv_nonneg_iff)
  moreover have "\<bar>a\<bar> div \<bar>b\<bar> \<le> \<bar>a\<bar>"
    by (cases "b = 0") (simp_all add: zdiv_mono2 [of "\<bar>a\<bar>" 1 "\<bar>b\<bar>", simplified])
  ultimately show ?thesis by auto
qed

lemma c_div64_sdiv:
  assumes "in_i64 a" "0 < b"
  shows "c_div64 a b = a sdiv b"
proof -
  have "\<bar>a\<bar> div b \<le> \<bar>a\<bar>" using assms(2) by (intro zdiv_mono2 [of "\<bar>a\<bar>" 1 b, simplified]) auto
  moreover have "0 \<le> \<bar>a\<bar> div b" using assms(2) by (simp add: pos_imp_zdiv_nonneg_iff)
  ultimately have "in_i64 (a sdiv b)"
    using assms by (cases "a < 0") (auto simp: sdiv_neg_eq sdiv_nonneg_eq in_i64_def)
  then show ?thesis by (simp add: c_div64_def s64_id)
qed

lemma in_i64_c_div64 [simp]: "in_i64 (c_div64 a b)"
  by (simp add: c_div64_def)

lemma sdiv_mono: "a \<le> b \<Longrightarrow> 0 < d \<Longrightarrow> (a :: int) sdiv d \<le> b sdiv d"
proof -
  assume ab: "a \<le> b" and d: "0 < d"
  consider "0 \<le> a" | "a < 0" "0 \<le> b" | "b < 0" using ab by linarith
  then show ?thesis
  proof cases
    case 1
    then show ?thesis using ab d by (simp add: sdiv_nonneg_eq zdiv_mono1)
  next
    case 2
    then have "0 \<le> (- a) div d" "0 \<le> b div d" using d by (simp_all add: pos_imp_zdiv_nonneg_iff)
    then show ?thesis using 2 d by (simp add: sdiv_nonneg_eq sdiv_neg_eq)
  next
    case 3
    then have "(- b) div d \<le> (- a) div d" using ab d by (intro zdiv_mono1) auto
    then show ?thesis using 3 ab d by (simp add: sdiv_neg_eq)
  qed
qed

lemma sdiv_nonneg: "0 \<le> a \<Longrightarrow> 0 < d \<Longrightarrow> 0 \<le> (a :: int) sdiv d"
  by (simp add: sdiv_nonneg_eq pos_imp_zdiv_nonneg_iff)

section \<open>Arrays written modulo their size\<close>

definition ring_slice :: "'a list \<Rightarrow> nat \<Rightarrow> nat \<Rightarrow> 'a list" where
  "ring_slice buf r w = map (\<lambda>k. buf ! (k mod length buf)) [r..<w]"

lemma length_ring_slice [simp]: "length (ring_slice buf r w) = w - r"
  by (simp add: ring_slice_def)

lemma ring_slice_empty [simp]: "w \<le> r \<Longrightarrow> ring_slice buf r w = []"
  by (simp add: ring_slice_def)

lemma ring_slice_map:
  "ring_slice buf r w = map (\<lambda>i. buf ! ((r + i) mod length buf)) [0..<w - r]"
  by (rule nth_equalityI) (simp_all add: ring_slice_def)

lemma mod_neq_of_lt:
  assumes "k < w" "w - k < (n :: nat)"
  shows "k mod n \<noteq> w mod n"
proof
  assume "k mod n = w mod n"
  then have "n dvd w - k"
    using assms(1) mod_eq_dvd_iff_nat [of k w n] by simp
  with assms show False
    using nat_dvd_not_less [of "w - k" n] by simp
qed

lemma ring_slice_frame:
  assumes "w - r < length buf" "w' \<le> w" "r \<le> w"
  shows "ring_slice (buf[w mod length buf := x]) r w' = ring_slice buf r w'"
proof -
  have "buf[w mod length buf := x] ! (k mod length buf) = buf ! (k mod length buf)"
    if "r \<le> k" "k < w'" for k
  proof -
    have "k mod length buf \<noteq> w mod length buf"
      using that assms by (intro mod_neq_of_lt) auto
    then show ?thesis by simp
  qed
  then show ?thesis by (simp add: ring_slice_def)
qed

lemma ring_slice_push:
  assumes "w - r < length buf" "r \<le> w"
  shows "ring_slice (buf[w mod length buf := x]) r (Suc w) = ring_slice buf r w @ [x]"
proof -
  have pos: "w mod length buf < length buf"
    using assms by (intro mod_less_divisor) linarith
  have "ring_slice (buf[w mod length buf := x]) r (Suc w) =
        ring_slice (buf[w mod length buf := x]) r w @ [x]"
    using pos assms(2) by (simp add: ring_slice_def)
  then show ?thesis
    using assms ring_slice_frame [of w r buf w x] by simp
qed

lemma ring_slice_pop:
  "r < w \<Longrightarrow> ring_slice buf r w = buf ! (r mod length buf) # ring_slice buf (Suc r) w"
  by (simp add: ring_slice_def upt_rec)

lemma ring_slice_shift:
  assumes "length buf = n"
  shows "ring_slice buf (r + n) (w + n) = ring_slice buf r w"
proof (rule nth_equalityI)
  show "ring_slice buf (r + n) (w + n) ! i = ring_slice buf r w ! i"
    if "i < length (ring_slice buf (r + n) (w + n))" for i
    using assms that mod_add_self2 [of "r + i" n] by (simp add: ring_slice_def ac_simps)
qed simp

lemma drop_ring_slice: "drop k (ring_slice buf r w) = ring_slice buf (r + k) w"
  by (simp add: ring_slice_def drop_map)

lemma take_ring_slice: "r + k \<le> w \<Longrightarrow> take k (ring_slice buf r w) = ring_slice buf r (r + k)"
  by (simp add: ring_slice_def take_map)

lemma set_ring_slice_full:
  assumes "length buf = n" "0 < n"
  shows "set (ring_slice buf r (r + n)) = set buf"
proof
  show "set (ring_slice buf r (r + n)) \<subseteq> set buf"
    using assms by (auto simp: ring_slice_def)
next
  have "buf ! i \<in> set (ring_slice buf r (r + n))" if "i < n" for i
  proof -
    define k where "k = r + (i + n - r mod n) mod n"
    have "k mod n = i"
    proof -
      have le: "r mod n \<le> n" using assms(2) by (simp add: less_imp_le)
      have "k mod n = (r mod n + (i + n - r mod n)) mod n"
        by (simp add: k_def mod_simps)
      also have "\<dots> = (i + n) mod n" using le by simp
      also have "\<dots> = i" using that by simp
      finally show ?thesis .
    qed
    moreover have "r \<le> k" "k < r + n" using assms(2) by (auto simp: k_def)
    ultimately show ?thesis
      using assms(1) by (auto simp: ring_slice_def intro!: image_eqI [of _ _ k])
  qed
  then show "set buf \<subseteq> set (ring_slice buf r (r + n))"
    using assms(1) by (metis in_set_conv_nth subsetI)
qed

section \<open>Sliding windows\<close>

text \<open>
  What a ring that overwrites its oldest slot promises: its contents are the last
  \<open>cap\<close> elements pushed, each in the form \<open>view\<close> in which the ring keeps it. The min-delay filter and the error ring both provide it.
\<close>

definition keep_last :: "nat \<Rightarrow> 'a list \<Rightarrow> 'a list" where
  "keep_last n xs = drop (length xs - n) xs"

lemma length_keep_last [simp]: "length (keep_last n xs) = min n (length xs)"
  by (simp add: keep_last_def)

lemma keep_last_short [simp]: "length xs \<le> n \<Longrightarrow> keep_last n xs = xs"
  by (simp add: keep_last_def)

lemma keep_last_append: "keep_last n (keep_last n xs @ ys) = keep_last n (xs @ ys)"
proof -
  have *: "length (keep_last n xs @ ys) - n + (length xs - n) = length (xs @ ys) - n \<or>
        length xs \<le> n"
    by (auto simp: min_def)
  then show ?thesis
  proof
    assume eq: "length (keep_last n xs @ ys) - n + (length xs - n) = length (xs @ ys) - n"
    have "keep_last n xs @ ys = drop (length xs - n) (xs @ ys)"
      by (simp add: keep_last_def)
    then show ?thesis
      using eq by (simp add: keep_last_def add.commute)
  qed simp
qed

lemma set_keep_last_subset: "set (keep_last n xs) \<subseteq> set xs"
  by (simp add: keep_last_def set_drop_subset)

lemma last_in_keep_last: "0 < n \<Longrightarrow> x \<in> set (keep_last n (xs @ [x]))"
  by (simp add: keep_last_def Suc_diff_le)

locale sliding_window =
  fixes push :: "'a \<Rightarrow> 's \<Rightarrow> 's"
    and view :: "'a \<Rightarrow> 'b"
    and contents :: "'s \<Rightarrow> 'b list"
    and cap :: nat
    and invar :: "'s \<Rightarrow> bool"
  assumes contents_push: "invar s \<Longrightarrow> contents (push x s) = keep_last cap (contents s @ [view x])"
    and invar_push: "invar s \<Longrightarrow> invar (push x s)"
    and contents_bound: "invar s \<Longrightarrow> length (contents s) \<le> cap"
begin

lemma invar_pushes: "invar s \<Longrightarrow> invar (fold push xs s)"
  by (induction xs arbitrary: s) (auto intro: invar_push)

lemma contents_pushes:
  "invar s \<Longrightarrow> contents (fold push xs s) = keep_last cap (contents s @ map view xs)"
proof (induction xs arbitrary: s)
  case Nil
  then show ?case by (simp add: contents_bound)
next
  case (Cons x xs)
  then show ?case
    using keep_last_append [of cap "contents s @ [view x]" "map view xs"]
    by (simp add: invar_push contents_push)
qed

text \<open>What came before \<open>cap\<close> further elements has been forgotten.\<close>

lemma contents_forget:
  assumes "invar s" "invar s'" "cap \<le> length xs"
  shows "contents (fold push xs s) = contents (fold push xs s')"
  using assms by (simp add: contents_pushes keep_last_def)

end

section \<open>Bounded queues\<close>

text \<open>
  The contract of a bounded first-in first-out queue that drops what does not fit, and a reference
  queue on lists. \<open>invar n\<close> says that the representation takes at least \<open>n\<close> more elements before
  its counters run out.
\<close>

datatype 'a fifo_op = Fifo_enq 'a | Fifo_deq

fun queue_step :: "nat \<Rightarrow> 'a fifo_op \<Rightarrow> 'a list \<times> 'a list \<Rightarrow> 'a list \<times> 'a list" where
  "queue_step cap (Fifo_enq x) (q, out) = (if length q < cap then q @ [x] else q, out)"
| "queue_step cap Fifo_deq (q, out) = (case q of [] \<Rightarrow> (q, out) | x # q' \<Rightarrow> (q', out @ [x]))"

fun fifo_step ::
  "('a \<Rightarrow> 's \<Rightarrow> 's) \<Rightarrow> ('s \<Rightarrow> 's) \<Rightarrow> ('s \<Rightarrow> 'a option) \<Rightarrow> 'a fifo_op \<Rightarrow> 's \<times> 'a list \<Rightarrow> 's \<times> 'a list" where
  "fifo_step enq deq front (Fifo_enq x) (s, out) = (enq x s, out)"
| "fifo_step enq deq front Fifo_deq (s, out) =
     (case front s of None \<Rightarrow> (s, out) | Some x \<Rightarrow> (deq s, out @ [x]))"

fun fifo_enqs :: "'a fifo_op list \<Rightarrow> 'a list" where
  "fifo_enqs [] = []"
| "fifo_enqs (Fifo_enq x # ops) = x # fifo_enqs ops"
| "fifo_enqs (Fifo_deq # ops) = fifo_enqs ops"

lemma queue_run_order:
  "fold (queue_step cap) ops (q, out) = (q', out') \<Longrightarrow>
   subseq (out' @ q') (out @ q @ fifo_enqs ops) \<and> (length q \<le> cap \<longrightarrow> length q' \<le> cap)"
proof (induction ops arbitrary: q out rule: fifo_enqs.induct)
  case (2 x ops)
  show ?case
  proof (cases "length q < cap")
    case True
    with 2 show ?thesis using 2(1) [of "q @ [x]" out] by simp
  next
    case False
    then have "subseq (out' @ q') (out @ q @ fifo_enqs ops) \<and> (length q \<le> cap \<longrightarrow> length q' \<le> cap)"
      using 2 by auto
    moreover have "subseq (out @ q @ fifo_enqs ops) (out @ q @ x # fifo_enqs ops)"
      by (intro list_emb_append_mono subseq_order.refl) auto
    ultimately show ?thesis using subseq_order.trans by auto
  qed
next
  case (3 ops)
  then show ?case using 3(1) [of q out] 3(1) [of "tl q" "out @ [hd q]"] by (cases q) simp_all
qed auto

lemma queue_run_lossless:
  "fold (queue_step cap) ops (q, out) = (q', out') \<Longrightarrow> length q + length (fifo_enqs ops) \<le> cap \<Longrightarrow>
   out' @ q' = out @ q @ fifo_enqs ops"
proof (induction ops arbitrary: q out rule: fifo_enqs.induct)
  case (2 x ops)
  then show ?case using 2(1) [of "q @ [x]" out] by simp
next
  case (3 ops)
  then show ?case using 3(1) [of q out] 3(1) [of "tl q" "out @ [hd q]"] by (cases q) simp_all
qed auto

locale bounded_fifo =
  fixes enq :: "'a \<Rightarrow> 's \<Rightarrow> 's"
    and deq :: "'s \<Rightarrow> 's"
    and front :: "'s \<Rightarrow> 'a option"
    and contents :: "'s \<Rightarrow> 'a list"
    and cap :: nat
    and invar :: "nat \<Rightarrow> 's \<Rightarrow> bool"
  assumes contents_enq: "invar (Suc n) s \<Longrightarrow>
      contents (enq x s) = (if length (contents s) < cap then contents s @ [x] else contents s)"
    and invar_enq: "invar (Suc n) s \<Longrightarrow> invar n (enq x s)"
    and front_contents: "invar n s \<Longrightarrow> front s = (case contents s of [] \<Rightarrow> None | x # _ \<Rightarrow> Some x)"
    and contents_deq: "invar n s \<Longrightarrow> contents s \<noteq> [] \<Longrightarrow> contents (deq s) = tl (contents s)"
    and invar_deq: "invar n s \<Longrightarrow> contents s \<noteq> [] \<Longrightarrow> invar n (deq s)"
begin

text \<open>Every run of the representation is one of the reference queue, with the same output.\<close>

lemma run_refines:
  assumes "invar (length (fifo_enqs ops)) s" "fold (fifo_step enq deq front) ops (s, out) = (s', out')"
  shows "fold (queue_step cap) ops (contents s, out) = (contents s', out') \<and> invar 0 s'"
  using assms
proof (induction ops arbitrary: s out rule: fifo_enqs.induct)
  case (2 x ops)
  then show ?case
    using contents_enq [of "length (fifo_enqs ops)" s x] invar_enq [of "length (fifo_enqs ops)" s x]
      2(1) [of "enq x s" out]
    by simp
next
  case (3 ops)
  show ?case
  proof (cases "contents s")
    case Nil
    with 3 show ?thesis using front_contents [of _ s] 3(1) [of s out] by simp
  next
    case (Cons y ys)
    then have "front s = Some y" "contents (deq s) = ys" "invar (length (fifo_enqs ops)) (deq s)"
      using 3(2) front_contents contents_deq invar_deq by auto
    with 3 Cons show ?thesis using 3(1) [of "deq s" "out @ [y]"] by simp
  qed
qed auto

end

end
