(* ===== verification/DRS_Config.thy ===== *)
theory DRS_Config
  imports DRS_Prelude
begin

text \<open>
  The compile-time configuration \<open>include/drs_sync_config.h\<close>: one constant per macro, with
  the macro's name, value and C type. Durations are nanoseconds. The wire version, chosen by
  the preprocessor from \<open>DRS_PROTO_VER\<close>, is the datatype \<open>proto_ver\<close>. All equations are
  collected in \<open>drs_const\<close>.
\<close>

subsection \<open>Protocol version\<close>

datatype proto_ver = PROTO_V1 | PROTO_V2

primrec DRS_VERSION :: "proto_ver \<Rightarrow> u8" where
  "DRS_VERSION PROTO_V1 = 0x01"
| "DRS_VERSION PROTO_V2 = 0x02"

primrec DRS_PAYLOAD_BYTES :: "proto_ver \<Rightarrow> nat" where
  "DRS_PAYLOAD_BYTES PROTO_V1 = 66"
| "DRS_PAYLOAD_BYTES PROTO_V2 = 64"

subsection \<open>Protocol\<close>

definition DRS_MAGIC_V2 :: u32 where
  [drs_const]: "DRS_MAGIC_V2 = 0x44525354"

definition DRS_PORT :: u16 where
  [drs_const]: "DRS_PORT = 47200"

definition DRS_MCAST_GROUP :: string where
  [drs_const]: "DRS_MCAST_GROUP = ''239.192.88.100''"

definition DRS_CALIB_LOOPBACK_PORT :: u16 where
  [drs_const]: "DRS_CALIB_LOOPBACK_PORT = 47201"

definition DRS_MSG_ANNOUNCE :: u8 where
  [drs_const]: "DRS_MSG_ANNOUNCE = 0x01"

definition DRS_MSG_SYNC_REQ :: u8 where
  [drs_const]: "DRS_MSG_SYNC_REQ = 0x02"

definition DRS_MSG_SYNC_RESP :: u8 where
  [drs_const]: "DRS_MSG_SYNC_RESP = 0x03"

definition DRS_FLAG_LEADER :: u32 where
  [drs_const]: "DRS_FLAG_LEADER = push_bit 0 1"

definition DRS_FLAG_HOLDOVER :: u32 where
  [drs_const]: "DRS_FLAG_HOLDOVER = push_bit 1 1"

definition DRS_FLAG_CALIBRATED :: u32 where
  [drs_const]: "DRS_FLAG_CALIBRATED = push_bit 2 1"

definition DRS_FLAG_FAULT :: u32 where
  [drs_const]: "DRS_FLAG_FAULT = push_bit 3 1"


subsection \<open>Timing (all in nanoseconds)\<close>

definition DRS_GROUND_DURATION_NS :: i64 where
  [drs_const]: "DRS_GROUND_DURATION_NS = 2000000000"

definition DRS_LEADER_ANNOUNCE_NS :: i64 where
  [drs_const]: "DRS_LEADER_ANNOUNCE_NS = 100000000"

definition DRS_SYNC_EXCHANGE_NS :: i64 where
  [drs_const]: "DRS_SYNC_EXCHANGE_NS = 50000000"

definition DRS_FOLLOWER_TIMEOUT_NS :: i64 where
  [drs_const]: "DRS_FOLLOWER_TIMEOUT_NS = 300000000"

definition DRS_HOLDOVER_MAX_NS :: i64 where
  [drs_const]: "DRS_HOLDOVER_MAX_NS = 10000000000"

definition DRS_ELECTION_MIN_NS :: i64 where
  [drs_const]: "DRS_ELECTION_MIN_NS = 250000000"

definition DRS_ELECTION_MAX_NS :: i64 where
  [drs_const]: "DRS_ELECTION_MAX_NS = 500000000"

definition DRS_SYNC_REQ_TIMEOUT_NS :: i64 where
  [drs_const]: "DRS_SYNC_REQ_TIMEOUT_NS = 200000000"


subsection \<open>Pulse Engine\<close>

definition DRS_PULSE_PERIOD_NS :: i64 where
  [drs_const]: "DRS_PULSE_PERIOD_NS = 1000000000"

definition DRS_PULSE_HIGH_DURATION_NS :: i64 where
  [drs_const]: "DRS_PULSE_HIGH_DURATION_NS = 10000000"

definition DRS_STABLE_WINDOW_NS :: i64 where
  [drs_const]: "DRS_STABLE_WINDOW_NS = 10000000000"

definition DRS_STABLE_OFFSET_THRESH_NS :: i64 where
  [drs_const]: "DRS_STABLE_OFFSET_THRESH_NS = 100000"


subsection \<open>Min-Delay Filter\<close>

definition DRS_MIN_DELAY_WINDOW :: nat where
  [drs_const]: "DRS_MIN_DELAY_WINDOW = 10"

definition DRS_MIN_DELAY_TOLERANCE_NS :: i64 where
  [drs_const]: "DRS_MIN_DELAY_TOLERANCE_NS = 200000"

definition DRS_SEQ_DISC_THRESHOLD :: u32 where
  [drs_const]: "DRS_SEQ_DISC_THRESHOLD = 1024"

definition DRS_PHASE_STEP_RESET_NS :: i64 where
  [drs_const]: "DRS_PHASE_STEP_RESET_NS = 5000000"


subsection \<open>Calibration\<close>

definition DRS_CALIB_SAMPLES :: nat where
  [drs_const]: "DRS_CALIB_SAMPLES = 50"

definition DRS_CALIB_OUTLIER_NS :: i64 where
  [drs_const]: "DRS_CALIB_OUTLIER_NS = 20000"

definition DRS_CALIB_MAX_RETRIES :: nat where
  [drs_const]: "DRS_CALIB_MAX_RETRIES = 3"


subsection \<open>PI Controller\<close>

definition DRS_PI_KP_Q16 :: i64 where
  [drs_const]: "DRS_PI_KP_Q16 = 6554"

definition DRS_PI_KI_Q16 :: i64 where
  [drs_const]: "DRS_PI_KI_Q16 = 655"

definition DRS_PI_UPDATE_PERIOD_NS :: i64 where
  [drs_const]: "DRS_PI_UPDATE_PERIOD_NS = 50000000"

definition DRS_STEP_THRESHOLD_NS :: i64 where
  [drs_const]: "DRS_STEP_THRESHOLD_NS = 1000000"

definition DRS_STEP_CONFIRM_SAMPLES :: int where
  [drs_const]: "DRS_STEP_CONFIRM_SAMPLES = 3"


subsection \<open>Virtual Clock (Q32.32)\<close>

definition DRS_RATE_NOMINAL_Q32 :: u64 where
  [drs_const]: "DRS_RATE_NOMINAL_Q32 = 0x100000000"

definition DRS_RATE_PPM_Q32 :: i64 where
  [drs_const]: "DRS_RATE_PPM_Q32 = 4295"

definition DRS_RATE_MAX_PPM :: i64 where
  [drs_const]: "DRS_RATE_MAX_PPM = 1000"

definition DRS_RATE_MIN_Q32 :: u64 where
  [drs_const]: "DRS_RATE_MIN_Q32 = DRS_RATE_NOMINAL_Q32 - word_of_int (DRS_RATE_MAX_PPM * DRS_RATE_PPM_Q32)"

definition DRS_RATE_MAX_Q32 :: u64 where
  [drs_const]: "DRS_RATE_MAX_Q32 = DRS_RATE_NOMINAL_Q32 + word_of_int (DRS_RATE_MAX_PPM * DRS_RATE_PPM_Q32)"


subsection \<open>RT Configuration\<close>

definition DRS_RT_CPU :: nat where
  [drs_const]: "DRS_RT_CPU = 3"

definition DRS_RT_PRIO :: nat where
  [drs_const]: "DRS_RT_PRIO = 85"


subsection \<open>GPIO\<close>

definition DRS_GPIO_PULSE_PIN :: nat where
  [drs_const]: "DRS_GPIO_PULSE_PIN = 18"

definition DRS_GPIO_HEALTH_PIN :: nat where
  [drs_const]: "DRS_GPIO_HEALTH_PIN = 23"


subsection \<open>Lock Mode\<close>

definition DRS_LOCK_AUTO :: int where
  [drs_const]: "DRS_LOCK_AUTO = 0"

definition DRS_LOCK_AS_LEADER :: int where
  [drs_const]: "DRS_LOCK_AS_LEADER = 1"

definition DRS_LOCK_AS_FOLLOWER :: int where
  [drs_const]: "DRS_LOCK_AS_FOLLOWER = 2"

definition DRS_LOCK_TERM_BOOST :: u32 where
  [drs_const]: "DRS_LOCK_TERM_BOOST = 1000"


subsection \<open>Shared Memory paths\<close>

definition DRS_SHM_STATE_PATH :: string where
  [drs_const]: "DRS_SHM_STATE_PATH = ''/dev/shm/drs-sync.state''"

definition DRS_SHM_CMD_PATH :: string where
  [drs_const]: "DRS_SHM_CMD_PATH = ''/dev/shm/drs-sync.cmd''"

definition DRS_SHM_ERRORS_PATH :: string where
  [drs_const]: "DRS_SHM_ERRORS_PATH = ''/dev/shm/drs-sync.errors''"


subsection \<open>Telemetry / Errors\<close>

definition DRS_TELEMETRY_VERSION :: u32 where
  [drs_const]: "DRS_TELEMETRY_VERSION = 1"

definition DRS_ERROR_RING_SLOTS :: nat where
  [drs_const]: "DRS_ERROR_RING_SLOTS = 64"

definition DRS_RETRY_STORM_THRESHOLD :: int where
  [drs_const]: "DRS_RETRY_STORM_THRESHOLD = 5"

definition DRS_RETRY_STORM_RATE_NS :: i64 where
  [drs_const]: "DRS_RETRY_STORM_RATE_NS = 200000000"


subsection \<open>Holdover retry\<close>

definition DRS_HOLDOVER_REAPPEAR_S :: nat where
  [drs_const]: "DRS_HOLDOVER_REAPPEAR_S = 10"


subsection \<open>Error codes\<close>

definition DRS_ERR_CALIB_TIMEOUT :: u32 where
  [drs_const]: "DRS_ERR_CALIB_TIMEOUT = 1"

definition DRS_ERR_HOLDOVER_EXPIRED :: u32 where
  [drs_const]: "DRS_ERR_HOLDOVER_EXPIRED = 2"

definition DRS_ERR_CRC_MISMATCH :: u32 where
  [drs_const]: "DRS_ERR_CRC_MISMATCH = 3"

definition DRS_ERR_SEQ_DISCONTINUITY :: u32 where
  [drs_const]: "DRS_ERR_SEQ_DISCONTINUITY = 4"

definition DRS_ERR_GPIO_OPEN_FAIL :: u32 where
  [drs_const]: "DRS_ERR_GPIO_OPEN_FAIL = 5"

definition DRS_ERR_RT_PRIO_FAIL :: u32 where
  [drs_const]: "DRS_ERR_RT_PRIO_FAIL = 6"

definition DRS_ERR_TX_TIMESTAMP_LOST :: u32 where
  [drs_const]: "DRS_ERR_TX_TIMESTAMP_LOST = 7"

definition DRS_ERR_RX_TIMEOUT :: u32 where
  [drs_const]: "DRS_ERR_RX_TIMEOUT = 8"

definition DRS_ERR_INVALID_PACKET :: u32 where
  [drs_const]: "DRS_ERR_INVALID_PACKET = 9"

definition DRS_ERR_NET_INIT_FAIL :: u32 where
  [drs_const]: "DRS_ERR_NET_INIT_FAIL = 10"

definition DRS_ERR_SHM_INIT_FAIL :: u32 where
  [drs_const]: "DRS_ERR_SHM_INIT_FAIL = 11"


subsection \<open>Command codes\<close>

definition DRS_CMD_NONE :: u32 where
  [drs_const]: "DRS_CMD_NONE = 0"

definition DRS_CMD_RECALIBRATE :: u32 where
  [drs_const]: "DRS_CMD_RECALIBRATE = 1"

definition DRS_CMD_FORCE_HOLDOVER :: u32 where
  [drs_const]: "DRS_CMD_FORCE_HOLDOVER = 2"

definition DRS_CMD_FORCE_DEMOTE :: u32 where
  [drs_const]: "DRS_CMD_FORCE_DEMOTE = 3"

definition DRS_CMD_RESET_FILTERS :: u32 where
  [drs_const]: "DRS_CMD_RESET_FILTERS = 4"

definition DRS_CMD_FORCE_LEADER :: u32 where
  [drs_const]: "DRS_CMD_FORCE_LEADER = 5"

definition DRS_CMD_FORCE_FOLLOWER :: u32 where
  [drs_const]: "DRS_CMD_FORCE_FOLLOWER = 6"

definition DRS_CMD_AUTO_MODE :: u32 where
  [drs_const]: "DRS_CMD_AUTO_MODE = 7"

subsection \<open>Consistency of the rate limits\<close>

lemma rate_nominal_sint [simp]: "sint DRS_RATE_NOMINAL_Q32 = 4294967296"
  by (simp add: drs_const)

lemma rate_min_sint [simp]: "sint DRS_RATE_MIN_Q32 = 4290672296"
  by (simp add: drs_const)

lemma rate_max_sint [simp]: "sint DRS_RATE_MAX_Q32 = 4299262296"
  by (simp add: drs_const)

end
