(* ===== verification/Pi_Ctrl.thy ===== *)
theory Pi_Ctrl
  imports DRS_Config
begin

text \<open>
  The rate controller of \<open>src/pi_ctrl.c\<close>. \<open>pi_ctrl_update\<close> returns whether a phase step is due,
  the new Q32.32 rate and the new controller state. The 64-bit products of the code are written
  with their wrap-around; \<open>pi_ideal_ppm\<close> is the same formula over unbounded integers, and the two
  are shown equal in the range the controller is meant for.
\<close>

section \<open>The code\<close>

record pi_ctrl =
  pi_integrator_ns :: i64
  pi_step_counter :: int
  pi_step_accum_ns :: i64

definition pi_ctrl_init :: "pi_ctrl \<Rightarrow> pi_ctrl" where
  "pi_ctrl_init pi = pi\<lparr>pi_integrator_ns := 0, pi_step_counter := 0\<rparr>"

definition clamp64 :: "i64 \<Rightarrow> i64 \<Rightarrow> i64 \<Rightarrow> i64" where
  "clamp64 v lo hi = (if v < lo then lo else if v > hi then hi else v)"

definition pi_integrate :: "i64 \<Rightarrow> i64 \<Rightarrow> i64 \<Rightarrow> i64" where
  "pi_integrate integrator_ns e_ns period_ns =
     (let ki_delta_ns = c_div64 (s64 (DRS_PI_KI_Q16 * e_ns)) 65536;
          integrator_ns = s64 (integrator_ns + ki_delta_ns);
          max_integral_ns =
            c_div64 (s64 (s64 (DRS_RATE_MAX_PPM * period_ns) * 65536)) (s64 (DRS_PI_KI_Q16 * 1000000))
      in clamp64 integrator_ns (s64 (- max_integral_ns)) max_integral_ns)"

definition pi_total_ppm :: "i64 \<Rightarrow> i64 \<Rightarrow> i64 \<Rightarrow> i64" where
  "pi_total_ppm integrator_ns e_ns period_ns =
     (let kp_term_ppm =
            c_div64 (c_div64 (s64 (s64 (DRS_PI_KP_Q16 * e_ns) * 1000000)) period_ns) 65536;
          ki_term_ppm = c_div64 (s64 (integrator_ns * 1000000)) period_ns;
          ki_term_ppm = clamp64 ki_term_ppm (- DRS_RATE_MAX_PPM) DRS_RATE_MAX_PPM
      in clamp64 (s64 (kp_term_ppm + ki_term_ppm)) (- DRS_RATE_MAX_PPM) DRS_RATE_MAX_PPM)"

definition pi_rate_of_ppm :: "i64 \<Rightarrow> u64" where
  "pi_rate_of_ppm total_ppm =
     (let rate_delta = s64 (total_ppm * DRS_RATE_PPM_Q32);
          new_rate = s64 (sint DRS_RATE_NOMINAL_Q32 + rate_delta);
          new_rate = (if new_rate < sint DRS_RATE_MIN_Q32 then sint DRS_RATE_MIN_Q32 else new_rate);
          new_rate = (if new_rate > sint DRS_RATE_MAX_Q32 then sint DRS_RATE_MAX_Q32 else new_rate)
      in word_of_int new_rate)"

definition pi_slew :: "pi_ctrl \<Rightarrow> i64 \<Rightarrow> i64 \<Rightarrow> u64 \<times> pi_ctrl" where
  "pi_slew pi e_ns period_ns =
     (let integrator = pi_integrate (pi_integrator_ns pi) e_ns period_ns;
          total_ppm = pi_total_ppm integrator e_ns period_ns
      in (pi_rate_of_ppm total_ppm, pi\<lparr>pi_integrator_ns := integrator\<rparr>))"

definition pi_ctrl_update :: "pi_ctrl \<Rightarrow> i64 \<Rightarrow> i64 \<Rightarrow> bool \<times> u64 \<times> pi_ctrl" where
  "pi_ctrl_update pi e_ns period_ns =
     (if e_ns > DRS_STEP_THRESHOLD_NS \<or> e_ns < - DRS_STEP_THRESHOLD_NS then
        let pi = pi\<lparr>pi_step_counter := pi_step_counter pi + 1\<rparr>
        in if pi_step_counter pi \<ge> DRS_STEP_CONFIRM_SAMPLES
           then (True, DRS_RATE_NOMINAL_Q32, pi)
           else (False, pi_slew pi e_ns period_ns)
      else (False, pi_slew (pi\<lparr>pi_step_counter := 0\<rparr>) e_ns period_ns))"

section \<open>The reference formula\<close>

definition pi_max_integral :: "int \<Rightarrow> int" where
  "pi_max_integral period = (1000 * period * 65536) sdiv 655000000"

definition pi_ideal_integral :: "int \<Rightarrow> int \<Rightarrow> int \<Rightarrow> int" where
  "pi_ideal_integral integ e period =
     clamp64 (integ + (655 * e) sdiv 65536) (- pi_max_integral period) (pi_max_integral period)"

definition pi_ideal_ppm :: "int \<Rightarrow> int \<Rightarrow> int \<Rightarrow> int" where
  "pi_ideal_ppm integ e period =
     clamp64 ((6554 * e * 1000000) sdiv period sdiv 65536 +
              clamp64 ((pi_ideal_integral integ e period * 1000000) sdiv period) (- 1000) 1000)
       (- 1000) 1000"

section \<open>Clamping\<close>

lemma clamp64_bounds: "lo \<le> hi \<Longrightarrow> lo \<le> clamp64 v lo hi \<and> clamp64 v lo hi \<le> hi"
  by (simp add: clamp64_def)

lemma clamp64_minus: "0 \<le> m \<Longrightarrow> clamp64 (- v) (- m) m = - clamp64 v (- m) m"
  by (simp add: clamp64_def)

lemma clamp64_mono: "v \<le> w \<Longrightarrow> lo \<le> hi \<Longrightarrow> clamp64 v lo hi \<le> clamp64 w lo hi"
  by (simp add: clamp64_def)

lemma clamp64_nonneg: "0 \<le> v \<Longrightarrow> 0 \<le> m \<Longrightarrow> 0 \<le> clamp64 v (- m) m"
  by (simp add: clamp64_def)

section \<open>The rate is always within the limits\<close>

lemma pi_total_ppm_bounds: "- 1000 \<le> pi_total_ppm i e t \<and> pi_total_ppm i e t \<le> 1000"
  using clamp64_bounds [of "- 1000" 1000] by (simp add: pi_total_ppm_def Let_def drs_const)

lemma uint_pi_rate_of_ppm:
  assumes "- 1000 \<le> ppm" "ppm \<le> 1000"
  shows "uint (pi_rate_of_ppm ppm) = 4294967296 + ppm * 4295"
proof -
  have "in_i64 (ppm * 4295)" "in_i64 (4294967296 + ppm * 4295)"
    using assms by (auto simp: in_i64_def)
  then have "pi_rate_of_ppm ppm = word_of_int (4294967296 + ppm * 4295)"
    using assms by (simp add: pi_rate_of_ppm_def Let_def drs_const s64_id)
  then show ?thesis
    using assms by (simp only: uint_word_of_int_eq) (intro take_bit_int_eq_self, auto)
qed

lemma pi_update_slew:
  "\<not> fst (pi_ctrl_update pi e t) \<Longrightarrow>
     fst (snd (pi_ctrl_update pi e t)) =
       pi_rate_of_ppm (pi_total_ppm (pi_integrate (pi_integrator_ns pi) e t) e t) \<and>
     pi_integrator_ns (snd (snd (pi_ctrl_update pi e t))) = pi_integrate (pi_integrator_ns pi) e t"
  by (auto simp: pi_ctrl_update_def pi_slew_def Let_def split: if_splits)

lemma pi_update_step:
  "fst (pi_ctrl_update pi e t) \<Longrightarrow> fst (snd (pi_ctrl_update pi e t)) = DRS_RATE_NOMINAL_Q32"
  by (auto simp: pi_ctrl_update_def Let_def split: if_splits)

lemma pi_update_rate:
  obtains ppm where "- 1000 \<le> ppm" "ppm \<le> 1000"
    "uint (fst (snd (pi_ctrl_update pi e t))) = 4294967296 + ppm * 4295"
proof (cases "fst (pi_ctrl_update pi e t)")
  case True
  then show thesis using that [of 0] pi_update_step [of pi e t] by (simp add: drs_const)
next
  case False
  then show thesis
    using that pi_update_slew [OF False] pi_total_ppm_bounds uint_pi_rate_of_ppm by metis
qed

section \<open>Agreement with the reference formula\<close>

text \<open>The range in which no product of the code leaves 64 bits: an error below 1.4 s and a
  period of at most 140 s.\<close>

definition pi_in_range :: "int \<Rightarrow> int \<Rightarrow> int \<Rightarrow> bool" where
  "pi_in_range integ e t \<longleftrightarrow>
     \<bar>e\<bar> \<le> 1400000000 \<and> 0 < t \<and> t \<le> 140000000000 \<and> \<bar>integ\<bar> \<le> 4000000000000000000"

lemma pi_max_integral_bounds:
  assumes "0 < t" "t \<le> 140000000000"
  shows "0 \<le> pi_max_integral t \<and> pi_max_integral t \<le> 14100000000"
  using assms by (simp add: pi_max_integral_def sdiv_nonneg_eq pos_imp_zdiv_nonneg_iff)

lemma pi_integrate_ideal:
  assumes "pi_in_range integ e t"
  shows "pi_integrate integ e t = pi_ideal_integral integ e t"
proof -
  have r: "\<bar>e\<bar> \<le> 1400000000" "0 < t" "t \<le> 140000000000" "\<bar>integ\<bar> \<le> 4000000000000000000"
    using assms by (auto simp: pi_in_range_def)
  have k: "in_i64 (655 * e)" "\<bar>(655 * e) sdiv 65536\<bar> \<le> \<bar>655 * e\<bar>"
    using r abs_sdiv_le by (auto simp: in_i64_def)
  then have i: "in_i64 (integ + (655 * e) sdiv 65536)"
    using r by (auto simp: in_i64_def)
  have m: "in_i64 (1000 * t)" "in_i64 (1000 * t * 65536)" "in_i64 (- pi_max_integral t)"
    using r pi_max_integral_bounds [of t] by (auto simp: in_i64_def)
  have "in_i64 655000000" by (simp add: in_i64_def)
  then show ?thesis
    using k i m
    by (simp add: pi_integrate_def pi_ideal_integral_def pi_max_integral_def Let_def drs_const
        s64_id c_div64_sdiv)
qed

lemma in_i64_add_small:
  "\<bar>a\<bar> \<le> 9175600000000000000 \<Longrightarrow> - 1000 \<le> c \<Longrightarrow> c \<le> 1000 \<Longrightarrow> in_i64 (a + c)"
  by (simp add: in_i64_def abs_le_iff)

lemma pi_total_ppm_ideal:
  assumes "pi_in_range integ e t"
  shows "pi_total_ppm (pi_integrate integ e t) e t = pi_ideal_ppm integ e t"
proof -
  let ?i = "pi_ideal_integral integ e t"
  let ?p = "(6554 * e * 1000000) sdiv t"
  have r: "\<bar>e\<bar> \<le> 1400000000" "0 < t" "t \<le> 140000000000"
    using assms by (auto simp: pi_in_range_def)
  have ib: "\<bar>?i\<bar> \<le> 14100000000"
    using pi_max_integral_bounds [of t] r by (auto simp: pi_ideal_integral_def clamp64_def)
  have k: "in_i64 (6554 * e)" "in_i64 (6554 * e * 1000000)" "in_i64 (?i * 1000000)"
    using r ib by (auto simp: in_i64_def)
  have p: "\<bar>?p\<bar> \<le> \<bar>6554 * e * 1000000\<bar>" "\<bar>?p sdiv 65536\<bar> \<le> \<bar>?p\<bar>"
    by (rule abs_sdiv_le)+
  have "\<bar>6554 * e * 1000000\<bar> \<le> 9175600000000000000" using r by auto
  then have "in_i64 ?p" "\<bar>?p sdiv 65536\<bar> \<le> 9175600000000000000"
    using p by (auto simp: in_i64_def)
  then have "in_i64 (?p sdiv 65536 + clamp64 v (- 1000) 1000)" for v
    by (intro in_i64_add_small) (simp_all add: clamp64_def)
  then show ?thesis
    using k \<open>in_i64 ?p\<close> r pi_integrate_ideal [OF assms]
    by (simp add: pi_total_ppm_def pi_ideal_ppm_def Let_def drs_const s64_id c_div64_sdiv)
qed

lemma pi_update_ideal:
  assumes "pi_in_range (pi_integrator_ns pi) e t" "\<not> fst (pi_ctrl_update pi e t)"
  shows "uint (fst (snd (pi_ctrl_update pi e t))) =
      4294967296 + pi_ideal_ppm (pi_integrator_ns pi) e t * 4295 \<and>
    pi_integrator_ns (snd (snd (pi_ctrl_update pi e t))) = pi_ideal_integral (pi_integrator_ns pi) e t"
  using pi_update_slew [OF assms(2)] pi_integrate_ideal [OF assms(1)] pi_total_ppm_ideal [OF assms(1)]
    uint_pi_rate_of_ppm pi_total_ppm_bounds by metis

lemma pi_ideal_minus:
  assumes "0 < t" "t \<le> 140000000000"
  shows "pi_ideal_ppm (- integ) (- e) t = - pi_ideal_ppm integ e t"
    "pi_ideal_integral (- integ) (- e) t = - pi_ideal_integral integ e t"
proof -
  have "- integ + - (655 * e sdiv 65536) = - (integ + 655 * e sdiv 65536)" by simp
  then show i: "pi_ideal_integral (- integ) (- e) t = - pi_ideal_integral integ e t"
    using pi_max_integral_bounds [OF assms]
    by (simp only: pi_ideal_integral_def mult_minus_right sdiv_minus clamp64_minus)
  have "- a + - b = - (a + b)" for a b :: int by simp
  then show "pi_ideal_ppm (- integ) (- e) t = - pi_ideal_ppm integ e t"
    by (simp only: pi_ideal_ppm_def i mult_minus_right mult_minus_left sdiv_minus clamp64_minus
        zero_le_numeral)
qed

section \<open>Counting consecutive large errors\<close>

definition big_error :: "i64 \<Rightarrow> bool" where
  "big_error e \<longleftrightarrow> e > DRS_STEP_THRESHOLD_NS \<or> e < - DRS_STEP_THRESHOLD_NS"

definition pi_feed :: "pi_ctrl \<Rightarrow> (i64 \<times> i64) list \<Rightarrow> pi_ctrl" where
  "pi_feed = foldl (\<lambda>pi (e, t). snd (snd (pi_ctrl_update pi e t)))"

lemma pi_update_counter:
  "pi_step_counter (snd (snd (pi_ctrl_update pi e t))) =
     (if big_error e then pi_step_counter pi + 1 else 0)"
  by (simp add: pi_ctrl_update_def pi_slew_def Let_def big_error_def)

lemma pi_feed_counter:
  "pi_step_counter (pi_feed (pi_ctrl_init pi) ets) =
     int (length (takeWhile big_error (rev (map fst ets))))"
proof (induction ets rule: rev_induct)
  case Nil
  then show ?case by (simp add: pi_feed_def pi_ctrl_init_def)
next
  case (snoc et ets)
  obtain e t where "et = (e, t)" by (cases et)
  with snoc show ?case by (simp add: pi_feed_def pi_update_counter)
qed

lemma pi_update_step_iff:
  "fst (pi_ctrl_update pi e t) \<longleftrightarrow> big_error e \<and> pi_step_counter pi + 1 \<ge> 3"
  by (simp add: pi_ctrl_update_def Let_def big_error_def drs_const)

lemma takeWhile_rev_two:
  "2 \<le> length (takeWhile P (rev xs)) \<longleftrightarrow> (\<exists>ys a b. xs = ys @ [a, b] \<and> P a \<and> P b)"
proof (cases xs rule: rev_cases)
  case (snoc ys b)
  then show ?thesis
    by (cases ys rule: rev_cases) (auto simp: Suc_le_eq)
qed simp

lemma pi_step_accum_kept [simp]:
  "pi_step_accum_ns (snd (snd (pi_ctrl_update pi e t))) = pi_step_accum_ns pi"
  "pi_step_accum_ns (pi_ctrl_init pi) = pi_step_accum_ns pi"
  by (simp_all add: pi_ctrl_update_def pi_slew_def pi_ctrl_init_def Let_def)

section \<open>Properties\<close>

text \<open>
  Whatever the state, the error and the period (even where a product wraps around), the rate
  that \<open>pi_ctrl_update\<close> outputs lies within the configured \<open>DRS_RATE_MIN_Q32\<close> and
  \<open>DRS_RATE_MAX_Q32\<close>, and differs from the nominal rate by a whole number of ppm steps.
\<close>

lemma pi_rate_within_limits:
  "\<exists>ppm. \<bar>ppm\<bar> \<le> DRS_RATE_MAX_PPM \<and>
     uint (fst (snd (pi_ctrl_update pi e period))) =
       uint DRS_RATE_NOMINAL_Q32 + ppm * DRS_RATE_PPM_Q32 \<and>
     DRS_RATE_MIN_Q32 \<le> fst (snd (pi_ctrl_update pi e period)) \<and>
     fst (snd (pi_ctrl_update pi e period)) \<le> DRS_RATE_MAX_Q32"
proof -
  obtain ppm where ppm: "- 1000 \<le> ppm" "ppm \<le> 1000"
    and r: "uint (fst (snd (pi_ctrl_update pi e period))) = 4294967296 + ppm * 4295"
    by (rule pi_update_rate)
  then show ?thesis
    by (intro exI [of _ ppm]) (simp add: drs_const word_le_def abs_le_iff)
qed

text \<open>
  C30: for an error below 1.4 s and a period of at most 140 s, none of the 64-bit products of
  the slew branch overflows: the rate and the integrator are those of the PI formula over
  unbounded integers.
\<close>

theorem pi_slew_agrees_with_ideal:
  assumes "pi_in_range (pi_integrator_ns pi) e period" "\<not> fst (pi_ctrl_update pi e period)"
  shows "uint (fst (snd (pi_ctrl_update pi e period))) =
      4294967296 + pi_ideal_ppm (pi_integrator_ns pi) e period * 4295 \<and>
    pi_integrator_ns (snd (snd (pi_ctrl_update pi e period))) =
      pi_ideal_integral (pi_integrator_ns pi) e period"
  using assms by (rule pi_update_ideal)

theorem pi_slew_agrees_with_ideal_witness:
  "let pi = \<lparr>pi_integrator_ns = 100, pi_step_counter = 0, pi_step_accum_ns = 0\<rparr>
   in uint (fst (snd (pi_ctrl_update pi 500000 50000000))) = 4294967296 + 1000 * 4295 \<and>
      pi_integrator_ns (snd (snd (pi_ctrl_update pi 500000 50000000))) = 5097"
  using pi_slew_agrees_with_ideal [of
      "\<lparr>pi_integrator_ns = 100, pi_step_counter = 0, pi_step_accum_ns = 0\<rparr>" 500000 50000000]
  by (simp add: pi_in_range_def pi_update_step_iff big_error_def drs_const pi_ideal_ppm_def
      pi_ideal_integral_def pi_max_integral_def clamp64_def signed_divide_int_def)

text \<open>
  The controller is sign-symmetric, as its comment claims: in the working range, the mirrored
  error on the mirrored integrator gives the mirrored rate correction and the mirrored integrator.
\<close>

lemma pi_sign_symmetric:
  assumes "pi_in_range (pi_integrator_ns pi) e period"
    and "\<not> fst (pi_ctrl_update pi e period)"
    and "pi_step_counter pi' = pi_step_counter pi" "pi_integrator_ns pi' = - pi_integrator_ns pi"
  shows "uint (fst (snd (pi_ctrl_update pi' (- e) period))) - 4294967296 =
      - (uint (fst (snd (pi_ctrl_update pi e period))) - 4294967296) \<and>
    pi_integrator_ns (snd (snd (pi_ctrl_update pi' (- e) period))) =
      - pi_integrator_ns (snd (snd (pi_ctrl_update pi e period)))"
proof -
  have range': "pi_in_range (pi_integrator_ns pi') (- e) period"
    using assms(1,4) by (simp add: pi_in_range_def)
  have slew': "\<not> fst (pi_ctrl_update pi' (- e) period)"
    using assms(2,3) by (auto simp: pi_update_step_iff big_error_def)
  have t: "0 < period" "period \<le> 140000000000"
    using assms(1) by (simp_all add: pi_in_range_def)
  show ?thesis
    using pi_update_ideal [OF assms(1,2)] pi_update_ideal [OF range' slew']
      pi_ideal_minus [OF t, of "pi_integrator_ns pi" e] assms(4) by simp
qed

text \<open>
  Fed from its initial state, the controller asks for a phase step exactly when the current
  error and the two errors before it all exceed the step threshold (three consecutive samples).
\<close>

lemma pi_step_after_three:
  "fst (pi_ctrl_update (pi_feed (pi_ctrl_init pi) ets) e period) \<longleftrightarrow>
     big_error e \<and> (\<exists>ys a b. map fst ets = ys @ [a, b] \<and> big_error a \<and> big_error b)"
  using takeWhile_rev_two [of big_error "map fst ets"]
  by (auto simp: pi_update_step_iff pi_feed_counter)

text \<open>
  On the two samples before a step the slew branch still runs on the large error, and from
  about 1.41 s on its proportional product overflows 64 bits. At an error of two seconds the
  follower is behind and has to speed up; the reference formula gives \<open>+1000\<close> ppm, and the code,
  whose product wraps around, gives the slowest rate.
\<close>

lemma pi_overflow_reverses_correction:
  "let pi = \<lparr>pi_integrator_ns = 0, pi_step_counter = 0, pi_step_accum_ns = 0\<rparr>
   in pi_ideal_ppm 0 2000000000 DRS_PI_UPDATE_PERIOD_NS = 1000 \<and>
      \<not> fst (pi_ctrl_update pi 2000000000 DRS_PI_UPDATE_PERIOD_NS) \<and>
      fst (snd (pi_ctrl_update pi 2000000000 DRS_PI_UPDATE_PERIOD_NS)) = DRS_RATE_MIN_Q32"
proof -
  let ?pi = "\<lparr>pi_integrator_ns = 0, pi_step_counter = 0, pi_step_accum_ns = 0\<rparr>"
  have slew: "\<not> fst (pi_ctrl_update ?pi 2000000000 DRS_PI_UPDATE_PERIOD_NS)"
    by (simp add: pi_update_step_iff)
  have integ: "pi_integrate 0 2000000000 50000000 = 5002748"
    by (simp add: pi_integrate_def clamp64_def c_div64_def s64_def signed_divide_int_def drs_const)
  have total: "pi_total_ppm 5002748 2000000000 50000000 = - 1000"
    by (simp add: pi_total_ppm_def clamp64_def c_div64_def s64_def signed_divide_int_def drs_const)
  have rate: "pi_rate_of_ppm (- 1000) = DRS_RATE_MIN_Q32"
    by (simp add: pi_rate_of_ppm_def s64_def drs_const)
  have ideal: "pi_ideal_ppm 0 2000000000 50000000 = 1000"
    by (simp add: pi_ideal_ppm_def pi_ideal_integral_def pi_max_integral_def clamp64_def
        signed_divide_int_def)
  have period: "DRS_PI_UPDATE_PERIOD_NS = 50000000" by (simp add: drs_const)
  show ?thesis
    using slew pi_update_slew [OF slew] by (simp add: period integ total rate ideal)
qed

text \<open>
  After every slew update the anti-windup clamp leaves the integrator within
  \<open>period * 65536 / 655000\<close> nanoseconds, about a tenth of the period. The bound is a hundred times
  what the limit of 1000 ppm needs: the witness shows it reached at the nominal period, where
  5002748 ns stand for 100054 ppm and 50000 ns would already give 1000 ppm.
\<close>

lemma pi_anti_windup:
  assumes "\<not> fst (pi_ctrl_update pi e period)" "0 < period" "period \<le> 140000000000"
  shows "\<bar>pi_integrator_ns (snd (snd (pi_ctrl_update pi e period)))\<bar> \<le> (period * 65536) div 655000"
proof -
  have "in_i64 (1000 * period)" "in_i64 (1000 * period * 65536)" "in_i64 (655000000 :: int)"
    using assms by (auto simp: in_i64_def)
  then have "pi_integrate i e period = clamp64 (s64 (i + c_div64 (s64 (655 * e)) 65536))
      (s64 (- pi_max_integral period)) (pi_max_integral period)" for i
    by (simp add: pi_integrate_def Let_def drs_const s64_id c_div64_sdiv pi_max_integral_def)
  moreover have "in_i64 (- pi_max_integral period)"
    using pi_max_integral_bounds [of period] assms by (simp add: in_i64_def)
  ultimately have "\<bar>pi_integrate i e period\<bar> \<le> pi_max_integral period" for i
    using pi_max_integral_bounds [of period] assms by (simp add: s64_id clamp64_def abs_le_iff)
  moreover have "pi_max_integral period = (period * 65536) div 655000"
    using assms div_mult_mult1 [of 1000 "period * 65536" 655000]
    by (simp add: pi_max_integral_def sdiv_nonneg_eq)
  ultimately show ?thesis using pi_update_slew [OF assms(1)] by simp
qed

end
