(* ===== verification/Vclock.thy ===== *)
theory Vclock
  imports DRS_Config
begin

text \<open>
  The virtual clock of \<open>src/vclock.c\<close>: a linear map from the raw monotonic clock to virtual time,
  with a Q32.32 rate, updated under a sequence lock. This theory gives the operations as the one
  writing thread sees them, and what any history of them does to the reading; \<open>Seqlock\<close> interleaves
  them with a concurrent reader. The product of two 64-bit values is a \<open>__int128\<close> in the code and cannot overflow, so it is an unbounded \<open>int\<close>
  here, and the conversion back to \<open>int64_t\<close> is \<open>s64\<close>.
\<close>

section \<open>The code\<close>

record vclock =
  vc_seq :: u32
  vc_base_local :: i64
  vc_base_global :: i64
  vc_rate_q32 :: u64
  vc_offset_ns :: i64
  vc_lat_corr_ns :: i64

definition seqlock_write_begin :: "vclock \<Rightarrow> vclock" where
  "seqlock_write_begin vc = vc\<lparr>vc_seq := vc_seq vc + 1\<rparr>"

definition seqlock_write_end :: "vclock \<Rightarrow> vclock" where
  "seqlock_write_end vc = vc\<lparr>vc_seq := vc_seq vc + 1\<rparr>"

definition calc_now :: "i64 \<Rightarrow> i64 \<Rightarrow> u64 \<Rightarrow> i64 \<Rightarrow> i64 \<Rightarrow> i64 \<Rightarrow> i64" where
  "calc_now base_local base_global rate_q32 offset_ns lat_corr_ns t_local_raw =
     (let delta = s64 (t_local_raw - base_local);
          scaled = delta * sint rate_q32
      in s64 (s64 (s64 (s64 (scaled div 4294967296) + base_global) + offset_ns) - lat_corr_ns))"

definition vclock_calc :: "vclock \<Rightarrow> i64 \<Rightarrow> i64" where
  "vclock_calc vc t = calc_now (vc_base_local vc) (vc_base_global vc) (vc_rate_q32 vc)
     (vc_offset_ns vc) (vc_lat_corr_ns vc) t"

definition vclock_init :: "i64 \<Rightarrow> vclock" where
  "vclock_init t_local_raw =
     \<lparr>vc_seq = 0, vc_base_local = t_local_raw, vc_base_global = 0,
      vc_rate_q32 = DRS_RATE_NOMINAL_Q32, vc_offset_ns = 0, vc_lat_corr_ns = 0\<rparr>"

text \<open>
  The reader's retry loop, shared by \<open>vclock_now\<close> and \<open>vclock_local_for_global\<close>: \<open>continue\<close>
  jumps to the loop condition. Without a concurrent writer it either stops in the first round or,
  when the writer was left in the middle of an update, never.
\<close>

partial_function (option) vclock_read_loop ::
  "(vclock \<Rightarrow> i64) \<Rightarrow> vclock \<Rightarrow> u32 \<Rightarrow> i64 \<Rightarrow> i64 option" where
  "vclock_read_loop calc vc s2 result =
     (let s1 = vc_seq vc
      in if s1 AND 1 \<noteq> 0 then (if s1 \<noteq> s2 then vclock_read_loop calc vc s2 result else Some result)
         else (let result = calc vc; s2 = vc_seq vc
               in if s1 \<noteq> s2 then vclock_read_loop calc vc s2 result else Some result))"

definition vclock_now :: "vclock \<Rightarrow> i64 \<Rightarrow> i64" where
  "vclock_now vc t = the (vclock_read_loop (\<lambda>vc. vclock_calc vc t) vc 0 0)"

definition vclock_step_offset :: "vclock \<Rightarrow> i64 \<Rightarrow> i64 \<Rightarrow> vclock" where
  "vclock_step_offset vc delta_ns t_now =
     (let vc = seqlock_write_begin vc;
          t_global_now = vclock_calc vc t_now;
          vc = vc\<lparr>vc_base_local := t_now, vc_base_global := s64 (t_global_now + delta_ns),
                  vc_offset_ns := 0\<rparr>
      in seqlock_write_end vc)"

definition vclock_set_rate :: "vclock \<Rightarrow> u64 \<Rightarrow> i64 \<Rightarrow> vclock" where
  "vclock_set_rate vc new_rate_q32 t_now =
     (let vc = seqlock_write_begin vc;
          t_global_now = vclock_calc vc t_now;
          vc = vc\<lparr>vc_base_local := t_now, vc_base_global := t_global_now, vc_offset_ns := 0,
                  vc_rate_q32 := new_rate_q32\<rparr>
      in seqlock_write_end vc)"

definition vclock_inverse :: "vclock \<Rightarrow> i64 \<Rightarrow> i64" where
  "vclock_inverse vc t_global_ns =
     (let y = s64 (s64 (s64 (t_global_ns - vc_base_global vc) - vc_offset_ns vc) + vc_lat_corr_ns vc);
          num = y * 4294967296
      in s64 (vc_base_local vc + s64 (num sdiv sint (vc_rate_q32 vc))))"

definition vclock_local_for_global :: "vclock \<Rightarrow> i64 \<Rightarrow> i64" where
  "vclock_local_for_global vc t_global_ns =
     the (vclock_read_loop (\<lambda>vc. vclock_inverse vc t_global_ns) vc 0 0)"

definition vclock_set_lat_corr :: "vclock \<Rightarrow> i64 \<Rightarrow> vclock" where
  "vclock_set_lat_corr vc lat_corr_ns =
     (let vc = seqlock_write_begin vc;
          vc = vc\<lparr>vc_lat_corr_ns := lat_corr_ns\<rparr>
      in seqlock_write_end vc)"

definition vclock_rate :: "vclock \<Rightarrow> u64" where
  "vclock_rate vc = vc_rate_q32 vc"

section \<open>Invariant\<close>

definition rate_ok :: "u64 \<Rightarrow> bool" where
  "rate_ok r \<longleftrightarrow> DRS_RATE_MIN_Q32 \<le> r \<and> r \<le> DRS_RATE_MAX_Q32"

definition vclock_ok :: "vclock \<Rightarrow> bool" where
  "vclock_ok vc \<longleftrightarrow> even (vc_seq vc) \<and> rate_ok (vc_rate_q32 vc) \<and> in_i64 (vc_base_local vc) \<and>
     in_i64 (vc_base_global vc) \<and> in_i64 (vc_offset_ns vc) \<and> in_i64 (vc_lat_corr_ns vc)"

lemma sint_rate_ok: "rate_ok r \<Longrightarrow> 4290672296 \<le> sint r \<and> sint r \<le> 4299262296"
proof -
  assume "rate_ok r"
  then have u: "4290672296 \<le> uint r" "uint r \<le> 4299262296"
    by (simp_all add: rate_ok_def word_le_def drs_const)
  then have "sint r = uint r"
    by (simp add: sint_uint signed_take_bit_int_eq_self)
  with u show ?thesis by simp
qed

lemma rate_ok_nominal [simp]: "rate_ok DRS_RATE_NOMINAL_Q32"
  by (simp add: rate_ok_def drs_const)

lemma even_plus_two: "even (s :: u32) \<Longrightarrow> even (s + 1 + 1)"
  by (simp add: even_word_iff)

lemma read_loop_even: "even (vc_seq vc) \<Longrightarrow> vclock_read_loop calc vc s2 r = Some (calc vc)"
  by (subst vclock_read_loop.simps) (simp add: Let_def and_one_eq even_iff_mod_2_eq_zero)

lemma vclock_now_eq [simp]: "even (vc_seq vc) \<Longrightarrow> vclock_now vc t = vclock_calc vc t"
  by (simp add: vclock_now_def read_loop_even)

lemma vclock_local_for_global_eq [simp]:
  "even (vc_seq vc) \<Longrightarrow> vclock_local_for_global vc g = vclock_inverse vc g"
  by (simp add: vclock_local_for_global_def read_loop_even)

lemmas vclock_ops = vclock_step_offset_def vclock_set_rate_def vclock_set_lat_corr_def
  seqlock_write_begin_def seqlock_write_end_def Let_def

lemma in_i64_vclock_calc [simp]: "in_i64 (vclock_calc vc t)"
  by (simp add: vclock_calc_def calc_now_def Let_def)

lemma vclock_init_ok: "in_i64 t \<Longrightarrow> vclock_ok (vclock_init t)"
  by (simp add: vclock_ok_def vclock_init_def)

lemma vclock_step_offset_ok: "vclock_ok vc \<Longrightarrow> in_i64 t \<Longrightarrow> vclock_ok (vclock_step_offset vc d t)"
  by (simp add: vclock_ok_def vclock_ops)

lemma vclock_set_rate_ok:
  "vclock_ok vc \<Longrightarrow> rate_ok r \<Longrightarrow> in_i64 t \<Longrightarrow> vclock_ok (vclock_set_rate vc r t)"
  by (simp add: vclock_ok_def vclock_ops)

lemma vclock_set_lat_corr_ok: "vclock_ok vc \<Longrightarrow> in_i64 l \<Longrightarrow> vclock_ok (vclock_set_lat_corr vc l)"
  by (simp add: vclock_ok_def vclock_ops)

section \<open>Exact readings\<close>

text \<open>
  Times within \<open>2^60\<close> ns (36 years) of the clock's origin, and a rate within the limits: the
  64-bit sums of the code are exact.
\<close>

definition ns_range :: "int \<Rightarrow> bool" where
  "ns_range x \<longleftrightarrow> \<bar>x\<bar> \<le> 1152921504606846976"

definition vclock_range :: "vclock \<Rightarrow> bool" where
  "vclock_range vc \<longleftrightarrow> even (vc_seq vc) \<and> rate_ok (vc_rate_q32 vc) \<and> ns_range (vc_base_local vc) \<and>
     ns_range (vc_base_global vc) \<and> ns_range (vc_offset_ns vc) \<and> ns_range (vc_lat_corr_ns vc)"

definition scale_q32 :: "u64 \<Rightarrow> int \<Rightarrow> int" where
  "scale_q32 r d = (d * sint r) div 4294967296"

lemma scale_q32_bounds:
  assumes "rate_ok r" "\<bar>d\<bar> \<le> 2305843009213693952"
  shows "\<bar>scale_q32 r d\<bar> \<le> 2400000000000000000"
proof -
  have r: "0 \<le> sint r" "sint r \<le> 4299262296" using sint_rate_ok [OF assms(1)] by auto
  have "\<bar>d * sint r\<bar> \<le> 2305843009213693952 * 4299262296"
    using r assms(2) by (simp only: abs_mult) (intro mult_mono, auto)
  then show ?thesis unfolding scale_q32_def by auto
qed

lemma vclock_calc_exact:
  assumes "vclock_range vc" "ns_range t"
  shows "vclock_calc vc t = scale_q32 (vc_rate_q32 vc) (t - vc_base_local vc) +
    vc_base_global vc + vc_offset_ns vc - vc_lat_corr_ns vc"
proof -
  let ?d = "t - vc_base_local vc"
  have d: "\<bar>?d\<bar> \<le> 2305843009213693952"
    using assms by (auto simp: vclock_range_def ns_range_def)
  have "\<bar>scale_q32 (vc_rate_q32 vc) ?d\<bar> \<le> 2400000000000000000"
    using assms(1) d by (intro scale_q32_bounds) (simp_all add: vclock_range_def)
  then have "in_i64 (scale_q32 (vc_rate_q32 vc) ?d + vc_base_global vc + vc_offset_ns vc -
      vc_lat_corr_ns vc)"
    using assms(1) unfolding vclock_range_def ns_range_def in_i64_def abs_le_iff by linarith
  moreover have "in_i64 ?d" using d by (auto simp: in_i64_def)
  ultimately show ?thesis
    by (simp add: vclock_calc_def calc_now_def Let_def s64_id [of ?d] s64_id flip: scale_q32_def)
qed

lemma scale_q32_mono:
  assumes "rate_ok r" "d \<le> d'"
  shows "scale_q32 r d \<le> scale_q32 r d'"
proof -
  have "0 \<le> sint r" using sint_rate_ok [OF assms(1)] by simp
  then show ?thesis
    unfolding scale_q32_def using assms(2) by (intro zdiv_mono1 mult_right_mono) simp_all
qed

lemma scale_q32_add:
  "scale_q32 r d + scale_q32 r d' \<le> scale_q32 r (d + d') \<and>
   scale_q32 r (d + d') \<le> scale_q32 r d + scale_q32 r d' + 1"
proof -
  define a b where "a = d * sint r" and "b = d' * sint r"
  have "a div 4294967296 + b div 4294967296 \<le> (a + b) div 4294967296 \<and>
      (a + b) div 4294967296 \<le> a div 4294967296 + b div 4294967296 + 1"
    by linarith
  then show ?thesis by (simp add: scale_q32_def distrib_right a_def b_def)
qed

text \<open>The limits of 1000 ppm, up to rounding.\<close>

lemma scale_q32_ppm:
  assumes "rate_ok r" "0 \<le> d"
  shows "d - (d * 4295) div 4294967 - 2 \<le> scale_q32 r d \<and> scale_q32 r d \<le> d + (d * 4295) div 4294967 + 1"
proof -
  have r: "4290672296 \<le> sint r" "sint r \<le> 4299262296" using sint_rate_ok [OF assms(1)] by auto
  have "d * sint r \<le> d * 4299262296" "d * 4290672296 \<le> d * sint r"
    using r assms(2) by (auto intro: mult_left_mono)
  then have "scale_q32 r d \<le> (d * 4299262296) div 4294967296"
    "(d * 4290672296) div 4294967296 \<le> scale_q32 r d"
    unfolding scale_q32_def by (auto intro: zdiv_mono1)
  then show ?thesis using assms(2) by linarith
qed

text \<open>Over an interval the clock advances by its length, up to the rate limits and rounding.\<close>

lemma vclock_span:
  assumes "vclock_range vc" "ns_range t" "ns_range t'" "t \<le> t'"
  shows "vclock_calc vc t \<le> vclock_calc vc t' \<and>
    t' - t - ((t' - t) * 4295) div 4294967 - 2 \<le> vclock_calc vc t' - vclock_calc vc t \<and>
    vclock_calc vc t' - vclock_calc vc t \<le> t' - t + ((t' - t) * 4295) div 4294967 + 2"
proof -
  let ?r = "vc_rate_q32 vc" and ?d = "t - vc_base_local vc" and ?e = "t' - t"
  have r: "rate_ok ?r" using assms(1) by (simp add: vclock_range_def)
  have "?d + ?e = t' - vc_base_local vc" by simp
  then have diff: "vclock_calc vc t' - vclock_calc vc t = scale_q32 ?r (?d + ?e) - scale_q32 ?r ?d"
    using assms by (simp add: vclock_calc_exact)
  have "0 \<le> scale_q32 ?r ?e"
    using scale_q32_mono [OF r, of 0 ?e] assms(4) by (simp add: scale_q32_def)
  then show ?thesis
    using diff scale_q32_add [of ?r ?d ?e] scale_q32_ppm [OF r, of ?e] assms(4) by linarith
qed

section \<open>The inverse map\<close>

lemma sdiv_mult_bounds:
  "0 < r \<Longrightarrow> n - r < (n sdiv r) * r \<and> (n sdiv r) * r < n + r" for n r :: int
proof -
  assume r: "0 < r"
  have *: "n - r < (n div r) * r \<and> (n div r) * r \<le> n" for n
    using r div_mult_mod_eq [of n r] pos_mod_bound [OF r, of n] pos_mod_sign [OF r, of n] by linarith
  show ?thesis
  proof (cases "0 \<le> n")
    case True
    then show ?thesis using * [of n] r by (simp add: sdiv_nonneg_eq)
  next
    case False
    then show ?thesis using * [of "- n"] r by (simp add: sdiv_neg_eq)
  qed
qed

lemma scale_q32_inverse:
  assumes "rate_ok r"
  shows "y - 2 \<le> scale_q32 r ((y * 4294967296) sdiv sint r) \<and>
         scale_q32 r ((y * 4294967296) sdiv sint r) \<le> y + 1"
proof -
  have r: "0 < sint r" "sint r \<le> 4299262296" using sint_rate_ok [OF assms] by auto
  define q where "q = ((y * 4294967296) sdiv sint r) * sint r"
  have "y * 4294967296 - 4299262296 < q" "q < y * 4294967296 + 4299262296"
    using sdiv_mult_bounds [OF r(1), of "y * 4294967296"] r(2) by (auto simp: q_def)
  then have "y - 2 \<le> q div 4294967296" "q div 4294967296 \<le> y + 1"
    by linarith+
  then show ?thesis by (simp add: scale_q32_def q_def)
qed

lemma vclock_inverse_exact:
  assumes "vclock_range vc" "ns_range g"
  defines "y \<equiv> g - vc_base_global vc - vc_offset_ns vc + vc_lat_corr_ns vc"
  shows "vclock_inverse vc g = vc_base_local vc + (y * 4294967296) sdiv sint (vc_rate_q32 vc)"
    and "\<bar>(y * 4294967296) sdiv sint (vc_rate_q32 vc)\<bar> \<le> 4620000000000000000"
proof -
  let ?r = "sint (vc_rate_q32 vc)"
  have y: "\<bar>y\<bar> \<le> 4611686018427387904"
    using assms(1,2) unfolding y_def vclock_range_def ns_range_def by linarith
  have r: "4290672296 \<le> ?r"
    using assms(1) sint_rate_ok by (simp add: vclock_range_def)
  show b: "\<bar>(y * 4294967296) sdiv ?r\<bar> \<le> 4620000000000000000"
  proof -
    have "\<bar>y * 4294967296\<bar> div ?r \<le> \<bar>y * 4294967296\<bar> div 4290672296"
      using r by (intro zdiv_mono2) auto
    also have "\<dots> \<le> 4620000000000000000" using y by linarith
    finally have *: "\<bar>y * 4294967296\<bar> div ?r \<le> 4620000000000000000" .
    have "0 \<le> \<bar>y * 4294967296\<bar> div ?r" using r by (simp add: pos_imp_zdiv_nonneg_iff)
    with * r show ?thesis
      by (cases "y < 0") (simp_all add: sdiv_neg_eq sdiv_nonneg_eq)
  qed
  have "in_i64 y" using y unfolding in_i64_def abs_le_iff by linarith
  moreover have "in_i64 ((y * 4294967296) sdiv ?r)"
    using b unfolding in_i64_def abs_le_iff by linarith
  moreover have "in_i64 (vc_base_local vc + (y * 4294967296) sdiv ?r)"
    using b assms(1) unfolding vclock_range_def ns_range_def in_i64_def abs_le_iff by linarith
  ultimately show "vclock_inverse vc g = vc_base_local vc + (y * 4294967296) sdiv ?r"
    by (simp add: vclock_inverse_def Let_def s64_id y_def)
qed

lemma vclock_calc_inverse:
  assumes "vclock_range vc" "ns_range g" "ns_range (vclock_inverse vc g)"
  shows "\<bar>vclock_calc vc (vclock_inverse vc g) - g\<bar> \<le> 2"
proof -
  let ?y = "g - vc_base_global vc - vc_offset_ns vc + vc_lat_corr_ns vc"
  have r: "rate_ok (vc_rate_q32 vc)" using assms(1) by (simp add: vclock_range_def)
  have "vclock_calc vc (vclock_inverse vc g) =
      scale_q32 (vc_rate_q32 vc) ((?y * 4294967296) sdiv sint (vc_rate_q32 vc)) +
      vc_base_global vc + vc_offset_ns vc - vc_lat_corr_ns vc"
    using vclock_calc_exact [OF assms(1,3)] vclock_inverse_exact(1) [OF assms(1,2)] by simp
  then show ?thesis
    using scale_q32_inverse [OF r, of ?y] by linarith
qed

lemma vclock_calc_mono:
  assumes "vclock_range vc" "ns_range t" "ns_range t'" "t \<le> t'"
  shows "vclock_calc vc t \<le> vclock_calc vc t'"
  using assms scale_q32_mono [of "vc_rate_q32 vc" "t - vc_base_local vc" "t' - vc_base_local vc"]
  by (simp add: vclock_calc_exact vclock_range_def)

section \<open>Updates\<close>

lemma calc_now_at_base: "calc_now t bg r off lat t = s64 (bg + off - lat)"
  by (simp add: calc_now_def Let_def)

lemma vclock_calc_begin [simp]: "vclock_calc (seqlock_write_begin vc) t = vclock_calc vc t"
  by (simp add: vclock_calc_def seqlock_write_begin_def)

lemma vclock_update_seq:
  "vc_seq (vclock_set_rate vc r t) = vc_seq vc + 1 + 1"
  "vc_seq (vclock_step_offset vc d t) = vc_seq vc + 1 + 1"
  by (simp_all add: vclock_ops)

lemma vclock_calc_at_base:
  "vc_base_local vc = t \<Longrightarrow> vclock_calc vc t = s64 (vc_base_global vc + vc_offset_ns vc - vc_lat_corr_ns vc)"
  by (simp add: vclock_calc_def calc_now_at_base)

lemma vclock_set_rate_calc:
  "vclock_calc (vclock_set_rate vc r t) t = s64 (vclock_calc vc t - vc_lat_corr_ns vc)"
  by (subst vclock_calc_at_base) (simp_all add: vclock_set_rate_def Let_def, simp_all add: vclock_ops)

lemma vclock_step_offset_calc:
  "vclock_calc (vclock_step_offset vc d t) t = s64 (vclock_calc vc t + d - vc_lat_corr_ns vc)"
  by (subst vclock_calc_at_base)
    (simp_all add: vclock_step_offset_def Let_def, simp_all add: vclock_ops s64_simps)

section \<open>Histories of updates\<close>

datatype vc_op = Op_step_offset i64 i64 | Op_set_rate u64 i64 | Op_set_lat_corr i64

fun apply_op :: "vc_op \<Rightarrow> vclock \<Rightarrow> vclock" where
  "apply_op (Op_step_offset delta t) vc = vclock_step_offset vc delta t"
| "apply_op (Op_set_rate r t) vc = vclock_set_rate vc r t"
| "apply_op (Op_set_lat_corr l) vc = vclock_set_lat_corr vc l"

text \<open>
  The updates come in the order of time between \<open>t\<close> and \<open>t'\<close>, with rates within the limits, and
  the values they store are in range.
\<close>

fun updates_ok :: "i64 \<Rightarrow> vclock \<Rightarrow> vc_op list \<Rightarrow> i64 \<Rightarrow> bool" where
  "updates_ok t vc [] t' \<longleftrightarrow> t \<le> t'"
| "updates_ok t vc (Op_step_offset delta u # ops) t' \<longleftrightarrow> t \<le> u \<and> ns_range u \<and> ns_range delta \<and>
     ns_range (vclock_calc vc u) \<and> ns_range (vclock_calc vc u + delta) \<and>
     updates_ok u (vclock_step_offset vc delta u) ops t'"
| "updates_ok t vc (Op_set_rate r u # ops) t' \<longleftrightarrow> t \<le> u \<and> ns_range u \<and> rate_ok r \<and>
     ns_range (vclock_calc vc u) \<and> updates_ok u (vclock_set_rate vc r u) ops t'"
| "updates_ok t vc (Op_set_lat_corr l # ops) t' \<longleftrightarrow> ns_range l \<and> updates_ok t (vclock_set_lat_corr vc l) ops t'"

text \<open>By how much the updates move the reading at the instant at which they are made.\<close>

fun op_jumps :: "i64 \<Rightarrow> vc_op list \<Rightarrow> int" where
  "op_jumps lat [] = 0"
| "op_jumps lat (Op_step_offset delta t # ops) = delta - lat + op_jumps lat ops"
| "op_jumps lat (Op_set_rate r t # ops) = op_jumps lat ops - lat"
| "op_jumps lat (Op_set_lat_corr l # ops) = lat - l + op_jumps l ops"

lemma update_range:
  assumes "vclock_range vc" "ns_range t" "ns_range (vclock_calc vc t)"
  shows "rate_ok r \<Longrightarrow> vclock_range (vclock_set_rate vc r t)"
    "ns_range (vclock_calc vc t + delta) \<Longrightarrow> vclock_range (vclock_step_offset vc delta t)"
proof -
  have "even (vc_seq vc + 1 + 1)" using assms(1) by (intro even_plus_two) (simp add: vclock_range_def)
  moreover have "in_i64 x" if "ns_range x" for x using that by (simp add: ns_range_def in_i64_def abs_le_iff)
  moreover have "vclock_calc (vc\<lparr>vc_seq := s\<rparr>) u = vclock_calc vc u" for s u by (simp add: vclock_calc_def)
  ultimately show "rate_ok r \<Longrightarrow> vclock_range (vclock_set_rate vc r t)"
    "ns_range (vclock_calc vc t + delta) \<Longrightarrow> vclock_range (vclock_step_offset vc delta t)"
    using assms by (simp_all add: vclock_range_def vclock_ops s64_id) (simp_all add: ns_range_def)
qed

lemma set_lat_corr_range:
  assumes "vclock_range vc" "ns_range l"
  shows "vclock_range (vclock_set_lat_corr vc l)"
    "ns_range t \<Longrightarrow> vclock_calc (vclock_set_lat_corr vc l) t = vclock_calc vc t + vc_lat_corr_ns vc - l"
proof -
  have "even (vc_seq vc + 1 + 1)" using assms(1) by (intro even_plus_two) (simp add: vclock_range_def)
  then show r: "vclock_range (vclock_set_lat_corr vc l)"
    using assms by (simp add: vclock_range_def vclock_ops)
  show "vclock_calc (vclock_set_lat_corr vc l) t = vclock_calc vc t + vc_lat_corr_ns vc - l" if "ns_range t"
    using vclock_calc_exact [OF r that] vclock_calc_exact [OF assms(1) that] by (simp add: vclock_ops)
qed

lemma update_keeps_lat [simp]:
  "vc_lat_corr_ns (vclock_set_rate vc r t) = vc_lat_corr_ns vc"
  "vc_lat_corr_ns (vclock_step_offset vc delta t) = vc_lat_corr_ns vc"
  "vc_lat_corr_ns (vclock_set_lat_corr vc l) = l"
  by (simp_all add: vclock_ops)

lemma updates_range: "vclock_range vc \<Longrightarrow> updates_ok t vc ops t' \<Longrightarrow> vclock_range (fold apply_op ops vc)"
  by (induction t vc ops t' rule: updates_ok.induct) (simp_all add: update_range set_lat_corr_range)

text \<open>An advance by \<open>a\<close> during \<open>d\<close>, at a rate within the limits and with an error of at most \<open>k\<close>.\<close>

definition within_ppm :: "int \<Rightarrow> int \<Rightarrow> int \<Rightarrow> bool" where
  "within_ppm d k a \<longleftrightarrow> 0 \<le> a \<and> d - (d * 4295) div 4294967 - k \<le> a \<and> a \<le> d + (d * 4295) div 4294967 + k"

lemma within_ppm_add: "within_ppm d k a \<Longrightarrow> within_ppm e l b \<Longrightarrow> within_ppm (d + e) (k + l) (a + b)"
proof -
  have "(d * 4295) div 4294967 + (e * 4295) div 4294967 \<le> ((d + e) * 4295) div 4294967"
    unfolding distrib_right by linarith
  then show "within_ppm d k a \<Longrightarrow> within_ppm e l b \<Longrightarrow> within_ppm (d + e) (k + l) (a + b)"
    unfolding within_ppm_def by linarith
qed

lemma within_ppm_mono: "within_ppm d k a \<Longrightarrow> k \<le> l \<Longrightarrow> within_ppm d l a"
  by (simp add: within_ppm_def)

text \<open>
  A rate change is announced as free of discontinuity, and is so only without a latency
  correction: \<open>vclock_set_rate\<close> latches a reading that already has the correction subtracted and
  keeps subtracting it, so each call sets the virtual time back by \<open>lat_corr_ns\<close>; and
  \<open>vclock_step_offset\<close> moves it by \<open>lat_corr_ns\<close> less than asked.
\<close>

lemma update_jump:
  assumes "vclock_range vc" "ns_range t" "ns_range (vclock_calc vc t)"
  shows "vclock_calc (vclock_set_rate vc r t) t = vclock_calc vc t - vc_lat_corr_ns vc"
    "ns_range delta \<Longrightarrow> vclock_calc (vclock_step_offset vc delta t) t = vclock_calc vc t + delta - vc_lat_corr_ns vc"
proof -
  have ls: "ns_range (vc_lat_corr_ns vc)" using assms(1) by (simp add: vclock_range_def)
  then have "in_i64 (vclock_calc vc t - vc_lat_corr_ns vc)"
    using assms(3) unfolding ns_range_def in_i64_def by linarith
  then show "vclock_calc (vclock_set_rate vc r t) t = vclock_calc vc t - vc_lat_corr_ns vc"
    by (simp add: vclock_set_rate_calc s64_id)
  assume "ns_range delta"
  then have "in_i64 (vclock_calc vc t + delta - vc_lat_corr_ns vc)"
    using assms(3) ls unfolding ns_range_def in_i64_def by linarith
  then show "vclock_calc (vclock_step_offset vc delta t) t = vclock_calc vc t + delta - vc_lat_corr_ns vc"
    by (simp add: vclock_step_offset_calc s64_id)
qed

lemma updates_ok_le: "updates_ok t vc ops t' \<Longrightarrow> t \<le> t'"
  by (induction t vc ops t' rule: updates_ok.induct) auto

text \<open>An update at \<open>u\<close> that moves the reading by \<open>jump\<close>: the advance before it and the advance after it.\<close>

lemma advance_update:
  assumes "vclock_range vc" "ns_range t" "ns_range u" "t \<le> u" "vclock_calc vc' u = vclock_calc vc u + jump"
    and "within_ppm (t' - u) k (r - vclock_calc vc' u - jumps)"
  shows "within_ppm (t' - t) (k + 2) (r - vclock_calc vc t - (jump + jumps))"
proof -
  have "within_ppm (u - t) 2 (vclock_calc vc u - vclock_calc vc t)"
    using vclock_span [OF assms(1-4)] by (simp add: within_ppm_def)
  from within_ppm_add [OF this assms(6)] show ?thesis
    using assms(5) by (simp add: algebra_simps)
qed

lemma updates_advance:
  "vclock_range vc \<Longrightarrow> ns_range t \<Longrightarrow> ns_range t' \<Longrightarrow> updates_ok t vc ops t' \<Longrightarrow>
   within_ppm (t' - t) (2 * (int (length ops) + 1))
     (vclock_calc (fold apply_op ops vc) t' - vclock_calc vc t - op_jumps (vc_lat_corr_ns vc) ops)"
proof (induction t vc ops t' rule: updates_ok.induct)
  case (1 t vc t')
  then show ?case using vclock_span [of vc t t'] by (simp add: within_ppm_def)
next
  case (2 t vc delta u ops t')
  let ?vc = "vclock_step_offset vc delta u"
  have u: "ns_range u" "t \<le> u" and r: "vclock_range ?vc" using 2 update_range(2) [of vc u delta] by simp_all
  have "vclock_calc ?vc u = vclock_calc vc u + (delta - vc_lat_corr_ns vc)"
    using update_jump [OF 2(2) u(1)] 2 by simp
  moreover have "within_ppm (t' - u) (2 * (int (length ops) + 1))
      (vclock_calc (fold apply_op ops ?vc) t' - vclock_calc ?vc u - op_jumps (vc_lat_corr_ns vc) ops)"
    using 2 r u by simp
  ultimately have "within_ppm (t' - t) (2 * (int (length ops) + 1) + 2)
      (vclock_calc (fold apply_op ops ?vc) t' - vclock_calc vc t - ((delta - vc_lat_corr_ns vc) + op_jumps (vc_lat_corr_ns vc) ops))"
    by (rule advance_update [OF 2(2,3) u])
  then show ?case by (simp add: algebra_simps)
next
  case (3 t vc r u ops t')
  let ?vc = "vclock_set_rate vc r u"
  have u: "ns_range u" "t \<le> u" and r: "vclock_range ?vc" using 3 update_range(1) [of vc u r] by simp_all
  have "vclock_calc ?vc u = vclock_calc vc u + (- vc_lat_corr_ns vc)"
    using update_jump [OF 3(2) u(1)] 3 by simp
  moreover have "within_ppm (t' - u) (2 * (int (length ops) + 1))
      (vclock_calc (fold apply_op ops ?vc) t' - vclock_calc ?vc u - op_jumps (vc_lat_corr_ns vc) ops)"
    using 3 r u by simp
  ultimately have "within_ppm (t' - t) (2 * (int (length ops) + 1) + 2)
      (vclock_calc (fold apply_op ops ?vc) t' - vclock_calc vc t - ((- vc_lat_corr_ns vc) + op_jumps (vc_lat_corr_ns vc) ops))"
    by (rule advance_update [OF 3(2,3) u])
  then show ?case by (simp add: algebra_simps)
next
  case (4 t vc l ops t')
  have l: "ns_range l" using 4 by simp
  have "within_ppm (t' - t) (2 * (int (length ops) + 1))
     (vclock_calc (fold apply_op ops (vclock_set_lat_corr vc l)) t' - vclock_calc (vclock_set_lat_corr vc l) t - op_jumps l ops)"
    using 4 set_lat_corr_range(1) [of vc l] by simp
  then have "within_ppm (t' - t) (2 * (int (length ops) + 1) + 2)
     (vclock_calc (fold apply_op ops (vclock_set_lat_corr vc l)) t' - vclock_calc (vclock_set_lat_corr vc l) t - op_jumps l ops)"
    by (rule within_ppm_mono) simp
  then show ?case using set_lat_corr_range(2) [of vc l t] 4(2,3) l by (simp add: algebra_simps)
qed

section \<open>Properties\<close>

text \<open>
  C26: the advance of the virtual clock over any history. Between two instants, with any updates in between
  (phase steps, rate changes, new latency corrections), the reading advances by the raw time
  elapsed, plus or minus 4295/4294967 of it (1000 ppm), 2 ns and 2 ns per update, plus the jumps of the updates;
  and never by less than the jumps. So it is monotone where the jumps add up to zero; each phase step and each
  rate change also jumps back by the latency correction in force.
\<close>

theorem vclock_advance_bounded:
  assumes "vclock_range vc" "ns_range t" "ns_range t'" "updates_ok t vc ops t'"
    and "adv = vclock_now (fold apply_op ops vc) t' - vclock_now vc t - op_jumps (vc_lat_corr_ns vc) ops"
  shows "0 \<le> adv \<and> t' - t - ((t' - t) * 4295) div 4294967 - 2 * (int (length ops) + 1) \<le> adv \<and>
    adv \<le> t' - t + ((t' - t) * 4295) div 4294967 + 2 * (int (length ops) + 1)"
proof -
  have "even (vc_seq vc)" using assms(1) by (simp add: vclock_range_def)
  moreover have "even (vc_seq (fold apply_op ops vc))"
    using updates_range [OF assms(1,4)] by (simp add: vclock_range_def)
  ultimately show ?thesis using updates_advance [OF assms(1-4)] by (simp add: assms(5) within_ppm_def)
qed

theorem vclock_advance_bounded_witness:
  "let vc = vclock_set_lat_corr (vclock_init 1000) 4000;
       ops = [Op_set_rate DRS_RATE_MAX_Q32 500001000, Op_step_offset 70 700001000];
       d = vclock_now (fold apply_op ops vc) 1000001000 - vclock_now vc 1000
   in - 7930 \<le> d \<and> d \<le> 1000000000 + 1000007 + 6 - 7930"
proof -
  let ?vc = "vclock_set_lat_corr (vclock_init 1000) 4000"
  let ?ops = "[Op_set_rate DRS_RATE_MAX_Q32 500001000, Op_step_offset 70 700001000]"
  have r: "vclock_range ?vc" by (simp add: vclock_range_def vclock_init_def vclock_ops ns_range_def)
  let ?vc' = "vclock_set_rate ?vc DRS_RATE_MAX_Q32 500001000"
  have c: "vclock_calc ?vc 500001000 = 499996000"
    using vclock_calc_exact [OF r, of 500001000] by (simp add: ns_range_def vclock_ops vclock_init_def scale_q32_def drs_const)
  have "rate_ok DRS_RATE_MAX_Q32" by (simp add: rate_ok_def drs_const)
  then have r': "vclock_range ?vc'" using update_range(1) [OF r] c by (simp add: ns_range_def)
  have "\<bar>vclock_calc ?vc' 700001000 - 499992000\<bar> \<le> 400000000"
    using vclock_span [OF r', of 500001000 700001000] update_jump(1) [OF r, of 500001000] c by (simp add: ns_range_def vclock_ops vclock_init_def)
  then have "updates_ok 1000 ?vc ?ops 1000001000"
    using c \<open>rate_ok DRS_RATE_MAX_Q32\<close> by (simp add: ns_range_def abs_le_iff)
  then show ?thesis
    using vclock_advance_bounded [OF r _ _ _ refl, of 1000 1000001000 ?ops]
    by (simp add: Let_def ns_range_def vclock_ops vclock_init_def)
qed

text \<open>
  C27: \<open>vclock_local_for_global\<close> inverts \<open>vclock_now\<close> to within two nanoseconds: at the raw
  instant it returns, the virtual clock reads the requested global time.
\<close>

theorem vclock_inverse_accurate:
  assumes "vclock_range vc" "ns_range g" "ns_range (vclock_local_for_global vc g)"
  shows "\<bar>vclock_now vc (vclock_local_for_global vc g) - g\<bar> \<le> 2"
  using vclock_calc_inverse [OF assms(1,2)] assms(1,3) by (simp add: vclock_range_def)

theorem vclock_inverse_accurate_witness:
  "let vc = vclock_set_lat_corr (vclock_init 1000000000) 4000
   in \<bar>vclock_now vc (vclock_local_for_global vc 500000000) - 500000000\<bar> \<le> 2"
  using vclock_inverse_accurate [of "vclock_set_lat_corr (vclock_init 1000000000) 4000" 500000000]
  by (simp add: vclock_range_def vclock_init_def ns_range_def vclock_ops vclock_inverse_def
      s64_def signed_divide_int_def)

end
