(* ===== verification/Servo.thy ===== *)
theory Servo
  imports Complex_Main Pi_Ctrl Vclock
begin

text \<open>
  The closed loop of \<open>pi_ctrl_update\<close> and \<open>vclock_set_rate\<close> as a linear system with disturbances.
  With \<open>e\<close> the offset of the clock and \<open>J\<close> the distance of the integrator from the drift it has to
  cancel, one exchange maps \<open>(e, J)\<close> to \<open>(0.89 e - J, J + 0.01 e)\<close> up to the rounding of the code,
  and the quadratic form \<open>energy\<close> shrinks to nine tenths. The lemmas bound the rounding of the
  integer arithmetic, and the effect of any bounded disturbance on \<open>energy\<close>.
\<close>

section \<open>A quadratic form that every exchange shrinks\<close>

definition energy :: "real \<Rightarrow> real \<Rightarrow> real" where
  "energy e J = e\<^sup>2 + 11 * e * J + 100 * J\<^sup>2"

lemma energy_bounds:
  "279 / 400 * e\<^sup>2 \<le> energy e J" "279 / 4 * J\<^sup>2 \<le> energy e J" "279 / 4 * (11 / 100 * e + J)\<^sup>2 \<le> energy e J"
proof -
  have "energy e J - 279 / 400 * e\<^sup>2 = (11 / 20 * e + 10 * J)\<^sup>2"
    "energy e J - 279 / 4 * J\<^sup>2 = (e + 11 / 2 * J)\<^sup>2"
    "energy e J - 279 / 4 * (11 / 100 * e + J)\<^sup>2 = (79 / 200 * e - 11 / 2 * J)\<^sup>2"
    by (simp_all add: energy_def power2_eq_square algebra_simps)
  then show "279 / 400 * e\<^sup>2 \<le> energy e J" "279 / 4 * J\<^sup>2 \<le> energy e J"
    "279 / 4 * (11 / 100 * e + J)\<^sup>2 \<le> energy e J"
    by (metis diff_ge_0_iff_ge zero_le_power2)+
qed

lemma energy_nonneg [simp]: "0 \<le> energy e J"
  using energy_bounds(1) [of e J] zero_le_power2 [of e] by linarith

lemma energy_step: "energy (89 / 100 * e - J) (J + 1 / 100 * e) = 9 / 10 * energy e J"
  by (simp add: energy_def power2_eq_square field_simps)

lemma energy_disturbed: "energy (a + p) (b + q) \<le> 19 / 18 * energy a b + 19 * energy p q"
proof -
  have "19 / 18 * energy a b + 19 * energy p q - energy (a + p) (b + q) =
      18 * energy (a / 18 - p) (b / 18 - q)"
    by (simp add: energy_def power2_eq_square field_simps)
  then show ?thesis using energy_nonneg [of "a / 18 - p" "b / 18 - q"] by linarith
qed

lemma energy_small:
  assumes "\<bar>p\<bar> \<le> P" "\<bar>q\<bar> \<le> Q"
  shows "energy p q \<le> (P + 10 * Q)\<^sup>2"
proof -
  have "p\<^sup>2 \<le> P\<^sup>2" "q\<^sup>2 \<le> Q\<^sup>2" using assms by (simp_all add: abs_le_square_iff [symmetric])
  moreover have "p * q \<le> P * Q"
    using mult_mono [OF assms] abs_le_D1 [of "p * q"] abs_ge_zero [of p] assms(1)
    by (simp add: abs_mult)
  moreover have "0 \<le> P * Q" using assms by (intro mult_nonneg_nonneg) auto
  ultimately have "energy p q \<le> P\<^sup>2 + 20 * (P * Q) + 100 * Q\<^sup>2"
    unfolding energy_def by (simp only: mult.assoc)
  also have "\<dots> = (P + 10 * Q)\<^sup>2" by (simp add: power2_eq_square algebra_simps)
  finally show ?thesis .
qed

lemma energy_exchange:
  assumes "\<bar>p\<bar> \<le> P" "\<bar>q\<bar> \<le> Q" "P + 10 * Q \<le> S"
  shows "energy (89 / 100 * e - J + p) (J + 1 / 100 * e + q) \<le> 95 / 100 * energy e J + 19 * S\<^sup>2"
proof -
  have "energy p q \<le> (P + 10 * Q)\<^sup>2" using assms(1,2) by (rule energy_small)
  also have "\<dots> \<le> S\<^sup>2" using assms by (intro power_mono) auto
  finally show ?thesis
    using energy_disturbed [of "89 / 100 * e - J" p "J + 1 / 100 * e" q] energy_step [of e J] by linarith
qed

lemma abs_le_of_square: "c * x\<^sup>2 \<le> v \<Longrightarrow> v \<le> c * b\<^sup>2 \<Longrightarrow> 0 < c \<Longrightarrow> 0 \<le> b \<Longrightarrow> \<bar>x\<bar> \<le> b" for x :: real
  using abs_le_square_iff [of x b] mult_le_cancel_left_pos [of c "x\<^sup>2" "b\<^sup>2"] by linarith

section \<open>Repeated shrinking\<close>

text \<open>
  What the loop relies on: a state is \<open>held\<close> by an energy, and a step turns an energy within the limit
  into nineteen twentieths of it plus a constant. The energy after any number of steps follows.
\<close>

locale shrinking =
  fixes held :: "real \<Rightarrow> 's \<Rightarrow> bool" and step :: "'s \<Rightarrow> 's \<Rightarrow> bool" and c limit :: real
  assumes held_mono: "held v x \<Longrightarrow> v \<le> v' \<Longrightarrow> held v' x"
    and shrink: "step x y \<Longrightarrow> held v x \<Longrightarrow> v \<le> limit \<Longrightarrow> held (95 / 100 * v + 19 * c) y"
    and c_nonneg: "0 \<le> c"
begin

lemma after_steps:
  assumes "\<forall>k < n. step (x k) (x (Suc k))" "held v (x 0)" "0 \<le> v" "v + 380 * c \<le> limit"
  shows "held ((95 / 100) ^ n * v + 380 * c) (x n)"
  using assms(1)
proof (induction n)
  case 0
  then show ?case using assms(2) c_nonneg by (auto intro: held_mono)
next
  case (Suc n)
  let ?v = "(95 / 100) ^ n * v + 380 * c"
  have "(95 / 100 :: real) ^ n \<le> 1" by (intro power_le_one) simp_all
  then have "(95 / 100) ^ n * v \<le> v" using assms(3) mult_right_mono [of "(95 / 100) ^ n" 1 v] by simp
  then have "?v \<le> limit" using assms(4) by linarith
  then have "held (95 / 100 * ?v + 19 * c) (x (Suc n))" using Suc by (intro shrink [of "x n"]) simp_all
  then show ?case by (simp add: algebra_simps)
qed

end

section \<open>Rounding of the controller\<close>

lemma sdiv_times: "0 < r \<Longrightarrow> \<bar>(n sdiv r) * r - n\<bar> \<le> r" for n r :: int
  using sdiv_mult_bounds [of r n] by linarith

text \<open>The two truncating divisions of the proportional term lose at most two units of its last place.\<close>

lemma sdiv_sdiv_times:
  fixes n t :: int
  assumes "0 < t"
  shows "\<bar>(n sdiv t sdiv 65536) * t * 65536 - n\<bar> \<le> 65537 * t"
proof -
  define a where "a = n sdiv t"
  have "\<bar>(a sdiv 65536) * 65536 - a\<bar> * t \<le> 65536 * t"
    using assms sdiv_times [of 65536 a] by (intro mult_right_mono) simp_all
  moreover have "\<bar>(a sdiv 65536) * 65536 - a\<bar> * t = \<bar>(a sdiv 65536) * t * 65536 - a * t\<bar>"
    using assms by (simp only: mult.commute [of _ t] abs_mult_pos' less_imp_le) (simp add: algebra_simps)
  moreover have "\<bar>a * t - n\<bar> \<le> t" using sdiv_times [OF assms, of n] by (simp add: a_def)
  ultimately show ?thesis unfolding a_def by linarith
qed

lemma clamp64_id: "\<bar>v\<bar> \<le> m \<Longrightarrow> clamp64 v (- m) m = v"
  by (auto simp: clamp64_def)

lemma mult_bound_cancel:
  fixes u t m t0 :: int
  assumes "\<bar>u * t\<bar> \<le> m * t0" "0 < t0" "t0 \<le> t"
  shows "\<bar>u\<bar> \<le> m"
proof -
  have "\<bar>u\<bar> * t0 \<le> \<bar>u\<bar> * t" using assms(3) by (intro mult_left_mono) auto
  also have "\<dots> \<le> m * t0" using assms by (simp add: abs_mult)
  finally show ?thesis using assms(2) by simp
qed

definition near_period :: "int \<Rightarrow> bool" where
  "near_period t \<longleftrightarrow> 49900000 \<le> t \<and> t \<le> 100100000"

lemma servo_integral:
  assumes "\<bar>theta\<bar> \<le> 440000" "near_period t" "\<bar>100 * i + theta\<bar> \<le> 4960000"
  shows "\<bar>100 * pi_ideal_integral i theta t - (100 * i + theta)\<bar> \<le> 400"
proof -
  define d where "d = (655 * theta) sdiv 65536"
  have d: "\<bar>d * 65536 - 655 * theta\<bar> \<le> 65536" unfolding d_def by (rule sdiv_times) simp
  have "4990000 \<le> pi_max_integral t"
    using assms(2) unfolding near_period_def pi_max_integral_def by (subst sdiv_nonneg_eq) linarith+
  moreover have "\<bar>100 * (i + d) - (100 * i + theta)\<bar> \<le> 400"
    using d assms(1) by (simp add: abs_le_iff)
  ultimately show ?thesis
    using assms(3) by (simp add: pi_ideal_integral_def clamp64_id flip: d_def)
qed

text \<open>Without saturation, the rate in ppm times the period is \<open>theta / 10\<close> plus the integrator.\<close>

lemma servo_ppm:
  assumes "\<bar>theta\<bar> \<le> 440000" "near_period t" "\<bar>100 * i + theta\<bar> \<le> 4960000"
    and "\<bar>100 * i + 11 * theta\<bar> \<le> 4960000"
  defines "i' \<equiv> pi_ideal_integral i theta t"
  shows "\<bar>pi_ideal_ppm i theta t * t - (100000 * theta + 1000000 * i')\<bar> \<le> 206000000"
    and "\<bar>pi_ideal_ppm i theta t\<bar> \<le> 1000"
proof -
  define kp ki where "kp = (6554 * theta * 1000000) sdiv t sdiv 65536" and "ki = (i' * 1000000) sdiv t"
  have t: "0 < t" "49900000 \<le> t" "t \<le> 100100000" using assms(2) by (simp_all add: near_period_def)
  have i': "\<bar>100 * i' - (100 * i + theta)\<bar> \<le> 400"
    unfolding i'_def using assms(1-3) by (rule servo_integral)
  define x y where "x = kp * t" and "y = ki * t"
  have x: "\<bar>x * 65536 - 6554000000 * theta\<bar> \<le> 65537 * t"
    using sdiv_sdiv_times [OF t(1), of "6554 * theta * 1000000"] by (simp add: x_def kp_def)
  have y: "\<bar>y - i' * 1000000\<bar> \<le> t" using sdiv_times [OF t(1)] by (simp add: y_def ki_def)
  have "\<bar>y\<bar> \<le> 49900000000" using y i' t assms(3) by linarith
  then have c1: "\<bar>ki\<bar> \<le> 1000"
    using mult_bound_cancel [of ki t 1000 49900000] t by (simp add: y_def)
  have sum: "\<bar>x + y - (100000 * theta + 1000000 * i')\<bar> \<le> 206000000"
    using x y t assms(1) by linarith
  then have "\<bar>x + y\<bar> \<le> 49900000000" using i' assms(4) by linarith
  then have c2: "\<bar>kp + ki\<bar> \<le> 1000"
    using mult_bound_cancel [of "kp + ki" t 1000 49900000] t by (simp add: x_def y_def distrib_right)
  have "pi_ideal_ppm i theta t = clamp64 (kp + clamp64 ki (- 1000) 1000) (- 1000) 1000"
    by (simp only: pi_ideal_ppm_def kp_def ki_def i'_def)
  then have eq: "pi_ideal_ppm i theta t = kp + ki"
    using c1 c2 by (simp only: clamp64_id)
  show "\<bar>pi_ideal_ppm i theta t\<bar> \<le> 1000" using c2 eq by simp
  show "\<bar>pi_ideal_ppm i theta t * t - (100000 * theta + 1000000 * i')\<bar> \<le> 206000000"
    using sum by (simp only: eq distrib_right x_def y_def)
qed

text \<open>One ppm of rate is 4295 units of \<open>2^-32\<close>, and advances the clock by one part in a million.\<close>

lemma scale_q32_of_ppm:
  assumes "sint r = 4294967296 + u * 4295" "\<bar>u\<bar> \<le> 1000" "0 \<le> t" "t \<le> 100100000"
  shows "\<bar>1000000 * (scale_q32 r t - t) - u * t\<bar> \<le> 2000000"
proof -
  define p where "p = u * t"
  have p: "\<bar>p\<bar> \<le> 100100000000"
    using mult_mono [OF assms(2), of "\<bar>t\<bar>" 100100000] assms(3,4) by (simp add: p_def abs_mult)
  have "t * sint r = t * 4294967296 + 4295 * p"
    by (simp add: assms(1) p_def algebra_simps)
  then have q: "scale_q32 r t = t + (4295 * p) div 4294967296"
    by (simp add: scale_q32_def)
  define q where "q = (4295 * p) div 4294967296"
  have "q * 4294967296 \<le> 4295 * p" "4295 * p < q * 4294967296 + 4294967296"
    unfolding q_def by linarith+
  then have "\<bar>1000000 * q - p\<bar> \<le> 2000000" using p by linarith
  then show ?thesis by (simp add: q q_def p_def)
qed

section \<open>One exchange\<close>

text \<open>
  The loop over one period: the offset \<open>e\<close> is measured as \<open>theta\<close> with an error \<open>m\<close>; over the next
  period \<open>t'\<close> the reference gains \<open>w + n\<close> on the raw clock and the disciplined clock
  \<open>scale_q32 r t' - t'\<close>. The premise keeps the loop away from the 1000 ppm limits.
\<close>

definition unsaturated :: "int \<Rightarrow> int \<Rightarrow> bool" where
  "unsaturated theta i \<longleftrightarrow> \<bar>theta\<bar> \<le> 440000 \<and> \<bar>100 * i + theta\<bar> \<le> 4960000 \<and> \<bar>100 * i + 11 * theta\<bar> \<le> 4960000"

lemma servo_advance:
  assumes "unsaturated theta i" "near_period t" "near_period t'"
    and "sint r = 4294967296 + pi_ideal_ppm i theta t * 4295"
  shows "\<bar>1000000 * (scale_q32 r t' - t') - (100000 * theta + 1000000 * pi_ideal_integral i theta t)\<bar>
    \<le> 208000000 + 1000 * \<bar>t' - t\<bar>"
proof -
  let ?u = "pi_ideal_ppm i theta t"
  have u: "\<bar>?u * t - (100000 * theta + 1000000 * pi_ideal_integral i theta t)\<bar> \<le> 206000000" "\<bar>?u\<bar> \<le> 1000"
    using servo_ppm [of theta t i] assms(1,2) by (simp_all add: unsaturated_def)
  have "\<bar>1000000 * (scale_q32 r t' - t') - ?u * t'\<bar> \<le> 2000000"
    using assms(3,4) u(2) by (intro scale_q32_of_ppm) (simp_all add: near_period_def)
  moreover have "\<bar>?u * (t' - t)\<bar> \<le> 1000 * \<bar>t' - t\<bar>"
    unfolding abs_mult using u(2) by (intro mult_right_mono) auto
  moreover have "?u * t' = ?u * t + ?u * (t' - t)" by (simp add: algebra_simps)
  ultimately show ?thesis using u(1) by linarith
qed

lemma servo_exchange:
  fixes theta i t t' :: int and e m w n M N S :: real
  assumes "unsaturated theta i" "near_period t" "near_period t'"
    and "sint r = 4294967296 + pi_ideal_ppm i theta t * 4295"
    and "real_of_int theta = e + m" "\<bar>m\<bar> \<le> M" "\<bar>n\<bar> \<le> N"
    and "21 / 100 * M + N + real_of_int \<bar>t' - t\<bar> / 1000 + 252 \<le> S"
  shows "energy (e + w + n - real_of_int (scale_q32 r t' - t')) (real_of_int (pi_ideal_integral i theta t) - w)
    \<le> 95 / 100 * energy e (real_of_int i - w) + 19 * S\<^sup>2"
proof -
  define D i' where "D = real_of_int (scale_q32 r t' - t')" and "i' = pi_ideal_integral i theta t"
  define p where "p = e + w + n - D - (89 / 100 * e - (real_of_int i - w))"
  define q where "q = real_of_int i' - w - (real_of_int i - w + 1 / 100 * e)"
  define T where "T = real_of_int \<bar>t' - t\<bar> / 1000"
  have th: "real_of_int theta = e + m" by (rule assms(5))
  have "\<bar>100 * i' - (100 * i + theta)\<bar> \<le> 400"
    using servo_integral [of theta t i] assms(1,2) by (simp add: unsaturated_def i'_def)
  then have "real_of_int \<bar>100 * i' - (100 * i + theta)\<bar> \<le> real_of_int 400" by (simp only: of_int_le_iff)
  then have i': "\<bar>100 * real_of_int i' - (100 * real_of_int i + (e + m))\<bar> \<le> 400" by (simp add: th)
  have "real_of_int \<bar>1000000 * (scale_q32 r t' - t') - (100000 * theta + 1000000 * i')\<bar> \<le>
      real_of_int (208000000 + 1000 * \<bar>t' - t\<bar>)"
    using servo_advance [OF assms(1-4)] by (simp only: of_int_le_iff i'_def)
  then have D: "\<bar>1000000 * D - (100000 * (e + m) + 1000000 * real_of_int i')\<bar> \<le> 208000000 + 1000000 * T"
    by (simp add: th D_def T_def)
  have pb: "\<bar>p\<bar> \<le> 11 / 100 * M + N + 212 + T"
    using D i' assms(6,7) by (simp add: p_def abs_le_iff field_simps)
  have qb: "\<bar>q\<bar> \<le> M / 100 + 4" using i' assms(6) by (simp add: q_def abs_le_iff field_simps)
  have "energy (89 / 100 * e - (real_of_int i - w) + p) (real_of_int i - w + 1 / 100 * e + q)
      \<le> 95 / 100 * energy e (real_of_int i - w) + 19 * S\<^sup>2"
    using pb qb by (rule energy_exchange) (use assms(8) in \<open>simp add: T_def\<close>)
  moreover have "89 / 100 * e - (real_of_int i - w) + p = e + w + n - D"
    "real_of_int i - w + 1 / 100 * e + q = real_of_int i' - w" by (simp_all add: p_def q_def)
  ultimately show ?thesis by (simp only: D_def i'_def)
qed

end
