(* ===== verification/Crc32.thy ===== *)
theory Crc32
  imports DRS_Config
begin

text \<open>
  The checksum of \<open>src/crc32.c\<close>: the reflected IEEE 802.3 CRC, computed a byte at a time
  from a table that the first call builds. \<open>crc_globals\<close> holds the file's two static
  variables. The table-driven routine is shown equal to the bit-serial CRC (\<open>crc_spec\<close>),
  whatever the state of the table, and the bit-serial CRC is shown to be injective on every
  error pattern confined to four consecutive bytes.
\<close>

section \<open>The code\<close>

record crc_globals =
  crc32_table :: "u32 list"
  table_initialized :: bool

definition crc_globals_init :: crc_globals where
  "crc_globals_init = \<lparr>crc32_table = replicate 256 0, table_initialized = False\<rparr>"

definition crc_bit :: "u32 \<Rightarrow> u32" where
  "crc_bit c = (if c AND 1 \<noteq> 0 then 0xEDB88320 XOR drop_bit 1 c else drop_bit 1 c)"

fun crc_bits :: "nat \<Rightarrow> u32 \<Rightarrow> u32" where
  "crc_bits 0 c = c"
| "crc_bits (Suc j) c = crc_bits j (crc_bit c)"

definition build_table :: "crc_globals \<Rightarrow> crc_globals" where
  "build_table g =
     g\<lparr>crc32_table := fold (\<lambda>i t. t[i := crc_bits 8 (of_nat i)]) [0..<256] (crc32_table g),
       table_initialized := True\<rparr>"

fun crc32_loop :: "u32 list \<Rightarrow> u8 list \<Rightarrow> u32 \<Rightarrow> u32" where
  "crc32_loop t [] crc = crc"
| "crc32_loop t (p # ps) crc =
     crc32_loop t ps (t ! unat ((crc XOR ucast p) AND 0xFF) XOR drop_bit 8 crc)"

definition crc32_ieee :: "crc_globals \<Rightarrow> u8 list \<Rightarrow> u32 \<times> crc_globals" where
  "crc32_ieee g data =
     (let g' = (if table_initialized g then g else build_table g)
      in (crc32_loop (crc32_table g') data 0xFFFFFFFF XOR 0xFFFFFFFF, g'))"

section \<open>The bit-serial reference\<close>

definition crc_byte :: "u32 \<Rightarrow> u8 \<Rightarrow> u32" where
  "crc_byte c b = crc_bits 8 (c XOR ucast b)"

definition crc_spec :: "u8 list \<Rightarrow> u32" where
  "crc_spec bs = foldl crc_byte 0xFFFFFFFF bs XOR 0xFFFFFFFF"

definition crc_table_spec :: "u32 list" where
  "crc_table_spec = map (\<lambda>i. crc_bits 8 (of_nat i)) [0..<256]"

definition crc_globals_inv :: "crc_globals \<Rightarrow> bool" where
  "crc_globals_inv g \<longleftrightarrow> length (crc32_table g) = 256 \<and>
     (table_initialized g \<longrightarrow> crc32_table g = crc_table_spec)"

section \<open>One bit\<close>

lemma crc_bit_alt: "crc_bit c = (if bit c 0 then 0xEDB88320 else 0) XOR drop_bit 1 c"
  by (simp add: crc_bit_def and_one_eq mod2_eq_if bit_0)

lemma crc_bit_xor: "crc_bit (a XOR b) = crc_bit a XOR crc_bit b"
  by (simp add: crc_bit_alt bit_xor_iff drop_bit_xor ac_simps)

lemma crc_bit_0 [simp]: "crc_bit 0 = 0"
  by (simp add: crc_bit_def)

lemma crc_bit_msb: "bit (crc_bit c) 31 = bit c 0"
proof -
  have "\<not> bit c 32"
    using bit_imp_le_length [of c 32] by auto
  then show ?thesis by (simp add: crc_bit_alt bit_xor_iff bit_drop_bit_eq)
qed

lemma word_xor_eq_0_iff: "a XOR b = 0 \<longleftrightarrow> a = (b :: 'a::len word)"
  by (auto simp: bit_eq_iff bit_xor_iff)

lemma crc_bit_eq_0_iff [simp]: "crc_bit c = 0 \<longleftrightarrow> c = 0"
proof
  assume z: "crc_bit c = 0"
  then have "\<not> bit c 0"
    using crc_bit_msb [of c] by simp
  with z have shift: "drop_bit 1 c = 0"
    by (simp add: crc_bit_alt)
  show "c = 0"
  proof (rule bit_eqI)
    fix n
    show "bit c n = bit 0 n"
    proof (cases n)
      case (Suc m)
      have "bit (drop_bit 1 c) m = bit 0 m" using shift by simp
      then show ?thesis using Suc by (simp add: bit_drop_bit_eq)
    qed (use \<open>\<not> bit c 0\<close> in simp)
  qed
qed simp

section \<open>Several bits\<close>

lemma crc_bits_xor: "crc_bits n (a XOR b) = crc_bits n a XOR crc_bits n b"
  by (induction n arbitrary: a b) (simp_all add: crc_bit_xor)

lemma crc_bits_0 [simp]: "crc_bits n 0 = 0"
  by (induction n) simp_all

lemma crc_bits_eq_0_iff [simp]: "crc_bits n c = 0 \<longleftrightarrow> c = 0"
  by (induction n arbitrary: c) simp_all

lemma crc_bits_inj [simp]: "crc_bits n a = crc_bits n b \<longleftrightarrow> a = b"
proof -
  have "crc_bits n a = crc_bits n b \<longleftrightarrow> crc_bits n (a XOR b) = 0"
    by (simp add: crc_bits_xor word_xor_eq_0_iff)
  then show ?thesis by (simp add: word_xor_eq_0_iff)
qed

lemma crc_bits_add: "crc_bits m (crc_bits n c) = crc_bits (n + m) c"
  by (induction n arbitrary: c) simp_all

lemma crc_bits_shift: "take_bit n c = 0 \<Longrightarrow> crc_bits n c = drop_bit n c"
proof (induction n arbitrary: c)
  case (Suc n)
  have b0: "\<not> bit c 0"
    using Suc.prems by (metis bit_0_eq bit_take_bit_iff bot_apply bot_bool_def zero_less_Suc)
  have "take_bit n (drop_bit 1 c) = drop_bit 1 (take_bit (Suc n) c)"
    by (simp add: take_bit_drop_bit)
  then have "crc_bits n (drop_bit 1 c) = drop_bit n (drop_bit 1 c)"
    using Suc by simp
  with b0 show ?case by (simp add: crc_bit_alt drop_bit_drop_bit)
qed simp

section \<open>The table\<close>

lemma fold_update_prefix:
  "n \<le> length t \<Longrightarrow> fold (\<lambda>i t. t[i := f i]) [0..<n] t = map f [0..<n] @ drop n t"
proof (induction n)
  case (Suc n)
  then have "fold (\<lambda>i t. t[i := f i]) [0..<Suc n] t = (map f [0..<n] @ drop n t)[n := f n]"
    by simp
  also have "\<dots> = map f [0..<n] @ (drop n t)[0 := f n]"
    by (simp add: list_update_append)
  also have "(drop n t)[0 := f n] = f n # drop (Suc n) t"
    using Suc.prems by (metis Cons_nth_drop_Suc Suc_le_lessD list_update_code(2))
  finally show ?case by simp
qed simp

lemma build_table_spec: "crc_globals_inv g \<Longrightarrow> crc32_table (build_table g) = crc_table_spec"
  by (simp add: crc_globals_inv_def build_table_def crc_table_spec_def fold_update_prefix
      del: upt_Suc upt_rec_numeral)

lemma crc_globals_inv_init: "crc_globals_inv crc_globals_init"
  by (simp add: crc_globals_inv_def crc_globals_init_def)

lemma crc32_ieee_inv: "crc_globals_inv g \<Longrightarrow> crc_globals_inv (snd (crc32_ieee g data))"
  using build_table_spec [of g]
  by (auto simp: crc32_ieee_def crc_globals_inv_def Let_def crc_table_spec_def)

lemma crc_table_nth: "unat x < 256 \<Longrightarrow> crc_table_spec ! unat x = crc_bits 8 x"
  by (simp add: crc_table_spec_def del: upt_Suc upt_rec_numeral)

text \<open>One table lookup does the work of eight bit steps.\<close>

lemma take_bit_8_u8: "drop_bit 8 (ucast (b :: u8) :: u32) = 0"
  by (rule bit_eqI) (auto simp: bit_drop_bit_eq bit_ucast_iff dest: bit_imp_le_length)

lemma word_split_xor: "x = take_bit n x XOR push_bit n (drop_bit n (x :: 'a::len word))"
proof (rule bit_eqI)
  fix k
  show "bit x k = bit (take_bit n x XOR push_bit n (drop_bit n x)) k"
    by (cases "k < n") (auto simp: bit_xor_iff bit_take_bit_iff bit_push_bit_iff bit_drop_bit_eq
        not_less dest: bit_imp_le_length)
qed

lemma take_bit_push_bit_0 [simp]: "take_bit n (push_bit n (x :: 'a::len word)) = 0"
  by (rule bit_eqI) (auto simp: bit_take_bit_iff bit_push_bit_iff)

lemma drop_push_drop_bit: "drop_bit n (push_bit n (drop_bit n x)) = drop_bit n (x :: 'a::len word)"
proof (rule bit_eqI)
  fix k
  show "bit (drop_bit n (push_bit n (drop_bit n x))) k = bit (drop_bit n x) k"
    by (auto simp: bit_push_bit_iff bit_drop_bit_eq dest: bit_imp_le_length)
qed

lemma table_step:
  "crc_table_spec ! unat ((crc XOR ucast b) AND 0xFF) XOR drop_bit 8 crc = crc_byte crc b"
proof -
  let ?x = "crc XOR ucast b :: u32"
  let ?lo = "take_bit 8 ?x" and ?hi = "push_bit 8 (drop_bit 8 ?x)"
  have lo: "?x AND 0xFF = ?lo"
    by (simp add: take_bit_eq_mask mask_eq_decr_exp)
  have "unat ?lo < 256"
    using take_bit_nat_less_exp [of 8 "unat ?x"] by (simp add: unsigned_take_bit_eq del: take_bit_xor)
  then have tab: "crc_table_spec ! unat ?lo = crc_bits 8 ?lo"
    by (rule crc_table_nth)
  have split: "?x = ?lo XOR ?hi"
    by (rule word_split_xor)
  have hi0: "take_bit 8 ?hi = 0"
    by (rule take_bit_push_bit_0)
  have hi: "crc_bits 8 ?hi = drop_bit 8 ?x"
    using hi0 by (simp only: crc_bits_shift drop_push_drop_bit)
  have top: "drop_bit 8 ?x = drop_bit 8 crc"
    by (simp add: drop_bit_xor take_bit_8_u8)
  have "crc_byte crc b = crc_bits 8 (?lo XOR ?hi)"
    unfolding crc_byte_def by (rule arg_cong [OF split])
  also have "\<dots> = crc_bits 8 ?lo XOR drop_bit 8 crc"
    by (simp only: crc_bits_xor [of 8 ?lo ?hi] hi top [symmetric])
  finally show ?thesis by (simp only: tab lo)
qed

lemma crc32_loop_spec: "crc32_loop crc_table_spec bs c = foldl crc_byte c bs"
  by (induction bs arbitrary: c) (simp_all add: table_step)

lemma crc32_ieee_spec: "crc_globals_inv g \<Longrightarrow> fst (crc32_ieee g data) = crc_spec data"
  by (auto simp: crc32_ieee_def Let_def crc_spec_def crc32_loop_spec build_table_spec
      crc_globals_inv_def)

section \<open>Error detection\<close>

lemma word_xor_right_cancel [simp]: "a XOR c = b XOR c \<longleftrightarrow> a = (b :: 'a::len word)"
  by (auto simp: bit_eq_iff bit_xor_iff)

lemma word_xor_left_cancel [simp]: "c XOR a = c XOR b \<longleftrightarrow> a = (b :: 'a::len word)"
  by (auto simp: bit_eq_iff bit_xor_iff)

lemma crc_byte_inj [simp]: "crc_byte c b = crc_byte d b \<longleftrightarrow> c = d"
  by (simp add: crc_byte_def)

lemma foldl_crc_byte_inj [simp]: "foldl crc_byte c bs = foldl crc_byte d bs \<longleftrightarrow> c = d"
  by (induction bs arbitrary: c d) simp_all

text \<open>Up to four bytes fit in the register, so the register still determines them.\<close>

fun le_word :: "u8 list \<Rightarrow> u32" where
  "le_word [] = 0"
| "le_word (b # bs) = ucast b XOR push_bit 8 (le_word bs)"

lemma bit_le_word_high: "bit (le_word bs) n \<Longrightarrow> n < 8 * length bs"
proof (induction bs arbitrary: n)
  case (Cons b bs)
  then have "bit (ucast b :: u32) n \<or> 8 \<le> n \<and> bit (le_word bs) (n - 8)"
    by (auto simp: bit_xor_iff bit_push_bit_iff)
  then show ?case
  proof
    assume "bit (ucast b :: u32) n"
    then have "n < 8" by (auto simp: bit_ucast_iff dest: bit_imp_le_length)
    then show ?thesis by simp
  next
    assume "8 \<le> n \<and> bit (le_word bs) (n - 8)"
    then have "n - 8 < 8 * length bs" "8 \<le> n" using Cons.IH by auto
    then show ?thesis by simp
  qed
qed simp

lemma drop_push_le_word:
  assumes "length bs \<le> 3"
  shows "drop_bit 8 (push_bit 8 (le_word bs)) = le_word bs"
proof (rule bit_eqI)
  fix n
  have "n < 24" if "bit (le_word bs) n"
    using bit_le_word_high [OF that] assms by simp
  then show "bit (drop_bit 8 (push_bit 8 (le_word bs))) n = bit (le_word bs) n"
    by (auto simp: bit_drop_bit_eq bit_push_bit_iff)
qed

lemma crc_bits_push_le_word:
  assumes "length bs \<le> 3"
  shows "crc_bits 8 (push_bit 8 (le_word bs)) = le_word bs"
proof -
  show ?thesis
    by (simp add: crc_bits_shift drop_push_le_word [OF assms])
qed

lemma foldl_crc_short:
  "length bs \<le> 4 \<Longrightarrow> foldl crc_byte c bs = crc_bits (8 * length bs) (c XOR le_word bs)"
proof (induction bs arbitrary: c)
  case (Cons b bs)
  then have "length bs \<le> 3" by simp
  then have le: "crc_bits 8 (push_bit 8 (le_word bs)) = le_word bs"
    by (rule crc_bits_push_le_word)
  have "foldl crc_byte c (b # bs) =
      crc_bits (8 * length bs) (crc_bits 8 (c XOR ucast b) XOR le_word bs)"
    using Cons by (simp add: crc_byte_def [of c b])
  also have "crc_bits 8 (c XOR ucast b) XOR le_word bs =
      crc_bits 8 (c XOR (ucast b XOR push_bit 8 (le_word bs)))"
    using le by (simp add: crc_bits_xor ac_simps)
  finally show ?case by (simp only: crc_bits_add le_word.simps length_Cons mult_Suc_right)
qed simp

lemma ucast_u8_inj: "(ucast (a :: u8) :: u32) = ucast b \<Longrightarrow> a = b"
proof -
  assume eq: "(ucast a :: u32) = ucast b"
  have small: "take_bit 32 (unat x) = unat x" for x :: u8
  proof (rule take_bit_nat_eq_self)
    have "unat x < 2 ^ LENGTH(8)" by (rule unsigned_less)
    then show "unat x < 2 ^ 32" by simp
  qed
  from arg_cong [OF eq, of unat] have "unat a = unat b"
    by (simp add: unsigned_ucast_eq small)
  then show "a = b" by (rule unsigned_word_eqI)
qed

lemma le_word_inj:
  "length as = length bs \<Longrightarrow> length bs \<le> 4 \<Longrightarrow> le_word as = le_word bs \<Longrightarrow> as = bs"
proof (induction as bs rule: list_induct2)
  case (Cons a as b bs)
  have eq: "ucast a XOR push_bit 8 (le_word as) = (ucast b XOR push_bit 8 (le_word bs) :: u32)"
    using Cons.prems by simp
  have low: "take_bit 8 (ucast x XOR push_bit 8 w :: u32) = ucast x" for x :: u8 and w
    by (rule bit_eqI) (auto simp: bit_take_bit_iff bit_xor_iff bit_push_bit_iff bit_ucast_iff
        dest: bit_imp_le_length)
  have "(ucast a :: u32) = ucast b"
    using arg_cong [OF eq, of "take_bit 8"] by (simp only: low)
  then have ab: "a = b"
    by (rule ucast_u8_inj)
  moreover have "le_word as = le_word bs"
    using arg_cong [OF eq, of "drop_bit 8"] Cons.hyps Cons.prems
    by (simp add: drop_bit_xor take_bit_8_u8 drop_push_le_word)
  ultimately show ?case using Cons by simp
qed simp

lemma crc_spec_burst:
  assumes "length as = length bs" "length bs \<le> 4"
  shows "crc_spec (xs @ as @ ys) = crc_spec (xs @ bs @ ys) \<longleftrightarrow> as = bs"
proof -
  define c where "c = foldl crc_byte 0xFFFFFFFF xs"
  have "crc_spec (xs @ as @ ys) = crc_spec (xs @ bs @ ys) \<longleftrightarrow>
      foldl crc_byte c as = foldl crc_byte c bs"
    by (simp add: crc_spec_def c_def)
  also have "\<dots> \<longleftrightarrow> le_word as = le_word bs"
    using assms by (simp add: foldl_crc_short)
  also have "\<dots> \<longleftrightarrow> as = bs"
    using assms le_word_inj by blast
  finally show ?thesis .
qed

section \<open>Properties\<close>

text \<open>
  C24: whatever calls came before (so whether or not the table was already built), the
  table-driven \<open>crc32_ieee\<close> returns the bit-serial IEEE 802.3 CRC of its input.
\<close>

theorem crc32_ieee_correct:
  "fst (crc32_ieee (foldl (\<lambda>g d. snd (crc32_ieee g d)) crc_globals_init history) data) =
     crc_spec data"
proof -
  have "crc_globals_inv (foldl (\<lambda>g d. snd (crc32_ieee g d)) g history)"
    if "crc_globals_inv g" for g
    using that by (induction history arbitrary: g) (simp_all add: crc32_ieee_inv)
  then show ?thesis
    using crc_globals_inv_init by (blast intro: crc32_ieee_spec)
qed

text \<open>
  The checksum detects every error burst confined to four consecutive bytes: two
  messages that differ only there have different checksums.
\<close>

lemma crc32_ieee_detects_burst:
  assumes "crc_globals_inv g" "length as = length bs" "length bs \<le> 4"
  shows "fst (crc32_ieee g (xs @ as @ ys)) = fst (crc32_ieee g (xs @ bs @ ys)) \<longleftrightarrow> as = bs"
  using assms by (simp add: crc32_ieee_spec crc_spec_burst)

text \<open>The test vectors of \<open>tests/test_crc32.c\<close>.\<close>

lemma crc_bits_8:
  "crc_bits 8 c = crc_bit (crc_bit (crc_bit (crc_bit (crc_bit (crc_bit (crc_bit (crc_bit c)))))))"
  by (simp add: numeral_eq_Suc)

lemma crc_spec_check:
  "crc_spec [0x31, 0x32, 0x33, 0x34, 0x35, 0x36, 0x37, 0x38, 0x39] = 0xCBF43926"
  by (simp add: crc_spec_def crc_byte_def crc_bits_8 crc_bit_def)

lemma crc_spec_empty: "crc_spec [] = 0"
  by (simp add: crc_spec_def)

end
