(* ===== verification/Proto_V2.thy ===== *)
theory Proto_V2
  imports Crc32
begin

text \<open>
  The wire format of \<open>src/proto_v2.c\<close>. A buffer is a byte list of the length the protocol
  version fixes; \<open>memcpy\<close> into and out of it are \<open>put_bytes\<close> and \<open>get_bytes\<close>; the
  byte-order macros are \<open>be_enc\<close> and \<open>be_dec\<close>, big-endian whatever the host. The result of
  \<open>proto_decode\<close> is \<open>None\<close> where the code returns \<open>-1\<close>. The lemmas give the layout of an
  encoded frame, the round trip, and the rejection of corrupted frames.
\<close>

section \<open>Byte order\<close>

fun be_enc :: "nat \<Rightarrow> 'a::len word \<Rightarrow> u8 list" where
  "be_enc 0 w = []"
| "be_enc (Suc n) w = ucast (drop_bit (8 * n) w) # be_enc n w"

fun be_acc :: "'a::len word \<Rightarrow> u8 list \<Rightarrow> 'a word" where
  "be_acc acc [] = acc"
| "be_acc acc (b # bs) = be_acc (push_bit 8 acc OR ucast b) bs"

definition be_dec :: "u8 list \<Rightarrow> 'a::len word" where
  "be_dec bs = be_acc 0 bs"

section \<open>The code\<close>

record drs_packet =
  pkt_msg_type :: u8
  pkt_flags :: u8
  pkt_seq :: u16
  pkt_node_id :: u32
  pkt_election_term :: u32
  pkt_t1 :: i64
  pkt_t2 :: i64
  pkt_t3 :: i64
  pkt_t4 :: i64

definition put_bytes :: "u8 list \<Rightarrow> nat \<Rightarrow> u8 list \<Rightarrow> u8 list" where
  "put_bytes buf off bs = take off buf @ bs @ drop (off + length bs) buf"

definition get_bytes :: "u8 list \<Rightarrow> nat \<Rightarrow> nat \<Rightarrow> u8 list" where
  "get_bytes buf off n = take n (drop off buf)"

definition hton64 :: "i64 \<Rightarrow> u8 list" where
  "hton64 x = be_enc 8 (word_of_int x :: u64)"

definition ntoh64 :: "u8 list \<Rightarrow> i64" where
  "ntoh64 bs = sint (be_dec bs :: u64)"

definition crc32_of :: "u8 list \<Rightarrow> u32" where
  "crc32_of bs = fst (crc32_ieee crc_globals_init bs)"

definition proto_encode :: "proto_ver \<Rightarrow> drs_packet \<Rightarrow> u8 list" where
  "proto_encode ver pkt =
     (let buf = replicate (DRS_PAYLOAD_BYTES ver) 0;
          buf = put_bytes buf 0 (be_enc 4 DRS_MAGIC_V2);
          buf = buf[4 := DRS_VERSION ver];
          buf = buf[5 := pkt_msg_type pkt];
          buf = buf[6 := pkt_flags pkt];
          buf = buf[7 := 0];
          buf = put_bytes buf 8 (be_enc 2 (pkt_seq pkt));
          buf = put_bytes buf 10 (be_enc 4 (pkt_node_id pkt));
          buf = put_bytes buf 14 (be_enc 4 (pkt_election_term pkt));
          buf = put_bytes buf 18 (hton64 (pkt_t1 pkt));
          buf = put_bytes buf 26 (hton64 (pkt_t2 pkt));
          buf = put_bytes buf 34 (hton64 (pkt_t3 pkt));
          buf = put_bytes buf 42 (hton64 (pkt_t4 pkt));
          crc = crc32_of buf
      in put_bytes buf 50 (be_enc 4 crc))"

definition proto_decode :: "proto_ver \<Rightarrow> u8 list \<Rightarrow> drs_packet option" where
  "proto_decode ver buf =
     (if be_dec (get_bytes buf 0 4) \<noteq> DRS_MAGIC_V2 then None
      else if buf ! 4 \<noteq> DRS_VERSION ver then None
      else
        (let scratch = put_bytes buf 50 (replicate 4 0);
             computed = crc32_of scratch;
             stored = be_dec (get_bytes buf 50 4)
         in if stored \<noteq> computed then None
            else Some
              \<lparr>pkt_msg_type = buf ! 5,
               pkt_flags = buf ! 6,
               pkt_seq = be_dec (get_bytes buf 8 2),
               pkt_node_id = be_dec (get_bytes buf 10 4),
               pkt_election_term = be_dec (get_bytes buf 14 4),
               pkt_t1 = ntoh64 (get_bytes buf 18 8),
               pkt_t2 = ntoh64 (get_bytes buf 26 8),
               pkt_t3 = ntoh64 (get_bytes buf 34 8),
               pkt_t4 = ntoh64 (get_bytes buf 42 8)\<rparr>))"

text \<open>The timestamps of a packet are \<open>int64_t\<close> values.\<close>

definition packet_ok :: "drs_packet \<Rightarrow> bool" where
  "packet_ok p \<longleftrightarrow> in_i64 (pkt_t1 p) \<and> in_i64 (pkt_t2 p) \<and> in_i64 (pkt_t3 p) \<and> in_i64 (pkt_t4 p)"

section \<open>Byte order lemmas\<close>

lemma length_be_enc [simp]: "length (be_enc n w) = n"
  by (induction n) simp_all

lemma be_acc_be_enc: "be_acc acc (be_enc n w) = push_bit (8 * n) acc OR take_bit (8 * n) w"
proof (induction n arbitrary: acc)
  case (Suc n)
  have "push_bit (8 * n) (push_bit 8 acc OR ucast (ucast (drop_bit (8 * n) w) :: u8)) OR
      take_bit (8 * n) w = push_bit (8 * Suc n) acc OR take_bit (8 * Suc n) w"
  proof (rule bit_word_eqI)
    fix k assume "k < LENGTH('a)"
    show "bit (push_bit (8 * n) (push_bit 8 acc OR ucast (ucast (drop_bit (8 * n) w) :: u8)) OR
        take_bit (8 * n) w) k = bit (push_bit (8 * Suc n) acc OR take_bit (8 * Suc n) w) k"
      by (cases "k < 8 * n"; cases "k < 8 * Suc n")
        (auto simp: bit_or_iff bit_push_bit_iff bit_take_bit_iff bit_ucast_iff bit_drop_bit_eq
          not_less add.commute [of 8] dest: bit_imp_le_length)
  qed
  then show ?case by (simp add: Suc)
qed simp

lemma be_dec_be_enc: "LENGTH('a) = 8 * n \<Longrightarrow> be_dec (be_enc n w) = (w :: 'a::len word)"
  using take_bit_word_eq_self [of "8 * n" w] by (simp add: be_dec_def be_acc_be_enc)

lemma bit_be_acc_high:
  "8 * length bs \<le> k \<Longrightarrow> k < LENGTH('a) \<Longrightarrow>
     bit (be_acc acc bs :: 'a::len word) k = bit acc (k - 8 * length bs)"
proof (induction bs arbitrary: acc)
  case (Cons b bs)
  have "bit (be_acc acc (b # bs)) k = bit (push_bit 8 acc OR ucast b) (k - 8 * length bs)"
    using Cons by simp
  also have "\<dots> = bit acc (k - 8 * length bs - 8)"
    using Cons.prems by (auto simp: bit_or_iff bit_push_bit_iff bit_ucast_iff dest: bit_imp_le_length)
  finally show ?case by (simp add: diff_diff_eq add.commute)
qed simp

lemma be_enc_be_acc:
  "8 * length bs \<le> LENGTH('a) \<Longrightarrow> be_enc (length bs) (be_acc acc bs :: 'a::len word) = bs"
proof (induction bs arbitrary: acc)
  case (Cons b bs)
  let ?a = "push_bit 8 acc OR ucast b :: 'a word"
  have "ucast (drop_bit (8 * length bs) (be_acc ?a bs)) = b"
  proof (rule bit_word_eqI)
    fix k assume "k < LENGTH(8)"
    then have k: "8 * length bs + k < LENGTH('a)" "k < 8" using Cons.prems by auto
    then have "bit (be_acc ?a bs) (8 * length bs + k) = bit ?a k"
      by (simp add: bit_be_acc_high)
    then show "bit (ucast (drop_bit (8 * length bs) (be_acc ?a bs)) :: u8) k = bit b k"
      using k by (simp add: bit_ucast_iff bit_drop_bit_eq bit_or_iff bit_push_bit_iff)
  qed
  then show ?case using Cons by simp
qed simp

text \<open>A fixed-width field: what is decoded at its offset is what was encoded there.\<close>

locale fixed_width_field =
  fixes enc :: "'v \<Rightarrow> u8 list" and dec :: "u8 list \<Rightarrow> 'v"
    and width :: nat and dom :: "'v \<Rightarrow> bool"
  assumes enc_width: "length (enc v) = width"
    and dec_enc: "dom v \<Longrightarrow> dec (enc v) = v"
    and enc_dec: "length bs = width \<Longrightarrow> enc (dec bs) = bs"
    and dom_dec: "dom (dec bs)"
begin

lemma get_field:
  "dom v \<Longrightarrow> length xs = off \<Longrightarrow> dec (get_bytes (xs @ enc v @ ys) off width) = v"
  by (simp add: get_bytes_def enc_width dec_enc)

lemma dec_inj: "length as = width \<Longrightarrow> length bs = width \<Longrightarrow> dec as = dec bs \<longleftrightarrow> as = bs"
  using enc_dec by metis

end

interpretation be16: fixed_width_field "be_enc 2" "be_dec :: _ \<Rightarrow> u16" 2 "\<lambda>_. True"
proof unfold_locales
  show "be_enc 2 (be_dec bs :: u16) = bs" if "length bs = 2" for bs
    using that be_enc_be_acc [where ?'a = 16, of bs 0] by (simp add: be_dec_def)
qed (simp_all add: be_dec_be_enc)

interpretation be32: fixed_width_field "be_enc 4" "be_dec :: _ \<Rightarrow> u32" 4 "\<lambda>_. True"
proof unfold_locales
  show "be_enc 4 (be_dec bs :: u32) = bs" if "length bs = 4" for bs
    using that be_enc_be_acc [where ?'a = 32, of bs 0] by (simp add: be_dec_def)
qed (simp_all add: be_dec_be_enc)

interpretation be64s: fixed_width_field hton64 ntoh64 8 in_i64
proof unfold_locales
  show "hton64 (ntoh64 bs) = bs" if "length bs = 8" for bs
    using that be_enc_be_acc [where ?'a = 64, of bs 0]
    by (simp add: be_dec_def hton64_def ntoh64_def)
qed (simp_all add: be_dec_be_enc hton64_def ntoh64_def sint_word_of_int_s64 s64_id)

section \<open>Layout of a frame\<close>

lemma length_hton64 [simp]: "length (hton64 x) = 8"
  by (rule be64s.enc_width)

lemma put_bytes_skip [simp]:
  "length xs \<le> off \<Longrightarrow> put_bytes (xs @ ys) off bs = xs @ put_bytes ys (off - length xs) bs"
  by (simp add: put_bytes_def)

lemma put_bytes_zero [simp]:
  "length bs \<le> n \<Longrightarrow> put_bytes (replicate n 0) 0 bs = bs @ replicate (n - length bs) 0"
  by (simp add: put_bytes_def)

lemma put_bytes_same_length [simp]:
  "length bs = length cs \<Longrightarrow> put_bytes (bs @ ys) 0 cs = cs @ ys"
  by (simp add: put_bytes_def)

lemma length_put_bytes [simp]:
  "off + length bs \<le> length buf \<Longrightarrow> length (put_bytes buf off bs) = length buf"
  by (simp add: put_bytes_def)

lemma get_bytes_skip [simp]:
  "length xs \<le> off \<Longrightarrow> get_bytes (xs @ ys) off n = get_bytes ys (off - length xs) n"
  by (simp add: get_bytes_def)

lemma get_bytes_here [simp]: "length xs = n \<Longrightarrow> get_bytes (xs @ ys) 0 n = xs"
  by (simp add: get_bytes_def)

lemma length_get_bytes [simp]: "length (get_bytes buf off n) = min n (length buf - off)"
  by (simp add: get_bytes_def)

lemma update_zero [simp]: "0 < n \<Longrightarrow> (replicate n 0)[0 := b] = b # replicate (n - Suc 0) 0"
  by (cases n) simp_all

definition frame_head :: "proto_ver \<Rightarrow> drs_packet \<Rightarrow> u8 list" where
  "frame_head ver p =
     be_enc 4 DRS_MAGIC_V2 @ [DRS_VERSION ver, pkt_msg_type p, pkt_flags p, 0] @
     be_enc 2 (pkt_seq p) @ be_enc 4 (pkt_node_id p) @ be_enc 4 (pkt_election_term p) @
     hton64 (pkt_t1 p) @ hton64 (pkt_t2 p) @ hton64 (pkt_t3 p) @ hton64 (pkt_t4 p)"

definition frame_pad :: "proto_ver \<Rightarrow> nat" where
  "frame_pad ver = DRS_PAYLOAD_BYTES ver - 54"

lemma payload_bytes: "DRS_PAYLOAD_BYTES ver = frame_pad ver + 54"
  by (cases ver) (simp_all add: frame_pad_def)

lemma length_frame_head [simp]: "length (frame_head ver p) = 50"
  by (simp add: frame_head_def)

lemma frame_head_encode:
  "put_bytes (put_bytes (put_bytes (put_bytes (put_bytes (put_bytes (put_bytes
     ((((put_bytes (replicate (DRS_PAYLOAD_BYTES ver) 0) 0 (be_enc 4 DRS_MAGIC_V2))
        [4 := DRS_VERSION ver])[5 := pkt_msg_type p])[6 := pkt_flags p, 7 := 0])
     8 (be_enc 2 (pkt_seq p))) 10 (be_enc 4 (pkt_node_id p))) 14 (be_enc 4 (pkt_election_term p)))
     18 (hton64 (pkt_t1 p))) 26 (hton64 (pkt_t2 p))) 34 (hton64 (pkt_t3 p))) 42 (hton64 (pkt_t4 p)) =
   frame_head ver p @ replicate (frame_pad ver + 4) 0"
  by (simp add: payload_bytes frame_head_def list_update_append put_bytes_def)

lemma proto_encode_layout:
  "proto_encode ver p = frame_head ver p @
     be_enc 4 (crc32_of (frame_head ver p @ replicate (frame_pad ver + 4) 0)) @
     replicate (frame_pad ver) 0"
  unfolding proto_encode_def Let_def frame_head_encode by simp

lemma length_proto_encode [simp]: "length (proto_encode ver p) = DRS_PAYLOAD_BYTES ver"
  by (simp add: proto_encode_layout payload_bytes)

section \<open>What decoding accepts\<close>

lemma crc32_of_spec: "crc32_of bs = crc_spec bs"
  by (simp add: crc32_of_def crc32_ieee_spec crc_globals_inv_init)

definition frame_ok :: "proto_ver \<Rightarrow> u8 list \<Rightarrow> bool" where
  "frame_ok ver buf \<longleftrightarrow> be_dec (get_bytes buf 0 4) = DRS_MAGIC_V2 \<and> buf ! 4 = DRS_VERSION ver \<and>
     be_dec (get_bytes buf 50 4) = crc32_of (put_bytes buf 50 (replicate 4 0))"

definition frame_fields :: "u8 list \<Rightarrow> drs_packet" where
  "frame_fields buf =
     \<lparr>pkt_msg_type = buf ! 5, pkt_flags = buf ! 6, pkt_seq = be_dec (get_bytes buf 8 2),
      pkt_node_id = be_dec (get_bytes buf 10 4), pkt_election_term = be_dec (get_bytes buf 14 4),
      pkt_t1 = ntoh64 (get_bytes buf 18 8), pkt_t2 = ntoh64 (get_bytes buf 26 8),
      pkt_t3 = ntoh64 (get_bytes buf 34 8), pkt_t4 = ntoh64 (get_bytes buf 42 8)\<rparr>"

lemma proto_decode_eq:
  "proto_decode ver buf = (if frame_ok ver buf then Some (frame_fields buf) else None)"
  by (simp add: proto_decode_def frame_ok_def frame_fields_def Let_def)

lemma proto_decode_packet_ok: "proto_decode ver buf = Some p \<Longrightarrow> packet_ok p"
  by (auto simp: proto_decode_eq frame_fields_def packet_ok_def be64s.dom_dec split: if_splits)

lemma frame_ok_encode: "frame_ok ver (proto_encode ver p)"
proof -
  let ?crc = "crc32_of (frame_head ver p @ replicate (frame_pad ver + 4) 0)"
  have "put_bytes (proto_encode ver p) 50 (replicate 4 0) =
      frame_head ver p @ replicate (frame_pad ver + 4) 0"
    by (simp add: proto_encode_layout replicate_add [symmetric] add.commute)
  moreover have "be_dec (get_bytes (proto_encode ver p) 50 4) = ?crc"
    by (simp add: proto_encode_layout be32.dec_enc)
  moreover have "be_dec (get_bytes (proto_encode ver p) 0 4) = DRS_MAGIC_V2"
    by (simp add: proto_encode_layout frame_head_def be32.dec_enc)
  moreover have "proto_encode ver p ! 4 = DRS_VERSION ver"
    by (simp add: proto_encode_layout frame_head_def nth_append)
  ultimately show ?thesis by (simp add: frame_ok_def)
qed

lemma frame_fields_encode: "packet_ok p \<Longrightarrow> frame_fields (proto_encode ver p) = p"
  by (simp add: proto_encode_layout frame_head_def frame_fields_def packet_ok_def nth_append
      get_bytes_def be16.dec_enc be32.dec_enc be64s.dec_enc)

section \<open>Corruption\<close>

lemma put_bytes_burst:
  assumes "k + length as \<le> length buf"
  obtains xs ys where "buf = xs @ get_bytes buf k (length as) @ ys" "length xs = k"
    "put_bytes buf k as = xs @ as @ ys"
proof
  show "buf = take k buf @ get_bytes buf k (length as) @ drop (k + length as) buf"
    by (metis append_take_drop_id drop_drop add.commute get_bytes_def)
  show "length (take k buf) = k" using assms by simp
  show "put_bytes buf k as = take k buf @ as @ drop (k + length as) buf"
    by (simp add: put_bytes_def)
qed

lemma crc_put_bytes:
  assumes "k + length as \<le> length buf" "length as \<le> 4" "as \<noteq> get_bytes buf k (length as)"
  shows "crc32_of (put_bytes buf k as) \<noteq> crc32_of buf"
proof -
  obtain xs ys where buf: "buf = xs @ get_bytes buf k (length as) @ ys"
    and put: "put_bytes buf k as = xs @ as @ ys"
    using put_bytes_burst [OF assms(1)] by blast
  have "crc_spec (xs @ as @ ys) = crc_spec (xs @ get_bytes buf k (length as) @ ys) \<longleftrightarrow>
      as = get_bytes buf k (length as)"
    using assms by (intro crc_spec_burst) simp_all
  then show ?thesis
    using assms(3) by (simp add: put crc32_of_spec flip: buf)
qed

text \<open>A burst inside the checksum field leaves the rest of the frame alone, and vice versa.\<close>

lemma nth_put_bytes:
  assumes "k + length as \<le> length buf" "i < length buf"
  shows "put_bytes buf k as ! i = (if k \<le> i \<and> i < k + length as then as ! (i - k) else buf ! i)"
  using assms by (auto simp: put_bytes_def nth_append min_def)

lemma nth_get_bytes: "off + i < length buf \<Longrightarrow> i < n \<Longrightarrow> get_bytes buf off n ! i = buf ! (off + i)"
  by (simp add: get_bytes_def)

lemma put_bytes_cover:
  assumes "off \<le> k" "k + length as \<le> off + length bs" "off + length bs \<le> length buf"
  shows "put_bytes (put_bytes buf k as) off bs = put_bytes buf off bs"
  using assms by (intro nth_equalityI) (simp_all add: nth_put_bytes)

lemma put_bytes_commute:
  assumes "k + length as \<le> off \<or> off + length bs \<le> k"
    "k + length as \<le> length buf" "off + length bs \<le> length buf"
  shows "put_bytes (put_bytes buf k as) off bs = put_bytes (put_bytes buf off bs) k as"
  using assms by (intro nth_equalityI) (auto simp: nth_put_bytes)

lemma get_bytes_disjoint:
  assumes "k + length as \<le> off \<or> off + n \<le> k" "k + length as \<le> length buf" "off + n \<le> length buf"
  shows "get_bytes (put_bytes buf k as) off n = get_bytes buf off n"
  using assms by (intro nth_equalityI) (auto simp: nth_put_bytes nth_get_bytes)

lemma get_bytes_changed:
  assumes "off \<le> k" "k + length as \<le> off + n" "off + n \<le> length buf"
    "as \<noteq> get_bytes buf k (length as)"
  shows "get_bytes (put_bytes buf k as) off n \<noteq> get_bytes buf off n"
proof
  assume eq: "get_bytes (put_bytes buf k as) off n = get_bytes buf off n"
  have "as ! i = get_bytes buf k (length as) ! i" if "i < length as" for i
    using arg_cong [OF eq, of "\<lambda>bs. bs ! (k - off + i)"] that assms(1-3)
    by (simp add: nth_get_bytes nth_put_bytes)
  then have "as = get_bytes buf k (length as)"
    using assms(2,3) by (intro nth_equalityI) simp_all
  with assms(4) show False ..
qed

lemma frame_ok_burst:
  assumes ok: "frame_ok ver buf" and len: "length buf = DRS_PAYLOAD_BYTES ver"
    and short: "length as \<le> 4" and fits: "k + length as \<le> length buf"
    and window: "k + length as \<le> 50 \<or> 54 \<le> k \<or> 50 \<le> k \<and> k + length as \<le> 54"
    and changed: "as \<noteq> get_bytes buf k (length as)"
  shows "\<not> frame_ok ver (put_bytes buf k as)"
proof
  let ?z = "replicate 4 0 :: u8 list" and ?buf = "put_bytes buf k as"
  assume ok': "frame_ok ver ?buf"
  have len54: "54 \<le> length buf" using len by (simp add: payload_bytes)
  consider (inside) "50 \<le> k" "k + length as \<le> 54" | (outside) "k + length as \<le> 50 \<or> 54 \<le> k"
    using window by blast
  then show False
  proof cases
    case inside
    have "put_bytes ?buf 50 ?z = put_bytes buf 50 ?z"
      using inside len54 by (intro put_bytes_cover) simp_all
    then have "be_dec (get_bytes ?buf 50 4) = (be_dec (get_bytes buf 50 4) :: u32)"
      using ok ok' by (simp add: frame_ok_def)
    then have "get_bytes ?buf 50 4 = get_bytes buf 50 4"
      using len54 fits by (subst (asm) be32.dec_inj) simp_all
    then show False
      using get_bytes_changed [of 50 k as 4 buf] inside len54 changed by simp
  next
    case outside
    have "put_bytes ?buf 50 ?z = put_bytes (put_bytes buf 50 ?z) k as"
      using outside fits len54 by (intro put_bytes_commute) auto
    moreover have "crc32_of (put_bytes (put_bytes buf 50 ?z) k as) \<noteq> crc32_of (put_bytes buf 50 ?z)"
      using fits short len54 outside changed
      by (intro crc_put_bytes) (auto simp: get_bytes_disjoint)
    moreover have "get_bytes ?buf 50 4 = get_bytes buf 50 4"
      using outside fits len54 by (intro get_bytes_disjoint) auto
    ultimately show False using ok ok' by (simp add: frame_ok_def)
  qed
qed

lemma get_bytes_append: "get_bytes buf a n @ get_bytes buf (a + n) m = get_bytes buf a (n + m)"
  by (simp add: get_bytes_def take_add)
    (simp add: add.commute)

lemma get_bytes_4:
  "a + 4 \<le> length buf \<Longrightarrow> [buf ! a, buf ! (a + 1), buf ! (a + 2), buf ! (a + 3)] = get_bytes buf a 4"
  by (rule nth_equalityI) (auto simp: nth_get_bytes less_Suc_eq numeral_eq_Suc)

lemma frame_head_fields:
  assumes ok: "frame_ok ver buf" and len: "length buf = DRS_PAYLOAD_BYTES ver" and "buf ! 7 = 0"
  shows "frame_head ver (frame_fields buf) = get_bytes buf 0 50"
proof -
  have len54: "54 \<le> length buf" using len by (simp add: payload_bytes)
  have "be_enc 4 DRS_MAGIC_V2 = get_bytes buf 0 4"
    using ok be32.enc_dec [of "get_bytes buf 0 4"] len54 by (simp add: frame_ok_def)
  moreover have "[DRS_VERSION ver, buf ! 5, buf ! 6, 0] = get_bytes buf 4 4"
    using ok assms(3) get_bytes_4 [of 4 buf] len54 by (simp add: frame_ok_def)
  moreover have "get_bytes buf 0 50 = get_bytes buf 0 4 @ get_bytes buf 4 4 @ get_bytes buf 8 2 @
      get_bytes buf 10 4 @ get_bytes buf 14 4 @ get_bytes buf 18 8 @ get_bytes buf 26 8 @
      get_bytes buf 34 8 @ get_bytes buf 42 8"
    using get_bytes_append [of buf 34 8 8] get_bytes_append [of buf 26 8 16]
      get_bytes_append [of buf 18 8 24] get_bytes_append [of buf 14 4 32]
      get_bytes_append [of buf 10 4 36] get_bytes_append [of buf 8 2 40]
      get_bytes_append [of buf 4 4 42] get_bytes_append [of buf 0 4 46] by simp
  ultimately show ?thesis
    using len54 by (simp add: frame_head_def frame_fields_def be16.enc_dec be32.enc_dec be64s.enc_dec)
qed

section \<open>Properties\<close>

text \<open>
  Decoding what \<open>proto_encode\<close> produced gives the packet back, in both protocol versions,
  for every packet whose timestamps are \<open>int64_t\<close> values.
\<close>

lemma proto_round_trip:
  assumes "packet_ok p"
  shows "proto_decode ver (proto_encode ver p) = Some p"
  using assms by (simp add: proto_decode_eq frame_ok_encode frame_fields_encode)

text \<open>
  No frame that was accepted is still accepted after up to four consecutive bytes of it have
  been altered, either anywhere outside the checksum field (bytes 50 to 53) or inside it; a single
  altered byte is always such a change. This covers the corrupted packet of
  \<open>tests/test_proto.c\<close>.
\<close>

lemma proto_decode_rejects_burst:
  assumes "proto_decode ver buf = Some p" "length buf = DRS_PAYLOAD_BYTES ver"
    and "length as \<le> 4" "k + length as \<le> length buf"
    and "k + length as \<le> 50 \<or> 54 \<le> k \<or> 50 \<le> k \<and> k + length as \<le> 54"
    and "as \<noteq> get_bytes buf k (length as)"
  shows "proto_decode ver (put_bytes buf k as) = None"
  using assms frame_ok_burst [of ver buf as k] by (simp add: proto_decode_eq split: if_splits)

text \<open>
  An accepted frame whose reserved byte and padding are zero is, byte for byte, the frame
  \<open>proto_encode\<close> writes for the decoded packet; so two such frames with equal contents are equal.
\<close>

lemma proto_decode_canonical:
  assumes "proto_decode ver buf = Some p" "length buf = DRS_PAYLOAD_BYTES ver"
    and "buf ! 7 = 0" "drop 54 buf = replicate (DRS_PAYLOAD_BYTES ver - 54) 0"
  shows "proto_encode ver p = buf"
proof -
  have ok: "frame_ok ver buf" and p: "p = frame_fields buf"
    using assms(1) by (simp_all add: proto_decode_eq split: if_splits)
  have head: "frame_head ver p = get_bytes buf 0 50"
    using frame_head_fields [OF ok assms(2,3)] p by simp
  have "frame_head ver p @ replicate (frame_pad ver + 4) 0 = put_bytes buf 50 (replicate 4 0)"
    using assms(4) head
    by (simp add: put_bytes_def get_bytes_def frame_pad_def replicate_add add.commute)
  then have "be_dec (get_bytes buf 50 4) =
      crc32_of (frame_head ver p @ replicate (frame_pad ver + 4) 0)"
    using ok by (simp add: frame_ok_def)
  then have "be_enc 4 (crc32_of (frame_head ver p @ replicate (frame_pad ver + 4) 0)) =
      get_bytes buf 50 4"
    using be32.enc_dec [of "get_bytes buf 50 4"] assms(2) by (simp add: payload_bytes)
  then have "proto_encode ver p = get_bytes buf 0 50 @ get_bytes buf 50 4 @ drop 54 buf"
    using head assms(4) by (simp add: proto_encode_layout frame_pad_def)
  also have "\<dots> = get_bytes buf 0 54 @ drop 54 buf"
    by (simp add: get_bytes_append [where n = 50 and m = 4, simplified, symmetric])
  finally show ?thesis by (simp add: get_bytes_def)
qed

end
