(* ===== verification/Net_Io.thy ===== *)
theory Net_Io
  imports Proto_V2
begin

text \<open>
  Network I/O, \<open>src/net_io.c\<close>: reading the raw clock, the node id, the sockets, the three send
  operations, reception, and the refresh of the multicast membership after a carrier loss. What
  the kernel answers (clock readings, interface list, results of \<open>bind\<close>, \<open>sendto\<close> and
  \<open>recvfrom\<close>) is an argument; what the code hands to the kernel is a result.
  \<open>uint32_t\<close> addresses are in network byte order on a little-endian host, as \<open>s_addr\<close> is.
\<close>

section \<open>Time stamps and addresses\<close>

record timespec =
  tv_sec :: i64
  tv_nsec :: i64

definition timespec_ns :: "timespec \<Rightarrow> i64" where
  "timespec_ns ts = s64 (s64 (tv_sec ts * 1000000000) + tv_nsec ts)"

definition mono_raw_ns :: "timespec \<Rightarrow> i64" where
  "mono_raw_ns ts = timespec_ns ts"

definition ntohl :: "u32 \<Rightarrow> u32" where
  "ntohl x = push_bit 24 (x AND 0xFF) OR push_bit 8 (x AND 0xFF00) OR
     drop_bit 8 (x AND 0xFF0000) OR drop_bit 24 x"

definition htons :: "u16 \<Rightarrow> u16" where
  "htons x = push_bit 8 x OR drop_bit 8 x"

text \<open>\<open>inet_pton(AF_INET, ...)\<close>: a dotted quad of decimal numbers without leading zeros.\<close>

fun split_dots :: "string \<Rightarrow> string list" where
  "split_dots [] = [[]]"
| "split_dots (c # cs) =
     (if c = CHR ''.'' then [] # split_dots cs
      else (case split_dots cs of p # ps \<Rightarrow> (c # p) # ps | [] \<Rightarrow> [[c]]))"

definition octet :: "string \<Rightarrow> nat option" where
  "octet s =
     (let v = foldl (\<lambda>n c. 10 * n + (of_char c - 48)) 0 s
      in if s \<noteq> [] \<and> length s \<le> 3 \<and> (\<forall>c \<in> set s. 48 \<le> (of_char c :: nat) \<and> (of_char c :: nat) \<le> 57) \<and>
            (1 < length s \<longrightarrow> hd s \<noteq> CHR ''0'') \<and> v \<le> 255
         then Some v else None)"

definition ipv4 :: "nat \<Rightarrow> nat \<Rightarrow> nat \<Rightarrow> nat \<Rightarrow> u32" where
  "ipv4 a b c d = of_nat a OR push_bit 8 (of_nat b) OR push_bit 16 (of_nat c) OR push_bit 24 (of_nat d)"

definition inet_pton :: "string \<Rightarrow> u32 option" where
  "inet_pton s =
     (case map octet (split_dots s) of
        [Some a, Some b, Some c, Some d] \<Rightarrow> Some (ipv4 a b c d)
      | _ \<Rightarrow> None)"

record sockaddr_in =
  sin_port :: u16
  sin_addr :: u32

record net_io =
  net_sock_mcast :: int
  net_sock_ucast :: int
  net_node_id :: u32
  net_leader_addr :: sockaddr_in

record ifaddr =
  ifa_name :: string
  ifa_inet :: "u32 option"

text \<open>
  The interface list, \<open>None\<close> when \<open>getifaddrs\<close> failed; an entry without an address or of another
  family has \<open>ifa_inet = None\<close>.
\<close>

fun iface_scan :: "string \<Rightarrow> ifaddr list \<Rightarrow> u32" where
  "iface_scan ifname [] = 0"
| "iface_scan ifname (ifa # rest) =
     (case ifa_inet ifa of
        None \<Rightarrow> iface_scan ifname rest
      | Some s_addr \<Rightarrow>
          if ifa_name ifa \<noteq> ifname then iface_scan ifname rest
          else if drop_bit 24 (ntohl s_addr) = 127 then iface_scan ifname rest
          else s_addr)"

definition get_iface_addr :: "string \<Rightarrow> ifaddr list option \<Rightarrow> u32" where
  "get_iface_addr ifname ifaddrs =
     (case ifaddrs of None \<Rightarrow> 0 | Some list \<Rightarrow> iface_scan ifname list)"

section \<open>Sockets\<close>

text \<open>The options set on a socket, in order, for the calls the code does not ignore the effect of.\<close>

datatype sockopt = IP_ADD_MEMBERSHIP u32 u32 | IP_DROP_MEMBERSHIP u32 u32 | IP_MULTICAST_LOOP bool
  | IP_MULTICAST_IF u32 | SO_REUSEADDR | SO_REUSEPORT | IP_TOS_LOWDELAY

definition mcast_group :: u32 where
  "mcast_group = (case inet_pton DRS_MCAST_GROUP of Some a \<Rightarrow> a | None \<Rightarrow> 0)"

definition open_mcast_socket :: "int \<Rightarrow> bool \<Rightarrow> u32 \<Rightarrow> int \<times> sockopt list" where
  "open_mcast_socket fd bind_ok iface_addr_ne =
     (if fd < 0 then (- 1, [])
      else if \<not> bind_ok then (- 1, [SO_REUSEADDR, SO_REUSEPORT])
      else (fd, [SO_REUSEADDR, SO_REUSEPORT, IP_ADD_MEMBERSHIP mcast_group iface_addr_ne,
                 IP_MULTICAST_LOOP False, IP_TOS_LOWDELAY]))"

definition open_ucast_socket :: "int \<Rightarrow> bool \<Rightarrow> u32 \<Rightarrow> int \<times> sockopt list" where
  "open_ucast_socket fd bind_ok iface_addr_ne =
     (if fd < 0 then (- 1, [])
      else if \<not> bind_ok then (- 1, [SO_REUSEADDR])
      else (fd, [SO_REUSEADDR, IP_TOS_LOWDELAY, IP_MULTICAST_IF iface_addr_ne]))"

record net_env =
  ne_ifaddrs :: "ifaddr list option"
  ne_mcast_fd :: int
  ne_mcast_bind_ok :: bool
  ne_ucast_fd :: int
  ne_ucast_bind_ok :: bool

definition net_io_init :: "net_env \<Rightarrow> string \<Rightarrow> int \<times> net_io" where
  "net_io_init env ifname =
     (let net = \<lparr>net_sock_mcast = - 1, net_sock_ucast = - 1, net_node_id = 0,
                 net_leader_addr = \<lparr>sin_port = 0, sin_addr = 0\<rparr>\<rparr>;
          addr = get_iface_addr ifname (ne_ifaddrs env);
          addr = (if addr = 0
                  then (case inet_pton ''10.0.0.31'' of Some a \<Rightarrow> a | None \<Rightarrow> addr) else addr);
          net = net\<lparr>net_node_id := ntohl addr AND 0xFF\<rparr>;
          net = (if net_node_id net = 0 then net\<lparr>net_node_id := 1\<rparr> else net);
          net = net\<lparr>net_sock_mcast :=
                  fst (open_mcast_socket (ne_mcast_fd env) (ne_mcast_bind_ok env) addr)\<rparr>
      in if net_sock_mcast net < 0 then (- 1, net)
         else
           let net = net\<lparr>net_sock_ucast :=
                       fst (open_ucast_socket (ne_ucast_fd env) (ne_ucast_bind_ok env) addr)\<rparr>
           in if net_sock_ucast net < 0 then (- 1, net\<lparr>net_sock_mcast := - 1\<rparr>)
              else (0, net))"

definition net_io_close :: "net_io \<Rightarrow> net_io" where
  "net_io_close net =
     (let net = (if 0 \<le> net_sock_mcast net then net\<lparr>net_sock_mcast := - 1\<rparr> else net)
      in if 0 \<le> net_sock_ucast net then net\<lparr>net_sock_ucast := - 1\<rparr> else net)"

definition net_set_leader :: "net_io \<Rightarrow> u32 \<Rightarrow> net_io" where
  "net_set_leader net leader_ip_be =
     net\<lparr>net_leader_addr := \<lparr>sin_port = htons DRS_PORT, sin_addr = leader_ip_be\<rparr>\<rparr>"

section \<open>Link recovery\<close>

text \<open>
  The carrier file as read (\<open>None\<close>: could not be opened), the interface list and the result of
  joining the group again; the static \<open>carrier_was_up\<close> is passed. The result is the return value,
  the new \<open>carrier_was_up\<close> and the options set on the multicast socket.
\<close>

definition net_check_recover ::
  "string \<Rightarrow> string option \<Rightarrow> ifaddr list option \<Rightarrow> bool \<Rightarrow> bool \<Rightarrow> int \<times> bool \<times> sockopt list" where
  "net_check_recover ifname carrier ifaddrs join_ok carrier_was_up =
     (case carrier of
        None \<Rightarrow> (- 1, carrier_was_up, [])
      | Some buf \<Rightarrow>
          let carrier_now = (buf \<noteq> [] \<and> hd buf = CHR ''1'');
              just_came_up = (\<not> carrier_was_up \<and> carrier_now)
          in if \<not> just_came_up then (0, carrier_now, [])
             else
               let iface_addr = get_iface_addr ifname ifaddrs
               in if iface_addr = 0 then (- 1, carrier_now, [])
                  else (if join_ok then 1 else - 1, carrier_now,
                        [IP_DROP_MEMBERSHIP mcast_group iface_addr,
                         IP_ADD_MEMBERSHIP mcast_group iface_addr]))"

section \<open>Sending and receiving\<close>

record datagram =
  dg_sock :: int
  dg_dst :: sockaddr_in
  dg_payload :: "u8 list"

text \<open>
  \<open>send_packet\<close> always encodes (\<open>proto_encode\<close> cannot fail), reads the clock just before
  \<open>sendto\<close> when a time stamp is asked for, and reports whether the kernel took the whole frame.
\<close>

definition send_packet ::
  "proto_ver \<Rightarrow> int \<Rightarrow> drs_packet \<Rightarrow> sockaddr_in \<Rightarrow> bool \<Rightarrow> int \<times> datagram" where
  "send_packet ver sock pkt dst sendto_ok =
     (if sendto_ok then 0 else - 1,
      \<lparr>dg_sock = sock, dg_dst = dst, dg_payload = proto_encode ver pkt\<rparr>)"

definition net_send_announce :: "proto_ver \<Rightarrow> net_io \<Rightarrow> drs_packet \<Rightarrow> bool \<Rightarrow> int \<times> datagram" where
  "net_send_announce ver net pkt sendto_ok =
     send_packet ver (net_sock_mcast net) pkt \<lparr>sin_port = htons DRS_PORT, sin_addr = mcast_group\<rparr> sendto_ok"

definition net_send_sync_req :: "proto_ver \<Rightarrow> net_io \<Rightarrow> drs_packet \<Rightarrow> bool \<Rightarrow> int \<times> datagram" where
  "net_send_sync_req ver net pkt sendto_ok =
     send_packet ver (net_sock_ucast net) pkt (net_leader_addr net) sendto_ok"

definition net_send_sync_resp ::
  "proto_ver \<Rightarrow> net_io \<Rightarrow> drs_packet \<Rightarrow> sockaddr_in \<Rightarrow> bool \<Rightarrow> int \<times> datagram" where
  "net_send_sync_resp ver net pkt dst sendto_ok =
     send_packet ver (net_sock_ucast net) pkt dst sendto_ok"

datatype recv_result = Recv_data "u8 list" sockaddr_in | Recv_would_block | Recv_error

text \<open>
  A datagram longer than the buffer is truncated by the kernel; a shorter one fills its first
  bytes. The result is the return value, the buffer and the sender.
\<close>

definition net_recv ::
  "proto_ver \<Rightarrow> recv_result \<Rightarrow> u8 list \<Rightarrow> sockaddr_in \<Rightarrow> int \<times> u8 list \<times> sockaddr_in" where
  "net_recv ver res buf src =
     (case res of
        Recv_would_block \<Rightarrow> (0, buf, src)
      | Recv_error \<Rightarrow> (- 1, buf, src)
      | Recv_data bytes from \<Rightarrow>
          let data = take (DRS_PAYLOAD_BYTES ver) bytes; n = length data
          in (if n \<noteq> DRS_PAYLOAD_BYTES ver then 0 else int n, data @ drop n buf, from))"

section \<open>Laws\<close>

lemma ipv4_fallback: "inet_pton ''10.0.0.31'' = Some 0x1F00000A"
  by (simp add: inet_pton_def octet_def ipv4_def)

lemma mcast_group_value: "mcast_group = 0x6458C0EF"
  by (simp add: mcast_group_def DRS_MCAST_GROUP_def inet_pton_def octet_def ipv4_def)

lemma and_FF_le: "x AND 0xFF \<le> (0xFF :: u32)"
  by (rule word_and_le1)

lemma ntohl_last_octet: "ntohl x AND 0xFF = drop_bit 24 x"
proof -
  have m: "(0xFF :: u32) = mask 8" "(0xFF00 :: u32) = push_bit 8 (mask 8)"
    "(0xFF0000 :: u32) = push_bit 16 (mask 8)"
    by (simp_all add: mask_eq_exp_minus_1 push_bit_eq_mult)
  show ?thesis
    unfolding ntohl_def m
    by (rule bit_word_eqI) (auto simp: bit_simps dest: bit_imp_le_length)
qed

lemma net_recv_frame:
  "length frame = DRS_PAYLOAD_BYTES ver \<Longrightarrow> length buf = DRS_PAYLOAD_BYTES ver \<Longrightarrow>
   net_recv ver (Recv_data (frame @ junk) src) buf src0 = (int (DRS_PAYLOAD_BYTES ver), frame, src)"
  by (simp add: net_recv_def Let_def)

section \<open>Properties\<close>

text \<open>
  \<open>net_io_init\<close>. Whatever the interface list, the node id is the last octet of the first
  routable address of the interface (or of 10.0.0.31), with 1 for 0, so always 1 to 255. It
  returns 0 exactly when both sockets were opened and bound; on failure no socket is left open.
\<close>

lemma net_io_init_correct:
  assumes "net_io_init env ifname = (rc, net)"
    and "addr = (let a = get_iface_addr ifname (ne_ifaddrs env) in if a = 0 then 0x1F00000A else a)"
  shows "net_node_id net = (if drop_bit 24 addr = 0 then 1 else drop_bit 24 addr) \<and>
    1 \<le> net_node_id net \<and> net_node_id net \<le> 255 \<and>
    (rc = 0 \<longleftrightarrow> 0 \<le> ne_mcast_fd env \<and> ne_mcast_bind_ok env \<and> 0 \<le> ne_ucast_fd env \<and> ne_ucast_bind_ok env) \<and>
    (rc = 0 \<longrightarrow> 0 \<le> net_sock_mcast net \<and> 0 \<le> net_sock_ucast net) \<and>
    (rc \<noteq> 0 \<longrightarrow> rc = - 1 \<and> net_sock_mcast net = - 1 \<and> net_sock_ucast net = - 1)"
proof -
  have id: "net_node_id net = (if drop_bit 24 addr = 0 then 1 else drop_bit 24 addr)"
    using assms by (auto simp: net_io_init_def Let_def ipv4_fallback ntohl_last_octet split: if_splits)
  moreover have "drop_bit 24 addr \<le> 255"
    using and_FF_le [of "ntohl addr"] by (simp add: ntohl_last_octet)
  moreover have "x \<noteq> 0 \<Longrightarrow> 1 \<le> x" for x :: u32
    by (simp add: word_le_nat_alt Suc_le_eq unat_gt_0)
  ultimately have "1 \<le> net_node_id net \<and> net_node_id net \<le> 255" by simp
  moreover have "(rc = 0 \<longleftrightarrow> 0 \<le> ne_mcast_fd env \<and> ne_mcast_bind_ok env \<and> 0 \<le> ne_ucast_fd env \<and>
      ne_ucast_bind_ok env) \<and>
    (rc = 0 \<longrightarrow> 0 \<le> net_sock_mcast net \<and> 0 \<le> net_sock_ucast net) \<and>
    (rc \<noteq> 0 \<longrightarrow> rc = - 1 \<and> net_sock_mcast net = - 1 \<and> net_sock_ucast net = - 1)"
    using assms(1)
    by (auto simp: net_io_init_def Let_def open_mcast_socket_def open_ucast_socket_def split: if_splits)
  ultimately show ?thesis using id by blast
qed

text \<open>
  C25: the wire round trip. A packet handed to any of the three send operations, received by
  \<open>net_recv\<close> and decoded, is the packet that was sent; bytes after the frame, which the kernel cuts
  off, change nothing; and a datagram shorter than a frame is reported as 0 and never decoded.
\<close>

theorem net_wire_round_trip:
  assumes "packet_ok pkt" "length buf = DRS_PAYLOAD_BYTES ver"
    and "dg \<in> {snd (net_send_announce ver net pkt ok), snd (net_send_sync_req ver net pkt ok),
               snd (net_send_sync_resp ver net pkt dst ok)}"
  shows "(\<exists>frame. net_recv ver (Recv_data (dg_payload dg @ junk) src) buf src0 =
        (int (DRS_PAYLOAD_BYTES ver), frame, src) \<and> proto_decode ver frame = Some pkt) \<and>
    (length short < DRS_PAYLOAD_BYTES ver \<longrightarrow> fst (net_recv ver (Recv_data short src) buf src0) = 0)"
proof -
  have "dg_payload dg = proto_encode ver pkt"
    using assms(3) by (auto simp: net_send_announce_def net_send_sync_req_def net_send_sync_resp_def
        send_packet_def)
  then have "net_recv ver (Recv_data (dg_payload dg @ junk) src) buf src0 =
      (int (DRS_PAYLOAD_BYTES ver), proto_encode ver pkt, src)"
    using assms(2) by (simp add: net_recv_frame)
  moreover have "proto_decode ver (proto_encode ver pkt) = Some pkt"
    using assms(1) by (simp add: proto_decode_eq frame_ok_encode frame_fields_encode)
  ultimately show ?thesis by (simp add: net_recv_def Let_def)
qed

theorem net_wire_round_trip_witness:
  "let net = \<lparr>net_sock_mcast = 4, net_sock_ucast = 5, net_node_id = 42,
              net_leader_addr = \<lparr>sin_port = 0, sin_addr = 0\<rparr>\<rparr>;
       pkt = \<lparr>pkt_msg_type = 1, pkt_flags = 5, pkt_seq = 3, pkt_node_id = 42, pkt_election_term = 2,
              pkt_t1 = 0, pkt_t2 = 0, pkt_t3 = 0, pkt_t4 = 0\<rparr>;
       dg = snd (net_send_announce PROTO_V2 net pkt True)
   in \<exists>frame. net_recv PROTO_V2 (Recv_data (dg_payload dg @ [1, 2]) \<lparr>sin_port = 1, sin_addr = 2\<rparr>)
          (replicate 64 0) \<lparr>sin_port = 0, sin_addr = 0\<rparr> = (64, frame, \<lparr>sin_port = 1, sin_addr = 2\<rparr>) \<and>
        proto_decode PROTO_V2 frame = Some pkt"
  unfolding Let_def
  using net_wire_round_trip [of "\<lparr>pkt_msg_type = 1, pkt_flags = 5, pkt_seq = 3, pkt_node_id = 42,
      pkt_election_term = 2, pkt_t1 = 0, pkt_t2 = 0, pkt_t3 = 0, pkt_t4 = 0\<rparr>" "replicate 64 0" PROTO_V2
      _ "\<lparr>net_sock_mcast = 4, net_sock_ucast = 5, net_node_id = 42,
          net_leader_addr = \<lparr>sin_port = 0, sin_addr = 0\<rparr>\<rparr>" True "\<lparr>sin_port = 0, sin_addr = 0\<rparr>"
      "[1, 2]" "\<lparr>sin_port = 1, sin_addr = 2\<rparr>" "\<lparr>sin_port = 0, sin_addr = 0\<rparr>" "[]", OF _ _ insertI1]
  by (simp add: packet_ok_def in_i64_def)

end
