(* ===== verification/Calibrate.thy ===== *)
theory Calibrate
  imports Net_Io Vclock
begin

text \<open>
  Loopback latency calibration, \<open>src/calibrate.c\<close>. The kernel's part (sockets, and for each round
  the clock before sending, whether \<open>sendto\<close> took the datagram, what \<open>recvfrom\<close> returned, and the
  clock after it) is the record \<open>calib_env\<close>.
\<close>

section \<open>The code\<close>

definition MIN_VALID_SAMPLES :: nat where
  "MIN_VALID_SAMPLES = 10"

datatype calib_recv = Calib_received | Calib_retry_error | Calib_fatal_error

record calib_round =
  cr_t_send :: timespec
  cr_sent :: bool
  cr_recv :: calib_recv
  cr_t_recv :: timespec

record calib_env =
  ce_srv_fd :: int
  ce_bind_ok :: bool
  ce_cli_fd :: int
  ce_rounds :: "nat \<Rightarrow> calib_round"

text \<open>
  The sampling loop; \<open>fuel\<close> is the number of rounds left, \<open>DRS_CALIB_SAMPLES - i\<close>. \<open>EAGAIN\<close>,
  \<open>EWOULDBLOCK\<close> and \<open>EINTR\<close> (\<open>Calib_retry_error\<close>) go on, other errors end the loop.
\<close>

fun calib_collect :: "(nat \<Rightarrow> calib_round) \<Rightarrow> nat \<Rightarrow> nat \<Rightarrow> i64 list \<Rightarrow> i64 list" where
  "calib_collect rounds i 0 samples = samples"
| "calib_collect rounds i (Suc fuel) samples =
     (if length samples < DRS_CALIB_SAMPLES
      then
        (if \<not> cr_sent (rounds i) then calib_collect rounds (Suc i) fuel samples
         else case cr_recv (rounds i) of
                Calib_retry_error \<Rightarrow> calib_collect rounds (Suc i) fuel samples
              | Calib_fatal_error \<Rightarrow> samples
              | Calib_received \<Rightarrow>
                  calib_collect rounds (Suc i) fuel
                    (samples @ [s64 (timespec_ns (cr_t_recv (rounds i)) - timespec_ns (cr_t_send (rounds i)))]))
      else samples)"

definition calib_min :: "i64 list \<Rightarrow> i64" where
  "calib_min samples = fold (\<lambda>s mn. if s < mn then s else mn) (tl samples) (hd samples)"

text \<open>The second pass: the smallest sample within the bound, and how many there are.\<close>

definition calib_valid :: "i64 \<Rightarrow> i64 list \<Rightarrow> i64 \<times> nat" where
  "calib_valid mn samples =
     fold (\<lambda>s (valid_min, valid_count).
       if s \<le> s64 (mn + DRS_CALIB_OUTLIER_NS)
       then (if s < valid_min then s else valid_min, valid_count + 1)
       else (valid_min, valid_count)) samples (INT64_MAX, 0)"

definition calibrate_loopback :: "calib_env \<Rightarrow> vclock \<Rightarrow> int \<times> vclock" where
  "calibrate_loopback env vc =
     (if ce_srv_fd env < 0 then (- 1, vc)
      else if \<not> ce_bind_ok env then (- 1, vc)
      else if ce_cli_fd env < 0 then (- 1, vc)
      else
        let samples = calib_collect (ce_rounds env) 0 DRS_CALIB_SAMPLES []
        in if length samples < MIN_VALID_SAMPLES then (- 1, vc)
           else
             let mn = calib_min samples;
                 (valid_min, valid_count) = calib_valid mn samples
             in if valid_count < MIN_VALID_SAMPLES then (- 1, vc)
                else (0, vclock_set_lat_corr vc (c_div64 valid_min 2)))"

section \<open>Laws\<close>

lemma calib_collect_in_i64:
  "\<forall>s \<in> set samples. in_i64 s \<Longrightarrow> \<forall>s \<in> set (calib_collect rounds i fuel samples). in_i64 s"
  by (induction rounds i fuel samples rule: calib_collect.induct) (auto split: calib_recv.splits)

lemma calib_collect_length:
  "length samples \<le> DRS_CALIB_SAMPLES \<Longrightarrow> length (calib_collect rounds i fuel samples) \<le> DRS_CALIB_SAMPLES"
  by (induction rounds i fuel samples rule: calib_collect.induct) (auto split: calib_recv.splits)

lemma calib_min_Min: "samples \<noteq> [] \<Longrightarrow> calib_min samples = Min (set samples)"
proof -
  assume "samples \<noteq> []"
  then obtain x xs where s: "samples = x # xs" by (cases samples) auto
  have "fold (\<lambda>s mn. if s < mn then s else mn) xs x = fold min xs x"
    by (intro fold_cong) (auto simp: min_def)
  then show ?thesis using Min.set_eq_fold [of x xs] by (simp add: s calib_min_def)
qed

lemma calib_valid_fold:
  assumes "\<forall>s \<in> set samples. s \<le> INT64_MAX"
  shows "fold (\<lambda>s (v, n). if s \<le> b then (if s < v then s else v, n + 1) else (v, n)) samples (v0, n0) =
    (fold min (filter (\<lambda>s. s \<le> b) samples) v0, n0 + length (filter (\<lambda>s. s \<le> b) samples))"
  using assms
proof (induction samples arbitrary: v0 n0)
  case (Cons s samples)
  then show ?case by (simp add: min_def not_less)
qed simp

lemma calib_valid_correct:
  assumes "samples \<noteq> []" "\<forall>s \<in> set samples. in_i64 s" "Min (set samples) \<le> INT64_MAX - 20000"
  shows "calib_valid (Min (set samples)) samples =
    (Min (set samples), length (filter (\<lambda>s. s \<le> Min (set samples) + 20000) samples))"
proof -
  let ?mn = "Min (set samples)"
  let ?ok = "filter (\<lambda>s. s \<le> ?mn + 20000) samples"
  have mn: "?mn \<in> set samples" using assms(1) by simp
  have le: "\<forall>s \<in> set samples. s \<le> INT64_MAX" using assms(2) by (simp add: in_i64_le_MAX)
  have b: "s64 (?mn + DRS_CALIB_OUTLIER_NS) = ?mn + 20000"
    using mn assms(2,3) by (subst s64_id) (auto simp: in_i64_def INT64_MAX_def drs_const)
  have "fold min ?ok INT64_MAX = Min (insert INT64_MAX (set ?ok))"
    using Min.set_eq_fold [of INT64_MAX ?ok] by simp
  also have "\<dots> = ?mn"
    using mn le assms(1) by (intro Min_eqI) auto
  finally show ?thesis
    using calib_valid_fold [OF le, of "?mn + 20000" INT64_MAX 0] by (simp add: calib_valid_def b)
qed

section \<open>Properties\<close>

text \<open>
  C32: \<open>calibrate_loopback\<close> on every outcome. It succeeds exactly when the sockets could be opened
  and at least ten of the at most fifty samples lie within 20 us of the smallest; it then sets the
  latency correction to half the smallest sample (rounded towards zero) and changes nothing else
  of the clock's mapping; otherwise it returns -1 and leaves the clock alone. The samples are
  assumed to stay 20 us below the largest \<open>int64_t\<close>.
\<close>

theorem calibrate_loopback_correct:
  assumes "samples = calib_collect (ce_rounds env) 0 DRS_CALIB_SAMPLES []"
    and "samples \<noteq> [] \<longrightarrow> Min (set samples) \<le> INT64_MAX - 20000"
    and "ok = (0 \<le> ce_srv_fd env \<and> ce_bind_ok env \<and> 0 \<le> ce_cli_fd env \<and>
        10 \<le> length (filter (\<lambda>s. s \<le> Min (set samples) + 20000) samples))"
  shows "length samples \<le> 50 \<and>
    calibrate_loopback env vc =
      (if ok then (0, vc\<lparr>vc_seq := vc_seq vc + 2, vc_lat_corr_ns := Min (set samples) sdiv 2\<rparr>)
       else (- 1, vc))"
proof -
  have len: "length samples \<le> 50"
    using calib_collect_length [of "[]" "ce_rounds env" 0 DRS_CALIB_SAMPLES] assms(1) by (simp add: drs_const)
  have i64: "\<forall>s \<in> set samples. in_i64 s"
    using calib_collect_in_i64 [of "[]" "ce_rounds env" 0 DRS_CALIB_SAMPLES] assms(1) by simp
  show ?thesis
  proof (cases "samples = []")
    case True
    then show ?thesis
      using len assms(1,3) by (auto simp: calibrate_loopback_def MIN_VALID_SAMPLES_def)
  next
    case False
    have few: "10 \<le> length (filter P samples) \<Longrightarrow> 10 \<le> length samples" for P
      using length_filter_le [of P samples] by linarith
    have "in_i64 (Min (set samples))" using False i64 by simp
    then have "c_div64 (Min (set samples)) 2 = Min (set samples) sdiv 2"
      by (intro c_div64_sdiv) auto
    then have set: "vclock_set_lat_corr vc (c_div64 (Min (set samples)) 2) =
        vc\<lparr>vc_seq := vc_seq vc + 2, vc_lat_corr_ns := Min (set samples) sdiv 2\<rparr>"
      by (simp add: vclock_ops)
    have "calibrate_loopback env vc =
      (if 0 \<le> ce_srv_fd env \<and> ce_bind_ok env \<and> 0 \<le> ce_cli_fd env \<and> 10 \<le> length samples \<and>
          10 \<le> length (filter (\<lambda>s. s \<le> Min (set samples) + 20000) samples)
       then (0, vclock_set_lat_corr vc (c_div64 (Min (set samples)) 2)) else (- 1, vc))"
      using False assms(2) i64
      by (simp add: calibrate_loopback_def assms(1) [symmetric] Let_def calib_min_Min calib_valid_correct
          MIN_VALID_SAMPLES_def not_less)
    then show ?thesis
      using len few [of "\<lambda>s. s \<le> Min (set samples) + 20000"] assms(3) set by auto
  qed
qed

lemma calib_collect_steady:
  "cr_sent r \<Longrightarrow> cr_recv r = Calib_received \<Longrightarrow> length samples + n \<le> DRS_CALIB_SAMPLES \<Longrightarrow>
   calib_collect (\<lambda>_. r) i n samples =
     samples @ replicate n (s64 (timespec_ns (cr_t_recv r) - timespec_ns (cr_t_send r)))"
  by (induction n arbitrary: i samples) auto

theorem calibrate_loopback_correct_witness:
  "calibrate_loopback
     \<lparr>ce_srv_fd = 6, ce_bind_ok = True, ce_cli_fd = 7, ce_rounds = \<lambda>_.
       \<lparr>cr_t_send = \<lparr>tv_sec = 5, tv_nsec = 999990000\<rparr>, cr_sent = True, cr_recv = Calib_received,
        cr_t_recv = \<lparr>tv_sec = 6, tv_nsec = 20001\<rparr>\<rparr>\<rparr> (vclock_init 0) =
   (0, (vclock_init 0)\<lparr>vc_seq := 2, vc_lat_corr_ns := 15000\<rparr>)"
proof -
  let ?r = "\<lparr>cr_t_send = \<lparr>tv_sec = 5, tv_nsec = 999990000\<rparr>, cr_sent = True, cr_recv = Calib_received,
    cr_t_recv = \<lparr>tv_sec = 6, tv_nsec = 20001\<rparr>\<rparr>"
  let ?env = "\<lparr>ce_srv_fd = 6, ce_bind_ok = True, ce_cli_fd = 7, ce_rounds = \<lambda>_. ?r\<rparr>"
  have s: "calib_collect (ce_rounds ?env) 0 DRS_CALIB_SAMPLES [] = replicate 50 30001"
    using calib_collect_steady [of ?r "[]" DRS_CALIB_SAMPLES 0]
    by (simp add: timespec_ns_def s64_def DRS_CALIB_SAMPLES_def)
  show ?thesis
    using calibrate_loopback_correct [OF s [symmetric] _ refl, of "vclock_init 0"]
    by (simp add: INT64_MAX_def vclock_init_def signed_divide_int_def)
qed

end
