(* ===== verification/Gpio.thy ===== *)
theory Gpio
  imports DRS_Config
begin

text \<open>
  The GPIO driver, \<open>src/gpio_bcm2711.c\<close>: the registers of the mapped page, and the sequence of
  stores made to them. What a store to the set and clear registers does to a pin is the hardware's
  documented behaviour (a one bit drives the pin, a zero bit leaves it alone) and is read off the
  sequence of stores by \<open>pin_level\<close>.
\<close>

section \<open>The code\<close>

definition GPSET0_OFFSET :: nat where
  "GPSET0_OFFSET = 7"

definition GPCLR0_OFFSET :: nat where
  "GPCLR0_OFFSET = 10"

definition FSEL_OUTPUT :: u32 where
  "FSEL_OUTPUT = 0x1"

record gpio_globals =
  gg_gpio :: "u32 list option"
  gg_fd :: int
  gg_stores :: "(nat \<times> u32) list"

definition reg_store :: "nat \<Rightarrow> u32 \<Rightarrow> gpio_globals \<Rightarrow> gpio_globals" where
  "reg_store off v g =
     (case gg_gpio g of
        None \<Rightarrow> g
      | Some regs \<Rightarrow> g\<lparr>gg_gpio := Some (regs[off := v]), gg_stores := gg_stores g @ [(off, v)]\<rparr>)"

definition fsel_value :: "nat \<Rightarrow> u32 \<Rightarrow> u32" where
  "fsel_value pin v =
     (let shift = (pin mod 10) * 3;
          v = v AND NOT (push_bit shift 0x7)
      in v OR push_bit shift FSEL_OUTPUT)"

definition fsel_output :: "nat \<Rightarrow> gpio_globals \<Rightarrow> gpio_globals" where
  "fsel_output pin g =
     (case gg_gpio g of
        None \<Rightarrow> g
      | Some regs \<Rightarrow> (let reg = pin div 10 in reg_store reg (fsel_value pin (regs ! reg)) g))"

definition both_pins :: u32 where
  "both_pins = push_bit DRS_GPIO_PULSE_PIN 1 OR push_bit DRS_GPIO_HEALTH_PIN 1"

text \<open>The page as found when it is mapped, or \<open>None\<close> when \<open>mmap\<close> failed.\<close>

definition gpio_init :: "int \<Rightarrow> u32 list option \<Rightarrow> gpio_globals \<Rightarrow> int \<times> gpio_globals" where
  "gpio_init open_fd page g =
     (let g = g\<lparr>gg_fd := open_fd\<rparr>
      in if gg_fd g < 0 then (- 1, g)
         else case page of
                None \<Rightarrow> (- 1, g\<lparr>gg_fd := - 1\<rparr>)
              | Some regs \<Rightarrow>
                  let g = g\<lparr>gg_gpio := Some regs\<rparr>;
                      g = fsel_output DRS_GPIO_PULSE_PIN g;
                      g = fsel_output DRS_GPIO_HEALTH_PIN g
                  in (0, reg_store GPCLR0_OFFSET both_pins g))"

definition gpio_close :: "gpio_globals \<Rightarrow> gpio_globals" where
  "gpio_close g =
     (let g = (case gg_gpio g of
                 None \<Rightarrow> g
               | Some _ \<Rightarrow> (reg_store GPCLR0_OFFSET both_pins g)\<lparr>gg_gpio := None\<rparr>)
      in if 0 \<le> gg_fd g then g\<lparr>gg_fd := - 1\<rparr> else g)"

definition gpio_set :: "nat \<Rightarrow> gpio_globals \<Rightarrow> gpio_globals" where
  "gpio_set pin g = reg_store GPSET0_OFFSET (push_bit pin 1) g"

definition gpio_clear :: "nat \<Rightarrow> gpio_globals \<Rightarrow> gpio_globals" where
  "gpio_clear pin g = reg_store GPCLR0_OFFSET (push_bit pin 1) g"

section \<open>Pins\<close>

text \<open>The level of an output pin after a sequence of stores, \<open>None\<close> while it was never driven.\<close>

definition drive :: "nat \<Rightarrow> nat \<times> u32 \<Rightarrow> bool option \<Rightarrow> bool option" where
  "drive pin st l =
     (if fst st = GPSET0_OFFSET \<and> bit (snd st) pin then Some True
      else if fst st = GPCLR0_OFFSET \<and> bit (snd st) pin then Some False else l)"

definition pin_level :: "nat \<Rightarrow> gpio_globals \<Rightarrow> bool option" where
  "pin_level pin g = fold (drive pin) (gg_stores g) None"

text \<open>The three function-select bits of a pin.\<close>

definition pin_function :: "nat \<Rightarrow> u32 list \<Rightarrow> u32" where
  "pin_function pin regs = drop_bit ((pin mod 10) * 3) (regs ! (pin div 10)) AND 0x7"

lemmas gpio_consts = GPSET0_OFFSET_def GPCLR0_OFFSET_def DRS_GPIO_PULSE_PIN_def DRS_GPIO_HEALTH_PIN_def

lemma gg_gpio_reg_store [simp]:
  "gg_gpio (reg_store off v g) = map_option (\<lambda>regs. regs[off := v]) (gg_gpio g)"
  "gg_fd (reg_store off v g) = gg_fd g"
  by (simp_all add: reg_store_def split: option.split)

lemma pin_level_reg_store:
  "gg_gpio g \<noteq> None \<Longrightarrow> pin_level pin (reg_store off v g) = drive pin (off, v) (pin_level pin g)"
  by (auto simp: pin_level_def reg_store_def)

lemma bit_push_bit_1: "p < 32 \<Longrightarrow> bit (2 ^ p :: u32) q \<longleftrightarrow> q = p"
  by (auto simp: bit_simps)

lemma pin_level_set:
  "gg_gpio g \<noteq> None \<Longrightarrow> p < 32 \<Longrightarrow> pin_level q (gpio_set p g) = (if q = p then Some True else pin_level q g)"
  by (simp add: gpio_set_def pin_level_reg_store drive_def bit_push_bit_1 gpio_consts)

lemma pin_level_clear:
  "gg_gpio g \<noteq> None \<Longrightarrow> p < 32 \<Longrightarrow> pin_level q (gpio_clear p g) = (if q = p then Some False else pin_level q g)"
  by (simp add: gpio_clear_def pin_level_reg_store drive_def bit_push_bit_1 gpio_consts)

lemma gpio_unmapped: "gg_gpio g = None \<Longrightarrow> gpio_set p g = g \<and> gpio_clear p g = g"
  by (simp add: gpio_set_def gpio_clear_def reg_store_def)

lemma fsel_value_field:
  assumes "p < 10" "q < 10"
  shows "drop_bit (q * 3) (fsel_value p v) AND 0x7 = (if q = p then 1 else drop_bit (q * 3) v AND 0x7)"
proof (rule bit_word_eqI)
  fix n assume "n < LENGTH(32)"
  have neq: "n < 3 \<Longrightarrow> q \<noteq> p \<Longrightarrow> \<not> (p * 3 \<le> q * 3 + n \<and> q * 3 + n - p * 3 < 3)" by arith
  have hi: "n < 3 \<Longrightarrow> q * 3 + n < 32" using assms by arith
  have m: "(0x7 :: u32) = mask 3" by (simp add: mask_eq_exp_minus_1)
  show "bit (drop_bit (q * 3) (fsel_value p v) AND 0x7) n =
      bit (if q = p then 1 else drop_bit (q * 3) v AND 0x7) n"
    unfolding fsel_value_def Let_def FSEL_OUTPUT_def m
    using assms neq hi by (cases "n < 3"; cases "q = p") (auto simp: bit_simps bit_1_iff)
qed

lemma fsel_output_regs:
  "gg_gpio g = Some regs \<Longrightarrow>
   gg_gpio (fsel_output p g) = Some (regs[p div 10 := fsel_value p (regs ! (p div 10))])"
  by (simp add: fsel_output_def Let_def)

lemma fsel_value_mod: "fsel_value p v = fsel_value (p mod 10) v"
  by (simp add: fsel_value_def)

lemma pin_function_fsel:
  assumes "p div 10 < length regs" "q div 10 < length regs"
  shows "pin_function q (regs[p div 10 := fsel_value p (regs ! (p div 10))]) =
    (if q = p then 1 else pin_function q regs)"
proof (cases "q div 10 = p div 10")
  case True
  have "q = p \<longleftrightarrow> q mod 10 = p mod 10" using True by (metis div_mod_decomp)
  then show ?thesis
    using True assms fsel_value_field [of "p mod 10" "q mod 10" "regs ! (p div 10)"]
    by (simp add: pin_function_def fsel_value_mod [of p])
next
  case False
  then have "q \<noteq> p" by auto
  with False show ?thesis by (simp add: pin_function_def)
qed

section \<open>Properties\<close>

text \<open>
  A successful \<open>gpio_init\<close> makes the pulse and the health pin outputs, leaves the function of
  every other of the first 30 pins as it was, and drives both pins low; afterwards \<open>gpio_set\<close> and
  \<open>gpio_clear\<close> drive their own pin and no other. Without the mapping both do nothing.
\<close>

lemma gpio_driver_correct:
  assumes "gpio_init fd (Some page) g = (0, g')" "length page = 1024" "0 \<le> fd" "q < 30" "p < 32"
  shows "\<exists>regs. gg_gpio g' = Some regs \<and>
      pin_function q regs = (if q = 18 \<or> q = 23 then 1 else pin_function q page) \<and>
      pin_level 18 g' = Some False \<and> pin_level 23 g' = Some False \<and>
      pin_level q (gpio_set p g') = (if q = p then Some True else pin_level q g') \<and>
      pin_level q (gpio_clear p g') = (if q = p then Some False else pin_level q g') \<and>
      (\<forall>g0. gg_gpio g0 = None \<longrightarrow> gpio_set p g0 = g0 \<and> gpio_clear p g0 = g0)"
proof -
  define r1 where "r1 = page[18 div 10 := fsel_value 18 (page ! (18 div 10))]"
  define r2 where "r2 = r1[23 div 10 := fsel_value 23 (r1 ! (23 div 10))]"
  let ?g1 = "fsel_output 18 (g\<lparr>gg_fd := fd, gg_gpio := Some page\<rparr>)"
  let ?g2 = "fsel_output 23 ?g1"
  have g': "g' = reg_store 10 both_pins ?g2"
    using assms(1,3) by (simp add: gpio_init_def Let_def gpio_consts)
  have "gg_gpio ?g1 = Some r1"
    using fsel_output_regs [of "g\<lparr>gg_fd := fd, gg_gpio := Some page\<rparr>" page 18] by (simp add: r1_def)
  then have g2: "gg_gpio ?g2 = Some r2"
    using fsel_output_regs [of ?g1 r1 23] by (simp add: r2_def)
  have len: "length r1 = 1024" "length r2 = 1024" using assms(2) by (simp_all add: r1_def r2_def)
  have q: "q div 10 < 1024" "q div 10 \<noteq> 10" using assms(4) by auto
  have "pin_function q (r2[10 := both_pins]) = pin_function q r2"
    using q by (simp add: pin_function_def)
  also have "\<dots> = (if q = 18 \<or> q = 23 then 1 else pin_function q page)"
    using pin_function_fsel [of 23 r1 q] pin_function_fsel [of 18 page q] q len assms(2)
    unfolding r2_def [symmetric] r1_def [symmetric] by (cases "q = 18") simp_all
  finally have fn: "pin_function q (r2[10 := both_pins]) =
      (if q = 18 \<or> q = 23 then 1 else pin_function q page)" .
  have lv: "pin_level n g' = Some False" if "n = 18 \<or> n = 23" for n
    using g2 that by (auto simp: g' pin_level_reg_store drive_def gpio_consts both_pins_def bit_simps)
  show ?thesis
    using g2 fn lv pin_level_set [of g' p q] pin_level_clear [of g' p q] assms(5) gpio_unmapped
    by (auto simp: g')
qed

end
