(* ===== verification/Pulse_Engine.thy ===== *)
theory Pulse_Engine
  imports Calibrate Gpio
begin

text \<open>
  The pulse engine, \<open>src/pulse_engine.c\<close>: one rising edge per virtual second on the pulse pin, made
  by a thread of its own, and the health pin. Successive readings of \<open>CLOCK_MONOTONIC_RAW\<close> and
  \<open>CLOCK_MONOTONIC\<close> are functions \<open>raw\<close> and \<open>mclk\<close> of the number of readings taken before, which
  every operation takes and returns. The kernel's two timers are part of the engine's state.
\<close>

section \<open>The code\<close>

definition BUSY_WAIT_NS :: i64 where
  "BUSY_WAIT_NS = 300000"

record pulse_engine =
  pe_timer_fd :: int
  pe_pulse_low_fd :: int
  pe_pulse_count :: u32
  pe_stable :: bool
  pe_stable_since_ns :: i64
  pe_vc :: bool
  pe_thread_started :: bool
  pe_stop :: bool
  pe_rise_target_raw_ns :: i64
  pe_timer_at :: "timespec option"
  pe_pulse_low_at :: "timespec option"

type_synonym clock = "nat \<Rightarrow> timespec"

text \<open>The value \<open>arm_timerfd_abs\<close> hands to \<open>timerfd_settime\<close>.\<close>

definition arm_timerfd_abs :: "i64 \<Rightarrow> timespec" where
  "arm_timerfd_abs abs_mono_ns =
     \<lparr>tv_sec = c_div64 abs_mono_ns 1000000000, tv_nsec = abs_mono_ns smod 1000000000\<rparr>"

definition mono_ns :: "timespec \<Rightarrow> i64" where
  "mono_ns ts = timespec_ns ts"

definition raw_to_mono :: "i64 \<Rightarrow> timespec \<Rightarrow> timespec \<Rightarrow> i64" where
  "raw_to_mono raw_ns ts_m ts_r =
     (let mono_now = timespec_ns ts_m; raw_now = timespec_ns ts_r
      in s64 (raw_ns + s64 (mono_now - raw_now)))"

definition next_second :: "i64 \<Rightarrow> i64" where
  "next_second t_global_now =
     s64 (s64 (c_div64 (s64 (t_global_now + 1000000)) DRS_PULSE_PERIOD_NS + 1) * DRS_PULSE_PERIOD_NS)"

definition next_rise_raw :: "vclock \<Rightarrow> i64 \<Rightarrow> i64" where
  "next_rise_raw vc t_raw_now =
     (let t_global_now = vclock_now vc t_raw_now;
          t_next_global = next_second t_global_now
      in vclock_local_for_global vc t_next_global)"

text \<open>The spin on the raw clock: the number of readings taken when it ends, if it does.\<close>

partial_function (option) busy_wait :: "clock \<Rightarrow> i64 \<Rightarrow> nat \<Rightarrow> nat option" where
  "busy_wait raw target n =
     (if mono_raw_ns (raw n) < target then busy_wait raw target (Suc n) else Some (Suc n))"

definition pulse_engine_arm ::
  "clock \<Rightarrow> clock \<Rightarrow> vclock \<Rightarrow> pulse_engine \<times> nat \<times> nat \<Rightarrow> pulse_engine \<times> nat \<times> nat" where
  "pulse_engine_arm raw mclk vc s =
     (case s of (pe, rn, mn) \<Rightarrow>
        let t_next_raw = next_rise_raw vc (mono_raw_ns (raw rn));
            pe = pe\<lparr>pe_rise_target_raw_ns := t_next_raw\<rparr>;
            at = raw_to_mono (s64 (t_next_raw - BUSY_WAIT_NS)) (mclk mn) (raw (rn + 1))
        in (pe\<lparr>pe_timer_at := Some (arm_timerfd_abs at)\<rparr>, rn + 2, mn + 1))"

text \<open>The rising edge; a timer that has been read is disarmed, since it is not periodic.\<close>

definition pulse_rise ::
  "clock \<Rightarrow> clock \<Rightarrow> (pulse_engine \<times> nat \<times> nat) \<times> gpio_globals \<Rightarrow>
   ((pulse_engine \<times> nat \<times> nat) \<times> gpio_globals) option" where
  "pulse_rise raw mclk s =
     (case s of ((pe, rn, mn), g) \<Rightarrow>
        let pe = pe\<lparr>pe_timer_at := None\<rparr>; target = pe_rise_target_raw_ns pe
        in case busy_wait raw target rn of
             None \<Rightarrow> None
           | Some rn \<Rightarrow>
               let g = gpio_set DRS_GPIO_PULSE_PIN g;
                   pe = pe\<lparr>pe_pulse_count := pe_pulse_count pe + 1\<rparr>;
                   at = s64 (mono_ns (mclk mn) + DRS_PULSE_HIGH_DURATION_NS)
               in Some ((pe\<lparr>pe_pulse_low_at := Some (arm_timerfd_abs at)\<rparr>, rn, mn + 1), g))"

definition pulse_fall ::
  "clock \<Rightarrow> clock \<Rightarrow> vclock \<Rightarrow> (pulse_engine \<times> nat \<times> nat) \<times> gpio_globals \<Rightarrow>
   (pulse_engine \<times> nat \<times> nat) \<times> gpio_globals" where
  "pulse_fall raw mclk vc s =
     (case s of ((pe, rn, mn), g) \<Rightarrow>
        let pe = pe\<lparr>pe_pulse_low_at := None\<rparr>;
            g = gpio_clear DRS_GPIO_PULSE_PIN g
        in (if pe_vc pe then pulse_engine_arm raw mclk vc (pe, rn, mn) else (pe, rn, mn), g))"

text \<open>
  One round of the thread's loop: \<open>poll\<close> returned \<open>r\<close> with the two \<open>POLLIN\<close> flags. The thread ends
  when \<open>stop\<close> is set, before or after \<open>poll\<close>.
\<close>

definition pulse_thread_round ::
  "clock \<Rightarrow> clock \<Rightarrow> vclock \<Rightarrow> int \<Rightarrow> bool \<Rightarrow> bool \<Rightarrow> (pulse_engine \<times> nat \<times> nat) \<times> gpio_globals \<Rightarrow>
   ((pulse_engine \<times> nat \<times> nat) \<times> gpio_globals) option" where
  "pulse_thread_round raw mclk vc r in0 in1 s =
     (if pe_stop (fst (fst s)) then Some s
      else if r \<le> 0 then Some s
      else
        case (if in0 then pulse_rise raw mclk s else Some s) of
          None \<Rightarrow> None
        | Some s \<Rightarrow> Some (if in1 then pulse_fall raw mclk vc s else s))"

definition pulse_engine_zero :: pulse_engine where
  "pulse_engine_zero = \<lparr>pe_timer_fd = 0, pe_pulse_low_fd = 0, pe_pulse_count = 0, pe_stable = False,
     pe_stable_since_ns = 0, pe_vc = False, pe_thread_started = False, pe_stop = False,
     pe_rise_target_raw_ns = 0, pe_timer_at = None, pe_pulse_low_at = None\<rparr>"

definition pulse_engine_init :: "int \<Rightarrow> int \<Rightarrow> int \<times> pulse_engine" where
  "pulse_engine_init fd_timer fd_low =
     (let pe = pulse_engine_zero\<lparr>pe_timer_fd := fd_timer\<rparr>
      in if pe_timer_fd pe < 0 then (- 1, pe)
         else
           let pe = pe\<lparr>pe_pulse_low_fd := fd_low\<rparr>
           in if pe_pulse_low_fd pe < 0 then (- 1, pe\<lparr>pe_timer_fd := - 1\<rparr>) else (0, pe))"

definition pulse_engine_start :: "bool \<Rightarrow> pulse_engine \<Rightarrow> int \<times> pulse_engine" where
  "pulse_engine_start create_ok pe =
     (let pe = pe\<lparr>pe_vc := True, pe_stop := False\<rparr>
      in if \<not> create_ok then (- 1, pe) else (0, pe\<lparr>pe_thread_started := True\<rparr>))"

definition pulse_close_fds :: "pulse_engine \<Rightarrow> pulse_engine" where
  "pulse_close_fds pe =
     (let pe = (if 0 \<le> pe_timer_fd pe then pe\<lparr>pe_timer_fd := - 1, pe_timer_at := None\<rparr> else pe)
      in if 0 \<le> pe_pulse_low_fd pe then pe\<lparr>pe_pulse_low_fd := - 1, pe_pulse_low_at := None\<rparr> else pe)"

definition pulse_engine_close :: "pulse_engine \<Rightarrow> pulse_engine" where
  "pulse_engine_close pe =
     (if pe_thread_started pe
      then (pulse_close_fds (pe\<lparr>pe_stop := True\<rparr>))\<lparr>pe_thread_started := False\<rparr>
      else pulse_close_fds pe)"

definition pulse_engine_update_health ::
  "clock \<Rightarrow> i64 \<Rightarrow> bool \<Rightarrow> pulse_engine \<times> gpio_globals \<times> nat \<Rightarrow> pulse_engine \<times> gpio_globals \<times> nat" where
  "pulse_engine_update_health raw offset_ns in_holdover s =
     (case s of (pe, g, rn) \<Rightarrow>
        if in_holdover
        then (pe\<lparr>pe_stable := False, pe_stable_since_ns := 0\<rparr>, gpio_set DRS_GPIO_HEALTH_PIN g, rn)
        else if c_abs64 offset_ns < DRS_STABLE_OFFSET_THRESH_NS
        then
          let (pe, rn) = (if \<not> pe_stable pe
                then (pe\<lparr>pe_stable := True, pe_stable_since_ns := mono_raw_ns (raw rn)\<rparr>, rn + 1)
                else (pe, rn));
              stable_duration = s64 (mono_raw_ns (raw rn) - pe_stable_since_ns pe);
              rn = rn + 1
          in (pe, if DRS_STABLE_WINDOW_NS \<le> stable_duration
                  then gpio_clear DRS_GPIO_HEALTH_PIN g else g, rn)
        else (pe\<lparr>pe_stable := False, pe_stable_since_ns := 0\<rparr>, gpio_set DRS_GPIO_HEALTH_PIN g, rn))"

section \<open>The next second\<close>

lemma next_second_exact:
  assumes "0 \<le> t + 1000000" "t \<le> 4000000000000000000"
  shows "next_second t = ((t + 1000000) div 1000000000 + 1) * 1000000000 \<and>
    t + 1000000 < next_second t \<and> next_second t \<le> t + 1000000 + 1000000000"
proof -
  let ?u = "t + 1000000"
  have u: "s64 ?u = ?u" using assms by (intro s64_id) (simp add: in_i64_def)
  have "in_i64 ?u" using assms by (simp add: in_i64_def)
  then have d: "c_div64 ?u 1000000000 = ?u div 1000000000"
    using assms by (simp add: c_div64_sdiv sdiv_nonneg_eq)
  have q: "0 \<le> ?u div 1000000000" "?u div 1000000000 \<le> 4000000001" using assms by linarith+
  have s: "s64 (?u div 1000000000 + 1) = ?u div 1000000000 + 1"
    using q by (intro s64_id) (simp add: in_i64_def)
  have "s64 ((?u div 1000000000 + 1) * 1000000000) = (?u div 1000000000 + 1) * 1000000000"
    using q by (intro s64_id) (simp add: in_i64_def)
  then have "next_second t = (?u div 1000000000 + 1) * 1000000000"
    using u d s by (simp add: next_second_def DRS_PULSE_PERIOD_NS_def)
  moreover have "?u < (?u div 1000000000 + 1) * 1000000000"
    "(?u div 1000000000 + 1) * 1000000000 \<le> ?u + 1000000000"
    using div_mult_mod_eq [of ?u 1000000000] pos_mod_bound [of 1000000000 ?u]
      pos_mod_sign [of 1000000000 ?u] by (simp_all only: distrib_right)
  ultimately show ?thesis by simp
qed

section \<open>The busy-wait\<close>

lemma busy_wait_returns:
  assumes "target \<le> mono_raw_ns (raw (n + k))"
  shows "\<exists>m \<le> n + k. n \<le> m \<and> busy_wait raw target n = Some (Suc m) \<and> target \<le> mono_raw_ns (raw m) \<and>
    (\<forall>i. n \<le> i \<longrightarrow> i < m \<longrightarrow> mono_raw_ns (raw i) < target)"
  using assms
proof (induction k arbitrary: n)
  case 0
  then show ?case by (intro exI [of _ n]) (simp add: busy_wait.simps [of raw target n])
next
  case (Suc k)
  show ?case
  proof (cases "mono_raw_ns (raw n) < target")
    case True
    obtain m where m: "m \<le> Suc n + k" "Suc n \<le> m" "busy_wait raw target (Suc n) = Some (Suc m)"
      "target \<le> mono_raw_ns (raw m)" "\<forall>i. Suc n \<le> i \<longrightarrow> i < m \<longrightarrow> mono_raw_ns (raw i) < target"
      using Suc.IH [of "Suc n"] Suc.prems by auto
    have "\<forall>i. n \<le> i \<longrightarrow> i < m \<longrightarrow> mono_raw_ns (raw i) < target"
      using m(5) True by (metis Suc_leI le_neq_implies_less)
    with m True show ?thesis
      by (intro exI [of _ m]) (simp add: busy_wait.simps [of raw target n])
  next
    case False
    then show ?thesis by (intro exI [of _ n]) (simp add: busy_wait.simps [of raw target n])
  qed
qed

lemma busy_wait_some:
  assumes "busy_wait raw target n = Some r"
  shows "\<exists>i \<ge> n. target \<le> mono_raw_ns (raw i)"
proof (rule busy_wait.raw_induct
    [where P = "\<lambda>raw target n r. \<exists>i \<ge> n. target \<le> mono_raw_ns (raw i)", OF _ assms])
  fix bw :: "clock \<Rightarrow> i64 \<Rightarrow> nat \<Rightarrow> nat option" and raw target n r
  assume ih: "\<And>raw target n r. bw raw target n = Some r \<Longrightarrow> \<exists>i \<ge> n. target \<le> mono_raw_ns (raw i)"
    and eq: "(if mono_raw_ns (raw n) < target then bw raw target (Suc n) else Some (Suc n)) = Some r"
  show "\<exists>i \<ge> n. target \<le> mono_raw_ns (raw i)"
  proof (cases "mono_raw_ns (raw n) < target")
    case True
    then obtain i where "Suc n \<le> i" "target \<le> mono_raw_ns (raw i)" using ih eq by fastforce
    then show ?thesis by (intro exI [of _ i]) simp
  qed (auto simp: not_less)
qed

lemma busy_wait_reached:
  "(busy_wait raw target n = None \<and> (\<forall>i \<ge> n. mono_raw_ns (raw i) < target)) \<or>
   (\<exists>m \<ge> n. busy_wait raw target n = Some (Suc m) \<and> target \<le> mono_raw_ns (raw m) \<and>
     (\<forall>i. n \<le> i \<longrightarrow> i < m \<longrightarrow> mono_raw_ns (raw i) < target))"
proof (cases "\<forall>i \<ge> n. mono_raw_ns (raw i) < target")
  case True
  then have "busy_wait raw target n \<noteq> Some r" for r
    using busy_wait_some [of raw target n r] by (auto simp flip: not_le)
  then have "busy_wait raw target n = None" by (cases "busy_wait raw target n") blast+
  with True show ?thesis by simp
next
  case False
  then obtain i where "n \<le> i" "target \<le> mono_raw_ns (raw i)" by (auto simp: not_less)
  then show ?thesis using busy_wait_returns [of target raw n "i - n"] by auto
qed

section \<open>The health pin\<close>

type_synonym health_state = "pulse_engine \<times> gpio_globals \<times> nat"

definition health_good :: "i64 \<times> bool \<Rightarrow> bool" where
  "health_good u \<longleftrightarrow> \<not> snd u \<and> c_abs64 (fst u) < DRS_STABLE_OFFSET_THRESH_NS"

fun health_run :: "clock \<Rightarrow> (i64 \<times> bool) list \<Rightarrow> health_state \<Rightarrow> health_state" where
  "health_run raw [] s = s"
| "health_run raw ((off, hold) # us) s = health_run raw us (pulse_engine_update_health raw off hold s)"

lemma health_run_append: "health_run raw (us @ vs) s = health_run raw vs (health_run raw us s)"
  by (induction raw us s rule: health_run.induct) simp_all

definition cursor_after :: "clock \<Rightarrow> (i64 \<times> bool) list \<Rightarrow> health_state \<Rightarrow> nat \<Rightarrow> nat" where
  "cursor_after raw us s k = snd (snd (health_run raw (take k us) s))"

text \<open>A reading of the clock before the \<open>m\<close>-th is a full window after the \<open>i\<close>-th.\<close>

definition window_passed :: "clock \<Rightarrow> nat \<Rightarrow> nat \<Rightarrow> bool" where
  "window_passed raw i m \<longleftrightarrow> (\<exists>c. i < c \<and> c < m \<and> 10000000000 \<le> s64 (mono_raw_ns (raw c) - mono_raw_ns (raw i)))"

lemma window_passed_Suc:
  "window_passed raw i (Suc m) \<longleftrightarrow>
     window_passed raw i m \<or> i < m \<and> 10000000000 \<le> s64 (mono_raw_ns (raw m) - mono_raw_ns (raw i))"
  by (auto simp: window_passed_def less_Suc_eq)

lemma window_passed_empty [simp]: "m \<le> Suc i \<Longrightarrow> \<not> window_passed raw i m"
  by (auto simp: window_passed_def)

lemma gpio_pins_lt: "DRS_GPIO_HEALTH_PIN < 32" "DRS_GPIO_PULSE_PIN < 32"
  by (simp_all add: drs_const)

lemma gg_gpio_set_clear [simp]:
  "gg_gpio (gpio_set p g) = None \<longleftrightarrow> gg_gpio g = None"
  "gg_gpio (gpio_clear p g) = None \<longleftrightarrow> gg_gpio g = None"
  by (simp_all add: gpio_set_def gpio_clear_def)

lemma gg_gpio_mapped [simp]:
  "gg_gpio g = Some r \<Longrightarrow> \<exists>r'. gg_gpio (gpio_set p g) = Some r'"
  "gg_gpio g = Some r \<Longrightarrow> \<exists>r'. gg_gpio (gpio_clear p g) = Some r'"
  by (simp_all flip: not_None_eq)

lemma health_update_bad:
  "\<not> health_good (off, hold) \<Longrightarrow> pulse_engine_update_health raw off hold (pe, g, n) =
     (pe\<lparr>pe_stable := False, pe_stable_since_ns := 0\<rparr>, gpio_set DRS_GPIO_HEALTH_PIN g, n)"
  by (auto simp: pulse_engine_update_health_def health_good_def)

lemma health_update_good:
  assumes "health_good (off, hold)"
  shows "pulse_engine_update_health raw off hold (pe, g, n) =
    (let since = (if pe_stable pe then pe_stable_since_ns pe else mono_raw_ns (raw n));
         m = (if pe_stable pe then n else n + 1)
     in (pe\<lparr>pe_stable := True, pe_stable_since_ns := since\<rparr>,
         if DRS_STABLE_WINDOW_NS \<le> s64 (mono_raw_ns (raw m) - since) then gpio_clear DRS_GPIO_HEALTH_PIN g else g,
         m + 1))"
  using assms by (auto simp: pulse_engine_update_health_def health_good_def Let_def)

text \<open>
  Good updates in a row, from a state that does not count as stable: the first one takes two clock
  readings, the start of the window and one to compare with it, each later one takes one to compare.
\<close>

lemma health_good_run:
  assumes "gg_gpio g \<noteq> None" "\<not> pe_stable pe"
  shows "list_all health_good us \<Longrightarrow> health_run raw us (pe, g, n) = (pe', g', n') \<Longrightarrow>
    gg_gpio g' \<noteq> None \<and> pin_level 23 g' = (if window_passed raw n n' then Some False else pin_level 23 g) \<and>
    (if us = [] then \<not> pe_stable pe' \<and> n' = n
     else pe_stable pe' \<and> pe_stable_since_ns pe' = mono_raw_ns (raw n) \<and> n' = Suc (n + length us))"
proof (induction us arbitrary: pe' g' n' rule: rev_induct)
  case Nil
  then show ?case using assms by simp
next
  case (snoc u us)
  obtain pe1 g1 n1 where run: "health_run raw us (pe, g, n) = (pe1, g1, n1)" by (metis prod_cases3)
  have good: "list_all health_good us" "health_good (fst u, snd u)" using snoc.prems(1) by simp_all
  note IH = snoc.IH [OF good(1) run]
  have upd: "pulse_engine_update_health raw (fst u) (snd u) (pe1, g1, n1) = (pe', g', n')"
    using snoc.prems(2) run by (cases u) (simp add: health_run_append)
  note pin = pin_level_clear [OF _ gpio_pins_lt(1), of g1 23]
  show ?case
  proof (cases "us = []")
    case True
    with IH upd pin show ?thesis
      by (auto simp: health_update_good [OF good(2)] Let_def window_passed_Suc drs_const)
  next
    case False
    with IH upd pin show ?thesis
      by (auto simp: health_update_good [OF good(2)] Let_def window_passed_Suc drs_const)
  qed
qed

lemma health_run_mapped:
  "gg_gpio g \<noteq> None \<Longrightarrow> health_run raw us (pe, g, n) = (pe', g', n') \<Longrightarrow> gg_gpio g' \<noteq> None"
proof (induction us arbitrary: pe g n)
  case (Cons u us)
  obtain pe1 g1 n1 where upd: "pulse_engine_update_health raw (fst u) (snd u) (pe, g, n) = (pe1, g1, n1)" by (metis prod_cases3)
  then have "gg_gpio g1 \<noteq> None"
    using Cons.prems(1)
    by (cases "health_good (fst u, snd u)") (auto simp: health_update_good health_update_bad Let_def)
  with Cons upd show ?case by (cases u) simp
qed simp

text \<open>After a bad update the pin is high until a full window of good ones.\<close>

lemma health_bad_run:
  assumes "gg_gpio g \<noteq> None" "\<not> health_good u" "list_all health_good ws"
    and "us = vs @ u # ws" "health_run raw us (pe, g, n) = (pe', g', n')"
  shows "pin_level 23 g' = Some (\<not> window_passed raw (cursor_after raw us (pe, g, n) (Suc (length vs))) n')"
proof -
  obtain pe1 g1 n1 where vs: "health_run raw vs (pe, g, n) = (pe1, g1, n1)" by (metis prod_cases3)
  have g1: "gg_gpio g1 \<noteq> None" by (rule health_run_mapped [OF assms(1) vs])
  let ?pe = "pe1\<lparr>pe_stable := False, pe_stable_since_ns := 0\<rparr>" and ?g = "gpio_set DRS_GPIO_HEALTH_PIN g1"
  have u: "health_run raw (vs @ [u]) (pe, g, n) = (?pe, ?g, n1)"
    using vs assms(2) by (cases u) (simp add: health_run_append health_update_bad)
  have ws: "health_run raw ws (?pe, ?g, n1) = (pe', g', n')"
    using assms(4,5) health_run_append [of raw "vs @ [u]" ws] by (simp add: u)
  have "cursor_after raw us (pe, g, n) (Suc (length vs)) = n1"
    using u by (simp add: cursor_after_def assms(4))
  moreover have "pin_level 23 ?g = Some True"
    using pin_level_set [OF g1 gpio_pins_lt(1), of 23] by (simp add: drs_const)
  ultimately show ?thesis
    using health_good_run [OF _ _ assms(3) ws] g1 by simp
qed

section \<open>Properties\<close>

text \<open>
  The pulse is scheduled on a whole virtual second. From a virtual time \<open>T\<close> (not more than 1 ms
  before the epoch) \<open>next_rise_raw\<close> returns a raw instant after now at which the virtual clock reads
  the first whole second more than 1 ms after \<open>T\<close>, to within 2 ns.
\<close>

lemma next_rise_on_second:
  assumes "vclock_range vc" "ns_range t" "ns_range (next_rise_raw vc t)"
    and "T = vclock_now vc t" "- 1000000 \<le> T" "T \<le> 1000000000000000000"
  shows "\<exists>k. T + 1000000 < k * 1000000000 \<and> k * 1000000000 \<le> T + 1000000 + 1000000000 \<and>
    \<bar>vclock_now vc (next_rise_raw vc t) - k * 1000000000\<bar> \<le> 2 \<and> t < next_rise_raw vc t"
proof -
  let ?n = "next_rise_raw vc t" and ?g = "next_second T"
  have ev: "even (vc_seq vc)" using assms(1) by (simp add: vclock_range_def)
  have g: "?g = ((T + 1000000) div 1000000000 + 1) * 1000000000"
    "T + 1000000 < ?g" "?g \<le> T + 1000000 + 1000000000"
    using next_second_exact [of T] assms(5,6) by auto
  have inv: "?n = vclock_inverse vc ?g" using assms(4) ev by (simp add: next_rise_raw_def Let_def)
  have "ns_range ?g" using g(2,3) assms(5,6) unfolding ns_range_def by linarith
  then have acc: "\<bar>vclock_calc vc ?n - ?g\<bar> \<le> 2"
    using vclock_calc_inverse [OF assms(1), of ?g] assms(3) by (simp add: inv)
  moreover have "t < ?n"
  proof (rule ccontr)
    assume "\<not> t < ?n"
    then have "vclock_calc vc ?n \<le> T"
      using vclock_calc_mono [OF assms(1,3,2)] ev assms(4) by simp
    with acc g(2) show False by linarith
  qed
  ultimately show ?thesis
    using g ev by (intro exI [of _ "(T + 1000000) div 1000000000 + 1"]) (simp flip: g(1))
qed

text \<open>
  C33: the rising edge. When the raw clock reaches the target at some later reading, the busy-wait
  ends at the first such reading, the pulse pin is then driven high, the pulse is counted and the
  falling edge is armed 10 ms after the monotonic clock; so the edge is never early, and it is
  missed (the thread spins for ever) exactly when the clock never reaches the target.
\<close>

theorem pulse_rise_correct:
  assumes "gg_gpio g \<noteq> None" "target = pe_rise_target_raw_ns pe"
  shows "(pulse_rise raw mclk ((pe, n, j), g) = None \<longleftrightarrow> (\<forall>i \<ge> n. mono_raw_ns (raw i) < target)) \<and>
     (\<forall>pe' n' j' g'. pulse_rise raw mclk ((pe, n, j), g) = Some ((pe', n', j'), g') \<longrightarrow>
        (\<exists>m \<ge> n. n' = Suc m \<and> target \<le> mono_raw_ns (raw m) \<and>
          (\<forall>i. n \<le> i \<longrightarrow> i < m \<longrightarrow> mono_raw_ns (raw i) < target)) \<and>
        pin_level 18 g' = Some True \<and> pin_level 23 g' = pin_level 23 g \<and>
        pe_pulse_count pe' = pe_pulse_count pe + 1 \<and>
        pe_pulse_low_at pe' = Some (arm_timerfd_abs (s64 (mono_ns (mclk j) + 10000000))))"
proof -
  have "pin_level 18 (gpio_set 18 g) = Some True" "pin_level 23 (gpio_set 18 g) = pin_level 23 g"
    using pin_level_set [OF assms(1), of 18] by simp_all
  moreover have "busy_wait raw target n = None \<longleftrightarrow> (\<forall>i \<ge> n. mono_raw_ns (raw i) < target)"
    using busy_wait_reached [of raw target n] by (cases "busy_wait raw target n") (auto simp: not_less)
  moreover have "\<exists>m \<ge> n. n' = Suc m \<and> target \<le> mono_raw_ns (raw m) \<and>
      (\<forall>i. n \<le> i \<longrightarrow> i < m \<longrightarrow> mono_raw_ns (raw i) < target)" if "busy_wait raw target n = Some n'" for n'
    using busy_wait_reached [of raw target n] that by auto
  ultimately show ?thesis
    by (auto simp: pulse_rise_def Let_def DRS_GPIO_PULSE_PIN_def DRS_PULSE_HIGH_DURATION_NS_def
        assms(2) split: option.splits)
qed

theorem pulse_rise_correct_witness:
  "let raw = \<lambda>_. \<lparr>tv_sec = 10, tv_nsec = 0\<rparr>; pe = pulse_engine_zero\<lparr>pe_rise_target_raw_ns := 5\<rparr>;
       g = \<lparr>gg_gpio = Some (replicate 1024 0), gg_fd = 3, gg_stores = []\<rparr>
   in \<exists>pe' n' j' g'. pulse_rise raw raw ((pe, 0, 0), g) = Some ((pe', n', j'), g') \<and>
        pin_level 18 g' = Some True \<and> pe_pulse_count pe' = 1"
proof -
  let ?raw = "\<lambda>_ :: nat. \<lparr>tv_sec = 10, tv_nsec = 0\<rparr>"
  let ?pe = "pulse_engine_zero\<lparr>pe_rise_target_raw_ns := 5\<rparr>"
  let ?g = "\<lparr>gg_gpio = Some (replicate 1024 (0 :: u32)), gg_fd = 3, gg_stores = []\<rparr>"
  have "gg_gpio ?g \<noteq> None" by simp
  note rise = pulse_rise_correct [OF this refl, of ?raw ?raw ?pe 0 0]
  have "\<not> (\<forall>i \<ge> 0. mono_raw_ns (?raw i) < pe_rise_target_raw_ns ?pe)"
    by (simp add: mono_raw_ns_def timespec_ns_def s64_def)
  then obtain pe' n' j' g' where r: "pulse_rise ?raw ?raw ((?pe, 0, 0), ?g) = Some ((pe', n', j'), g')"
    using rise by (cases "pulse_rise ?raw ?raw ((?pe, 0, 0), ?g)") auto
  with rise have "pin_level 18 g' = Some True" "pe_pulse_count pe' = 1"
    by (simp_all add: pulse_engine_zero_def)
  with r show ?thesis by (simp add: Let_def)
qed

text \<open>
  C34: the health pin from boot on. \<open>gpio_init\<close> drives it low, and it stays low while all updates are
  good (offset below 100 us, no holdover), so also before anything was measured. After an update that is
  not good it is high, and low again exactly when, since then without another such update, a clock reading is
  10 s or more after the first one.
\<close>

theorem health_pin_from_boot:
  assumes "gpio_init fd (Some page) g0 = (0, g)" "length page = 1024" "0 \<le> fd"
    and "pulse_engine_init fd_timer fd_low = (0, pe)" "health_run raw us (pe, g, n) = (pe', g', n')"
  shows "(list_all health_good us \<longrightarrow> pin_level 23 g' = Some False) \<and>
    (\<forall>vs u ws. us = vs @ u # ws \<and> \<not> health_good u \<and> list_all health_good ws \<longrightarrow>
      pin_level 23 g' = Some (\<not> window_passed raw (cursor_after raw us (pe, g, n) (Suc (length vs))) n'))"
proof -
  have g: "gg_gpio g \<noteq> None" "pin_level 23 g = Some False"
    using gpio_driver_correct [OF assms(1-3), of 23 0] by auto
  have "\<not> pe_stable pe"
    using assms(4) by (auto simp: pulse_engine_init_def pulse_engine_zero_def Let_def split: if_splits)
  then show ?thesis
    using health_good_run [OF g(1) _ _ assms(5)] health_bad_run [OF g(1) _ _ _ assms(5)] g(2) by simp
qed

theorem health_pin_from_boot_witness:
  "let (rc, g) = gpio_init 3 (Some (replicate 1024 0)) \<lparr>gg_gpio = None, gg_fd = - 1, gg_stores = []\<rparr>;
       pe = snd (pulse_engine_init 4 5); raw = \<lambda>i. \<lparr>tv_sec = 20 * int i, tv_nsec = 0\<rparr>
   in pin_level 23 (fst (snd (health_run raw [(0, False)] (pe, g, 0)))) = Some False \<and>
      pin_level 23 (fst (snd (health_run raw [(0, True)] (pe, g, 0)))) = Some True \<and>
      pin_level 23 (fst (snd (health_run raw [(0, True), (0, False)] (pe, g, 0)))) = Some False"
proof -
  let ?raw = "\<lambda>i. \<lparr>tv_sec = 20 * int i, tv_nsec = 0\<rparr>"
  obtain g where g: "gpio_init 3 (Some (replicate 1024 0)) \<lparr>gg_gpio = None, gg_fd = - 1, gg_stores = []\<rparr> = (0, g)"
    by (simp add: gpio_init_def Let_def)
  obtain pe where pe: "pulse_engine_init 4 5 = (0, pe)" by (simp add: pulse_engine_init_def Let_def)
  have good: "health_good (0, False)" "\<not> health_good (0, True)"
    by (simp_all add: health_good_def c_abs64_def drs_const)
  have u: "pulse_engine_update_health ?raw 0 True (pe, g, 0) =
      (pe\<lparr>pe_stable := False, pe_stable_since_ns := 0\<rparr>, gpio_set DRS_GPIO_HEALTH_PIN g, 0)"
    by (rule health_update_bad [OF good(2)])
  obtain p1 g1 n1 where r1: "health_run ?raw [(0, False)] (pe, g, 0) = (p1, g1, n1)" by (metis prod_cases3)
  have "pin_level 23 g1 = Some False"
    using health_pin_from_boot [OF g _ _ pe r1] good by simp
  moreover obtain p2 g2 n2 where r2: "health_run ?raw [(0, True)] (pe, g, 0) = (p2, g2, n2)" by (metis prod_cases3)
  then have "pin_level 23 g2 = Some True"
    using conjunct2 [OF health_pin_from_boot [OF g _ _ pe r2], rule_format, of "[]" "(0, True)" "[]"] good
    by (simp add: cursor_after_def)
  moreover obtain p3 g3 n3 where r3: "health_run ?raw [(0, True), (0, False)] (pe, g, 0) = (p3, g3, n3)" by (metis prod_cases3)
  have "n3 = 2" using r3 by (simp add: u health_update_good [OF good(1)] Let_def)
  then have "window_passed ?raw 0 n3"
    by (auto simp: window_passed_def mono_raw_ns_def timespec_ns_def s64_def intro!: exI [of _ 1])
  then have "pin_level 23 g3 = Some False"
    using conjunct2 [OF health_pin_from_boot [OF g _ _ pe r3], rule_format, of "[]" "(0, True)" "[(0, False)]"] good
    by (simp add: cursor_after_def u)
  ultimately show ?thesis using r1 r2 r3 by (simp add: g pe Let_def)
qed

end
