(* ===== verification/Election.thy ===== *)
theory Election
  imports Proto_V2
begin

text \<open>
  Leader election, \<open>src/election.c\<close>: the xorshift generator behind the randomised timeouts, the
  reaction to a foreign ANNOUNCE, promotion and the timeout test. The generator's static state is
  passed explicitly; \<open>mono_raw_ns()\<close> and the bytes of \<open>/dev/urandom\<close> are arguments.
\<close>

section \<open>The code\<close>

fun read_into :: "u8 list \<Rightarrow> u64 \<Rightarrow> u64" where
  "read_into [] x = x"
| "read_into (b # bs) x = ucast b OR push_bit 8 (read_into bs (drop_bit 8 x))"

text \<open>\<open>None\<close>: the device could not be opened or read; a short read fills the low bytes only.\<close>

definition seed_prng :: "u8 list option \<Rightarrow> u64 \<Rightarrow> u64" where
  "seed_prng urandom xr =
     (let xr = (case urandom of Some bs \<Rightarrow> read_into (take 8 bs) xr | None \<Rightarrow> xr)
      in if xr = 0 then 1 else xr)"

definition xorshift64 :: "u64 \<Rightarrow> u64" where
  "xorshift64 x =
     (let x = x XOR push_bit 13 x;
          x = x XOR drop_bit 7 x
      in x XOR push_bit 17 x)"

definition rand_range :: "i64 \<Rightarrow> i64 \<Rightarrow> u64 \<Rightarrow> i64 \<times> u64" where
  "rand_range min_ns max_ns xr =
     (let span = s64 (max_ns - min_ns); xr = xorshift64 xr
      in (s64 (min_ns + sint (xr mod word_of_int span)), xr))"

record election =
  el_own_term :: u32
  el_own_node_id :: u32
  el_leader_node_id :: u32
  el_election_timeout_ns :: i64
  el_timeout_deadline_ns :: i64
  el_lock_mode :: int

datatype elect_result = ELECT_NO_CHANGE | ELECT_BECOME_FOLLOWER | ELECT_PROMOTE_LEADER

definition election_arm_timeout :: "election \<Rightarrow> i64 \<Rightarrow> u64 \<Rightarrow> election \<times> u64" where
  "election_arm_timeout el now xr =
     (let (timeout, xr) = rand_range DRS_ELECTION_MIN_NS DRS_ELECTION_MAX_NS xr
      in (el\<lparr>el_election_timeout_ns := timeout, el_timeout_deadline_ns := s64 (now + timeout)\<rparr>, xr))"

definition election_init ::
  "u32 \<Rightarrow> int \<Rightarrow> u8 list option \<Rightarrow> i64 \<Rightarrow> u64 \<Rightarrow> election \<times> u64" where
  "election_init own_node_id lock_mode urandom now xr =
     (let el = \<lparr>el_own_term = 0, el_own_node_id = 0, el_leader_node_id = 0,
                el_election_timeout_ns = 0, el_timeout_deadline_ns = 0, el_lock_mode = 0\<rparr>;
          xr = seed_prng urandom xr;
          el = el\<lparr>el_own_node_id := own_node_id, el_own_term := 0, el_lock_mode := lock_mode\<rparr>;
          el = (if lock_mode = DRS_LOCK_AS_LEADER then el\<lparr>el_own_term := DRS_LOCK_TERM_BOOST\<rparr> else el)
      in election_arm_timeout el now xr)"

definition election_on_announce ::
  "election \<Rightarrow> drs_packet \<Rightarrow> i64 \<Rightarrow> u64 \<Rightarrow> elect_result \<times> election \<times> u64" where
  "election_on_announce el pkt now xr =
     (if el_lock_mode el = DRS_LOCK_AS_LEADER then (ELECT_NO_CHANGE, el, xr)
      else
        let peer_term = pkt_election_term pkt; peer_id = pkt_node_id pkt
        in if el_own_term el < peer_term then
             (if el_own_node_id el < peer_id
              then (ELECT_NO_CHANGE, el\<lparr>el_own_term := peer_term\<rparr>, xr)
              else (ELECT_BECOME_FOLLOWER,
                    election_arm_timeout
                      (el\<lparr>el_own_term := peer_term, el_leader_node_id := peer_id\<rparr>) now xr))
           else if peer_term < el_own_term el then (ELECT_NO_CHANGE, el, xr)
           else if peer_id < el_own_node_id el then
             (ELECT_BECOME_FOLLOWER, election_arm_timeout (el\<lparr>el_leader_node_id := peer_id\<rparr>) now xr)
           else (ELECT_NO_CHANGE, el, xr))"

definition election_promote :: "election \<Rightarrow> election" where
  "election_promote el =
     (let el = el\<lparr>el_own_term := el_own_term el + 1\<rparr>;
          el = (if el_lock_mode el = DRS_LOCK_AS_LEADER
                then el\<lparr>el_own_term := DRS_LOCK_TERM_BOOST\<rparr> else el)
      in el\<lparr>el_leader_node_id := el_own_node_id el\<rparr>)"

definition election_timed_out :: "election \<Rightarrow> i64 \<Rightarrow> bool" where
  "election_timed_out el now =
     (if el_lock_mode el = DRS_LOCK_AS_FOLLOWER then False else el_timeout_deadline_ns el \<le> now)"

section \<open>The random timeout\<close>

lemma xor_push_bit_eq_0: "0 < n \<Longrightarrow> x XOR push_bit n x = 0 \<Longrightarrow> x = 0" for x :: "'a::len word"
proof -
  assume n: "0 < n" and "x XOR push_bit n x = 0"
  then have x: "x = push_bit n x" using word_xor_eq_0_iff by blast
  have "\<not> bit x k" for k
  proof (induction k rule: less_induct)
    case (less k)
    show ?case
    proof
      assume "bit x k"
      then have "bit (push_bit n x) k" using x by simp
      then show False using less n by (auto simp: bit_push_bit_iff)
    qed
  qed
  then show ?thesis by (auto intro: bit_word_eqI)
qed

lemma xor_drop_bit_eq_0: "0 < n \<Longrightarrow> x XOR drop_bit n x = 0 \<Longrightarrow> x = 0" for x :: "'a::len word"
proof -
  assume n: "0 < n" and "x XOR drop_bit n x = 0"
  then have x: "x = drop_bit n x" using word_xor_eq_0_iff by blast
  have "k \<le> LENGTH('a) \<Longrightarrow> \<not> bit x (LENGTH('a) - k)" for k
  proof (induction k rule: less_induct)
    case (less k)
    show ?case
    proof
      assume b: "bit x (LENGTH('a) - k)"
      then have "bit (drop_bit n x) (LENGTH('a) - k)" using x by simp
      then have b': "bit x (LENGTH('a) - k + n)" by (simp add: bit_drop_bit_eq add.commute)
      then have "LENGTH('a) - k + n < LENGTH('a)" by (rule bit_imp_le_length)
      then have "LENGTH('a) - (k - n) = LENGTH('a) - k + n" "k - n < k" "k - n \<le> LENGTH('a)"
        using n less.prems by auto
      with less.IH [of "k - n"] b' show False by simp
    qed
  qed
  then have "i < LENGTH('a) \<Longrightarrow> \<not> bit x i" for i
    by (metis diff_diff_cancel diff_le_self less_imp_le_nat)
  then show ?thesis by (auto intro: bit_word_eqI)
qed

lemma xorshift64_nonzero: "x \<noteq> 0 \<Longrightarrow> xorshift64 x \<noteq> 0"
  unfolding xorshift64_def Let_def
  using xor_push_bit_eq_0 [of 13 x] xor_drop_bit_eq_0 [of 7 "x XOR push_bit 13 x"]
    xor_push_bit_eq_0 [of 17 "(x XOR push_bit 13 x) XOR drop_bit 7 (x XOR push_bit 13 x)"]
  by auto

lemma rand_range_bounds:
  assumes "in_i64 lo" "in_i64 hi" "lo < hi" "hi - lo \<le> INT64_MAX"
  shows "lo \<le> fst (rand_range lo hi xr) \<and> fst (rand_range lo hi xr) < hi"
proof -
  define span where "span = hi - lo"
  let ?x = "xorshift64 xr"
  have s: "in_i64 span" "0 < span" "span < 2 ^ 63"
    using assms by (auto simp: in_i64_def INT64_MAX_def span_def)
  then have us: "uint (word_of_int span :: u64) = span"
    by (simp add: uint_word_of_int)
  have m: "uint (?x mod word_of_int span) = uint ?x mod span"
    by (simp add: uint_mod us)
  have b: "0 \<le> uint ?x mod span" "uint ?x mod span < span" using s by simp_all
  then have "uint ?x mod span < 2 ^ 63" "- (2 ^ 63) \<le> uint ?x mod span" using s(3) by linarith+
  then have si: "sint (?x mod word_of_int span) = uint ?x mod span"
    using m by (simp add: sint_uint signed_take_bit_int_eq_self)
  have "in_i64 (lo + uint ?x mod span)"
    using b assms(1,2) unfolding in_i64_def span_def by linarith
  moreover have "s64 (hi - lo) = span" using s(1) by (simp add: span_def s64_id)
  ultimately have "fst (rand_range lo hi xr) = lo + uint ?x mod span"
    by (simp add: rand_range_def Let_def si s64_id)
  then show ?thesis using b unfolding span_def by linarith
qed

lemma rand_range_state: "snd (rand_range lo hi xr) = xorshift64 xr"
  by (simp add: rand_range_def Let_def)

lemma election_arm_timeout_eq:
  "election_arm_timeout el now xr =
     (let timeout = fst (rand_range DRS_ELECTION_MIN_NS DRS_ELECTION_MAX_NS xr)
      in (el\<lparr>el_election_timeout_ns := timeout, el_timeout_deadline_ns := s64 (now + timeout)\<rparr>,
          xorshift64 xr))"
  by (simp add: election_arm_timeout_def Let_def case_prod_beta rand_range_state)

lemma election_arm_timeout_keeps [simp]:
  "el_own_term (fst (election_arm_timeout el now xr)) = el_own_term el"
  "el_own_node_id (fst (election_arm_timeout el now xr)) = el_own_node_id el"
  "el_leader_node_id (fst (election_arm_timeout el now xr)) = el_leader_node_id el"
  "el_lock_mode (fst (election_arm_timeout el now xr)) = el_lock_mode el"
  by (simp_all add: election_arm_timeout_eq Let_def)

section \<open>Invariant\<close>

text \<open>Armed with a timeout in its range, and the deadline is a 64-bit value.\<close>

definition election_ok :: "election \<Rightarrow> u64 \<Rightarrow> bool" where
  "election_ok el xr \<longleftrightarrow> DRS_ELECTION_MIN_NS \<le> el_election_timeout_ns el \<and>
     el_election_timeout_ns el < DRS_ELECTION_MAX_NS \<and> in_i64 (el_timeout_deadline_ns el) \<and> xr \<noteq> 0"

lemma election_timeout_bounds:
  "DRS_ELECTION_MIN_NS \<le> el_election_timeout_ns (fst (election_arm_timeout el now xr)) \<and>
   el_election_timeout_ns (fst (election_arm_timeout el now xr)) < DRS_ELECTION_MAX_NS"
  using rand_range_bounds [of DRS_ELECTION_MIN_NS DRS_ELECTION_MAX_NS xr]
  by (simp add: election_arm_timeout_eq Let_def drs_const in_i64_def INT64_MAX_def)

lemma election_arm_timeout_ok:
  "xr \<noteq> 0 \<Longrightarrow> election_ok (fst (election_arm_timeout el now xr)) (snd (election_arm_timeout el now xr))"
  using election_timeout_bounds [of el now xr] xorshift64_nonzero [of xr]
  by (auto simp: election_ok_def election_arm_timeout_eq Let_def)

lemma seed_prng_nonzero: "seed_prng u xr \<noteq> 0"
  by (simp add: seed_prng_def Let_def)

lemma election_init_ok:
  "election_ok (fst (election_init i l u now xr)) (snd (election_init i l u now xr))"
  by (simp add: election_init_def Let_def election_arm_timeout_ok seed_prng_nonzero)

lemma election_init_fields:
  "el_own_node_id (fst (election_init i l u now xr)) = i"
  "el_lock_mode (fst (election_init i l u now xr)) = l"
  "el_leader_node_id (fst (election_init i l u now xr)) = 0"
  by (simp_all add: election_init_def Let_def)

lemma election_on_announce_ok:
  "election_ok el xr \<Longrightarrow> election_ok (fst (snd (election_on_announce el pkt now xr)))
     (snd (snd (election_on_announce el pkt now xr)))"
  using election_arm_timeout_ok [of xr]
  by (simp add: election_on_announce_def Let_def election_ok_def)

lemma election_promote_ok: "election_ok el xr \<Longrightarrow> election_ok (election_promote el) xr"
  by (simp add: election_promote_def election_ok_def Let_def)

section \<open>Reaction to an ANNOUNCE\<close>

definition announce_wins :: "election \<Rightarrow> drs_packet \<Rightarrow> bool" where
  "announce_wins el pkt \<longleftrightarrow> el_lock_mode el \<noteq> DRS_LOCK_AS_LEADER \<and>
     el_own_term el \<le> pkt_election_term pkt \<and> pkt_node_id pkt \<le> el_own_node_id el \<and>
     (pkt_node_id pkt = el_own_node_id el \<longrightarrow> el_own_term el < pkt_election_term pkt)"

lemma election_on_announce_result:
  "fst (election_on_announce el pkt now xr) =
     (if announce_wins el pkt then ELECT_BECOME_FOLLOWER else ELECT_NO_CHANGE)"
  by (auto simp: election_on_announce_def announce_wins_def Let_def)

lemma election_on_announce_term:
  "el_own_term (fst (snd (election_on_announce el pkt now xr))) =
     (if el_lock_mode el = DRS_LOCK_AS_LEADER then el_own_term el
      else max (el_own_term el) (pkt_election_term pkt))"
  by (auto simp: election_on_announce_def Let_def max_def)

lemma election_on_announce_leader:
  "el_leader_node_id (fst (snd (election_on_announce el pkt now xr))) =
     (if announce_wins el pkt then pkt_node_id pkt else el_leader_node_id el)"
  by (auto simp: election_on_announce_def announce_wins_def Let_def)

lemma election_on_announce_keeps [simp]:
  "el_own_node_id (fst (snd (election_on_announce el pkt now xr))) = el_own_node_id el"
  "el_lock_mode (fst (snd (election_on_announce el pkt now xr))) = el_lock_mode el"
  by (simp_all add: election_on_announce_def Let_def)

lemmas election_on_announce_facts =
  election_on_announce_result election_on_announce_term election_on_announce_leader

section \<open>Properties\<close>

text \<open>
  C19: the reaction to a foreign ANNOUNCE, on every branch. A node locked as leader ignores it;
  otherwise the term becomes the larger of the two, and the node yields exactly to a peer with a
  term at least its own and a smaller node id (or its own id and a larger term), recording it as the
  leader and arming a new timeout of 250 to 500 ms from now. It never yields to a larger id.
\<close>

theorem election_on_announce_correct:
  assumes "election_on_announce el pkt now xr = (res, el', xr')"
  shows "res = (if announce_wins el pkt then ELECT_BECOME_FOLLOWER else ELECT_NO_CHANGE) \<and>
    el_own_term el' = (if el_lock_mode el = DRS_LOCK_AS_LEADER then el_own_term el
      else max (el_own_term el) (pkt_election_term pkt)) \<and>
    el_leader_node_id el' = (if announce_wins el pkt then pkt_node_id pkt else el_leader_node_id el) \<and>
    (announce_wins el pkt \<longrightarrow> pkt_node_id pkt \<le> el_own_node_id el \<and>
       250000000 \<le> el_election_timeout_ns el' \<and> el_election_timeout_ns el' < 500000000 \<and>
       el_timeout_deadline_ns el' = s64 (now + el_election_timeout_ns el'))"
proof -
  have eq: "res = fst (election_on_announce el pkt now xr)"
    "el' = fst (snd (election_on_announce el pkt now xr))" using assms by simp_all
  have "announce_wins el pkt \<Longrightarrow> \<exists>el0. el' = fst (election_arm_timeout el0 now xr)"
    using eq(2) by (auto simp: election_on_announce_def announce_wins_def Let_def)
  moreover have "el_timeout_deadline_ns (fst (election_arm_timeout el0 now xr)) =
      s64 (now + el_election_timeout_ns (fst (election_arm_timeout el0 now xr)))" for el0
    by (simp add: election_arm_timeout_eq Let_def)
  ultimately show ?thesis
    using eq election_timeout_bounds [of _ now xr]
    by (auto simp: election_on_announce_facts drs_const) (auto simp: announce_wins_def)
qed

theorem election_on_announce_correct_witness:
  "let (el, xr) = election_init 7 DRS_LOCK_AUTO None 0 1;
       pkt = \<lparr>pkt_msg_type = 1, pkt_flags = 0, pkt_seq = 0, pkt_node_id = 3, pkt_election_term = 9,
              pkt_t1 = 0, pkt_t2 = 0, pkt_t3 = 0, pkt_t4 = 0\<rparr>
   in \<exists>el' xr'. election_on_announce el pkt 1000 xr = (ELECT_BECOME_FOLLOWER, el', xr') \<and>
        el_own_term el' = 9 \<and> el_leader_node_id el' = 3"
proof -
  let ?pkt = "\<lparr>pkt_msg_type = 1, pkt_flags = 0, pkt_seq = 0, pkt_node_id = 3, pkt_election_term = 9,
    pkt_t1 = 0, pkt_t2 = 0, pkt_t3 = 0, pkt_t4 = 0\<rparr>"
  obtain el xr where el: "election_init 7 DRS_LOCK_AUTO None 0 1 = (el, xr)" by force
  then have f: "el_own_node_id el = 7" "el_lock_mode el = 0" "el_own_term el = 0"
    using election_init_fields [of 7 DRS_LOCK_AUTO None 0 1]
    by (simp_all add: drs_const election_init_def Let_def election_arm_timeout_eq) auto
  obtain res el' xr' where r: "election_on_announce el ?pkt 1000 xr = (res, el', xr')"
    by (metis prod_cases3)
  show ?thesis
    using election_on_announce_correct [OF r] r f el by (simp add: announce_wins_def drs_const)
qed

text \<open>
  The generator never falls into the all-zero state, whatever \<open>/dev/urandom\<close> delivered and
  however often it is stepped, and every value it yields puts the election timeout in
  [250 ms, 500 ms): the maximum itself is excluded, although the comment gives a closed range.
\<close>

lemma election_timeout_in_range:
  "(xorshift64 ^^ n) (seed_prng urandom xr) \<noteq> 0 \<and>
   250000000 \<le> fst (rand_range DRS_ELECTION_MIN_NS DRS_ELECTION_MAX_NS r) \<and>
   fst (rand_range DRS_ELECTION_MIN_NS DRS_ELECTION_MAX_NS r) < 500000000"
proof -
  have "(xorshift64 ^^ n) x \<noteq> 0" if "x \<noteq> 0" for x
    using that by (induction n) (simp_all add: xorshift64_nonzero)
  then show ?thesis
    using election_timeout_bounds [of undefined undefined r] seed_prng_nonzero
    by (simp add: election_arm_timeout_eq Let_def drs_const)
qed

text \<open>
  Promotion makes the node its own leader with a term one higher, except under
  \<open>DRS_LOCK_AS_LEADER\<close>, where the term is set to 1000 even when it was higher: a locked leader
  whose term was raised above 1000 falls back below it.
\<close>

lemma election_promote_term:
  "el_leader_node_id (election_promote el) = el_own_node_id el \<and>
   el_own_term (election_promote el) =
     (if el_lock_mode el = DRS_LOCK_AS_LEADER then 1000 else el_own_term el + 1) \<and>
   (\<exists>el. el_lock_mode el = DRS_LOCK_AS_LEADER \<and> el_own_term (election_promote el) < el_own_term el)"
proof -
  let ?el = "\<lparr>el_own_term = 2000, el_own_node_id = 1, el_leader_node_id = 1,
    el_election_timeout_ns = 0, el_timeout_deadline_ns = 0, el_lock_mode = DRS_LOCK_AS_LEADER\<rparr>"
  have "el_own_term (election_promote ?el) < el_own_term ?el"
    by (simp add: election_promote_def Let_def drs_const)
  then show ?thesis by (intro conjI exI [of _ ?el]) (simp_all add: election_promote_def Let_def drs_const)
qed

end
