(* ===== verification/Errors.thy ===== *)
theory Errors
  imports DRS_Config
begin

text \<open>
  The shared error ring, \<open>src/errors.c\<close>: 64 slots in \<open>/dev/shm/drs-sync.errors\<close>, written by the
  daemon at a monotone 32-bit head and drained by a reader with its own offset. The static pointer
  \<open>g_ring\<close> is an option; the outcomes of \<open>open\<close>, \<open>ftruncate\<close> and \<open>mmap\<close> are arguments.
\<close>

section \<open>The code\<close>

record drs_error_entry =
  ee_code :: u32
  ee_count :: u32
  ee_timestamp_ns :: i64
  ee_msg :: string

record drs_error_ring =
  er_head :: u32
  er_slots :: "drs_error_entry list"

record errors_globals =
  eg_ring :: "drs_error_ring option"
  eg_fd :: int

definition NUL :: char where
  "NUL = CHR 0x00"

definition ERROR_MSG_BYTES :: nat where
  "ERROR_MSG_BYTES = 48"

definition zero_entry :: drs_error_entry where
  "zero_entry = \<lparr>ee_code = 0, ee_count = 0, ee_timestamp_ns = 0,
     ee_msg = replicate ERROR_MSG_BYTES NUL\<rparr>"

definition strncpy :: "string \<Rightarrow> string \<Rightarrow> nat \<Rightarrow> string" where
  "strncpy dst src n =
     (let s = take n (takeWhile (\<lambda>c. c \<noteq> NUL) src)
      in s @ replicate (n - length s) NUL @ drop n dst)"

definition errors_init ::
  "int \<Rightarrow> bool \<Rightarrow> bool \<Rightarrow> errors_globals \<Rightarrow> int \<times> errors_globals" where
  "errors_init open_fd ftruncate_ok mmap_ok g =
     (let g = g\<lparr>eg_fd := open_fd\<rparr>
      in if eg_fd g < 0 then (- 1, g)
         else if \<not> ftruncate_ok then (- 1, g\<lparr>eg_fd := - 1\<rparr>)
         else if \<not> mmap_ok then (- 1, g\<lparr>eg_fd := - 1\<rparr>)
         else (0, g\<lparr>eg_ring := Some \<lparr>er_head = 0, er_slots = replicate DRS_ERROR_RING_SLOTS zero_entry\<rparr>\<rparr>))"

definition errors_close :: "errors_globals \<Rightarrow> errors_globals" where
  "errors_close g =
     (let g = (case eg_ring g of Some _ \<Rightarrow> g\<lparr>eg_ring := None\<rparr> | None \<Rightarrow> g)
      in if 0 \<le> eg_fd g then g\<lparr>eg_fd := - 1\<rparr> else g)"

definition error_entry_fill ::
  "u32 \<Rightarrow> string option \<Rightarrow> i64 \<Rightarrow> drs_error_entry \<Rightarrow> drs_error_entry" where
  "error_entry_fill code msg now e =
     (let e = e\<lparr>ee_code := code, ee_timestamp_ns := now\<rparr>;
          e = (case msg of
                 Some m \<Rightarrow> e\<lparr>ee_msg :=
                   (strncpy (ee_msg e) m (ERROR_MSG_BYTES - 1))[ERROR_MSG_BYTES - 1 := NUL]\<rparr>
               | None \<Rightarrow> e\<lparr>ee_msg := (ee_msg e)[0 := NUL]\<rparr>)
      in e\<lparr>ee_count := ee_count e + 1\<rparr>)"

definition error_ring_push ::
  "u32 \<Rightarrow> string option \<Rightarrow> i64 \<Rightarrow> drs_error_ring \<Rightarrow> drs_error_ring" where
  "error_ring_push code msg now ring =
     (let idx = unat (er_head ring) mod DRS_ERROR_RING_SLOTS
      in ring\<lparr>er_head := er_head ring + 1,
              er_slots := (er_slots ring)[idx := error_entry_fill code msg now (er_slots ring ! idx)]\<rparr>)"

definition errors_push ::
  "u32 \<Rightarrow> string option \<Rightarrow> i64 \<Rightarrow> errors_globals \<Rightarrow> errors_globals" where
  "errors_push code msg now g =
     (case eg_ring g of
        None \<Rightarrow> g
      | Some ring \<Rightarrow> g\<lparr>eg_ring := Some (error_ring_push code msg now ring)\<rparr>)"

text \<open>The drain loop, with the entries copied to \<open>out\<close> so far and the remaining room.\<close>

fun drain_loop ::
  "drs_error_entry list \<Rightarrow> u32 \<Rightarrow> nat \<Rightarrow> drs_error_entry list \<Rightarrow> u32 \<Rightarrow>
   drs_error_entry list \<times> u32" where
  "drain_loop slots head 0 out offset = (out, offset)"
| "drain_loop slots head (Suc room) out offset =
     (if offset < head
      then drain_loop slots head room (out @ [slots ! (unat offset mod DRS_ERROR_RING_SLOTS)]) (offset + 1)
      else (out, offset))"

definition errors_drain ::
  "errors_globals \<Rightarrow> int \<Rightarrow> u32 \<Rightarrow> drs_error_entry list \<times> u32" where
  "errors_drain g mx offset =
     (case eg_ring g of
        None \<Rightarrow> ([], offset)
      | Some ring \<Rightarrow>
          if mx \<le> 0 then ([], offset)
          else drain_loop (er_slots ring) (er_head ring) (nat mx) [] offset)"

section \<open>The ring is a sliding window\<close>

definition cstring :: "string \<Rightarrow> string" where
  "cstring s = takeWhile (\<lambda>c. c \<noteq> NUL) s"

definition entry_view :: "drs_error_entry \<Rightarrow> u32 \<times> i64 \<times> string" where
  "entry_view e = (ee_code e, ee_timestamp_ns e, cstring (ee_msg e))"

definition error_stored :: "u32 \<times> string option \<times> i64 \<Rightarrow> u32 \<times> i64 \<times> string" where
  "error_stored x = (case x of (code, msg, now) \<Rightarrow>
     (code, now, case msg of Some m \<Rightarrow> take (ERROR_MSG_BYTES - 1) (cstring m) | None \<Rightarrow> []))"

definition error_ring_inv :: "drs_error_ring \<Rightarrow> bool" where
  "error_ring_inv ring \<longleftrightarrow> length (er_slots ring) = DRS_ERROR_RING_SLOTS \<and>
     (\<forall>e \<in> set (er_slots ring). length (ee_msg e) = ERROR_MSG_BYTES)"

definition error_ring_contents :: "drs_error_ring \<Rightarrow> (u32 \<times> i64 \<times> string) list" where
  "error_ring_contents ring = map entry_view
     (ring_slice (er_slots ring) (unat (er_head ring)) (unat (er_head ring) + DRS_ERROR_RING_SLOTS))"

lemma length_strncpy: "n \<le> length dst \<Longrightarrow> length (strncpy dst src n) = length dst"
  by (simp add: strncpy_def Let_def)

lemma cstring_prefix:
  "\<forall>c \<in> set s. c \<noteq> NUL \<Longrightarrow> cstring (s @ NUL # t) = s"
  by (simp add: cstring_def takeWhile_append2)

lemma cstring_strncpy:
  assumes "length dst = Suc n"
  shows "cstring ((strncpy dst src n)[n := NUL]) = take n (cstring src)"
proof -
  let ?s = "take n (cstring src)"
  have nz: "\<forall>c \<in> set ?s. c \<noteq> NUL"
    by (metis cstring_def in_set_takeD set_takeWhileD)
  have l: "length ?s \<le> n" by simp
  have "drop n dst = [dst ! n]"
    using assms by (metis Cons_nth_drop_Suc drop_all lessI order_refl)
  then have "(strncpy dst src n)[n := NUL] = ?s @ replicate (n - length ?s) NUL @ [NUL]"
    using l by (simp add: strncpy_def Let_def cstring_def list_update_append)
  also have "\<dots> = ?s @ NUL # replicate (n - length ?s) NUL"
    by (simp add: replicate_append_same)
  finally show ?thesis using cstring_prefix [OF nz] by simp
qed

lemma entry_fill_view:
  assumes "length (ee_msg e) = ERROR_MSG_BYTES"
  shows "entry_view (error_entry_fill code msg now e) = error_stored (code, msg, now)"
proof (cases msg)
  case None
  then show ?thesis
    using assms by (cases "ee_msg e")
      (simp_all add: error_entry_fill_def entry_view_def error_stored_def cstring_def ERROR_MSG_BYTES_def)
next
  case (Some m)
  then show ?thesis
    using assms cstring_strncpy [of "ee_msg e" "ERROR_MSG_BYTES - 1" m]
    by (simp add: error_entry_fill_def entry_view_def error_stored_def Let_def ERROR_MSG_BYTES_def)
qed

lemma entry_fill_length:
  "length (ee_msg e) = ERROR_MSG_BYTES \<Longrightarrow> length (ee_msg (error_entry_fill code msg now e)) = ERROR_MSG_BYTES"
  by (simp add: error_entry_fill_def Let_def length_strncpy split: option.split)

lemma error_ring_push_inv: "error_ring_inv ring \<Longrightarrow> error_ring_inv (error_ring_push code msg now ring)"
proof -
  assume inv: "error_ring_inv ring"
  let ?i = "unat (er_head ring) mod DRS_ERROR_RING_SLOTS"
  have "?i < length (er_slots ring)" using inv by (simp add: error_ring_inv_def drs_const)
  then have "length (ee_msg (er_slots ring ! ?i)) = ERROR_MSG_BYTES"
    using inv by (simp add: error_ring_inv_def)
  with inv show ?thesis
    by (auto simp: error_ring_inv_def error_ring_push_def Let_def entry_fill_length
        dest!: set_update_subset_insert [THEN subsetD])
qed

text \<open>The head wraps at \<open>2^32\<close>, a multiple of the number of slots.\<close>

lemma unat_head_Suc:
  "unat (h + 1 :: u32) mod 64 = (unat h + 1) mod 64"
proof -
  have "unat (h + 1) = (unat h + 1) mod 2 ^ 32" by (simp add: unat_word_ariths)
  then show ?thesis by (simp add: mod_mod_cancel)
qed

lemma ring_slice_start_mod:
  assumes "length buf = n" "r mod n = r' mod n"
  shows "ring_slice buf r (r + k) = ring_slice buf r' (r' + k)"
proof -
  have "(r + i) mod n = (r' + i) mod n" for i using assms(2) by (metis mod_add_cong)
  then show ?thesis using assms(1) by (simp add: ring_slice_map)
qed

lemma error_ring_push_contents:
  assumes "error_ring_inv ring"
  shows "error_ring_contents (error_ring_push code msg now ring) =
    keep_last DRS_ERROR_RING_SLOTS (error_ring_contents ring @ [error_stored (code, msg, now)])"
proof -
  let ?h = "unat (er_head ring)" and ?s = "er_slots ring"
  let ?e = "error_entry_fill code msg now (?s ! (?h mod 64))"
  have len: "length ?s = 64" and n: "DRS_ERROR_RING_SLOTS = 64"
    using assms by (simp_all add: error_ring_inv_def drs_const)
  have "ring_slice (?s[?h mod 64 := ?e]) (unat (er_head ring + 1)) (unat (er_head ring + 1) + 64) =
      ring_slice (?s[?h mod 64 := ?e]) (?h + 1) (?h + 1 + 64)"
    using len unat_head_Suc by (intro ring_slice_start_mod) simp_all
  also have "\<dots> = ring_slice (?s[(?h + 64) mod length ?s := ?e]) (?h + 1) (Suc (?h + 64))"
    using len by simp
  also have "\<dots> = ring_slice ?s (?h + 1) (?h + 64) @ [?e]"
    using len by (intro ring_slice_push) simp_all
  finally have new: "error_ring_contents (error_ring_push code msg now ring) =
      map entry_view (ring_slice ?s (?h + 1) (?h + 64)) @ [entry_view ?e]"
    by (simp add: error_ring_contents_def error_ring_push_def Let_def n)
  have "entry_view ?e = error_stored (code, msg, now)"
    using assms len by (intro entry_fill_view) (simp add: error_ring_inv_def)
  with new show ?thesis
    using ring_slice_pop [of ?h "?h + 64" ?s]
    by (simp add: error_ring_contents_def n keep_last_def)
qed

definition push_event :: "u32 \<times> string option \<times> i64 \<Rightarrow> drs_error_ring \<Rightarrow> drs_error_ring" where
  "push_event x = (case x of (code, msg, now) \<Rightarrow> error_ring_push code msg now)"

interpretation erw: sliding_window push_event error_stored error_ring_contents
  DRS_ERROR_RING_SLOTS error_ring_inv
proof unfold_locales
  show "length (error_ring_contents s) \<le> DRS_ERROR_RING_SLOTS" for s
    by (simp add: error_ring_contents_def)
qed (auto simp: push_event_def error_ring_push_contents error_ring_push_inv split: prod.split)

section \<open>Draining\<close>

lemma unat_offset_Suc: "offset < head \<Longrightarrow> unat (offset + 1 :: u32) = Suc (unat offset)"
proof -
  assume "offset < head"
  then have "unat offset + 1 < 2 ^ 32"
    using unsigned_less [of head, where 'a = nat] by (simp add: word_less_nat_alt)
  then show ?thesis by (simp add: unat_word_ariths)
qed

lemma drain_loop_slice:
  assumes "length slots = DRS_ERROR_RING_SLOTS" "offset \<le> head"
  shows "drain_loop slots head room out offset =
    (out @ ring_slice slots (unat offset) (min (unat head) (unat offset + room)),
     offset + of_nat (min (unat head - unat offset) room))"
  using assms
proof (induction slots head room out offset rule: drain_loop.induct)
  case (2 slots head room out offset)
  show ?case
  proof (cases "offset < head")
    case True
    note u = unat_offset_Suc [OF True]
    have less: "unat offset < unat head" using True by (simp add: word_less_nat_alt)
    then have le: "offset + 1 \<le> head" using u by (simp add: word_le_nat_alt)
    have "ring_slice slots (unat offset) (min (unat head) (unat offset + Suc room)) =
        slots ! (unat offset mod length slots) #
          ring_slice slots (Suc (unat offset)) (min (unat head) (unat offset + Suc room))"
      using less by (intro ring_slice_pop) simp
    moreover have "min (unat head - unat offset) (Suc room) =
        Suc (min (unat head - Suc (unat offset)) room)"
      using less by simp
    ultimately show ?thesis
      using 2 True le u by (simp add: ac_simps)
  next
    case False
    with 2(3) have "offset = head" by simp
    then show ?thesis by simp
  qed
qed simp

lemma error_ring_head_pushes:
  "er_head (fold push_event xs ring) = er_head ring + of_nat (length xs)"
  by (induction xs arbitrary: ring) (simp_all add: push_event_def error_ring_push_def Let_def case_prod_beta)

lemma errors_pushes_ring:
  "eg_ring g = Some r \<Longrightarrow>
   eg_ring (fold (\<lambda>(code, msg, now). errors_push code msg now) xs g) = Some (fold push_event xs r)"
  by (induction xs arbitrary: g r) (auto simp: errors_push_def push_event_def split: prod.splits)

definition fresh_ring :: drs_error_ring where
  "fresh_ring = \<lparr>er_head = 0, er_slots = replicate DRS_ERROR_RING_SLOTS zero_entry\<rparr>"

lemma fresh_ring_inv: "error_ring_inv fresh_ring"
  by (auto simp: error_ring_inv_def fresh_ring_def zero_entry_def)

lemma fresh_ring_pushes:
  assumes "r = fold push_event events fresh_ring"
  shows "length (er_slots r) = 64" "er_head r = of_nat (length events)"
    and "error_ring_contents r =
      drop (length events) (error_ring_contents fresh_ring @ map error_stored events)"
proof -
  have "error_ring_inv r" unfolding assms by (rule erw.invar_pushes [OF fresh_ring_inv])
  then show "length (er_slots r) = 64" by (simp add: error_ring_inv_def drs_const)
  show "er_head r = of_nat (length events)"
    by (simp add: assms error_ring_head_pushes fresh_ring_def)
  show "error_ring_contents r = drop (length events) (error_ring_contents fresh_ring @ map error_stored events)"
    using erw.contents_pushes [OF fresh_ring_inv, of events]
    by (simp add: assms keep_last_def error_ring_contents_def [of fresh_ring] drs_const)
qed

text \<open>The slots hold the last 64 entries pushed, at their places.\<close>

lemma fresh_ring_since:
  assumes "r = fold push_event events fresh_ring" "length events < 2 ^ 32"
    and "offset \<le> length events" "length events \<le> offset + 64"
  shows "map entry_view (ring_slice (er_slots r) offset (length events)) = map error_stored (drop offset events)"
proof -
  let ?n = "length events"
  note r = fresh_ring_pushes [OF assms(1)]
  have len: "length (error_ring_contents fresh_ring) = 64" by (simp add: error_ring_contents_def drs_const)
  have "map entry_view (ring_slice (er_slots r) offset ?n) =
      map entry_view (ring_slice (er_slots r) (offset + 64) (?n + 64))"
    using ring_slice_shift [OF r(1), of offset ?n] by simp
  also have "\<dots> = drop (offset + 64 - ?n) (error_ring_contents r)"
    using assms(2,4) by (simp add: error_ring_contents_def r(2) unat_of_nat drs_const drop_ring_slice drop_map)
  also have "\<dots> = map error_stored (drop offset events)"
  proof -
    have "offset + 64 + (?n - 64) - (?n + (64 - ?n)) = offset" by arith
    then show ?thesis using assms(4) len by (simp add: r(3) drop_map)
  qed
  finally show ?thesis .
qed

section \<open>Properties\<close>

text \<open>
  Round trip of the error ring. After a successful \<open>errors_init\<close> and fewer than \<open>2^32\<close> pushes,
  a reader whose offset is at most 64 entries behind drains exactly the entries pushed since, in
  order, each with its code, its time stamp and the first 47 bytes of its message, and its offset
  moves to the head.
\<close>

lemma errors_drain_returns_pushes:
  assumes "errors_init fd True True g = (0, g0)" "length events < 2 ^ 32" "0 \<le> fd"
    and "offset \<le> length events" "length events \<le> offset + 64" "length events \<le> offset + nat mx" "0 < mx"
  shows "\<exists>ring. errors_drain (fold (\<lambda>(code, msg, now). errors_push code msg now) events g0) mx
       (of_nat offset) = (ring, of_nat (length events)) \<and>
     map entry_view ring = map error_stored (drop offset events)"
proof -
  define r where "r = fold push_event events fresh_ring"
  let ?n = "length events"
  note r = fresh_ring_pushes [OF r_def]
  have "eg_ring g0 = Some fresh_ring"
    using assms(1,3) by (auto simp: errors_init_def Let_def fresh_ring_def)
  then have "errors_drain (fold (\<lambda>(code, msg, now). errors_push code msg now) events g0) mx (of_nat offset) =
      drain_loop (er_slots r) (of_nat ?n) (nat mx) [] (of_nat offset)"
    using errors_pushes_ring [of g0] assms(7) r(2) by (simp add: errors_drain_def r_def)
  also have "\<dots> = (ring_slice (er_slots r) offset ?n, of_nat ?n)"
  proof -
    have "unat (of_nat ?n :: u32) = ?n" "unat (of_nat offset :: u32) = offset"
      "min ?n (offset + nat mx) = ?n" "offset + min (?n - offset) (nat mx) = ?n"
      using assms(2,4,6) by (simp_all add: unat_of_nat)
    then show ?thesis
      using drain_loop_slice [of "er_slots r" "of_nat offset" "of_nat ?n" "nat mx" "[]"] r(1) assms(4)
      by (simp add: drs_const word_le_nat_alt flip: of_nat_add)
  qed
  finally show ?thesis using fresh_ring_since [OF r_def assms(2,4,5)] by blast
qed

end
