(* ===== verification/Cmd.thy ===== *)
theory Cmd
  imports DRS_Config
begin

text \<open>
  The command channel, \<open>src/cmd.c\<close>: one slot in \<open>/dev/shm/drs-sync.cmd\<close>, written by the agent
  and polled by the daemon every tick. The shared slot is a value of its own, so that both
  processes can act on it; \<open>cmd_poll\<close> and \<open>cmd_send\<close> are also given as their single accesses to
  the shared memory.
\<close>

section \<open>The code\<close>

record drs_cmd_channel =
  cc_seq :: u32
  cc_code :: u32
  cc_unix_ns :: u64
  cc_payload :: "u8 list"

text \<open>\<open>g_cmd\<close> is the mapping, here whether it exists.\<close>

record cmd_globals =
  cg_mapped :: bool
  cg_fd :: int
  cg_last_seq :: u32

definition cmd_init ::
  "int \<Rightarrow> bool \<Rightarrow> bool \<Rightarrow> drs_cmd_channel \<Rightarrow> cmd_globals \<Rightarrow> int \<times> cmd_globals" where
  "cmd_init open_fd ftruncate_ok mmap_ok ch g =
     (let g = g\<lparr>cg_fd := open_fd\<rparr>
      in if cg_fd g < 0 then (- 1, g)
         else if \<not> ftruncate_ok then (- 1, g\<lparr>cg_fd := - 1\<rparr>)
         else if \<not> mmap_ok then (- 1, g\<lparr>cg_fd := - 1\<rparr>)
         else (0, g\<lparr>cg_mapped := True, cg_last_seq := cc_seq ch\<rparr>))"

definition cmd_close :: "cmd_globals \<Rightarrow> cmd_globals" where
  "cmd_close g =
     (let g = (if cg_mapped g then g\<lparr>cg_mapped := False\<rparr> else g)
      in if 0 \<le> cg_fd g then g\<lparr>cg_fd := - 1\<rparr> else g)"

text \<open>The first access of \<open>cmd_poll\<close> decides whether there is a new command; the second reads it.\<close>

definition cmd_poll_seq :: "drs_cmd_channel \<Rightarrow> cmd_globals \<Rightarrow> bool \<times> cmd_globals" where
  "cmd_poll_seq ch g =
     (if \<not> cg_mapped g then (False, g)
      else let cur_seq = cc_seq ch
           in if cur_seq = cg_last_seq g then (False, g)
              else (True, g\<lparr>cg_last_seq := cur_seq\<rparr>))"

definition cmd_poll :: "drs_cmd_channel \<Rightarrow> cmd_globals \<Rightarrow> u32 \<times> cmd_globals" where
  "cmd_poll ch g =
     (let (fresh, g) = cmd_poll_seq ch g
      in (if fresh then cc_code ch else DRS_CMD_NONE, g))"

definition cmd_send_code :: "u32 \<Rightarrow> i64 \<Rightarrow> drs_cmd_channel \<Rightarrow> drs_cmd_channel" where
  "cmd_send_code code now ch = ch\<lparr>cc_code := code, cc_unix_ns := word_of_int now\<rparr>"

definition cmd_send_seq :: "drs_cmd_channel \<Rightarrow> drs_cmd_channel" where
  "cmd_send_seq ch = ch\<lparr>cc_seq := cc_seq ch + 1\<rparr>"

definition cmd_send :: "bool \<Rightarrow> u32 \<Rightarrow> i64 \<Rightarrow> drs_cmd_channel \<Rightarrow> int \<times> drs_cmd_channel" where
  "cmd_send mapped code now ch =
     (if \<not> mapped then (- 1, ch) else (0, cmd_send_seq (cmd_send_code code now ch)))"

section \<open>Laws\<close>

definition cmd_sends :: "(u32 \<times> i64) list \<Rightarrow> drs_cmd_channel \<Rightarrow> drs_cmd_channel" where
  "cmd_sends cs ch = fold (\<lambda>(code, now) ch. snd (cmd_send True code now ch)) cs ch"

lemma cmd_sends_seq: "cc_seq (cmd_sends cs ch) = cc_seq ch + of_nat (length cs)"
  unfolding cmd_sends_def
  by (induction cs arbitrary: ch)
    (simp_all add: cmd_send_def cmd_send_seq_def cmd_send_code_def case_prod_beta)

lemma cmd_sends_code: "cs \<noteq> [] \<Longrightarrow> cc_code (cmd_sends cs ch) = fst (last cs)"
  by (cases cs rule: rev_cases)
    (simp_all add: cmd_sends_def cmd_send_def cmd_send_seq_def cmd_send_code_def case_prod_beta)

lemma of_nat_neq_0: "0 < n \<Longrightarrow> n < 2 ^ 32 \<Longrightarrow> (of_nat n :: u32) \<noteq> 0"
  by (simp add: word_of_nat_eq_0_iff nat_dvd_not_less)

section \<open>Properties\<close>

text \<open>
  Delivery of commands. A command left in the shared memory by an earlier run is not executed
  after \<open>cmd_init\<close>. When commands were sent since the last poll, fewer than \<open>2^32\<close>, the next poll
  returns the last of them, the earlier ones being lost, and the one after it returns nothing.
\<close>

lemma cmd_poll_delivers_last:
  assumes "cmd_init fd True True ch g = (0, g0)"
    and "cs \<noteq> []" "length cs < 2 ^ 32"
  shows "fst (cmd_poll ch g0) = DRS_CMD_NONE \<and>
    (case cmd_poll (cmd_sends cs ch) g0 of
       (code, g1) \<Rightarrow> code = fst (last cs) \<and> fst (cmd_poll (cmd_sends cs ch) g1) = DRS_CMD_NONE)"
proof -
  have g0: "cg_mapped g0" "cg_last_seq g0 = cc_seq ch"
    using assms(1) by (auto simp: cmd_init_def Let_def split: if_splits)
  have "(of_nat (length cs) :: u32) \<noteq> 0" using assms(2,3) by (intro of_nat_neq_0) auto
  then show ?thesis
    using g0 assms(2) cmd_sends_code [of cs ch]
    by (simp add: cmd_poll_def cmd_poll_seq_def Let_def cmd_sends_seq)
qed

text \<open>
  The two accesses of \<open>cmd_poll\<close> are not one: if the agent sends a second command between
  them, the poll returns the second code, and the next poll, seeing the second sequence number,
  returns it again; the first command is never executed and the second twice.
\<close>

lemma cmd_poll_race:
  assumes "cg_mapped g" "cg_last_seq g = cc_seq ch"
  shows "let ch1 = snd (cmd_send True c1 t1 ch);
       (fresh, g1) = cmd_poll_seq ch1 g;
       ch2 = snd (cmd_send True c2 t2 ch1);
       first = (if fresh then cc_code ch2 else DRS_CMD_NONE)
     in first = c2 \<and> fst (cmd_poll ch2 g1) = c2"
  using assms
  by (simp add: cmd_send_def cmd_send_seq_def cmd_send_code_def cmd_poll_seq_def cmd_poll_def Let_def)

end
