(* ===== verification/Telemetry.thy ===== *)
theory Telemetry
  imports DRS_Config
begin

text \<open>
  The shared-memory telemetry record, \<open>src/telemetry.c\<close>: 128 bytes in \<open>/dev/shm/drs-sync.state\<close>
  with a sequence number that is odd while the daemon writes. The padding and reserved bytes are
  left out: no code touches them after the \<open>memset\<close>.
\<close>

section \<open>The code\<close>

record drs_telemetry =
  tel_seqlock :: u32
  tel_pid :: u32
  tel_version :: u32
  tel_state :: u32
  tel_flags :: u32
  tel_leader_node_id :: u32
  tel_election_term :: u32
  tel_offset_ns :: i64
  tel_rate_q32_32 :: i64
  tel_latency_corr_ns :: i64
  tel_last_rtt_ns :: i64
  tel_convergence_unix_ns :: u64
  tel_holdover_remaining_ms :: u32
  tel_error_code_last :: u32
  tel_error_count :: u32
  tel_pulse_count :: u32
  tel_lock_mode :: u32
  tel_sync_accepted :: u32
  tel_sync_rejected :: u32
  tel_step_count :: u32
  tel_holdover_count :: u32

record telemetry_globals =
  tg_tel :: "drs_telemetry option"
  tg_fd :: int

definition zero_telemetry :: drs_telemetry where
  "zero_telemetry =
     \<lparr>tel_seqlock = 0, tel_pid = 0, tel_version = 0, tel_state = 0, tel_flags = 0,
      tel_leader_node_id = 0, tel_election_term = 0, tel_offset_ns = 0, tel_rate_q32_32 = 0,
      tel_latency_corr_ns = 0, tel_last_rtt_ns = 0, tel_convergence_unix_ns = 0,
      tel_holdover_remaining_ms = 0, tel_error_code_last = 0, tel_error_count = 0,
      tel_pulse_count = 0, tel_lock_mode = 0, tel_sync_accepted = 0, tel_sync_rejected = 0,
      tel_step_count = 0, tel_holdover_count = 0\<rparr>"

definition telemetry_init ::
  "int \<Rightarrow> bool \<Rightarrow> bool \<Rightarrow> u32 \<Rightarrow> telemetry_globals \<Rightarrow> int \<times> telemetry_globals" where
  "telemetry_init open_fd ftruncate_ok mmap_ok pid g =
     (let g = g\<lparr>tg_fd := open_fd\<rparr>
      in if tg_fd g < 0 then (- 1, g)
         else if \<not> ftruncate_ok then (- 1, g\<lparr>tg_fd := - 1\<rparr>)
         else if \<not> mmap_ok then (- 1, g\<lparr>tg_fd := - 1\<rparr>)
         else (0, g\<lparr>tg_tel := Some (zero_telemetry\<lparr>tel_pid := pid, tel_version := DRS_TELEMETRY_VERSION,
                                               tel_seqlock := 0\<rparr>)\<rparr>))"

definition telemetry_close :: "telemetry_globals \<Rightarrow> telemetry_globals" where
  "telemetry_close g =
     (let g = (case tg_tel g of Some _ \<Rightarrow> g\<lparr>tg_tel := None\<rparr> | None \<Rightarrow> g)
      in if 0 \<le> tg_fd g then g\<lparr>tg_fd := - 1\<rparr> else g)"

definition telemetry_get :: "telemetry_globals \<Rightarrow> drs_telemetry option" where
  "telemetry_get g = tg_tel g"

definition telemetry_begin_write :: "telemetry_globals \<Rightarrow> telemetry_globals" where
  "telemetry_begin_write g =
     g\<lparr>tg_tel := map_option (\<lambda>t. t\<lparr>tel_seqlock := tel_seqlock t + 1\<rparr>) (tg_tel g)\<rparr>"

definition telemetry_end_write :: "telemetry_globals \<Rightarrow> telemetry_globals" where
  "telemetry_end_write g =
     g\<lparr>tg_tel := map_option (\<lambda>t. t\<lparr>tel_seqlock := tel_seqlock t + 1\<rparr>) (tg_tel g)\<rparr>"

text \<open>The bracket every writer uses: \<open>if (tel) { begin; stores; end; }\<close>.\<close>

definition telemetry_write :: "(drs_telemetry \<Rightarrow> drs_telemetry) \<Rightarrow> telemetry_globals \<Rightarrow> telemetry_globals" where
  "telemetry_write stores g =
     (case telemetry_get g of
        None \<Rightarrow> g
      | Some _ \<Rightarrow>
          let g = telemetry_begin_write g;
              g = g\<lparr>tg_tel := map_option stores (tg_tel g)\<rparr>
          in telemetry_end_write g)"

section \<open>Laws\<close>

lemma telemetry_write_None [simp]: "tg_tel g = None \<Longrightarrow> telemetry_write f g = g"
  by (simp add: telemetry_write_def telemetry_get_def)

lemma tg_tel_write:
  "tg_tel (telemetry_write f g) =
     map_option (\<lambda>t. let t = f (t\<lparr>tel_seqlock := tel_seqlock t + 1\<rparr>) in t\<lparr>tel_seqlock := tel_seqlock t + 1\<rparr>)
       (tg_tel g)"
  by (simp add: telemetry_write_def telemetry_get_def telemetry_begin_write_def telemetry_end_write_def
      Let_def split: option.split)

text \<open>
  Outside a write the sequence number is even, so that readers can make progress. The two error
  fields stay 0: no code of the daemon writes them.
\<close>

definition telemetry_ok :: "telemetry_globals \<Rightarrow> bool" where
  "telemetry_ok g \<longleftrightarrow> (\<forall>t. tg_tel g = Some t \<longrightarrow> even (tel_seqlock t) \<and> tel_version t = DRS_TELEMETRY_VERSION \<and>
     tel_error_count t = 0 \<and> tel_error_code_last t = 0)"

definition writes_fields :: "(drs_telemetry \<Rightarrow> drs_telemetry) \<Rightarrow> bool" where
  "writes_fields f \<longleftrightarrow> (\<forall>t. tel_seqlock (f t) = tel_seqlock t \<and> tel_version (f t) = tel_version t \<and>
     tel_error_count (f t) = tel_error_count t \<and> tel_error_code_last (f t) = tel_error_code_last t)"

lemma telemetry_write_ok: "telemetry_ok g \<Longrightarrow> writes_fields f \<Longrightarrow> telemetry_ok (telemetry_write f g)"
  by (auto simp: telemetry_ok_def tg_tel_write Let_def writes_fields_def)

lemma telemetry_init_ok:
  "telemetry_ok g \<Longrightarrow> telemetry_ok (snd (telemetry_init fd a b pid g))"
  by (auto simp: telemetry_init_def telemetry_ok_def zero_telemetry_def Let_def)

end
