(* ===== verification/Telemetry_Udp.thy ===== *)
theory Telemetry_Udp
  imports Net_Io
begin

text \<open>
  The UDP telemetry sender, \<open>src/telemetry_udp.c\<close>: a ring of 64 records between the real-time
  thread, which emits without blocking and drops when the ring is full, and a sender thread, which
  drains it every 10 ms. \<open>telem_udp_emit\<close> is also given as its two shared-memory effects, filling
  the slot and publishing it, because the sender may run between them.
\<close>

section \<open>The code\<close>

definition TELEM_RING_SIZE :: nat where
  "TELEM_RING_SIZE = 64"

definition TELEM_RING_MASK :: u64 where
  "TELEM_RING_MASK = 63"

record telem_udp_record =
  tu_timestamp_ns :: i64
  tu_state :: int
  tu_offset_ns :: i64
  tu_rtt_ns :: i64
  tu_rate_q32 :: i64
  tu_node_id :: u32

record telem_udp =
  tu_ring :: "telem_udp_record list"
  tu_write_idx :: u64
  tu_read_idx :: u64
  tu_sock :: int
  tu_dst :: sockaddr_in
  tu_own_node_id :: u32
  tu_thread :: bool
  tu_running :: bool

definition zero_record :: telem_udp_record where
  "zero_record = \<lparr>tu_timestamp_ns = 0, tu_state = 0, tu_offset_ns = 0, tu_rtt_ns = 0,
     tu_rate_q32 = 0, tu_node_id = 0\<rparr>"

text \<open>The static variables before \<open>telem_udp_init\<close>.\<close>

definition telem_udp_static :: telem_udp where
  "telem_udp_static = \<lparr>tu_ring = replicate TELEM_RING_SIZE zero_record, tu_write_idx = 0,
     tu_read_idx = 0, tu_sock = - 1, tu_dst = \<lparr>sin_port = 0, sin_addr = 0\<rparr>, tu_own_node_id = 0,
     tu_thread = False, tu_running = False\<rparr>"

definition telem_udp_init ::
  "int \<Rightarrow> bool \<Rightarrow> string option \<Rightarrow> u32 \<Rightarrow> telem_udp \<Rightarrow> int \<times> telem_udp" where
  "telem_udp_init socket_fd create_ok dest_ip node_id g =
     (let g = g\<lparr>tu_own_node_id := node_id\<rparr>;
          ip = (case dest_ip of Some ip \<Rightarrow> ip | None \<Rightarrow> ''127.0.0.1'')
      in case inet_pton ip of
           None \<Rightarrow> (- 1, g\<lparr>tu_dst := (tu_dst g)\<lparr>sin_port := htons 4242\<rparr>\<rparr>)
         | Some a \<Rightarrow>
             let g = g\<lparr>tu_dst := \<lparr>sin_port = htons 4242, sin_addr = a\<rparr>, tu_sock := socket_fd\<rparr>
             in if tu_sock g < 0 then (- 1, g)
                else
                  let g = g\<lparr>tu_write_idx := 0, tu_read_idx := 0, tu_running := True\<rparr>
                  in if \<not> create_ok then (- 1, g\<lparr>tu_sock := - 1, tu_running := False\<rparr>)
                     else (0, g\<lparr>tu_thread := True\<rparr>))"

definition telem_udp_close :: "telem_udp \<Rightarrow> telem_udp" where
  "telem_udp_close g =
     (let g = g\<lparr>tu_running := False\<rparr>;
          g = (if tu_thread g then g\<lparr>tu_thread := False\<rparr> else g)
      in if 0 \<le> tu_sock g then g\<lparr>tu_sock := - 1\<rparr> else g)"

definition telem_full :: "telem_udp \<Rightarrow> bool" where
  "telem_full g \<longleftrightarrow> of_nat TELEM_RING_SIZE \<le> tu_write_idx g - tu_read_idx g"

definition telem_fill :: "telem_udp_record \<Rightarrow> telem_udp \<Rightarrow> telem_udp" where
  "telem_fill rec g =
     g\<lparr>tu_ring := (tu_ring g)[unat (tu_write_idx g AND TELEM_RING_MASK) := rec\<lparr>tu_node_id := tu_own_node_id g\<rparr>]\<rparr>"

definition telem_publish :: "telem_udp \<Rightarrow> telem_udp" where
  "telem_publish g = g\<lparr>tu_write_idx := tu_write_idx g + 1\<rparr>"

definition telem_udp_emit ::
  "i64 \<Rightarrow> int \<Rightarrow> i64 \<Rightarrow> i64 \<Rightarrow> i64 \<Rightarrow> telem_udp \<Rightarrow> telem_udp" where
  "telem_udp_emit timestamp_ns state offset_ns rtt_ns rate_q32 g =
     (if telem_full g then g
      else telem_publish (telem_fill
             \<lparr>tu_timestamp_ns = timestamp_ns, tu_state = state, tu_offset_ns = offset_ns,
              tu_rtt_ns = rtt_ns, tu_rate_q32 = rate_q32, tu_node_id = 0\<rparr> g))"

datatype send_outcome = Sent | Send_ENOBUFS | Send_failed

definition sender_record :: "telem_udp \<Rightarrow> telem_udp_record" where
  "sender_record g =
     (tu_ring g ! unat (tu_read_idx g AND TELEM_RING_MASK))\<lparr>tu_node_id := tu_own_node_id g\<rparr>"

lemma unat_idx_Suc: "r < (w :: u64) \<Longrightarrow> unat (r + 1) = Suc (unat r)"
proof -
  assume "r < w"
  then have "unat r + 1 < 2 ^ 64"
    using unsigned_less [of w, where 'a = nat] by (simp add: word_less_nat_alt)
  then show ?thesis by (simp add: unat_word_ariths)
qed

text \<open>
  One pass of the sender's inner loop up to the write index \<open>w\<close> it loaded before; \<open>outcomes k\<close> is
  the result of its \<open>k\<close>-th \<open>sendto\<close>. The result is the state and the records taken off the ring.
\<close>

function sender_drain ::
  "(nat \<Rightarrow> send_outcome) \<Rightarrow> u64 \<Rightarrow> nat \<Rightarrow> telem_udp \<times> telem_udp_record list \<Rightarrow>
   telem_udp \<times> telem_udp_record list" where
  "sender_drain outcomes w k (g, out) =
     (if tu_read_idx g < w
      then
        (if outcomes k = Send_ENOBUFS then (g, out)
         else sender_drain outcomes w (Suc k)
                (g\<lparr>tu_read_idx := tu_read_idx g + 1\<rparr>, out @ [sender_record g]))
      else (g, out))"
  by pat_completeness auto

termination
  by (relation "measure (\<lambda>(_, w, _, g, _). unat w - unat (tu_read_idx g))")
    (auto simp: unat_idx_Suc word_less_nat_alt)

declare sender_drain.simps [simp del]

definition sender_pass :: "(nat \<Rightarrow> send_outcome) \<Rightarrow> telem_udp \<Rightarrow> telem_udp \<times> telem_udp_record list" where
  "sender_pass outcomes g =
     (if tu_running g then sender_drain outcomes (tu_write_idx g) 0 (g, []) else (g, []))"

section \<open>The ring is a bounded queue\<close>

type_synonym telem_args = "i64 \<times> int \<times> i64 \<times> i64 \<times> i64"

definition record_args :: "telem_udp_record \<Rightarrow> telem_args" where
  "record_args r = (tu_timestamp_ns r, tu_state r, tu_offset_ns r, tu_rtt_ns r, tu_rate_q32 r)"

definition telem_emit_args :: "telem_args \<Rightarrow> telem_udp \<Rightarrow> telem_udp" where
  "telem_emit_args x g = (case x of (ts, st, off, rtt, rate) \<Rightarrow> telem_udp_emit ts st off rtt rate g)"

definition telem_take :: "telem_udp \<Rightarrow> telem_udp" where
  "telem_take g = g\<lparr>tu_read_idx := tu_read_idx g + 1\<rparr>"

definition telem_front :: "telem_udp \<Rightarrow> telem_args option" where
  "telem_front g = (if tu_read_idx g < tu_write_idx g then Some (record_args (sender_record g)) else None)"

definition telem_pending :: "telem_udp \<Rightarrow> telem_args list" where
  "telem_pending g = map record_args
     (ring_slice (tu_ring g) (unat (tu_read_idx g)) (unat (tu_write_idx g)))"

definition telem_inv :: "nat \<Rightarrow> telem_udp \<Rightarrow> bool" where
  "telem_inv n g \<longleftrightarrow> length (tu_ring g) = TELEM_RING_SIZE \<and> tu_read_idx g \<le> tu_write_idx g \<and>
     unat (tu_write_idx g) - unat (tu_read_idx g) \<le> TELEM_RING_SIZE \<and> unat (tu_write_idx g) + n < 2 ^ 64"

lemma unat_and_mask: "unat (x AND TELEM_RING_MASK) = unat x mod 64"
proof -
  have "x AND TELEM_RING_MASK = take_bit 6 x"
    by (simp add: TELEM_RING_MASK_def take_bit_eq_mask mask_numeral)
  then show ?thesis by (simp add: unat_mod take_bit_eq_mod)
qed

lemma telem_full_iff:
  "tu_read_idx g \<le> tu_write_idx g \<Longrightarrow>
   telem_full g \<longleftrightarrow> 64 \<le> unat (tu_write_idx g) - unat (tu_read_idx g)"
  by (simp add: telem_full_def TELEM_RING_SIZE_def word_le_nat_alt unat_sub)

lemma length_telem_pending [simp]:
  "length (telem_pending g) = unat (tu_write_idx g) - unat (tu_read_idx g)"
  by (simp add: telem_pending_def)

lemma telem_fill_pending:
  assumes "telem_inv n g" "\<not> telem_full g"
  shows "telem_pending (telem_fill rec g) = telem_pending g"
proof -
  have "\<not> 64 \<le> unat (tu_write_idx g) - unat (tu_read_idx g)"
    using assms telem_full_iff by (auto simp: telem_inv_def)
  then show ?thesis
    using assms(1) ring_slice_frame [of "unat (tu_write_idx g)" "unat (tu_read_idx g)" "tu_ring g"
        "unat (tu_write_idx g)" "rec\<lparr>tu_node_id := tu_own_node_id g\<rparr>"]
    by (simp add: telem_pending_def telem_fill_def unat_and_mask telem_inv_def TELEM_RING_SIZE_def
        word_le_nat_alt)
qed

lemma telem_emit_pending:
  assumes "telem_inv (Suc n) g"
  shows "telem_pending (telem_emit_args x g) =
      (if length (telem_pending g) < TELEM_RING_SIZE then telem_pending g @ [x] else telem_pending g) \<and>
    telem_inv n (telem_emit_args x g)"
proof (cases "telem_full g")
  case True
  then have "telem_emit_args x g = g"
    by (simp add: telem_emit_args_def telem_udp_emit_def split: prod.split)
  then show ?thesis
    using True assms telem_full_iff [of g] by (simp add: telem_inv_def TELEM_RING_SIZE_def)
next
  case False
  obtain ts st off rtt rate where x: "x = (ts, st, off, rtt, rate)" by (cases x)
  let ?w = "unat (tu_write_idx g)" and ?r = "unat (tu_read_idx g)"
  let ?rec = "\<lparr>tu_timestamp_ns = ts, tu_state = st, tu_offset_ns = off, tu_rtt_ns = rtt,
    tu_rate_q32 = rate, tu_node_id = tu_own_node_id g\<rparr>"
  have i: "length (tu_ring g) = 64" "?r \<le> ?w" "?w - ?r < 64" "?w + 1 < 2 ^ 64" "?w + Suc n < 2 ^ 64"
    using assms False telem_full_iff [of g]
    by (simp_all add: telem_inv_def TELEM_RING_SIZE_def word_le_nat_alt)
  have w1: "unat (tu_write_idx g + 1) = Suc ?w" using i(4) by (simp add: unat_word_ariths)
  have e: "telem_emit_args x g = telem_publish (telem_fill ?rec g)"
    using False by (simp add: x telem_emit_args_def telem_udp_emit_def telem_fill_def)
  have "ring_slice ((tu_ring g)[?w mod 64 := ?rec]) ?r (Suc ?w) = ring_slice (tu_ring g) ?r ?w @ [?rec]"
    using ring_slice_push [of ?w ?r "tu_ring g" ?rec] i by simp
  then have "telem_pending (telem_emit_args x g) = telem_pending g @ [x]"
    using w1 unfolding e
    by (simp add: telem_pending_def telem_fill_def telem_publish_def unat_and_mask x record_args_def)
  moreover have "telem_inv n (telem_emit_args x g)"
    using i w1 unfolding e by (simp add: telem_inv_def telem_fill_def telem_publish_def TELEM_RING_SIZE_def
        word_le_nat_alt)
  ultimately show ?thesis using i by (simp add: TELEM_RING_SIZE_def)
qed

lemma sender_record_front:
  assumes "telem_inv n g" "tu_read_idx g < tu_write_idx g"
  shows "telem_pending g = record_args (sender_record g) # telem_pending (telem_take g)"
  using assms ring_slice_pop [of "unat (tu_read_idx g)" "unat (tu_write_idx g)" "tu_ring g"]
  by (simp add: telem_pending_def telem_take_def unat_idx_Suc [OF assms(2)] sender_record_def
      unat_and_mask record_args_def telem_inv_def TELEM_RING_SIZE_def word_less_nat_alt)

lemma telem_take_inv:
  "telem_inv n g \<Longrightarrow> tu_read_idx g < tu_write_idx g \<Longrightarrow> telem_inv n (telem_take g)"
  by (auto simp: telem_inv_def telem_take_def unat_idx_Suc word_le_nat_alt word_less_nat_alt)

lemma telem_pending_empty_iff:
  "telem_inv n g \<Longrightarrow> telem_pending g = [] \<longleftrightarrow> \<not> tu_read_idx g < tu_write_idx g"
  by (metis length_0_conv length_telem_pending diff_is_0_eq not_le word_less_nat_alt)

interpretation telem_fifo: bounded_fifo telem_emit_args telem_take telem_front telem_pending
  TELEM_RING_SIZE telem_inv
proof unfold_locales
  fix n s
  assume inv: "telem_inv n s"
  show "telem_front s = (case telem_pending s of [] \<Rightarrow> None | x # _ \<Rightarrow> Some x)"
    using sender_record_front [OF inv] telem_pending_empty_iff [OF inv]
    by (cases "tu_read_idx s < tu_write_idx s") (simp_all add: telem_front_def)
  assume "telem_pending s \<noteq> []"
  then have "tu_read_idx s < tu_write_idx s" using telem_pending_empty_iff [OF inv] by simp
  then show "telem_pending (telem_take s) = tl (telem_pending s)" "telem_inv n (telem_take s)"
    using sender_record_front [OF inv] telem_take_inv [OF inv] by simp_all
qed (use telem_emit_pending in auto)

lemma telem_udp_init_inv:
  "telem_udp_init fd ok ip node g = (0, g') \<Longrightarrow> length (tu_ring g) = TELEM_RING_SIZE \<Longrightarrow> n < 2 ^ 64 \<Longrightarrow>
   telem_inv n g' \<and> telem_pending g' = [] \<and> tu_running g'"
  by (auto simp: telem_udp_init_def Let_def telem_inv_def telem_pending_def split: option.splits if_splits)

lemma sender_drain_take:
  assumes "telem_inv n g" "w = tu_write_idx g"
  shows "\<exists>m recs. sender_drain outcomes w k (g, out) = ((telem_take ^^ m) g, out @ recs) \<and>
    map record_args recs = take m (telem_pending g) \<and> telem_pending ((telem_take ^^ m) g) = drop m (telem_pending g) \<and>
    m \<le> length (telem_pending g) \<and> (m < length (telem_pending g) \<longrightarrow> outcomes (k + m) = Send_ENOBUFS) \<and>
    (\<forall>j < m. outcomes (k + j) \<noteq> Send_ENOBUFS)"
  using assms
proof (induction outcomes w k "(g, out)" arbitrary: g out rule: sender_drain.induct)
  case (1 outcomes w k g out)
  show ?case
  proof (cases "tu_read_idx g < w \<and> outcomes k \<noteq> Send_ENOBUFS")
    case False
    have "tu_read_idx g < w \<longleftrightarrow> 0 < length (telem_pending g)"
      using 1(3) by (simp add: word_less_nat_alt)
    with False show ?thesis
      by (intro exI [of _ 0] exI [of _ "[]"]) (auto simp: sender_drain.simps [of _ _ _ g])
  next
    case True
    have inv: "telem_inv n (telem_take g)" using 1(2,3) True telem_take_inv by auto
    have p: "telem_pending g = record_args (sender_record g) # telem_pending (telem_take g)"
      using 1(2,3) True sender_record_front by auto
    have "w = tu_write_idx (telem_take g)" using 1(3) by (simp add: telem_take_def)
    with True inv obtain m recs where ih:
      "sender_drain outcomes w (Suc k) (telem_take g, out @ [sender_record g]) =
        ((telem_take ^^ m) (telem_take g), (out @ [sender_record g]) @ recs)"
      "map record_args recs = take m (telem_pending (telem_take g))"
      "telem_pending ((telem_take ^^ m) (telem_take g)) = drop m (telem_pending (telem_take g))"
      "m \<le> length (telem_pending (telem_take g))"
      "m < length (telem_pending (telem_take g)) \<longrightarrow> outcomes (Suc k + m) = Send_ENOBUFS"
      "\<forall>j < m. outcomes (Suc k + j) \<noteq> Send_ENOBUFS"
      using 1(1) [folded telem_take_def] by blast
    have fp: "(telem_take ^^ Suc m) g = (telem_take ^^ m) (telem_take g)"
      by (simp add: funpow_swap1)
    have "sender_drain outcomes w k (g, out) =
        sender_drain outcomes w (Suc k) (telem_take g, out @ [sender_record g])"
      using True by (subst sender_drain.simps) (simp add: telem_take_def)
    with ih True p show ?thesis
      unfolding fp [symmetric]
      by (intro exI [of _ "Suc m"] exI [of _ "sender_record g # recs"])
        (auto simp: less_Suc_eq_0_disj simp del: funpow.simps length_telem_pending)
  qed
qed

section \<open>Properties\<close>

text \<open>
  The ring is a bounded first-in first-out queue of 64 records. After \<open>telem_udp_init\<close>, every
  interleaving of \<open>telem_udp_emit\<close> by the producer and of single records taken by the sender
  behaves as the reference queue does: nothing is reordered, duplicated or invented, a record is
  dropped only when 64 are waiting, and with at most 64 records none is lost. A slot the producer
  has filled but not yet published changes nothing for the sender.
\<close>

lemma telem_udp_fifo:
  assumes "telem_udp_init fd True dest_ip node g = (0, g0)" "length (tu_ring g) = 64"
    and "length (fifo_enqs ops) < 2 ^ 64 - 1"
    and "fold (fifo_step telem_emit_args telem_take telem_front) ops (g0, []) = (g1, out)"
  shows "fold (queue_step 64) ops ([], []) = (telem_pending g1, out) \<and>
    subseq (out @ telem_pending g1) (fifo_enqs ops) \<and> length (telem_pending g1) \<le> 64 \<and>
    (length (fifo_enqs ops) \<le> 64 \<longrightarrow> out @ telem_pending g1 = fifo_enqs ops) \<and>
    (\<not> telem_full g1 \<longrightarrow> telem_pending (telem_fill rec g1) = telem_pending g1)"
proof -
  have init: "telem_inv (length (fifo_enqs ops)) g0" "telem_pending g0 = []"
    using telem_udp_init_inv [OF assms(1), of "length (fifo_enqs ops)"] assms(2,3)
    by (simp_all add: TELEM_RING_SIZE_def)
  have run: "fold (queue_step 64) ops ([], []) = (telem_pending g1, out)" and inv: "telem_inv 0 g1"
    using telem_fifo.run_refines [OF init(1) assms(4)] init(2) by (simp_all add: TELEM_RING_SIZE_def)
  show ?thesis
    using run queue_run_order [OF run] queue_run_lossless [OF run] telem_fill_pending [OF inv] by auto
qed

text \<open>
  One pass of the sender thread takes the records waiting at its start off the ring in order,
  up to the first \<open>sendto\<close> that reports \<open>ENOBUFS\<close>, and leaves the rest for the next pass; a record
  whose \<open>sendto\<close> fails for another reason is lost. The pass always ends.
\<close>

lemma sender_pass_correct:
  assumes "telem_inv 0 g" "tu_running g" "sender_pass outcomes g = (g', recs)"
  shows "\<exists>m \<le> length (telem_pending g). map record_args recs = take m (telem_pending g) \<and>
    telem_pending g' = drop m (telem_pending g) \<and>
    (m < length (telem_pending g) \<longrightarrow> outcomes m = Send_ENOBUFS) \<and>
    (\<forall>j < m. outcomes j \<noteq> Send_ENOBUFS)"
  using sender_drain_take [OF assms(1) refl, of outcomes 0 "[]"] assms(2,3)
  by (fastforce simp: sender_pass_def)

end
