(* ===== verification/Min_Delay.thy ===== *)
theory Min_Delay
  imports DRS_Config
begin

text \<open>
  The minimum-delay filter of \<open>src/min_delay.c\<close>: a ring of the last ten round-trip times and
  their minimum. A sample is accepted when it exceeds the minimum by at most the tolerance. The
  ring implements a sliding window (locale \<open>sliding_window\<close>), and the acceptance test is
  shown to be the one over the true last ten samples.
\<close>

section \<open>The code\<close>

record min_delay =
  mdf_window :: "i64 list"
  mdf_count :: nat
  mdf_head :: nat
  mdf_current_min :: i64

definition min_delay_reset :: "min_delay \<Rightarrow> min_delay" where
  "min_delay_reset f =
     f\<lparr>mdf_window := replicate DRS_MIN_DELAY_WINDOW 0, mdf_count := 0, mdf_head := 0,
       mdf_current_min := INT64_MAX\<rparr>"

definition min_delay_init :: "min_delay \<Rightarrow> min_delay" where
  "min_delay_init f = min_delay_reset f"

definition min_delay_scan :: "min_delay \<Rightarrow> i64" where
  "min_delay_scan f =
     fold (\<lambda>i mn.
         let idx = (int (mdf_head f) - int (mdf_count f) + int i + int DRS_MIN_DELAY_WINDOW)
                     smod int DRS_MIN_DELAY_WINDOW
         in if mdf_window f ! nat idx < mn then mdf_window f ! nat idx else mn)
       [0..<mdf_count f] INT64_MAX"

definition min_delay_update :: "min_delay \<Rightarrow> i64 \<Rightarrow> bool \<times> min_delay" where
  "min_delay_update f rtt_ns =
     (let f = f\<lparr>mdf_window := (mdf_window f)[mdf_head f := rtt_ns]\<rparr>;
          f = f\<lparr>mdf_head := (mdf_head f + 1) mod DRS_MIN_DELAY_WINDOW\<rparr>;
          f = (if mdf_count f < DRS_MIN_DELAY_WINDOW then f\<lparr>mdf_count := mdf_count f + 1\<rparr> else f);
          mn = min_delay_scan f;
          f = f\<lparr>mdf_current_min := mn\<rparr>
      in (rtt_ns \<le> s64 (mn + DRS_MIN_DELAY_TOLERANCE_NS), f))"

definition min_delay_min :: "min_delay \<Rightarrow> i64" where
  "min_delay_min f = mdf_current_min f"

section \<open>Invariant and contents\<close>

definition min_delay_inv :: "min_delay \<Rightarrow> bool" where
  "min_delay_inv f \<longleftrightarrow> length (mdf_window f) = DRS_MIN_DELAY_WINDOW \<and>
     mdf_head f < DRS_MIN_DELAY_WINDOW \<and> mdf_count f \<le> DRS_MIN_DELAY_WINDOW"

definition min_delay_contents :: "min_delay \<Rightarrow> i64 list" where
  "min_delay_contents f =
     ring_slice (mdf_window f) (mdf_head f + DRS_MIN_DELAY_WINDOW - mdf_count f)
       (mdf_head f + DRS_MIN_DELAY_WINDOW)"

lemma min_delay_reset_inv [simp]: "min_delay_inv (min_delay_reset f)"
  by (simp add: min_delay_inv_def min_delay_reset_def drs_const)

lemma min_delay_reset_contents [simp]: "min_delay_contents (min_delay_reset f) = []"
  by (simp add: min_delay_contents_def min_delay_reset_def)

lemma min_delay_update_inv: "min_delay_inv f \<Longrightarrow> min_delay_inv (snd (min_delay_update f x))"
  by (simp add: min_delay_inv_def min_delay_update_def Let_def drs_const)

lemma length_min_delay_contents: "min_delay_inv f \<Longrightarrow> length (min_delay_contents f) = mdf_count f"
  by (simp add: min_delay_contents_def min_delay_inv_def)

text \<open>Advancing the write position modulo the size does not change what a slice reads.\<close>

lemma ring_slice_head_mod:
  assumes "length buf = n" "h < n" "c \<le> n"
  shows "ring_slice buf ((h + 1) mod n + n - c) ((h + 1) mod n + n) =
         ring_slice buf (h + 1 + n - c) (h + 1 + n)"
proof (cases "h + 1 = n")
  case True
  have "ring_slice buf (n - c + n) (n + n) = ring_slice buf (n - c) n"
    using assms ring_slice_shift [of buf n "n - c" n] by simp
  then show ?thesis using True assms by (simp add: add.commute)
qed (use assms in simp)

lemma ring_slice_keep_last:
  assumes len: "length buf = n" and "h < n" "c \<le> n"
  shows "ring_slice (buf[h := x]) (h + 1 + n - (if c < n then c + 1 else c)) (h + 1 + n) =
         keep_last n (ring_slice buf (h + n - c) (h + n) @ [x])"
proof -
  have h: "h = (h + n) mod length buf" using assms by simp
  show ?thesis
  proof (cases "c < n")
    case True
    have "ring_slice (buf[(h + n) mod length buf := x]) (h + n - c) (Suc (h + n)) =
        ring_slice buf (h + n - c) (h + n) @ [x]"
      using assms True by (intro ring_slice_push) auto
    then show ?thesis
      using True assms by (simp flip: h)
  next
    case False
    then have c: "c = n" using assms by simp
    have "ring_slice (buf[(h + n) mod length buf := x]) (h + 1) (Suc (h + n)) =
        ring_slice buf (h + 1) (h + n) @ [x]"
      using assms by (intro ring_slice_push) auto
    moreover have "ring_slice buf h (h + n) = buf ! h # ring_slice buf (Suc h) (h + n)"
      using assms ring_slice_pop [of h "h + n" buf] by simp
    ultimately show ?thesis
      using c assms by (simp flip: h add: keep_last_def)
  qed
qed

lemma min_delay_update_contents:
  assumes "min_delay_inv f"
  shows "min_delay_contents (snd (min_delay_update f x)) =
         keep_last DRS_MIN_DELAY_WINDOW (min_delay_contents f @ [x])"
proof -
  let ?n = DRS_MIN_DELAY_WINDOW and ?w = "mdf_window f" and ?h = "mdf_head f" and ?c = "mdf_count f"
  have "min_delay_contents (snd (min_delay_update f x)) =
      ring_slice (?w[?h := x]) ((?h + 1) mod ?n + ?n - (if ?c < ?n then ?c + 1 else ?c)) ((?h + 1) mod ?n + ?n)"
    using assms by (simp add: min_delay_update_def min_delay_contents_def Let_def min_delay_inv_def)
  also have "\<dots> = ring_slice (?w[?h := x]) (?h + 1 + ?n - (if ?c < ?n then ?c + 1 else ?c)) (?h + 1 + ?n)"
    using assms by (intro ring_slice_head_mod) (simp_all add: min_delay_inv_def)
  also have "\<dots> = keep_last ?n (min_delay_contents f @ [x])"
    using assms unfolding min_delay_contents_def
    by (intro ring_slice_keep_last) (simp_all add: min_delay_inv_def)
  finally show ?thesis .
qed

interpretation mdw: sliding_window "\<lambda>x f. snd (min_delay_update f x)" "\<lambda>x. x" min_delay_contents
  DRS_MIN_DELAY_WINDOW min_delay_inv
proof unfold_locales
  show "length (min_delay_contents f) \<le> DRS_MIN_DELAY_WINDOW" if "min_delay_inv f" for f
    using that length_min_delay_contents [OF that] by (simp add: min_delay_inv_def)
qed (auto intro: min_delay_update_contents min_delay_update_inv)

section \<open>The minimum\<close>

lemma min_delay_scan_contents:
  assumes "min_delay_inv f"
  shows "min_delay_scan f = fold min (min_delay_contents f) INT64_MAX"
proof -
  let ?n = DRS_MIN_DELAY_WINDOW and ?h = "mdf_head f" and ?c = "mdf_count f"
  have idx: "nat ((int ?h - int ?c + int i + int ?n) smod int ?n) = (?h + ?n - ?c + i) mod ?n" for i
  proof -
    have nn: "int ?h - int ?c + int i + int ?n = int (?h + ?n - ?c + i)"
      using assms by (simp add: min_delay_inv_def of_nat_diff)
    have "0 < ?n" by (simp add: drs_const)
    then show ?thesis
      unfolding nn by (simp only: smod_nonneg_eq of_nat_0_le_iff of_nat_0_less_iff zmod_int [symmetric] nat_int)
  qed
  have "min_delay_contents f = map (\<lambda>i. mdf_window f ! ((?h + ?n - ?c + i) mod ?n)) [0..<?c]"
    using assms by (simp add: min_delay_contents_def ring_slice_map min_delay_inv_def)
  then show ?thesis
    unfolding min_delay_scan_def idx Let_def fold_map comp_def
    by (simp add: fold_map comp_def min_def) (intro fold_cong; auto simp: not_less)
qed

lemma fold_min_Min:
  "xs \<noteq> [] \<Longrightarrow> \<forall>x\<in>set xs. x \<le> m \<Longrightarrow> fold min xs m = Min (set xs)" for m :: int
proof -
  assume "xs \<noteq> []" and le: "\<forall>x\<in>set xs. x \<le> m"
  have "fold min xs m = Min (insert m (set xs))"
    using Min.set_eq_fold [of m xs] by simp
  also have "\<dots> = min m (Min (set xs))"
    using \<open>xs \<noteq> []\<close> by simp
  also have "Min (set xs) \<le> m"
    using le \<open>xs \<noteq> []\<close> by simp
  then have "min m (Min (set xs)) = Min (set xs)" by simp
  finally show ?thesis .
qed

lemma min_delay_scan_current_min [simp]:
  "min_delay_scan (f\<lparr>mdf_current_min := m\<rparr>) = min_delay_scan f"
  by (simp add: min_delay_scan_def cong: if_cong)

lemma min_delay_update_scan:
  assumes "min_delay_inv f"
  shows "mdf_current_min (snd (min_delay_update f x)) =
      fold min (min_delay_contents (snd (min_delay_update f x))) INT64_MAX"
proof -
  have "min_delay_scan (snd (min_delay_update f x)) =
      fold min (min_delay_contents (snd (min_delay_update f x))) INT64_MAX"
    by (rule min_delay_scan_contents) (rule min_delay_update_inv [OF assms])
  moreover have "mdf_current_min (snd (min_delay_update f x)) =
      min_delay_scan (snd (min_delay_update f x))"
    by (simp add: min_delay_update_def Let_def)
  ultimately show ?thesis by simp
qed

lemma min_delay_update_min:
  assumes inv: "min_delay_inv f" and "\<forall>v\<in>set (min_delay_contents f @ [x]). in_i64 v"
  shows "mdf_current_min (snd (min_delay_update f x)) =
      Min (set (keep_last DRS_MIN_DELAY_WINDOW (min_delay_contents f @ [x])))"
proof -
  let ?l = "keep_last DRS_MIN_DELAY_WINDOW (min_delay_contents f @ [x])"
  have "x \<in> set ?l" by (rule last_in_keep_last) (simp add: drs_const)
  then have "?l \<noteq> []" by auto
  moreover have "\<forall>v\<in>set ?l. v \<le> INT64_MAX"
    using assms(2) set_keep_last_subset in_i64_le_MAX by (metis subsetD)
  ultimately show ?thesis
    using min_delay_update_scan [OF inv, of x] min_delay_update_contents [OF inv, of x]
    by (simp add: fold_min_Min)
qed

lemma fst_min_delay_update:
  "fst (min_delay_update f x) \<longleftrightarrow>
     x \<le> s64 (mdf_current_min (snd (min_delay_update f x)) + DRS_MIN_DELAY_TOLERANCE_NS)"
  by (simp add: min_delay_update_def Let_def)

section \<open>Properties\<close>

text \<open>
  C31: after a reset and any history of samples, \<open>min_delay_update\<close> accepts a sample exactly when
  it exceeds the minimum of the last ten samples (itself included) by at most the tolerance, and
  \<open>min_delay_min\<close> then reports that minimum. The samples are assumed to be \<open>int64_t\<close> values low
  enough that adding the tolerance does not overflow.
\<close>

theorem min_delay_filter_correct:
  fixes f0 :: min_delay and xs :: "i64 list" and x :: i64
  assumes "\<forall>v\<in>set (xs @ [x]). in_i64 v \<and> v \<le> INT64_MAX - DRS_MIN_DELAY_TOLERANCE_NS"
  defines "f \<equiv> fold (\<lambda>v f. snd (min_delay_update f v)) xs (min_delay_reset f0)"
    and "recent \<equiv> keep_last DRS_MIN_DELAY_WINDOW (xs @ [x])"
  shows "(fst (min_delay_update f x) \<longleftrightarrow> x \<le> Min (set recent) + DRS_MIN_DELAY_TOLERANCE_NS) \<and>
    min_delay_min (snd (min_delay_update f x)) = Min (set recent)"
proof -
  have inv: "min_delay_inv f"
    unfolding f_def by (rule mdw.invar_pushes) simp
  have con: "min_delay_contents f = keep_last DRS_MIN_DELAY_WINDOW xs"
    unfolding f_def by (subst mdw.contents_pushes) simp_all
  have "\<forall>v\<in>set (min_delay_contents f @ [x]). in_i64 v"
    using assms(1) set_keep_last_subset [of DRS_MIN_DELAY_WINDOW xs] by (auto simp: con)
  then have mn: "mdf_current_min (snd (min_delay_update f x)) = Min (set recent)"
    using min_delay_update_min [OF inv] by (simp add: con keep_last_append recent_def)
  have "x \<in> set recent"
    unfolding recent_def by (rule last_in_keep_last) (simp add: drs_const)
  then have "Min (set recent) \<in> set recent" by (intro Min_in) auto
  then have "in_i64 (Min (set recent)) \<and> Min (set recent) \<le> INT64_MAX - DRS_MIN_DELAY_TOLERANCE_NS"
    using assms(1) set_keep_last_subset unfolding recent_def by (metis subsetD)
  then have "s64 (Min (set recent) + DRS_MIN_DELAY_TOLERANCE_NS) =
      Min (set recent) + DRS_MIN_DELAY_TOLERANCE_NS"
    by (intro s64_id) (simp add: in_i64_def INT64_MAX_def drs_const)
  then show ?thesis
    using mn by (simp add: fst_min_delay_update min_delay_min_def)
qed

theorem min_delay_filter_correct_witness:
  "let f = fold (\<lambda>v f. snd (min_delay_update f v)) [100000, 90000]
       (min_delay_reset \<lparr>mdf_window = [], mdf_count = 3, mdf_head = 1, mdf_current_min = 5\<rparr>)
   in \<not> fst (min_delay_update f 300000) \<and> min_delay_min (snd (min_delay_update f 300000)) = 90000"
  unfolding Let_def
  using min_delay_filter_correct [of "[100000, 90000]" 300000
      "\<lparr>mdf_window = [], mdf_count = 3, mdf_head = 1, mdf_current_min = 5\<rparr>"]
  by (simp add: in_i64_def INT64_MAX_def drs_const)

end
