(* ===== verification/Statemachine.thy ===== *)
theory Statemachine
  imports Pulse_Engine Election Errors Cmd Telemetry Telemetry_Udp Pi_Ctrl Min_Delay
begin

text \<open>
  The state machine, \<open>src/statemachine.c\<close>, over the state of the whole daemon: \<open>sm_t\<close> itself, the
  network and pulse-engine structures it points to, and the static variables of the components it
  calls. Every handler is a function on that state. What the operating system answers is the record
  \<open>os_env\<close>: successive readings of the two clocks, the results of successive \<open>sendto\<close> calls and the
  course of successive calibrations, each indexed by a counter of the daemon's state.
\<close>

section \<open>State\<close>

datatype drs_state = DRS_STATE_GROUND | DRS_STATE_CALIBRATION | DRS_STATE_LISTEN
  | DRS_STATE_CANDIDATE | DRS_STATE_FOLLOWER | DRS_STATE_LEADER | DRS_STATE_HOLDOVER

primrec state_code :: "drs_state \<Rightarrow> nat" where
  "state_code DRS_STATE_GROUND = 0"
| "state_code DRS_STATE_CALIBRATION = 1"
| "state_code DRS_STATE_LISTEN = 2"
| "state_code DRS_STATE_CANDIDATE = 3"
| "state_code DRS_STATE_FOLLOWER = 4"
| "state_code DRS_STATE_LEADER = 5"
| "state_code DRS_STATE_HOLDOVER = 6"

primrec state_name :: "drs_state \<Rightarrow> string" where
  "state_name DRS_STATE_GROUND = ''GROUND''"
| "state_name DRS_STATE_CALIBRATION = ''CALIBRATION''"
| "state_name DRS_STATE_LISTEN = ''LISTEN''"
| "state_name DRS_STATE_CANDIDATE = ''CANDIDATE''"
| "state_name DRS_STATE_FOLLOWER = ''FOLLOWER''"
| "state_name DRS_STATE_LEADER = ''LEADER''"
| "state_name DRS_STATE_HOLDOVER = ''HOLDOVER''"

text \<open>States are ordered as their codes; \<open>update_telemetry\<close> compares them.\<close>

instantiation drs_state :: linorder
begin

definition less_eq_drs_state :: "drs_state \<Rightarrow> drs_state \<Rightarrow> bool" where
  "less_eq_drs_state s s' \<longleftrightarrow> state_code s \<le> state_code s'"

definition less_drs_state :: "drs_state \<Rightarrow> drs_state \<Rightarrow> bool" where
  "less_drs_state s s' \<longleftrightarrow> state_code s < state_code s'"

instance
proof
  show "s = s'" if "s \<le> s'" "s' \<le> s" for s s' :: drs_state
    using that by (cases s; cases s') (simp_all add: less_eq_drs_state_def)
qed (auto simp: less_eq_drs_state_def less_drs_state_def)

end

record sm_t =
  sm_state :: drs_state
  sm_vc :: vclock
  sm_pi :: pi_ctrl
  sm_mdf :: min_delay
  sm_el :: election
  sm_state_entry_ns :: i64
  sm_last_pi_update_ns :: i64
  sm_last_leader_ns :: i64
  sm_holdover_entry_ns :: i64
  sm_sync_req_sent_ns :: i64
  sm_last_leader_seq :: u16
  sm_last_rate_q32 :: u64
  sm_sync_fail_count :: int
  sm_sync_rate_ns :: i64
  sm_sync_req_pending :: bool
  sm_last_sync_req :: drs_packet
  sm_sync_req_t1 :: i64

datatype log_line = Log_text string | Log_leader u32 u32

record os_env =
  os_ver :: proto_ver
  os_raw :: clock
  os_mono :: clock
  os_sendto :: "nat \<Rightarrow> bool"
  os_calib :: "nat \<Rightarrow> calib_env"

record daemon =
  d_sm :: sm_t
  d_net :: net_io
  d_pe :: pulse_engine
  d_gpio :: gpio_globals
  d_tel :: telemetry_globals
  d_udp :: telem_udp
  d_err :: errors_globals
  d_cmd :: cmd_globals
  d_xr :: u64
  d_raw_n :: nat
  d_mono_n :: nat
  d_send_n :: nat
  d_calib_n :: nat
  d_sent :: "datagram list"
  d_log :: "log_line list"

section \<open>Calls into the other components\<close>

definition upd_sm :: "(sm_t \<Rightarrow> sm_t) \<Rightarrow> daemon \<Rightarrow> daemon" where
  "upd_sm f d = d\<lparr>d_sm := f (d_sm d)\<rparr>"

definition read_raw :: "os_env \<Rightarrow> daemon \<Rightarrow> i64 \<times> daemon" where
  "read_raw os d = (mono_raw_ns (os_raw os (d_raw_n d)), d\<lparr>d_raw_n := d_raw_n d + 1\<rparr>)"

text \<open>\<open>errors_push\<close> reads the clock only when the ring is mapped.\<close>

definition push_error :: "os_env \<Rightarrow> u32 \<Rightarrow> string \<Rightarrow> daemon \<Rightarrow> daemon" where
  "push_error os code msg d =
     (case eg_ring (d_err d) of
        None \<Rightarrow> d
      | Some _ \<Rightarrow> (let (now, d) = read_raw os d
                  in d\<lparr>d_err := errors_push code (Some msg) now (d_err d)\<rparr>))"

definition arm_timeout :: "os_env \<Rightarrow> daemon \<Rightarrow> daemon" where
  "arm_timeout os d =
     (let (now, d) = read_raw os d;
          (el, xr) = election_arm_timeout (sm_el (d_sm d)) now (d_xr d)
      in upd_sm (\<lambda>sm. sm\<lparr>sm_el := el\<rparr>) (d\<lparr>d_xr := xr\<rparr>))"

definition calibrate :: "os_env \<Rightarrow> daemon \<Rightarrow> int \<times> daemon" where
  "calibrate os d =
     (let (ret, vc) = calibrate_loopback (os_calib os (d_calib_n d)) (sm_vc (d_sm d))
      in (ret, upd_sm (\<lambda>sm. sm\<lparr>sm_vc := vc\<rparr>) (d\<lparr>d_calib_n := d_calib_n d + 1\<rparr>)))"

definition tel_write :: "(drs_telemetry \<Rightarrow> drs_telemetry) \<Rightarrow> daemon \<Rightarrow> daemon" where
  "tel_write f d = d\<lparr>d_tel := telemetry_write f (d_tel d)\<rparr>"

definition udp_emit :: "i64 \<Rightarrow> drs_state \<Rightarrow> i64 \<Rightarrow> i64 \<Rightarrow> i64 \<Rightarrow> daemon \<Rightarrow> daemon" where
  "udp_emit ts st off rtt rate d = d\<lparr>d_udp := telem_udp_emit ts (int (state_code st)) off rtt rate (d_udp d)\<rparr>"

text \<open>A datagram the kernel took is appended to \<open>d_sent\<close>; each send consumes one \<open>sendto\<close> result.\<close>

definition transmit :: "os_env \<Rightarrow> (bool \<Rightarrow> int \<times> datagram) \<Rightarrow> daemon \<Rightarrow> int \<times> daemon" where
  "transmit os send d =
     (let (rc, dg) = send (os_sendto os (d_send_n d));
          d = d\<lparr>d_send_n := d_send_n d + 1\<rparr>
      in (rc, if rc = 0 then d\<lparr>d_sent := d_sent d @ [dg]\<rparr> else d))"

section \<open>Entering a state\<close>

definition enter_state :: "drs_state \<Rightarrow> i64 \<Rightarrow> daemon \<Rightarrow> daemon" where
  "enter_state next t_now d =
     (let d = d\<lparr>d_log := d_log d @
            [Log_text (''[drs] '' @ state_name (sm_state (d_sm d)) @ '' -> '' @ state_name next)]\<rparr>
      in upd_sm (\<lambda>sm. sm\<lparr>sm_state := next, sm_state_entry_ns := t_now\<rparr>) d)"

definition enter_listen :: "os_env \<Rightarrow> i64 \<Rightarrow> daemon \<Rightarrow> daemon" where
  "enter_listen os t_now d = arm_timeout os (enter_state DRS_STATE_LISTEN t_now d)"

definition enter_candidate :: "os_env \<Rightarrow> i64 \<Rightarrow> daemon \<Rightarrow> daemon" where
  "enter_candidate os t_now d = arm_timeout os (enter_state DRS_STATE_CANDIDATE t_now d)"

definition discipline_reset :: "sm_t \<Rightarrow> sm_t" where
  "discipline_reset sm =
     sm\<lparr>sm_mdf := min_delay_reset (sm_mdf sm),
        sm_pi := (pi_ctrl_init (sm_pi sm))\<lparr>pi_step_accum_ns := 0\<rparr>,
        sm_sync_fail_count := 0, sm_sync_rate_ns := DRS_SYNC_EXCHANGE_NS, sm_sync_req_pending := False\<rparr>"

definition sm_is_active :: "sm_t \<Rightarrow> bool" where
  "sm_is_active sm \<longleftrightarrow> sm_state sm \<noteq> DRS_STATE_GROUND \<and> sm_state sm \<noteq> DRS_STATE_CALIBRATION"

definition enter_follower :: "drs_packet \<Rightarrow> sockaddr_in option \<Rightarrow> i64 \<Rightarrow> daemon \<Rightarrow> daemon" where
  "enter_follower pkt src t_now d =
     (if \<not> sm_is_active (d_sm d) then d
      else
        let leader_changed = (el_leader_node_id (sm_el (d_sm d)) \<noteq> pkt_node_id pkt);
            d = upd_sm (\<lambda>sm. sm\<lparr>sm_el := (sm_el sm)\<lparr>el_leader_node_id := pkt_node_id pkt\<rparr>\<rparr>) d;
            d = (case src of
                   None \<Rightarrow> d
                 | Some a \<Rightarrow> d\<lparr>d_net := net_set_leader (d_net d) (sin_addr a),
                              d_log := d_log d @ [Log_leader (pkt_node_id pkt) (sin_addr a)]\<rparr>);
            d = (if leader_changed then upd_sm discipline_reset d else d);
            d = enter_state DRS_STATE_FOLLOWER t_now d
        in upd_sm (\<lambda>sm. sm\<lparr>sm_last_leader_ns := t_now\<rparr>) d)"

definition enter_leader :: "os_env \<Rightarrow> i64 \<Rightarrow> daemon \<Rightarrow> daemon" where
  "enter_leader os t_now d =
     (let d = upd_sm (\<lambda>sm. sm\<lparr>sm_el := election_promote (sm_el sm)\<rparr>) d;
          d = enter_state DRS_STATE_LEADER t_now d;
          (ret, d) = calibrate os d
      in if ret \<noteq> 0 then push_error os DRS_ERR_CALIB_TIMEOUT ''calib on leader promote failed'' d else d)"

definition enter_holdover :: "i64 \<Rightarrow> daemon \<Rightarrow> daemon" where
  "enter_holdover t_now d =
     (let d = enter_state DRS_STATE_HOLDOVER t_now d;
          d = upd_sm (\<lambda>sm. sm\<lparr>sm_holdover_entry_ns := t_now\<rparr>) d
      in tel_write (\<lambda>t. t\<lparr>tel_holdover_count := tel_holdover_count t + 1\<rparr>) d)"

section \<open>Telemetry\<close>

definition holdover_remaining :: "sm_t \<Rightarrow> i64 \<Rightarrow> u32" where
  "holdover_remaining sm t_now =
     (let elapsed = s64 (t_now - sm_holdover_entry_ns sm);
          remain = s64 (DRS_HOLDOVER_MAX_NS - elapsed)
      in word_of_int (c_div64 (if remain > 0 then remain else 0) 1000000))"

definition telemetry_fields :: "sm_t \<Rightarrow> u32 \<Rightarrow> i64 \<Rightarrow> drs_telemetry \<Rightarrow> drs_telemetry" where
  "telemetry_fields sm pulse_count t_now t =
     (let t = t\<lparr>tel_state := of_nat (state_code (sm_state sm)),
                tel_leader_node_id := el_leader_node_id (sm_el sm),
                tel_election_term := el_own_term (sm_el sm),
                tel_rate_q32_32 := sint (sm_last_rate_q32 sm),
                tel_latency_corr_ns := vc_lat_corr_ns (sm_vc sm),
                tel_lock_mode := word_of_int (el_lock_mode (sm_el sm)),
                tel_pulse_count := pulse_count\<rparr>
      in if sm_state sm = DRS_STATE_HOLDOVER
         then t\<lparr>tel_holdover_remaining_ms := holdover_remaining sm t_now, tel_flags := DRS_FLAG_HOLDOVER\<rparr>
         else
           let flags = 0;
               flags = (if sm_state sm = DRS_STATE_LEADER then flags OR DRS_FLAG_LEADER else flags);
               flags = (if sm_state sm \<ge> DRS_STATE_LISTEN then flags OR DRS_FLAG_CALIBRATED else flags)
           in t\<lparr>tel_holdover_remaining_ms := 0, tel_flags := flags\<rparr>)"

definition update_telemetry :: "os_env \<Rightarrow> i64 \<Rightarrow> daemon \<Rightarrow> daemon" where
  "update_telemetry os t_now d =
     (case telemetry_get (d_tel d) of
        None \<Rightarrow> d
      | Some tel \<Rightarrow>
          let in_holdover = (sm_state (d_sm d) = DRS_STATE_HOLDOVER);
              offset = tel_offset_ns tel;
              d = tel_write (telemetry_fields (d_sm d) (pe_pulse_count (d_pe d)) t_now) d;
              (pe, g, n) = pulse_engine_update_health (os_raw os) offset in_holdover
                             (d_pe d, d_gpio d, d_raw_n d)
          in d\<lparr>d_pe := pe, d_gpio := g, d_raw_n := n\<rparr>)"

section \<open>Handlers\<close>

definition zero_packet :: drs_packet where
  "zero_packet = \<lparr>pkt_msg_type = 0, pkt_flags = 0, pkt_seq = 0, pkt_node_id = 0, pkt_election_term = 0,
     pkt_t1 = 0, pkt_t2 = 0, pkt_t3 = 0, pkt_t4 = 0\<rparr>"

text \<open>
  \<open>sm_init\<close> clears the structure, so nothing of the old \<open>sm_t\<close> remains; \<open>urandom\<close> is what
  \<open>/dev/urandom\<close> delivered.
\<close>

definition sm_init :: "os_env \<Rightarrow> u8 list option \<Rightarrow> u32 \<Rightarrow> int \<Rightarrow> daemon \<Rightarrow> daemon" where
  "sm_init os urandom own_node_id lock_mode d =
     (let (t, d) = read_raw os d;
          (t_arm, d) = read_raw os d;
          (el, xr) = election_init own_node_id lock_mode urandom t_arm (d_xr d);
          sm = \<lparr>sm_state = DRS_STATE_GROUND, sm_vc = vclock_init t,
                sm_pi = pi_ctrl_init \<lparr>pi_integrator_ns = 0, pi_step_counter = 0, pi_step_accum_ns = 0\<rparr>,
                sm_mdf = min_delay_init \<lparr>mdf_window = replicate DRS_MIN_DELAY_WINDOW 0, mdf_count = 0,
                                         mdf_head = 0, mdf_current_min = 0\<rparr>,
                sm_el = el, sm_state_entry_ns = 0, sm_last_pi_update_ns = 0, sm_last_leader_ns = 0,
                sm_holdover_entry_ns = 0, sm_sync_req_sent_ns = 0, sm_last_leader_seq = 0,
                sm_last_rate_q32 = DRS_RATE_NOMINAL_Q32, sm_sync_fail_count = 0,
                sm_sync_rate_ns = DRS_SYNC_EXCHANGE_NS, sm_sync_req_pending = False,
                sm_last_sync_req = zero_packet, sm_sync_req_t1 = 0\<rparr>;
          d = d\<lparr>d_sm := sm, d_xr := xr\<rparr>;
          (t, d) = read_raw os d
      in enter_state DRS_STATE_GROUND t d)"

definition tick_calibration :: "os_env \<Rightarrow> i64 \<Rightarrow> daemon \<Rightarrow> daemon" where
  "tick_calibration os t_now d =
     (let (t_local, d) = read_raw os d;
          d = upd_sm (\<lambda>sm. sm\<lparr>sm_vc := vclock_init t_local\<rparr>) d;
          (ret, d) = calibrate os d
      in if ret \<noteq> 0 then push_error os DRS_ERR_CALIB_TIMEOUT ''initial calibration failed'' d
         else
           let (pe, rn, mn) = pulse_engine_arm (os_raw os) (os_mono os) (sm_vc (d_sm d))
                                (d_pe d, d_raw_n d, d_mono_n d);
               d = d\<lparr>d_pe := pe, d_raw_n := rn, d_mono_n := mn\<rparr>
           in enter_listen os t_now d)"

text \<open>The three parts of the FOLLOWER tick after the leader timeout: request timeout, request, heartbeat.\<close>

definition sync_req_timeout :: "i64 \<Rightarrow> sm_t \<Rightarrow> sm_t" where
  "sync_req_timeout t_now sm =
     (if sm_sync_req_pending sm \<and> s64 (t_now - sm_sync_req_sent_ns sm) \<ge> DRS_SYNC_REQ_TIMEOUT_NS
      then
        let sm = sm\<lparr>sm_sync_req_pending := False, sm_sync_fail_count := sm_sync_fail_count sm + 1\<rparr>
        in if sm_sync_fail_count sm \<ge> DRS_RETRY_STORM_THRESHOLD
           then sm\<lparr>sm_sync_rate_ns := DRS_RETRY_STORM_RATE_NS\<rparr> else sm
      else sm)"

definition sync_req_packet :: "sm_t \<Rightarrow> drs_packet" where
  "sync_req_packet sm =
     zero_packet\<lparr>pkt_msg_type := DRS_MSG_SYNC_REQ, pkt_flags := ucast DRS_FLAG_CALIBRATED,
       pkt_seq := sm_last_leader_seq sm, pkt_node_id := el_own_node_id (sm_el sm),
       pkt_election_term := el_own_term (sm_el sm)\<rparr>"

definition send_sync_req :: "os_env \<Rightarrow> i64 \<Rightarrow> daemon \<Rightarrow> daemon" where
  "send_sync_req os t_now d =
     (if \<not> sm_sync_req_pending (d_sm d) \<and>
         s64 (t_now - sm_last_pi_update_ns (d_sm d)) \<ge> sm_sync_rate_ns (d_sm d)
      then
        let req = sync_req_packet (d_sm d);
            (t1, d) = read_raw os d;
            (rc, d) = transmit os (net_send_sync_req (os_ver os) (d_net d) req) d
        in if rc = 0
           then upd_sm (\<lambda>sm. sm\<lparr>sm_last_sync_req := req, sm_sync_req_t1 := t1,
                  sm_sync_req_sent_ns := t_now, sm_sync_req_pending := True\<rparr>) d
           else push_error os DRS_ERR_NET_INIT_FAIL ''SYNC_REQ sendto failed'' d
      else d)"

definition follower_heartbeat :: "i64 \<Rightarrow> daemon \<Rightarrow> daemon" where
  "follower_heartbeat t_now d =
     (let tel = telemetry_get (d_tel d)
      in udp_emit t_now DRS_STATE_FOLLOWER
           (case tel of Some t \<Rightarrow> tel_offset_ns t | None \<Rightarrow> 0)
           (case tel of Some t \<Rightarrow> tel_last_rtt_ns t | None \<Rightarrow> 0)
           (sint (sm_last_rate_q32 (d_sm d))) d)"

definition tick_follower :: "os_env \<Rightarrow> i64 \<Rightarrow> daemon \<Rightarrow> daemon" where
  "tick_follower os t_now d =
     (if s64 (t_now - sm_last_leader_ns (d_sm d)) \<ge> DRS_FOLLOWER_TIMEOUT_NS
      then enter_holdover t_now d
      else follower_heartbeat t_now (send_sync_req os t_now (upd_sm (sync_req_timeout t_now) d)))"

definition tick_holdover :: "os_env \<Rightarrow> i64 \<Rightarrow> daemon \<Rightarrow> daemon" where
  "tick_holdover os t_now d =
     (if s64 (t_now - sm_holdover_entry_ns (d_sm d)) \<ge> DRS_HOLDOVER_MAX_NS
      then
        let d = push_error os DRS_ERR_HOLDOVER_EXPIRED ''holdover expired, re-electing'' d;
            (ret, d) = calibrate os d;
            d = (if ret \<noteq> 0 then push_error os DRS_ERR_CALIB_TIMEOUT ''calib after holdover failed'' d else d);
            d = upd_sm discipline_reset d
        in enter_candidate os t_now d
      else d)"

text \<open>\<open>election_timed_out\<close> reads the clock unless the node is locked as follower.\<close>

definition timed_out :: "os_env \<Rightarrow> daemon \<Rightarrow> bool \<times> daemon" where
  "timed_out os d =
     (if el_lock_mode (sm_el (d_sm d)) = DRS_LOCK_AS_FOLLOWER then (False, d)
      else let (now, d) = read_raw os d in (election_timed_out (sm_el (d_sm d)) now, d))"

definition sm_tick_state :: "os_env \<Rightarrow> i64 \<Rightarrow> daemon \<Rightarrow> daemon" where
  "sm_tick_state os t_now d =
     (case sm_state (d_sm d) of
        DRS_STATE_GROUND \<Rightarrow>
          if s64 (t_now - sm_state_entry_ns (d_sm d)) \<ge> DRS_GROUND_DURATION_NS
          then enter_state DRS_STATE_CALIBRATION t_now d else d
      | DRS_STATE_CALIBRATION \<Rightarrow> tick_calibration os t_now d
      | DRS_STATE_LISTEN \<Rightarrow>
          (let (out, d) = timed_out os d in if out then enter_candidate os t_now d else d)
      | DRS_STATE_CANDIDATE \<Rightarrow>
          (let (out, d) = timed_out os d in if out then enter_leader os t_now d else d)
      | DRS_STATE_FOLLOWER \<Rightarrow> tick_follower os t_now d
      | DRS_STATE_LEADER \<Rightarrow>
          udp_emit t_now DRS_STATE_LEADER 0 0 (sint DRS_RATE_NOMINAL_Q32) d
      | DRS_STATE_HOLDOVER \<Rightarrow> tick_holdover os t_now d)"

definition sm_tick :: "os_env \<Rightarrow> i64 \<Rightarrow> daemon \<Rightarrow> daemon" where
  "sm_tick os t_now d = update_telemetry os t_now (sm_tick_state os t_now d)"

text \<open>\<open>election_on_announce\<close> reads the clock exactly when it arms a timeout, that is when it yields.\<close>

definition on_announce_election :: "os_env \<Rightarrow> drs_packet \<Rightarrow> daemon \<Rightarrow> elect_result \<times> daemon" where
  "on_announce_election os pkt d =
     (let now = mono_raw_ns (os_raw os (d_raw_n d));
          (res, el, xr) = election_on_announce (sm_el (d_sm d)) pkt now (d_xr d);
          d = upd_sm (\<lambda>sm. sm\<lparr>sm_el := el\<rparr>) (d\<lparr>d_xr := xr\<rparr>)
      in (res, if res = ELECT_BECOME_FOLLOWER then d\<lparr>d_raw_n := d_raw_n d + 1\<rparr> else d))"

definition sm_on_announce ::
  "os_env \<Rightarrow> drs_packet \<Rightarrow> sockaddr_in option \<Rightarrow> i64 \<Rightarrow> daemon \<Rightarrow> daemon" where
  "sm_on_announce os pkt src t_now d =
     (let (res, d) = on_announce_election os pkt d
      in case sm_state (d_sm d) of
           DRS_STATE_GROUND \<Rightarrow> d
         | DRS_STATE_CALIBRATION \<Rightarrow> d
         | DRS_STATE_FOLLOWER \<Rightarrow>
             let d = upd_sm (\<lambda>sm. sm\<lparr>sm_last_leader_ns := t_now\<rparr>) d
             in if res = ELECT_BECOME_FOLLOWER then enter_follower pkt src t_now d else d
         | DRS_STATE_LEADER \<Rightarrow>
             if res = ELECT_BECOME_FOLLOWER
             then enter_follower pkt src t_now (upd_sm discipline_reset d) else d
         | DRS_STATE_HOLDOVER \<Rightarrow>
             if res = ELECT_BECOME_FOLLOWER \<or> pkt_node_id pkt = el_leader_node_id (sm_el (d_sm d))
             then enter_follower pkt src t_now (upd_sm discipline_reset d) else d
         | _ \<Rightarrow>
             if res = ELECT_BECOME_FOLLOWER then enter_follower pkt src t_now d
             else if pkt_election_term pkt = el_own_term (sm_el (d_sm d)) \<and>
                     pkt_flags pkt AND ucast DRS_FLAG_LEADER \<noteq> 0 \<and>
                     pkt_node_id pkt < el_own_node_id (sm_el (d_sm d))
             then enter_follower pkt src t_now d else d)"

definition sync_resp_packet :: "sm_t \<Rightarrow> drs_packet \<Rightarrow> i64 \<Rightarrow> i64 \<Rightarrow> drs_packet" where
  "sync_resp_packet sm req t2_vc t3_vc =
     \<lparr>pkt_msg_type = DRS_MSG_SYNC_RESP, pkt_flags = ucast (DRS_FLAG_LEADER OR DRS_FLAG_CALIBRATED),
      pkt_seq = pkt_seq req, pkt_node_id = el_own_node_id (sm_el sm),
      pkt_election_term = el_own_term (sm_el sm), pkt_t1 = pkt_t1 req, pkt_t2 = t2_vc, pkt_t3 = t3_vc,
      pkt_t4 = 0\<rparr>"

definition sm_on_sync_req :: "os_env \<Rightarrow> drs_packet \<Rightarrow> sockaddr_in \<Rightarrow> i64 \<Rightarrow> daemon \<Rightarrow> daemon" where
  "sm_on_sync_req os req src t2 d =
     (if sm_state (d_sm d) \<noteq> DRS_STATE_LEADER then d
      else
        let t2_vc = vclock_now (sm_vc (d_sm d)) t2;
            (t, d) = read_raw os d;
            t3_vc = vclock_now (sm_vc (d_sm d)) t;
            resp = sync_resp_packet (d_sm d) req t2_vc t3_vc
        in snd (transmit os (net_send_sync_resp (os_ver os) (d_net d) resp src) d))"

text \<open>\<open>sm_on_sync_resp\<close>, in the order of the code: bookkeeping, sequence check, filter, discipline.\<close>

definition resp_accept_request :: "sm_t \<Rightarrow> sm_t" where
  "resp_accept_request sm =
     sm\<lparr>sm_sync_req_pending := False, sm_sync_fail_count := 0, sm_sync_rate_ns := DRS_SYNC_EXCHANGE_NS\<rparr>"

definition resp_check_seq :: "os_env \<Rightarrow> drs_packet \<Rightarrow> daemon \<Rightarrow> daemon" where
  "resp_check_seq os pkt d =
     (let seq_delta = pkt_seq pkt - sm_last_leader_seq (d_sm d);
          d = (if ucast seq_delta > DRS_SEQ_DISC_THRESHOLD
               then upd_sm (\<lambda>sm. sm\<lparr>sm_mdf := min_delay_reset (sm_mdf sm)\<rparr>)
                      (push_error os DRS_ERR_SEQ_DISCONTINUITY ''seq jump'' d)
               else d)
      in upd_sm (\<lambda>sm. sm\<lparr>sm_last_leader_seq := pkt_seq pkt\<rparr>) d)"

definition sync_rtt :: "i64 \<Rightarrow> drs_packet \<Rightarrow> i64 \<Rightarrow> i64" where
  "sync_rtt t1 pkt t4 = s64 (s64 (t4 - t1) - s64 (pkt_t3 pkt - pkt_t2 pkt))"

definition sync_theta :: "vclock \<Rightarrow> i64 \<Rightarrow> drs_packet \<Rightarrow> i64 \<Rightarrow> i64" where
  "sync_theta vc t1 pkt t4 =
     (let t1_vc = vclock_now vc t1; t4_vc = vclock_now vc t4
      in c_div64 (s64 (s64 (pkt_t2 pkt - t1_vc) + s64 (pkt_t3 pkt - t4_vc))) 2)"

definition apply_step :: "i64 \<Rightarrow> i64 \<Rightarrow> daemon \<Rightarrow> daemon" where
  "apply_step theta t_now d =
     (let d = upd_sm (\<lambda>sm. sm\<lparr>sm_vc := vclock_step_offset (sm_vc sm) theta t_now\<rparr>) d;
          d = upd_sm (\<lambda>sm. sm\<lparr>sm_vc := vclock_set_rate (sm_vc sm) DRS_RATE_NOMINAL_Q32 t_now\<rparr>) d;
          d = upd_sm (\<lambda>sm. sm\<lparr>sm_pi := pi_ctrl_init (sm_pi sm)\<rparr>) d;
          d = tel_write (\<lambda>t. t\<lparr>tel_step_count := tel_step_count t + 1\<rparr>) d
      in if c_abs64 theta > DRS_PHASE_STEP_RESET_NS
         then upd_sm (\<lambda>sm. sm\<lparr>sm_mdf := min_delay_reset (sm_mdf sm)\<rparr>) d else d)"

definition convergence_fields :: "i64 \<Rightarrow> i64 \<Rightarrow> u64 \<Rightarrow> drs_telemetry \<Rightarrow> drs_telemetry" where
  "convergence_fields abs_off t_now rate t =
     (let t = (if abs_off < DRS_STABLE_OFFSET_THRESH_NS
               then (if tel_convergence_unix_ns t = 0
                     then t\<lparr>tel_convergence_unix_ns := word_of_int t_now\<rparr> else t)
               else t\<lparr>tel_convergence_unix_ns := 0\<rparr>)
      in t\<lparr>tel_rate_q32_32 := sint rate\<rparr>)"

definition resp_discipline :: "os_env \<Rightarrow> i64 \<Rightarrow> i64 \<Rightarrow> i64 \<Rightarrow> daemon \<Rightarrow> daemon" where
  "resp_discipline os theta rtt t4 d =
     (let d = tel_write (\<lambda>t. t\<lparr>tel_offset_ns := theta, tel_last_rtt_ns := rtt\<rparr>) d;
          (t_now, d) = read_raw os d;
          period = s64 (t_now - sm_last_pi_update_ns (d_sm d));
          period = (if period \<le> 0 then DRS_PI_UPDATE_PERIOD_NS else period);
          d = upd_sm (\<lambda>sm. sm\<lparr>sm_last_pi_update_ns := t_now\<rparr>) d;
          (step, new_rate, pi) = pi_ctrl_update (sm_pi (d_sm d)) theta period;
          d = upd_sm (\<lambda>sm. sm\<lparr>sm_pi := pi\<rparr>) d;
          d = (if step then apply_step theta t_now d
               else upd_sm (\<lambda>sm. sm\<lparr>sm_vc := vclock_set_rate (sm_vc sm) new_rate t_now\<rparr>) d);
          d = upd_sm (\<lambda>sm. sm\<lparr>sm_last_rate_q32 := vclock_rate (sm_vc sm)\<rparr>) d;
          d = tel_write (convergence_fields (c_abs64 theta) t_now (sm_last_rate_q32 (d_sm d))) d
      in udp_emit t4 DRS_STATE_FOLLOWER theta rtt (sint (sm_last_rate_q32 (d_sm d))) d)"

definition sm_on_sync_resp :: "os_env \<Rightarrow> drs_packet \<Rightarrow> i64 \<Rightarrow> daemon \<Rightarrow> daemon" where
  "sm_on_sync_resp os pkt t4 d =
     (if sm_state (d_sm d) \<noteq> DRS_STATE_FOLLOWER then d
      else if \<not> sm_sync_req_pending (d_sm d) then d
      else
        let d = upd_sm resp_accept_request d;
            t1 = sm_sync_req_t1 (d_sm d);
            d = resp_check_seq os pkt d;
            rtt = sync_rtt t1 pkt t4;
            (accepted, mdf) = min_delay_update (sm_mdf (d_sm d)) rtt;
            d = upd_sm (\<lambda>sm. sm\<lparr>sm_mdf := mdf\<rparr>) d
        in if \<not> accepted then tel_write (\<lambda>t. t\<lparr>tel_sync_rejected := tel_sync_rejected t + 1\<rparr>) d
           else
             let d = tel_write (\<lambda>t. t\<lparr>tel_sync_accepted := tel_sync_accepted t + 1\<rparr>) d
             in resp_discipline os (sync_theta (sm_vc (d_sm d)) t1 pkt t4) rtt t4 d)"

definition sm_on_command :: "os_env \<Rightarrow> u32 \<Rightarrow> i64 \<Rightarrow> daemon \<Rightarrow> daemon" where
  "sm_on_command os cmd t_now d =
     (if cmd = DRS_CMD_RECALIBRATE then
        let (ret, d) = calibrate os d;
            d = (if ret \<noteq> 0 then push_error os DRS_ERR_CALIB_TIMEOUT ''manual recalibrate failed'' d else d)
        in upd_sm discipline_reset d
      else if cmd = DRS_CMD_FORCE_HOLDOVER then enter_holdover t_now d
      else if cmd = DRS_CMD_FORCE_DEMOTE then
        (if sm_state (d_sm d) = DRS_STATE_LEADER then enter_candidate os t_now d else d)
      else if cmd = DRS_CMD_RESET_FILTERS then upd_sm discipline_reset d
      else if cmd = DRS_CMD_FORCE_LEADER then
        enter_leader os t_now
          (upd_sm (\<lambda>sm. sm\<lparr>sm_el := (sm_el sm)\<lparr>el_lock_mode := DRS_LOCK_AS_LEADER,
             el_own_term := el_own_term (sm_el sm) + DRS_LOCK_TERM_BOOST\<rparr>\<rparr>) d)
      else if cmd = DRS_CMD_FORCE_FOLLOWER then
        let d = upd_sm (\<lambda>sm. sm\<lparr>sm_el := (sm_el sm)\<lparr>el_lock_mode := DRS_LOCK_AS_FOLLOWER\<rparr>\<rparr>) d
        in (if sm_state (d_sm d) = DRS_STATE_LEADER then enter_listen os t_now d else d)
      else if cmd = DRS_CMD_AUTO_MODE then
        upd_sm (\<lambda>sm. sm\<lparr>sm_el := (sm_el sm)\<lparr>el_lock_mode := DRS_LOCK_AUTO\<rparr>\<rparr>) d
      else d)"

section \<open>Invariant\<close>

definition errors_ok :: "errors_globals \<Rightarrow> bool" where
  "errors_ok g \<longleftrightarrow> (\<forall>ring. eg_ring g = Some ring \<longrightarrow> error_ring_inv ring)"

text \<open>
  What every handler keeps: the clock is not being written and its rate is within the limits, the
  filter's window is well formed, the election is armed with a timeout in its range, the request
  rate is one of the two configured ones, and no phase step has ever been accumulated.
\<close>

definition sm_inv :: "sm_t \<Rightarrow> u64 \<Rightarrow> bool" where
  "sm_inv sm xr \<longleftrightarrow> vclock_ok (sm_vc sm) \<and> min_delay_inv (sm_mdf sm) \<and> election_ok (sm_el sm) xr \<and>
     rate_ok (sm_last_rate_q32 sm) \<and> pi_step_accum_ns (sm_pi sm) = 0 \<and> 0 \<le> sm_sync_fail_count sm \<and>
     (sm_sync_rate_ns sm = DRS_SYNC_EXCHANGE_NS \<or> sm_sync_rate_ns sm = DRS_RETRY_STORM_RATE_NS)"

definition daemon_inv :: "daemon \<Rightarrow> bool" where
  "daemon_inv d \<longleftrightarrow> sm_inv (d_sm d) (d_xr d) \<and> telemetry_ok (d_tel d) \<and> errors_ok (d_err d) \<and>
     length (tu_ring (d_udp d)) = TELEM_RING_SIZE"

named_theorems inv_intros \<open>preservation of the daemon invariant\<close>

lemma in_i64_mono_raw_ns [simp]: "in_i64 (mono_raw_ns ts)"
  by (simp add: mono_raw_ns_def timespec_ns_def)

lemma daemon_inv_sm: "daemon_inv d \<Longrightarrow> sm_inv (d_sm d) (d_xr d)"
  by (simp add: daemon_inv_def)

lemma upd_sm_inv: "daemon_inv d \<Longrightarrow> sm_inv (f (d_sm d)) (d_xr d) \<Longrightarrow> daemon_inv (upd_sm f d)"
  by (simp add: daemon_inv_def upd_sm_def)

lemma read_raw_inv [inv_intros]: "daemon_inv d \<Longrightarrow> daemon_inv (snd (read_raw os d))"
  by (simp add: daemon_inv_def read_raw_def)

lemma read_raw_simps [simp]:
  "fst (read_raw os d) = mono_raw_ns (os_raw os (d_raw_n d))"
  "snd (read_raw os d) = d\<lparr>d_raw_n := d_raw_n d + 1\<rparr>"
  by (simp_all add: read_raw_def)

lemma d_sm_upd_sm [simp]: "d_sm (upd_sm f d) = f (d_sm d)"
  by (simp add: upd_sm_def)

lemma upd_sm_keeps [simp]:
  "d_xr (upd_sm f d) = d_xr d" "d_tel (upd_sm f d) = d_tel d" "d_net (upd_sm f d) = d_net d"
  "d_pe (upd_sm f d) = d_pe d" "d_gpio (upd_sm f d) = d_gpio d" "d_udp (upd_sm f d) = d_udp d"
  "d_err (upd_sm f d) = d_err d" "d_sent (upd_sm f d) = d_sent d" "d_raw_n (upd_sm f d) = d_raw_n d"
  "d_send_n (upd_sm f d) = d_send_n d" "d_calib_n (upd_sm f d) = d_calib_n d"
  "d_mono_n (upd_sm f d) = d_mono_n d" "d_cmd (upd_sm f d) = d_cmd d"
  by (simp_all add: upd_sm_def)

lemma push_error_inv [inv_intros]: "daemon_inv d \<Longrightarrow> daemon_inv (push_error os code msg d)"
  by (auto simp: daemon_inv_def push_error_def errors_ok_def errors_push_def error_ring_push_inv
      case_prod_beta split: option.split)

lemma push_error_keeps [simp]:
  "d_sm (push_error os code msg d) = d_sm d" "d_xr (push_error os code msg d) = d_xr d"
  "d_net (push_error os code msg d) = d_net d" "d_tel (push_error os code msg d) = d_tel d"
  "d_pe (push_error os code msg d) = d_pe d" "d_sent (push_error os code msg d) = d_sent d"
  "d_gpio (push_error os code msg d) = d_gpio d" "d_udp (push_error os code msg d) = d_udp d"
  "d_send_n (push_error os code msg d) = d_send_n d" "d_calib_n (push_error os code msg d) = d_calib_n d"
  by (simp_all add: push_error_def case_prod_beta split: option.split)

lemma arm_timeout_eq:
  "arm_timeout os d = upd_sm (\<lambda>sm. sm\<lparr>sm_el := fst (election_arm_timeout (sm_el (d_sm d))
       (mono_raw_ns (os_raw os (d_raw_n d))) (d_xr d))\<rparr>)
     (d\<lparr>d_raw_n := d_raw_n d + 1, d_xr := xorshift64 (d_xr d)\<rparr>)"
  by (simp add: arm_timeout_def Let_def case_prod_beta election_arm_timeout_eq)

lemma arm_timeout_inv [inv_intros]: "daemon_inv d \<Longrightarrow> daemon_inv (arm_timeout os d)"
proof -
  assume inv: "daemon_inv d"
  then have "d_xr d \<noteq> 0" by (simp add: daemon_inv_def sm_inv_def election_ok_def)
  from election_arm_timeout_ok [OF this, of "sm_el (d_sm d)" "mono_raw_ns (os_raw os (d_raw_n d))"]
  show ?thesis
    using inv by (simp add: arm_timeout_eq daemon_inv_def sm_inv_def election_arm_timeout_eq Let_def)
qed

lemma calibrate_loopback_ok: "vclock_ok vc \<Longrightarrow> vclock_ok (snd (calibrate_loopback env vc))"
  by (auto simp: calibrate_loopback_def Let_def c_div64_def intro!: vclock_set_lat_corr_ok
      split: prod.split)

lemma calibrate_eq:
  "calibrate os d = (fst (calibrate_loopback (os_calib os (d_calib_n d)) (sm_vc (d_sm d))),
     upd_sm (\<lambda>sm. sm\<lparr>sm_vc := snd (calibrate_loopback (os_calib os (d_calib_n d)) (sm_vc (d_sm d)))\<rparr>)
       (d\<lparr>d_calib_n := d_calib_n d + 1\<rparr>))"
  by (simp add: calibrate_def Let_def case_prod_beta)

lemma calibrate_inv [inv_intros]: "daemon_inv d \<Longrightarrow> daemon_inv (snd (calibrate os d))"
  by (simp add: calibrate_eq daemon_inv_def sm_inv_def calibrate_loopback_ok)

lemma tel_write_inv: "daemon_inv d \<Longrightarrow> writes_fields f \<Longrightarrow> daemon_inv (tel_write f d)"
  by (simp add: daemon_inv_def tel_write_def telemetry_write_ok)

lemma tel_write_keeps [simp]:
  "d_sm (tel_write f d) = d_sm d" "d_xr (tel_write f d) = d_xr d" "d_raw_n (tel_write f d) = d_raw_n d"
  "d_sent (tel_write f d) = d_sent d" "d_net (tel_write f d) = d_net d" "d_pe (tel_write f d) = d_pe d"
  "d_gpio (tel_write f d) = d_gpio d" "d_err (tel_write f d) = d_err d" "d_udp (tel_write f d) = d_udp d"
  "d_tel (tel_write f d) = telemetry_write f (d_tel d)"
  by (simp_all add: tel_write_def)

lemma udp_emit_inv [inv_intros]: "daemon_inv d \<Longrightarrow> daemon_inv (udp_emit ts st off rtt rate d)"
  by (simp add: daemon_inv_def udp_emit_def telem_udp_emit_def telem_publish_def telem_fill_def)

lemma udp_emit_keeps [simp]:
  "d_sm (udp_emit ts st off rtt rate d) = d_sm d" "d_tel (udp_emit ts st off rtt rate d) = d_tel d"
  "d_sent (udp_emit ts st off rtt rate d) = d_sent d" "d_net (udp_emit ts st off rtt rate d) = d_net d"
  by (simp_all add: udp_emit_def)

lemma transmit_inv [inv_intros]: "daemon_inv d \<Longrightarrow> daemon_inv (snd (transmit os send d))"
  by (simp add: daemon_inv_def transmit_def Let_def split: prod.split)

lemma transmit_keeps [simp]:
  "d_sm (snd (transmit os send d)) = d_sm d" "d_tel (snd (transmit os send d)) = d_tel d"
  "d_net (snd (transmit os send d)) = d_net d"
  by (simp_all add: transmit_def Let_def split: prod.split)

lemma enter_state_sm [simp]:
  "d_sm (enter_state s t d) = (d_sm d)\<lparr>sm_state := s, sm_state_entry_ns := t\<rparr>"
  "d_xr (enter_state s t d) = d_xr d" "d_tel (enter_state s t d) = d_tel d"
  "d_raw_n (enter_state s t d) = d_raw_n d" "d_net (enter_state s t d) = d_net d"
  "d_calib_n (enter_state s t d) = d_calib_n d" "d_sent (enter_state s t d) = d_sent d"
  by (simp_all add: enter_state_def Let_def)

lemma enter_state_inv [inv_intros]: "daemon_inv d \<Longrightarrow> daemon_inv (enter_state s t d)"
  by (simp add: daemon_inv_def enter_state_def Let_def upd_sm_def sm_inv_def)

lemma discipline_reset_inv: "sm_inv sm xr \<Longrightarrow> sm_inv (discipline_reset sm) xr"
  by (simp add: sm_inv_def discipline_reset_def)

lemma upd_discipline_reset_inv [inv_intros]: "daemon_inv d \<Longrightarrow> daemon_inv (upd_sm discipline_reset d)"
  by (intro upd_sm_inv discipline_reset_inv daemon_inv_sm)

lemma sm_inv_frame:
  "sm_inv (sm\<lparr>sm_last_leader_ns := t\<rparr>) xr = sm_inv sm xr"
  "sm_inv (sm\<lparr>sm_holdover_entry_ns := t\<rparr>) xr = sm_inv sm xr"
  "sm_inv (sm\<lparr>sm_last_pi_update_ns := t\<rparr>) xr = sm_inv sm xr"
  "sm_inv (sm\<lparr>sm_last_leader_seq := q\<rparr>) xr = sm_inv sm xr"
  by (simp_all add: sm_inv_def)

lemma enter_listen_inv [inv_intros]: "daemon_inv d \<Longrightarrow> daemon_inv (enter_listen os t d)"
  by (simp add: enter_listen_def inv_intros)

lemma enter_candidate_inv [inv_intros]: "daemon_inv d \<Longrightarrow> daemon_inv (enter_candidate os t d)"
  by (simp add: enter_candidate_def inv_intros)

lemma set_leader_inv:
  "daemon_inv d \<Longrightarrow> daemon_inv (upd_sm (\<lambda>sm. sm\<lparr>sm_el := (sm_el sm)\<lparr>el_leader_node_id := n\<rparr>\<rparr>) d)"
  by (rule upd_sm_inv) (auto simp: daemon_inv_def sm_inv_def election_ok_def)

lemma enter_follower_inv [inv_intros]: "daemon_inv d \<Longrightarrow> daemon_inv (enter_follower pkt src t d)"
proof -
  assume inv: "daemon_inv d"
  let ?d1 = "upd_sm (\<lambda>sm. sm\<lparr>sm_el := (sm_el sm)\<lparr>el_leader_node_id := pkt_node_id pkt\<rparr>\<rparr>) d"
  define d2 where "d2 = (case src of None \<Rightarrow> ?d1 | Some a \<Rightarrow>
    ?d1\<lparr>d_net := net_set_leader (d_net ?d1) (sin_addr a),
        d_log := d_log ?d1 @ [Log_leader (pkt_node_id pkt) (sin_addr a)]\<rparr>)"
  have "daemon_inv ?d1" using inv by (rule set_leader_inv)
  then have d2: "daemon_inv d2" by (auto simp: d2_def daemon_inv_def split: option.split)
  have tail: "daemon_inv d' \<Longrightarrow>
    daemon_inv (upd_sm (\<lambda>sm. sm\<lparr>sm_last_leader_ns := t\<rparr>) (enter_state DRS_STATE_FOLLOWER t d'))" for d'
    by (intro upd_sm_inv inv_intros) (auto simp: daemon_inv_def sm_inv_def)
  show ?thesis
    using inv d2 tail [of d2] tail [of "upd_sm discipline_reset d2"] upd_discipline_reset_inv [OF d2]
    by (simp add: enter_follower_def Let_def d2_def [symmetric])
qed

lemma enter_leader_inv [inv_intros]: "daemon_inv d \<Longrightarrow> daemon_inv (enter_leader os t d)"
proof -
  assume inv: "daemon_inv d"
  let ?d = "enter_state DRS_STATE_LEADER t (upd_sm (\<lambda>sm. sm\<lparr>sm_el := election_promote (sm_el sm)\<rparr>) d)"
  have "daemon_inv (upd_sm (\<lambda>sm. sm\<lparr>sm_el := election_promote (sm_el sm)\<rparr>) d)"
    using inv by (intro upd_sm_inv) (auto simp: daemon_inv_def sm_inv_def election_promote_ok)
  then have "daemon_inv (snd (calibrate os ?d))" by (intro inv_intros)
  then show ?thesis by (auto simp: enter_leader_def Let_def case_prod_beta intro: inv_intros)
qed

lemma enter_holdover_inv [inv_intros]: "daemon_inv d \<Longrightarrow> daemon_inv (enter_holdover t d)"
  unfolding enter_holdover_def Let_def
  by (intro tel_write_inv upd_sm_inv inv_intros) (auto simp: daemon_inv_def sm_inv_def writes_fields_def)

lemma update_telemetry_inv [inv_intros]: "daemon_inv d \<Longrightarrow> daemon_inv (update_telemetry os t d)"
proof -
  assume "daemon_inv d"
  then have "daemon_inv (tel_write (telemetry_fields sm c t) d)" for sm c
    by (intro tel_write_inv) (auto simp: writes_fields_def telemetry_fields_def Let_def)
  with \<open>daemon_inv d\<close> show ?thesis
    by (auto simp: update_telemetry_def Let_def daemon_inv_def case_prod_beta split: option.split)
qed

lemma tick_calibration_inv [inv_intros]: "daemon_inv d \<Longrightarrow> daemon_inv (tick_calibration os t d)"
proof -
  assume inv: "daemon_inv d"
  let ?d = "upd_sm (\<lambda>sm. sm\<lparr>sm_vc := vclock_init (mono_raw_ns (os_raw os (d_raw_n d)))\<rparr>)
    (d\<lparr>d_raw_n := d_raw_n d + 1\<rparr>)"
  have "daemon_inv ?d"
    using inv by (auto simp: daemon_inv_def sm_inv_def vclock_init_ok)
  then have c: "daemon_inv (snd (calibrate os ?d))" by (rule calibrate_inv)
  then have "daemon_inv ((snd (calibrate os ?d))\<lparr>d_pe := pe, d_raw_n := n, d_mono_n := m\<rparr>)" for pe n m
    by (simp add: daemon_inv_def)
  with c show ?thesis
    by (auto simp: tick_calibration_def Let_def case_prod_beta intro: inv_intros)
qed

lemma send_sync_req_inv [inv_intros]: "daemon_inv d \<Longrightarrow> daemon_inv (send_sync_req os t d)"
proof -
  assume inv: "daemon_inv d"
  let ?d = "snd (transmit os (net_send_sync_req (os_ver os) (d_net d) (sync_req_packet (d_sm d)))
    (d\<lparr>d_raw_n := d_raw_n d + 1\<rparr>))"
  have "daemon_inv (d\<lparr>d_raw_n := d_raw_n d + 1\<rparr>)" using inv by (simp add: daemon_inv_def)
  then have t: "daemon_inv ?d" by (rule transmit_inv)
  then have "daemon_inv (upd_sm (\<lambda>sm. sm\<lparr>sm_last_sync_req := req, sm_sync_req_t1 := t1,
      sm_sync_req_sent_ns := t, sm_sync_req_pending := True\<rparr>) ?d)" for req t1
    by (intro upd_sm_inv) (auto simp: daemon_inv_def sm_inv_def)
  with t inv show ?thesis
    by (auto simp: send_sync_req_def Let_def case_prod_beta intro: inv_intros)
qed

lemma sync_req_timeout_inv: "sm_inv sm xr \<Longrightarrow> sm_inv (sync_req_timeout t sm) xr"
  by (auto simp: sm_inv_def sync_req_timeout_def Let_def)

lemma tick_follower_inv [inv_intros]: "daemon_inv d \<Longrightarrow> daemon_inv (tick_follower os t d)"
  by (auto simp: tick_follower_def follower_heartbeat_def Let_def
      intro!: inv_intros upd_sm_inv sync_req_timeout_inv daemon_inv_sm)

lemma tick_holdover_inv [inv_intros]: "daemon_inv d \<Longrightarrow> daemon_inv (tick_holdover os t d)"
  by (auto simp: tick_holdover_def Let_def case_prod_beta intro!: inv_intros)

lemma timed_out_inv [inv_intros]: "daemon_inv d \<Longrightarrow> daemon_inv (snd (timed_out os d))"
  by (auto simp: timed_out_def case_prod_beta daemon_inv_def)

lemma sm_tick_inv [inv_intros]: "daemon_inv d \<Longrightarrow> daemon_inv (sm_tick os t d)"
proof -
  assume inv: "daemon_inv d"
  then have "daemon_inv (sm_tick_state os t d)"
    by (cases "sm_state (d_sm d)")
      (auto simp: sm_tick_state_def case_prod_beta Let_def intro: inv_intros)
  then show ?thesis unfolding sm_tick_def by (rule update_telemetry_inv)
qed

lemma on_announce_election_eq:
  "on_announce_election os pkt d =
     (let r = election_on_announce (sm_el (d_sm d)) pkt (mono_raw_ns (os_raw os (d_raw_n d))) (d_xr d)
      in (fst r, upd_sm (\<lambda>sm. sm\<lparr>sm_el := fst (snd r)\<rparr>)
            (d\<lparr>d_xr := snd (snd r),
               d_raw_n := (if fst r = ELECT_BECOME_FOLLOWER then d_raw_n d + 1 else d_raw_n d)\<rparr>)))"
  by (simp add: on_announce_election_def Let_def case_prod_beta upd_sm_def)

lemma on_announce_election_inv [inv_intros]: "daemon_inv d \<Longrightarrow> daemon_inv (snd (on_announce_election os pkt d))"
  by (auto simp: on_announce_election_eq Let_def daemon_inv_def sm_inv_def election_on_announce_ok)

lemma sm_on_announce_inv [inv_intros]: "daemon_inv d \<Longrightarrow> daemon_inv (sm_on_announce os pkt src t d)"
proof -
  assume "daemon_inv d"
  then have i: "daemon_inv (snd (on_announce_election os pkt d))" by (rule inv_intros)
  then have "daemon_inv (upd_sm (\<lambda>sm. sm\<lparr>sm_last_leader_ns := t\<rparr>) (snd (on_announce_election os pkt d)))"
    by (intro upd_sm_inv) (auto simp: daemon_inv_def sm_inv_def)
  with i show ?thesis
    by (cases "sm_state (d_sm (snd (on_announce_election os pkt d)))")
      (auto simp: sm_on_announce_def case_prod_beta Let_def intro: inv_intros)
qed

lemma sm_on_sync_req_inv [inv_intros]: "daemon_inv d \<Longrightarrow> daemon_inv (sm_on_sync_req os req src t2 d)"
proof -
  assume inv: "daemon_inv d"
  then have "daemon_inv (d\<lparr>d_raw_n := d_raw_n d + 1\<rparr>)" by (simp add: daemon_inv_def)
  with inv show ?thesis
    by (auto simp: sm_on_sync_req_def Let_def case_prod_beta intro!: transmit_inv)
qed

lemma resp_check_seq_inv [inv_intros]: "daemon_inv d \<Longrightarrow> daemon_inv (resp_check_seq os pkt d)"
proof -
  assume inv: "daemon_inv d"
  have reset: "daemon_inv (upd_sm (\<lambda>sm. sm\<lparr>sm_mdf := min_delay_reset (sm_mdf sm)\<rparr>)
      (push_error os DRS_ERR_SEQ_DISCONTINUITY ''seq jump'' d))"
    using daemon_inv_sm [OF inv] by (intro upd_sm_inv inv_intros inv) (simp add: sm_inv_def)
  have seq: "daemon_inv d' \<Longrightarrow> daemon_inv (upd_sm (\<lambda>sm. sm\<lparr>sm_last_leader_seq := pkt_seq pkt\<rparr>) d')" for d'
    by (intro upd_sm_inv) (simp_all add: sm_inv_frame daemon_inv_sm)
  show ?thesis unfolding resp_check_seq_def Let_def using inv reset seq by auto
qed

lemma rate_ok_pi_update: "rate_ok (fst (snd (pi_ctrl_update pi e p)))"
proof -
  obtain ppm where "- 1000 \<le> ppm" "ppm \<le> 1000"
    "uint (fst (snd (pi_ctrl_update pi e p))) = 4294967296 + ppm * 4295"
    using pi_update_rate [of pi e p] by blast
  then show ?thesis by (simp add: rate_ok_def word_le_def drs_const)
qed

lemma apply_step_inv [inv_intros]: "daemon_inv d \<Longrightarrow> in_i64 t \<Longrightarrow> daemon_inv (apply_step theta t d)"
proof -
  assume inv: "daemon_inv d" and t: "in_i64 t"
  let ?sm = "(d_sm d)\<lparr>sm_vc := vclock_set_rate (vclock_step_offset (sm_vc (d_sm d)) theta t)
    DRS_RATE_NOMINAL_Q32 t, sm_pi := pi_ctrl_init (sm_pi (d_sm d))\<rparr>"
  let ?d = "tel_write (\<lambda>t. t\<lparr>tel_step_count := tel_step_count t + 1\<rparr>) (d\<lparr>d_sm := ?sm\<rparr>)"
  have "sm_inv ?sm (d_xr d)"
    using daemon_inv_sm [OF inv] t
    by (auto simp: sm_inv_def pi_ctrl_init_def intro!: vclock_set_rate_ok vclock_step_offset_ok)
  then have "daemon_inv (d\<lparr>d_sm := ?sm\<rparr>)" using inv by (simp add: daemon_inv_def)
  then have d: "daemon_inv ?d" by (intro tel_write_inv) (auto simp: writes_fields_def)
  then have "daemon_inv (upd_sm (\<lambda>sm. sm\<lparr>sm_mdf := min_delay_reset (sm_mdf sm)\<rparr>) ?d)"
    by (intro upd_sm_inv) (auto simp: daemon_inv_def sm_inv_def)
  with d show ?thesis by (simp add: apply_step_def Let_def upd_sm_def)
qed

lemma resp_discipline_inv [inv_intros]: "daemon_inv d \<Longrightarrow> daemon_inv (resp_discipline os theta rtt t4 d)"
proof -
  assume inv: "daemon_inv d"
  define now where "now = mono_raw_ns (os_raw os (d_raw_n d))"
  define period where "period = (let p = s64 (now - sm_last_pi_update_ns (d_sm d))
    in if p \<le> 0 then DRS_PI_UPDATE_PERIOD_NS else p)"
  define u where "u = pi_ctrl_update (sm_pi (d_sm d)) theta period"
  define d1 where "d1 = upd_sm (\<lambda>sm. sm\<lparr>sm_last_pi_update_ns := now, sm_pi := snd (snd u)\<rparr>)
    ((tel_write (\<lambda>t. t\<lparr>tel_offset_ns := theta, tel_last_rtt_ns := rtt\<rparr>) d)\<lparr>d_raw_n := d_raw_n d + 1\<rparr>)"
  define d2 where "d2 = (if fst u then apply_step theta now d1
    else upd_sm (\<lambda>sm. sm\<lparr>sm_vc := vclock_set_rate (sm_vc sm) (fst (snd u)) now\<rparr>) d1)"
  define d3 where "d3 = upd_sm (\<lambda>sm. sm\<lparr>sm_last_rate_q32 := vclock_rate (sm_vc sm)\<rparr>) d2"
  have "daemon_inv (tel_write (\<lambda>t. t\<lparr>tel_offset_ns := theta, tel_last_rtt_ns := rtt\<rparr>) d)"
    using inv by (intro tel_write_inv) (auto simp: writes_fields_def)
  then have d1: "daemon_inv d1"
    by (auto simp: d1_def u_def daemon_inv_def sm_inv_def)
  have "sm_inv ((d_sm d1)\<lparr>sm_vc := vclock_set_rate (sm_vc (d_sm d1)) (fst (snd u)) now\<rparr>) (d_xr d1)"
    using daemon_inv_sm [OF d1]
    by (auto simp: sm_inv_def u_def now_def rate_ok_pi_update intro!: vclock_set_rate_ok)
  then have d2: "daemon_inv d2"
    using d1 by (auto simp: d2_def now_def intro!: inv_intros upd_sm_inv)
  then have "daemon_inv d3"
    unfolding d3_def by (intro upd_sm_inv) (auto simp: daemon_inv_def sm_inv_def vclock_ok_def vclock_rate_def)
  then have "daemon_inv (tel_write (convergence_fields a b r) d3)" for a b r
    by (intro tel_write_inv) (auto simp: writes_fields_def convergence_fields_def Let_def)
  then have "daemon_inv (udp_emit t4 DRS_STATE_FOLLOWER theta rtt (sint (sm_last_rate_q32 (d_sm d3)))
      (tel_write (convergence_fields (c_abs64 theta) now (sm_last_rate_q32 (d_sm d3))) d3))"
    by (intro inv_intros)
  moreover have "resp_discipline os theta rtt t4 d =
      udp_emit t4 DRS_STATE_FOLLOWER theta rtt (sint (sm_last_rate_q32 (d_sm d3)))
        (tel_write (convergence_fields (c_abs64 theta) now (sm_last_rate_q32 (d_sm d3))) d3)"
    by (simp add: resp_discipline_def Let_def case_prod_beta d3_def d2_def d1_def u_def period_def now_def
        upd_sm_def)
  ultimately show ?thesis by simp
qed

lemma sm_on_sync_resp_inv [inv_intros]: "daemon_inv d \<Longrightarrow> daemon_inv (sm_on_sync_resp os pkt t4 d)"
proof -
  assume inv: "daemon_inv d"
  have "sm_inv (resp_accept_request (d_sm d)) (d_xr d)"
    using daemon_inv_sm [OF inv] by (simp add: sm_inv_def resp_accept_request_def)
  then have "daemon_inv (resp_check_seq os pkt (upd_sm resp_accept_request d))"
    using inv by (intro inv_intros upd_sm_inv)
  then have m: "daemon_inv (upd_sm (\<lambda>sm. sm\<lparr>sm_mdf :=
      snd (min_delay_update (sm_mdf (d_sm (resp_check_seq os pkt (upd_sm resp_accept_request d)))) rtt)\<rparr>)
      (resp_check_seq os pkt (upd_sm resp_accept_request d)))" for rtt
    by (intro upd_sm_inv) (auto simp: daemon_inv_def sm_inv_def min_delay_update_inv)
  then show ?thesis
    using inv
    by (auto simp: sm_on_sync_resp_def Let_def case_prod_beta writes_fields_def intro!: tel_write_inv inv_intros)
qed

lemma sm_on_command_inv [inv_intros]: "daemon_inv d \<Longrightarrow> daemon_inv (sm_on_command os cmd t d)"
proof -
  assume inv: "daemon_inv d"
  have "daemon_inv (upd_sm (\<lambda>sm. sm\<lparr>sm_el := (sm_el sm)\<lparr>el_lock_mode := l\<rparr>\<rparr>) d)"
    "daemon_inv (upd_sm (\<lambda>sm. sm\<lparr>sm_el := (sm_el sm)\<lparr>el_lock_mode := l,
       el_own_term := el_own_term (sm_el sm) + b\<rparr>\<rparr>) d)" for l b
    using inv by (auto intro!: upd_sm_inv simp: daemon_inv_def sm_inv_def election_ok_def)
  then show ?thesis
    using inv by (auto simp: sm_on_command_def Let_def case_prod_beta intro!: inv_intros)
qed

lemma sm_init_inv:
  "telemetry_ok (d_tel d) \<Longrightarrow> errors_ok (d_err d) \<Longrightarrow> length (tu_ring (d_udp d)) = TELEM_RING_SIZE \<Longrightarrow>
   daemon_inv (sm_init os urandom node lock d)"
  by (simp add: sm_init_def Let_def case_prod_beta daemon_inv_def sm_inv_def vclock_init_ok
      min_delay_init_def election_init_ok pi_ctrl_init_def enter_state_def upd_sm_def)

end
