(* ===== verification/Transition_System.thy ===== *)
theory Transition_System
  imports Main
begin

text \<open>
  Transition systems with labelled steps: the states reachable by steps whose labels are allowed,
  and the contract of a safety argument. A component that shows its invariant to hold initially and
  to be kept by every allowed step gets it for every reachable state.
\<close>

inductive reach :: "('s \<Rightarrow> bool) \<Rightarrow> ('a \<Rightarrow> 's \<Rightarrow> 's \<Rightarrow> bool) \<Rightarrow> ('a \<Rightarrow> bool) \<Rightarrow> 's \<Rightarrow> bool"
  for init step allowed where
  init: "init s \<Longrightarrow> reach init step allowed s"
| step: "reach init step allowed s \<Longrightarrow> step a s s' \<Longrightarrow> allowed a \<Longrightarrow> reach init step allowed s'"

lemma reach_mono:
  "reach init step allowed s \<Longrightarrow> (\<And>a. allowed a \<Longrightarrow> allowed' a) \<Longrightarrow> reach init step allowed' s"
  by (induction rule: reach.induct) (auto intro: reach.intros)

locale safety =
  fixes init :: "'s \<Rightarrow> bool"
    and step :: "'a \<Rightarrow> 's \<Rightarrow> 's \<Rightarrow> bool"
    and allowed :: "'a \<Rightarrow> bool"
    and invar :: "'s \<Rightarrow> bool"
  assumes init_invar: "init s \<Longrightarrow> invar s"
    and step_invar: "invar s \<Longrightarrow> step a s s' \<Longrightarrow> allowed a \<Longrightarrow> invar s'"
begin

lemma reach_invar: "reach init step allowed s \<Longrightarrow> invar s"
  by (induction rule: reach.induct) (auto intro: init_invar step_invar)

text \<open>A second invariant may be shown with the first one at hand.\<close>

lemma reach_strengthen:
  assumes "reach init step allowed s" "\<And>s. init s \<Longrightarrow> J s"
    and "\<And>s a s'. invar s \<Longrightarrow> J s \<Longrightarrow> step a s s' \<Longrightarrow> allowed a \<Longrightarrow> J s'"
  shows "J s"
  using assms(1)
proof (induction rule: reach.induct)
  case (step s a s')
  then show ?case using assms(3) reach_invar by blast
qed (rule assms(2))

end

end
