(* ===== verification/Daemon.thy ===== *)
theory Daemon
  imports Statemachine Transition_System
begin

text \<open>
  The main program, \<open>src/main.c\<close>: start-up with its exit codes, the dispatch of epoll events to the
  state machine, shutdown, and the daemon as a transition system in which iterations of the main
  loop interleave with the pulse thread, the telemetry sender thread and signals. What start-up
  obtains from the operating system is the record \<open>boot_env\<close>.
\<close>

section \<open>The code\<close>

text \<open>The periodic timers of \<open>main\<close>, as programmed by \<open>timerfd_settime\<close>.\<close>

record itimerspec =
  it_interval :: timespec
  it_value :: timespec

text \<open>\<open>n_epoll\<close> are the descriptors registered with epoll.\<close>

record node =
  n_d :: daemon
  n_running :: bool
  n_tick_fd :: int
  n_hb_fd :: int
  n_tick_timer :: "itimerspec option"
  n_hb_timer :: "itimerspec option"
  n_epoll :: "int list"
  n_link_check_ticks :: int
  n_carrier_was_up :: bool
  n_ifname :: string

definition handle_sig :: "node \<Rightarrow> node" where
  "handle_sig n = n\<lparr>n_running := False\<rparr>"

definition rt_apply :: "os_env \<Rightarrow> bool \<Rightarrow> bool \<Rightarrow> bool \<Rightarrow> daemon \<Rightarrow> daemon" where
  "rt_apply os affinity_ok sched_ok mlock_ok d =
     (let d = (if \<not> affinity_ok then push_error os DRS_ERR_RT_PRIO_FAIL ''sched_setaffinity failed'' d else d);
          d = (if \<not> sched_ok then push_error os DRS_ERR_RT_PRIO_FAIL ''sched_setscheduler failed'' d else d)
      in if \<not> mlock_ok then push_error os DRS_ERR_RT_PRIO_FAIL ''mlockall failed'' d else d)"

definition make_timerfd_periodic :: "int \<Rightarrow> i64 \<Rightarrow> int \<times> itimerspec option" where
  "make_timerfd_periodic fd period_ns =
     (if fd < 0 then (- 1, None)
      else
        let ts = \<lparr>tv_sec = c_div64 period_ns 1000000000, tv_nsec = period_ns smod 1000000000\<rparr>
        in (fd, Some \<lparr>it_interval = ts, it_value = ts\<rparr>))"

text \<open>\<open>epoll_ctl\<close> refuses a negative descriptor; \<open>main\<close> ignores its result.\<close>

definition epoll_add :: "bool \<Rightarrow> int \<Rightarrow> int list \<Rightarrow> int list" where
  "epoll_add ctl_ok fd fds = (if 0 \<le> fd \<and> ctl_ok then fds @ [fd] else fds)"

record boot_env =
  be_pid :: u32
  be_tel :: "int \<times> bool \<times> bool"
  be_err :: "int \<times> bool \<times> bool"
  be_cmd :: "int \<times> bool \<times> bool"
  be_channel :: drs_cmd_channel
  be_gpio_fd :: int
  be_gpio_page :: "u32 list option"
  be_net :: net_env
  be_timer_fd :: int
  be_low_fd :: int
  be_urandom :: "u8 list option"
  be_pulse_thread_ok :: bool
  be_udp_sock :: int
  be_udp_thread_ok :: bool
  be_affinity_ok :: bool
  be_sched_ok :: bool
  be_mlock_ok :: bool
  be_epfd :: int
  be_tick_fd :: int
  be_hb_fd :: int
  be_epoll_ok :: "int \<Rightarrow> bool"

text \<open>The static variables of all components when \<open>main\<close> is entered.\<close>

definition static_daemon :: daemon where
  "static_daemon =
     \<lparr>d_sm = \<lparr>sm_state = DRS_STATE_GROUND, sm_vc = vclock_init 0,
              sm_pi = \<lparr>pi_integrator_ns = 0, pi_step_counter = 0, pi_step_accum_ns = 0\<rparr>,
              sm_mdf = \<lparr>mdf_window = replicate DRS_MIN_DELAY_WINDOW 0, mdf_count = 0, mdf_head = 0,
                        mdf_current_min = 0\<rparr>,
              sm_el = \<lparr>el_own_term = 0, el_own_node_id = 0, el_leader_node_id = 0,
                       el_election_timeout_ns = 0, el_timeout_deadline_ns = 0, el_lock_mode = 0\<rparr>,
              sm_state_entry_ns = 0, sm_last_pi_update_ns = 0, sm_last_leader_ns = 0,
              sm_holdover_entry_ns = 0, sm_sync_req_sent_ns = 0, sm_last_leader_seq = 0,
              sm_last_rate_q32 = 0, sm_sync_fail_count = 0, sm_sync_rate_ns = 0,
              sm_sync_req_pending = False, sm_last_sync_req = zero_packet, sm_sync_req_t1 = 0\<rparr>,
      d_net = \<lparr>net_sock_mcast = - 1, net_sock_ucast = - 1, net_node_id = 0,
               net_leader_addr = \<lparr>sin_port = 0, sin_addr = 0\<rparr>\<rparr>,
      d_pe = pulse_engine_zero,
      d_gpio = \<lparr>gg_gpio = None, gg_fd = - 1, gg_stores = []\<rparr>,
      d_tel = \<lparr>tg_tel = None, tg_fd = - 1\<rparr>,
      d_udp = telem_udp_static,
      d_err = \<lparr>eg_ring = None, eg_fd = - 1\<rparr>,
      d_cmd = \<lparr>cg_mapped = False, cg_fd = - 1, cg_last_seq = 0\<rparr>,
      d_xr = 1, d_raw_n = 0, d_mono_n = 0, d_send_n = 0, d_calib_n = 0, d_sent = [], d_log = []\<rparr>"

definition arg_lock_mode :: "string list \<Rightarrow> int" where
  "arg_lock_mode argv =
     (let lock_mode = DRS_LOCK_AUTO
      in if length argv > 2 then
           let lock_mode = (if argv ! 2 = ''leader'' then DRS_LOCK_AS_LEADER else lock_mode)
           in if argv ! 2 = ''follower'' then DRS_LOCK_AS_FOLLOWER else lock_mode
         else lock_mode)"

text \<open>The UTF-8 bytes of the dash in the message of \<open>main\<close>.\<close>

definition em_dash :: string where
  "em_dash = [CHR 0xE2, CHR 0x80, CHR 0x94]"

definition boot_shm :: "os_env \<Rightarrow> boot_env \<Rightarrow> daemon \<Rightarrow> daemon" where
  "boot_shm os be d =
     (let (tfd, ttr, tmm) = be_tel be;
          (rc, tel) = telemetry_init tfd ttr tmm (be_pid be) (d_tel d);
          d = d\<lparr>d_tel := tel\<rparr>;
          d = (if rc \<noteq> 0 then push_error os DRS_ERR_SHM_INIT_FAIL ''telemetry shm init failed'' d else d);
          (efd, etr, emm) = be_err be;
          d = d\<lparr>d_err := snd (errors_init efd etr emm (d_err d))\<rparr>;
          (cfd, ctr, cmm) = be_cmd be;
          d = d\<lparr>d_cmd := snd (cmd_init cfd ctr cmm (be_channel be) (d_cmd d))\<rparr>;
          (rc, gpio) = gpio_init (be_gpio_fd be) (be_gpio_page be) (d_gpio d);
          d = d\<lparr>d_gpio := gpio\<rparr>
      in if rc \<noteq> 0
         then push_error os DRS_ERR_GPIO_OPEN_FAIL (''/dev/gpiomem open failed '' @ em_dash @ '' continuing without GPIO'') d
         else d)"

definition boot_epoll :: "boot_env \<Rightarrow> string \<Rightarrow> daemon \<Rightarrow> node" where
  "boot_epoll be ifname d =
     (let (tick_fd, tick_timer) = make_timerfd_periodic (be_tick_fd be) DRS_SYNC_EXCHANGE_NS;
          (hb_fd, hb_timer) = make_timerfd_periodic (be_hb_fd be) DRS_LEADER_ANNOUNCE_NS;
          fds = epoll_add (be_epoll_ok be (net_sock_mcast (d_net d))) (net_sock_mcast (d_net d)) [];
          fds = epoll_add (be_epoll_ok be (net_sock_ucast (d_net d))) (net_sock_ucast (d_net d)) fds;
          fds = epoll_add (be_epoll_ok be tick_fd) tick_fd fds;
          fds = epoll_add (be_epoll_ok be hb_fd) hb_fd fds
      in \<lparr>n_d = d, n_running = True, n_tick_fd = tick_fd, n_hb_fd = hb_fd, n_tick_timer = tick_timer,
          n_hb_timer = hb_timer, n_epoll = fds, n_link_check_ticks = 0, n_carrier_was_up = True,
          n_ifname = ifname\<rparr>)"

text \<open>Start-up up to the event loop: the exit code with the state left behind, or the running node.\<close>

definition boot :: "os_env \<Rightarrow> boot_env \<Rightarrow> string list \<Rightarrow> (int \<times> daemon) + node" where
  "boot os be argv =
     (let ifname = (if length argv > 1 then argv ! 1 else ''eth0'');
          lock_mode = arg_lock_mode argv;
          telem_dest = (if length argv > 3 then Some (argv ! 3) else None);
          d = boot_shm os be static_daemon;
          (rc, net) = net_io_init (be_net be) ifname;
          d = d\<lparr>d_net := net\<rparr>
      in if rc \<noteq> 0 then
           let d = push_error os DRS_ERR_NET_INIT_FAIL ''net_io_init failed'' d
           in Inl (70, d\<lparr>d_gpio := gpio_close (d_gpio d)\<rparr>)
         else
           let (rc, pe) = pulse_engine_init (be_timer_fd be) (be_low_fd be);
               d = d\<lparr>d_pe := pe\<rparr>
           in if rc \<noteq> 0
              then Inl (1, d\<lparr>d_net := net_io_close (d_net d), d_gpio := gpio_close (d_gpio d)\<rparr>)
              else
                let d = sm_init os (be_urandom be) (net_node_id (d_net d)) lock_mode d;
                    (rc, pe) = pulse_engine_start (be_pulse_thread_ok be) (d_pe d);
                    d = d\<lparr>d_pe := pe\<rparr>
                in if rc \<noteq> 0
                   then Inl (1, d\<lparr>d_net := net_io_close (d_net d), d_gpio := gpio_close (d_gpio d)\<rparr>)
                   else
                     let d = d\<lparr>d_udp := snd (telem_udp_init (be_udp_sock be) (be_udp_thread_ok be) telem_dest
                                  (net_node_id (d_net d)) (d_udp d))\<rparr>;
                         d = rt_apply os (be_affinity_ok be) (be_sched_ok be) (be_mlock_ok be) d
                     in if be_epfd be < 0
                        then Inl (1, push_error os DRS_ERR_RX_TIMEOUT ''epoll_create1 failed'' d)
                        else Inr (boot_epoll be ifname d))"

text \<open>
  One ready descriptor with what the calls its handler makes will deliver: for the tick timer the
  carrier file, the interface list and the membership call when the link is checked, and the shared
  command slot; for the sockets the result of \<open>recvfrom\<close>.
\<close>

record tick_env =
  te_carrier :: "string option"
  te_ifaddrs :: "ifaddr list option"
  te_join_ok :: bool
  te_channel :: drs_cmd_channel

record event =
  ev_fd :: int
  ev_tick :: tick_env
  ev_recv :: recv_result

definition on_tick :: "os_env \<Rightarrow> tick_env \<Rightarrow> i64 \<Rightarrow> node \<Rightarrow> node" where
  "on_tick os te t_now n =
     (let n = n\<lparr>n_d := sm_tick os t_now (n_d n)\<rparr>;
          n = n\<lparr>n_link_check_ticks := n_link_check_ticks n + 1\<rparr>;
          n = (if n_link_check_ticks n \<ge> 10
               then n\<lparr>n_link_check_ticks := 0,
                      n_carrier_was_up := fst (snd (net_check_recover (n_ifname n) (te_carrier te)
                        (te_ifaddrs te) (te_join_ok te) (n_carrier_was_up n)))\<rparr>
               else n);
          (cmd, g) = cmd_poll (te_channel te) (d_cmd (n_d n));
          n = n\<lparr>n_d := (n_d n)\<lparr>d_cmd := g\<rparr>\<rparr>
      in if cmd \<noteq> DRS_CMD_NONE then n\<lparr>n_d := sm_on_command os cmd t_now (n_d n)\<rparr> else n)"

definition announce_packet :: "sm_t \<Rightarrow> drs_packet" where
  "announce_packet sm =
     zero_packet\<lparr>pkt_msg_type := DRS_MSG_ANNOUNCE,
       pkt_flags := ucast (DRS_FLAG_LEADER OR DRS_FLAG_CALIBRATED),
       pkt_seq := sm_last_leader_seq sm, pkt_node_id := el_own_node_id (sm_el sm),
       pkt_election_term := el_own_term (sm_el sm)\<rparr>"

definition on_heartbeat :: "os_env \<Rightarrow> daemon \<Rightarrow> daemon" where
  "on_heartbeat os d =
     (if sm_state (d_sm d) = DRS_STATE_LEADER
      then
        let ann = announce_packet (d_sm d);
            d = upd_sm (\<lambda>sm. sm\<lparr>sm_last_leader_seq := sm_last_leader_seq sm + 1\<rparr>) d
        in snd (transmit os (net_send_announce (os_ver os) (d_net d) ann) d)
      else d)"

text \<open>Reception: \<open>net_recv\<close>, the time stamp after it, and the decoded packet if there is one.\<close>

definition receive :: "os_env \<Rightarrow> recv_result \<Rightarrow> daemon \<Rightarrow> (int \<times> drs_packet option \<times> sockaddr_in \<times> i64) \<times> daemon" where
  "receive os res d =
     (let (r, buf, src) = net_recv (os_ver os) res (replicate (DRS_PAYLOAD_BYTES (os_ver os)) 0)
                            \<lparr>sin_port = 0, sin_addr = 0\<rparr>;
          (t4, d) = read_raw os d
      in ((r, proto_decode (os_ver os) buf, src, t4), d))"

definition on_mcast :: "os_env \<Rightarrow> recv_result \<Rightarrow> i64 \<Rightarrow> daemon \<Rightarrow> daemon" where
  "on_mcast os res t_now d =
     (let ((r, pkt, src, t4), d) = receive os res d
      in if r = int (DRS_PAYLOAD_BYTES (os_ver os)) then
           (case pkt of
              Some pkt \<Rightarrow>
                if pkt_msg_type pkt = DRS_MSG_ANNOUNCE then sm_on_announce os pkt (Some src) t_now d
                else if pkt_msg_type pkt = DRS_MSG_SYNC_REQ then sm_on_sync_req os pkt src t4 d
                else if pkt_msg_type pkt = DRS_MSG_SYNC_RESP then sm_on_sync_resp os pkt t4 d
                else d
            | None \<Rightarrow> push_error os DRS_ERR_CRC_MISMATCH ''mcast CRC fail'' d)
         else d)"

definition on_ucast :: "os_env \<Rightarrow> recv_result \<Rightarrow> daemon \<Rightarrow> daemon" where
  "on_ucast os res d =
     (let ((r, pkt, src, t4), d) = receive os res d
      in if r = int (DRS_PAYLOAD_BYTES (os_ver os)) then
           (case pkt of
              Some pkt \<Rightarrow>
                if pkt_msg_type pkt = DRS_MSG_SYNC_REQ then sm_on_sync_req os pkt src t4 d
                else if pkt_msg_type pkt = DRS_MSG_SYNC_RESP then sm_on_sync_resp os pkt t4 d
                else d
            | None \<Rightarrow> push_error os DRS_ERR_CRC_MISMATCH ''ucast CRC fail'' d)
         else d)"

definition handle_event :: "os_env \<Rightarrow> i64 \<Rightarrow> event \<Rightarrow> node \<Rightarrow> node" where
  "handle_event os t_now ev n =
     (let fd = ev_fd ev
      in if fd = n_tick_fd n then on_tick os (ev_tick ev) t_now n
         else if fd = n_hb_fd n then n\<lparr>n_d := on_heartbeat os (n_d n)\<rparr>
         else if fd = net_sock_mcast (d_net (n_d n)) then n\<lparr>n_d := on_mcast os (ev_recv ev) t_now (n_d n)\<rparr>
         else if fd = net_sock_ucast (d_net (n_d n)) then n\<lparr>n_d := on_ucast os (ev_recv ev) (n_d n)\<rparr>
         else n)"

definition MAX_EVENTS :: nat where
  "MAX_EVENTS = 16"

datatype wait_result = Wait_events "event list" | Wait_interrupted | Wait_failed

definition main_iteration :: "os_env \<Rightarrow> wait_result \<Rightarrow> node \<Rightarrow> node" where
  "main_iteration os w n =
     (if \<not> n_running n then n
      else case w of
             Wait_interrupted \<Rightarrow> n
           | Wait_failed \<Rightarrow>
               n\<lparr>n_d := push_error os DRS_ERR_RX_TIMEOUT ''epoll_wait error'' (n_d n), n_running := False\<rparr>
           | Wait_events evs \<Rightarrow>
               let (t_now, d) = read_raw os (n_d n)
               in fold (handle_event os t_now) evs (n\<lparr>n_d := d\<rparr>))"

definition shutdown :: "daemon \<Rightarrow> daemon" where
  "shutdown d =
     d\<lparr>d_pe := pulse_engine_close (d_pe d), d_net := net_io_close (d_net d),
       d_gpio := gpio_close (d_gpio d), d_udp := telem_udp_close (d_udp d),
       d_tel := telemetry_close (d_tel d), d_err := errors_close (d_err d), d_cmd := cmd_close (d_cmd d)\<rparr>"

text \<open>After the shutdown sequence no descriptor of the components is open and nothing is mapped.\<close>

lemma shutdown_releases:
  "pe_timer_fd (d_pe (shutdown d)) < 0 \<and> pe_pulse_low_fd (d_pe (shutdown d)) < 0 \<and>
   net_sock_mcast (d_net (shutdown d)) < 0 \<and> net_sock_ucast (d_net (shutdown d)) < 0 \<and>
   gg_gpio (d_gpio (shutdown d)) = None \<and> gg_fd (d_gpio (shutdown d)) < 0 \<and>
   tg_tel (d_tel (shutdown d)) = None \<and> tg_fd (d_tel (shutdown d)) < 0 \<and>
   eg_ring (d_err (shutdown d)) = None \<and> eg_fd (d_err (shutdown d)) < 0 \<and>
   \<not> cg_mapped (d_cmd (shutdown d)) \<and> cg_fd (d_cmd (shutdown d)) < 0"
  by (simp add: shutdown_def pulse_engine_close_def pulse_close_fds_def net_io_close_def gpio_close_def
      telemetry_close_def errors_close_def cmd_close_def reg_store_def Let_def split: option.split)

section \<open>The transition system\<close>

definition pulse_round :: "os_env \<Rightarrow> int \<Rightarrow> bool \<Rightarrow> bool \<Rightarrow> daemon \<Rightarrow> daemon option" where
  "pulse_round os r in0 in1 d =
     map_option (\<lambda>((pe, rn, mn), g). d\<lparr>d_pe := pe, d_raw_n := rn, d_mono_n := mn, d_gpio := g\<rparr>)
       (pulse_thread_round (os_raw os) (os_mono os) (sm_vc (d_sm d)) r in0 in1
         ((d_pe d, d_raw_n d, d_mono_n d), d_gpio d))"

text \<open>
  The steps of the node. \<open>epoll_wait\<close> reports at most \<open>MAX_EVENTS\<close> descriptors, all of them
  registered. A timer descriptor is readable only while its timer is armed; when it expires is left
  to the kernel.
\<close>

definition epoll_reports :: "int list \<Rightarrow> wait_result \<Rightarrow> bool" where
  "epoll_reports fds w \<longleftrightarrow> (case w of
     Wait_events evs \<Rightarrow> length evs \<le> MAX_EVENTS \<and> list_all (\<lambda>ev. ev_fd ev \<in> set fds) evs
   | _ \<Rightarrow> True)"

datatype action = Act_iteration wait_result | Act_signal | Act_pulse int bool bool
  | Act_sender "nat \<Rightarrow> send_outcome"

inductive node_step :: "os_env \<Rightarrow> action \<Rightarrow> node \<Rightarrow> node \<Rightarrow> bool" for os where
  iteration: "n_running n \<Longrightarrow> epoll_reports (n_epoll n) w \<Longrightarrow>
    node_step os (Act_iteration w) n (main_iteration os w n)"
| signal: "node_step os Act_signal n (handle_sig n)"
| pulse: "(in0 \<longrightarrow> pe_timer_at (d_pe (n_d n)) \<noteq> None) \<Longrightarrow> (in1 \<longrightarrow> pe_pulse_low_at (d_pe (n_d n)) \<noteq> None) \<Longrightarrow>
    pulse_round os r in0 in1 (n_d n) = Some d' \<Longrightarrow> node_step os (Act_pulse r in0 in1) n (n\<lparr>n_d := d'\<rparr>)"
| sender: "sender_pass outcomes (d_udp (n_d n)) = (udp, recs) \<Longrightarrow>
    node_step os (Act_sender outcomes) n (n\<lparr>n_d := (n_d n)\<lparr>d_udp := udp\<rparr>\<rparr>)"

inductive_cases node_stepE: "node_step os a n n'"

definition booted :: "os_env \<Rightarrow> boot_env \<Rightarrow> string list \<Rightarrow> node \<Rightarrow> bool" where
  "booted os be argv n \<longleftrightarrow> boot os be argv = Inr n"

abbreviation reachable :: "os_env \<Rightarrow> boot_env \<Rightarrow> string list \<Rightarrow> node \<Rightarrow> bool" where
  "reachable os be argv \<equiv> reach (booted os be argv) (node_step os) (\<lambda>_. True)"

section \<open>The invariant of the daemon\<close>

definition node_inv :: "node \<Rightarrow> bool" where
  "node_inv n \<longleftrightarrow> daemon_inv (n_d n) \<and> 0 \<le> n_link_check_ticks n \<and> n_link_check_ticks n < 10"

lemma rt_apply_inv [inv_intros]: "daemon_inv d \<Longrightarrow> daemon_inv (rt_apply os a b c d)"
  by (auto simp: rt_apply_def Let_def intro!: inv_intros)

lemma errors_init_ok: "errors_ok g \<Longrightarrow> errors_ok (snd (errors_init fd a b g))"
  by (auto simp: errors_init_def errors_ok_def Let_def error_ring_inv_def zero_entry_def)

lemma boot_shm_tel_err:
  "telemetry_ok (d_tel d) \<Longrightarrow> errors_ok (d_err d) \<Longrightarrow> eg_ring (d_err d) = None \<Longrightarrow>
   telemetry_ok (d_tel (boot_shm os be d)) \<and> errors_ok (d_err (boot_shm os be d)) \<and>
   d_udp (boot_shm os be d) = d_udp d"
  using telemetry_init_ok [of "d_tel d"] errors_init_ok [of "d_err d"] error_ring_push_inv
  by (auto simp: boot_shm_def Let_def case_prod_beta push_error_def errors_push_def errors_ok_def
      split: option.splits)

lemma boot_inv:
  assumes "boot os be argv = Inr n"
  shows "node_inv n"
proof -
  define d0 where "d0 = boot_shm os be static_daemon"
  have d0: "telemetry_ok (d_tel d0)" "errors_ok (d_err d0)" "length (tu_ring (d_udp d0)) = TELEM_RING_SIZE"
    using boot_shm_tel_err [of static_daemon os be]
    by (simp_all add: d0_def static_daemon_def telemetry_ok_def errors_ok_def telem_udp_static_def)
  have sm: "daemon_inv (sm_init os u i l (d0\<lparr>d_net := net, d_pe := pe\<rparr>))" for u i l net pe
    using d0 by (intro sm_init_inv) simp_all
  have udp: "length (tu_ring (snd (telem_udp_init fd ok dest i g))) = length (tu_ring g)" for fd ok dest i g
    by (simp add: telem_udp_init_def Let_def split: option.split)
  have "daemon_inv (rt_apply os a b c (d\<lparr>d_pe := pe, d_udp := snd (telem_udp_init fd ok dest i (d_udp d))\<rparr>))"
    if "daemon_inv d" for a b c d pe fd ok dest i
    using that udp by (intro inv_intros) (simp add: daemon_inv_def)
  with sm assms show ?thesis
    by (auto simp: boot_def boot_epoll_def Let_def case_prod_beta node_inv_def d0_def [symmetric] split: if_splits)
qed

lemma receive_inv: "daemon_inv d \<Longrightarrow> daemon_inv (snd (receive os res d))"
  by (simp add: receive_def Let_def case_prod_beta daemon_inv_def)

lemma on_mcast_inv [inv_intros]: "daemon_inv d \<Longrightarrow> daemon_inv (on_mcast os res t d)"
  using receive_inv [of d os res]
  by (auto simp: on_mcast_def Let_def case_prod_beta intro!: inv_intros split: option.split)

lemma on_ucast_inv [inv_intros]: "daemon_inv d \<Longrightarrow> daemon_inv (on_ucast os res d)"
  using receive_inv [of d os res]
  by (auto simp: on_ucast_def Let_def case_prod_beta intro!: inv_intros split: option.split)

lemma on_heartbeat_inv [inv_intros]: "daemon_inv d \<Longrightarrow> daemon_inv (on_heartbeat os d)"
  by (auto simp: on_heartbeat_def Let_def daemon_inv_sm sm_inv_frame intro!: transmit_inv upd_sm_inv)

lemma on_tick_inv: "node_inv n \<Longrightarrow> node_inv (on_tick os te t n)"
proof -
  assume "node_inv n"
  then have "daemon_inv (sm_tick os t (n_d n))" and l: "0 \<le> n_link_check_ticks n" "n_link_check_ticks n < 10"
    by (simp_all add: node_inv_def inv_intros)
  then have "daemon_inv ((sm_tick os t (n_d n))\<lparr>d_cmd := g\<rparr>)" for g
    by (simp add: daemon_inv_def)
  with l show ?thesis
    by (auto simp: on_tick_def Let_def case_prod_beta node_inv_def intro!: inv_intros)
qed

text \<open>
  What is kept by the handlers is kept by the dispatch, and what the dispatch keeps for the events
  \<open>ok\<close> is kept by an iteration that reports only such events.
\<close>

lemma handle_event_cases:
  assumes "P (on_tick os (ev_tick ev) t n)" "P (n\<lparr>n_d := on_heartbeat os (n_d n)\<rparr>)"
    and "P (n\<lparr>n_d := on_mcast os (ev_recv ev) t (n_d n)\<rparr>)" "P (n\<lparr>n_d := on_ucast os (ev_recv ev) (n_d n)\<rparr>)"
    and "P n"
  shows "P (handle_event os t ev n)"
  using assms by (simp add: handle_event_def Let_def)

lemma main_iteration_invariant:
  assumes "P n" "\<And>k. P (n\<lparr>n_d := (n_d n)\<lparr>d_raw_n := k\<rparr>\<rparr>)"
    and "\<And>c s. P (n\<lparr>n_d := push_error os c s (n_d n), n_running := False\<rparr>)"
    and event: "\<And>m t ev. P m \<Longrightarrow> ok ev \<Longrightarrow> P (handle_event os t ev m)"
    and "case w of Wait_events evs \<Rightarrow> list_all ok evs | _ \<Rightarrow> True"
  shows "P (main_iteration os w n)"
proof -
  have "P m \<Longrightarrow> list_all ok evs \<Longrightarrow> P (fold (handle_event os t) evs m)" for t evs m
    by (induction evs arbitrary: m) (simp_all add: event)
  with assms(1-3,5) show ?thesis
    by (cases w) (simp_all add: main_iteration_def case_prod_beta)
qed

lemma handle_event_inv: "node_inv n \<Longrightarrow> node_inv (handle_event os t ev n)"
  by (rule handle_event_cases) (simp_all add: on_tick_inv, simp_all add: node_inv_def inv_intros)

lemma main_iteration_inv:
  assumes inv: "node_inv n"
  shows "node_inv (main_iteration os w n)"
proof (rule main_iteration_invariant [where ok = "\<lambda>_. True"])
  show "node_inv (n\<lparr>n_d := (n_d n)\<lparr>d_raw_n := k\<rparr>\<rparr>)" for k
    using inv by (simp add: node_inv_def daemon_inv_def)
  show "node_inv (n\<lparr>n_d := push_error os c s (n_d n), n_running := False\<rparr>)" for c s
    using inv by (simp add: node_inv_def inv_intros)
qed (simp_all add: inv handle_event_inv list.pred_True split: wait_result.split)

lemma sender_drain_ring: "tu_ring (fst (sender_drain outcomes w k s)) = tu_ring (fst s)"
proof (induction outcomes w k s rule: sender_drain.induct)
  case (1 outcomes w k g out)
  then show ?case by (subst sender_drain.simps) simp
qed

lemma node_step_inv: "node_step os a n n' \<Longrightarrow> node_inv n \<Longrightarrow> node_inv n'"
proof (induction rule: node_step.induct)
  case (pulse in0 n in1 r d')
  then show ?case by (auto simp: node_inv_def pulse_round_def daemon_inv_def)
next
  case (sender outcomes n udp recs)
  then have "tu_ring udp = tu_ring (d_udp (n_d n))"
    using sender_drain_ring [of outcomes "tu_write_idx (d_udp (n_d n))" 0 "(d_udp (n_d n), [])"]
    by (auto simp: sender_pass_def split: if_splits)
  with sender show ?case by (simp add: node_inv_def daemon_inv_def)
next
  case (signal n)
  then show ?case by (simp add: handle_sig_def node_inv_def)
qed (rule main_iteration_inv)

interpretation daemon_safe: safety "booted os be argv" "node_step os" "\<lambda>_. True" node_inv for os be argv
  by unfold_locales (auto simp: booted_def intro: boot_inv node_step_inv)

end
