(* ===== verification/Sm_Transitions.thy ===== *)
theory Sm_Transitions
  imports Statemachine
begin

text \<open>
  The control behaviour of the state machine: which transitions each handler can make, that the
  transition log only grows, what an ANNOUNCE does in each state, the retry and holdover timers, and
  the way from start-up to leadership.
\<close>

section \<open>States and log of the primitives\<close>

named_theorems sm_effect \<open>state and log after an operation\<close>

lemma d_log_keeps [simp]:
  "d_log (upd_sm f d) = d_log d" "d_log (push_error os code msg d) = d_log d"
  "d_log (tel_write g d) = d_log d" "d_log (udp_emit ts st off rtt rate d) = d_log d"
  "d_log (snd (transmit os send d)) = d_log d" "d_log (snd (calibrate os d)) = d_log d"
  "d_log (arm_timeout os d) = d_log d" "d_log (update_telemetry os t d) = d_log d"
  by (simp_all add: upd_sm_def push_error_def tel_write_def udp_emit_def transmit_def calibrate_eq
      arm_timeout_eq update_telemetry_def Let_def case_prod_beta split: option.split)

definition transition_line :: "drs_state \<Rightarrow> drs_state \<Rightarrow> log_line" where
  "transition_line s s' = Log_text (''[drs] '' @ state_name s @ '' -> '' @ state_name s')"

lemma d_log_enter_state [simp]:
  "d_log (enter_state s t d) = d_log d @ [transition_line (sm_state (d_sm d)) s]"
  by (simp add: enter_state_def Let_def transition_line_def)

lemma sm_state_keeps [simp]:
  "sm_state (d_sm (snd (calibrate os d))) = sm_state (d_sm d)"
  "sm_state (d_sm (arm_timeout os d)) = sm_state (d_sm d)"
  "d_sm (update_telemetry os t d) = d_sm d"
  "sm_state (discipline_reset sm) = sm_state sm"
  "sm_state (sync_req_timeout t sm) = sm_state sm"
  by (simp_all add: calibrate_eq arm_timeout_eq update_telemetry_def Let_def case_prod_beta
      discipline_reset_def sync_req_timeout_def split: option.split)

lemma enter_candidate_effect [sm_effect]:
  "sm_state (d_sm (enter_candidate os t d)) = DRS_STATE_CANDIDATE"
  "d_log (enter_candidate os t d) = d_log d @ [transition_line (sm_state (d_sm d)) DRS_STATE_CANDIDATE]"
  by (simp_all add: enter_candidate_def)

lemma enter_listen_effect [sm_effect]:
  "sm_state (d_sm (enter_listen os t d)) = DRS_STATE_LISTEN"
  "d_log (enter_listen os t d) = d_log d @ [transition_line (sm_state (d_sm d)) DRS_STATE_LISTEN]"
  by (simp_all add: enter_listen_def)

lemma enter_leader_effect [sm_effect]:
  "sm_state (d_sm (enter_leader os t d)) = DRS_STATE_LEADER"
  "d_log (enter_leader os t d) = d_log d @ [transition_line (sm_state (d_sm d)) DRS_STATE_LEADER]"
  by (simp_all add: enter_leader_def Let_def case_prod_beta)

lemma enter_holdover_effect [sm_effect]:
  "sm_state (d_sm (enter_holdover t d)) = DRS_STATE_HOLDOVER"
  "d_log (enter_holdover t d) = d_log d @ [transition_line (sm_state (d_sm d)) DRS_STATE_HOLDOVER]"
  by (simp_all add: enter_holdover_def Let_def)

lemma enter_follower_effect [sm_effect]:
  "sm_is_active (d_sm d) \<Longrightarrow> sm_state (d_sm (enter_follower pkt src t d)) = DRS_STATE_FOLLOWER"
  "\<not> sm_is_active (d_sm d) \<Longrightarrow> enter_follower pkt src t d = d"
  "\<exists>xs. d_log (enter_follower pkt src t d) = d_log d @ xs"
  by (auto simp: enter_follower_def Let_def split: option.split)

section \<open>Transitions of the handlers\<close>

definition tick_edge :: "drs_state \<Rightarrow> drs_state \<Rightarrow> bool" where
  "tick_edge s s' \<longleftrightarrow> s' = s \<or> (s, s') \<in>
     {(DRS_STATE_GROUND, DRS_STATE_CALIBRATION), (DRS_STATE_CALIBRATION, DRS_STATE_LISTEN),
      (DRS_STATE_LISTEN, DRS_STATE_CANDIDATE), (DRS_STATE_CANDIDATE, DRS_STATE_LEADER),
      (DRS_STATE_FOLLOWER, DRS_STATE_HOLDOVER), (DRS_STATE_HOLDOVER, DRS_STATE_CANDIDATE)}"

definition command_edge :: "u32 \<Rightarrow> drs_state \<Rightarrow> drs_state \<Rightarrow> bool" where
  "command_edge cmd s s' \<longleftrightarrow> s' = s \<or> (cmd = DRS_CMD_FORCE_HOLDOVER \<and> s' = DRS_STATE_HOLDOVER) \<or>
     (cmd = DRS_CMD_FORCE_DEMOTE \<and> s = DRS_STATE_LEADER \<and> s' = DRS_STATE_CANDIDATE) \<or>
     (cmd = DRS_CMD_FORCE_LEADER \<and> s' = DRS_STATE_LEADER) \<or>
     (cmd = DRS_CMD_FORCE_FOLLOWER \<and> s = DRS_STATE_LEADER \<and> s' = DRS_STATE_LISTEN)"

lemma send_sync_req_effect [sm_effect]:
  "sm_state (d_sm (send_sync_req os t d)) = sm_state (d_sm d)" "d_log (send_sync_req os t d) = d_log d"
  by (simp_all add: send_sync_req_def Let_def case_prod_beta)

lemma timed_out_effect [simp]:
  "d_sm (snd (timed_out os d)) = d_sm d" "d_log (snd (timed_out os d)) = d_log d"
  by (simp_all add: timed_out_def case_prod_beta)

lemma tick_follower_effect [sm_effect]:
  "sm_state (d_sm (tick_follower os t d)) \<in> {sm_state (d_sm d), DRS_STATE_HOLDOVER}"
  "\<exists>xs. d_log (tick_follower os t d) = d_log d @ xs"
  by (auto simp: tick_follower_def follower_heartbeat_def Let_def sm_effect)

lemma tick_calibration_effect [sm_effect]:
  "sm_state (d_sm (tick_calibration os t d)) = sm_state (d_sm d) \<or>
   sm_state (d_sm (tick_calibration os t d)) = DRS_STATE_LISTEN \<and>
   d_log (tick_calibration os t d) = d_log d @ [transition_line (sm_state (d_sm d)) DRS_STATE_LISTEN]"
  "\<exists>xs. d_log (tick_calibration os t d) = d_log d @ xs"
  by (auto simp: tick_calibration_def Let_def case_prod_beta sm_effect)

lemma tick_holdover_effect [sm_effect]:
  "sm_state (d_sm (tick_holdover os t d)) \<in> {sm_state (d_sm d), DRS_STATE_CANDIDATE}"
  "\<exists>xs. d_log (tick_holdover os t d) = d_log d @ xs"
  by (auto simp: tick_holdover_def Let_def case_prod_beta sm_effect)

lemma sm_tick_edge: "tick_edge (sm_state (d_sm d)) (sm_state (d_sm (sm_tick os t d)))"
  using tick_follower_effect(1) [of os t d] tick_calibration_effect(1) [of os t d]
    tick_holdover_effect(1) [of os t d]
  by (cases "sm_state (d_sm d)")
    (auto simp: tick_edge_def sm_tick_def sm_tick_state_def Let_def case_prod_beta sm_effect)

lemma sm_tick_log: "\<exists>xs. d_log (sm_tick os t d) = d_log d @ xs"
  using tick_follower_effect(2) [of os t d] tick_calibration_effect(2) [of os t d]
    tick_holdover_effect(2) [of os t d]
  by (cases "sm_state (d_sm d)")
    (auto simp: sm_tick_def sm_tick_state_def Let_def case_prod_beta sm_effect)

lemma on_announce_election_effect [simp]:
  "sm_state (d_sm (snd (on_announce_election os pkt d))) = sm_state (d_sm d)"
  "d_log (snd (on_announce_election os pkt d)) = d_log d"
  by (simp_all add: on_announce_election_eq Let_def)

lemma sm_on_announce_edge:
  "sm_state (d_sm (sm_on_announce os pkt src t d)) = sm_state (d_sm d) \<or>
   sm_is_active (d_sm d) \<and> sm_state (d_sm (sm_on_announce os pkt src t d)) = DRS_STATE_FOLLOWER"
  by (cases "sm_state (d_sm d)")
    (auto simp: sm_on_announce_def case_prod_beta Let_def sm_is_active_def sm_effect)

lemma sm_on_announce_log: "\<exists>xs. d_log (sm_on_announce os pkt src t d) = d_log d @ xs"
proof -
  have *: "\<exists>xs. d_log (enter_follower pkt src t d') = d_log d @ xs" if "d_log d' = d_log d" for d'
    using enter_follower_effect(3) [of pkt src t d'] that by simp
  show ?thesis
    by (cases "sm_state (d_sm d)") (auto simp: sm_on_announce_def case_prod_beta Let_def intro!: *)
qed

lemma sm_on_sync_req_effect [simp]:
  "d_sm (sm_on_sync_req os req src t2 d) = d_sm d" "d_log (sm_on_sync_req os req src t2 d) = d_log d"
  by (simp_all add: sm_on_sync_req_def Let_def case_prod_beta)

lemma sm_on_sync_resp_effect [simp]:
  "sm_state (d_sm (sm_on_sync_resp os pkt t4 d)) = sm_state (d_sm d)"
  "d_log (sm_on_sync_resp os pkt t4 d) = d_log d"
  by (simp_all add: sm_on_sync_resp_def Let_def case_prod_beta resp_discipline_def apply_step_def
      resp_check_seq_def resp_accept_request_def)

lemma sm_on_command_edge:
  "command_edge cmd (sm_state (d_sm d)) (sm_state (d_sm (sm_on_command os cmd t d)))"
  by (simp add: command_edge_def sm_on_command_def Let_def case_prod_beta sm_effect)

lemma sm_on_command_log: "\<exists>xs. d_log (sm_on_command os cmd t d) = d_log d @ xs"
  by (simp add: sm_on_command_def Let_def case_prod_beta sm_effect)

section \<open>What an ANNOUNCE changes\<close>

lemma on_announce_election_follower:
  "fst (on_announce_election os pkt d) =
     (if announce_wins (sm_el (d_sm d)) pkt then ELECT_BECOME_FOLLOWER else ELECT_NO_CHANGE)"
  by (simp add: on_announce_election_eq Let_def election_on_announce_result)

lemma on_announce_election_sm:
  "d_sm (snd (on_announce_election os pkt d)) = (d_sm d)\<lparr>sm_el := fst (snd (election_on_announce
     (sm_el (d_sm d)) pkt (mono_raw_ns (os_raw os (d_raw_n d))) (d_xr d)))\<rparr>"
  by (simp add: on_announce_election_eq Let_def)

lemma enter_follower_sm:
  "sm_is_active (d_sm d) \<Longrightarrow> d_sm (enter_follower pkt src t d) =
     (let sm = (d_sm d)\<lparr>sm_el := (sm_el (d_sm d))\<lparr>el_leader_node_id := pkt_node_id pkt\<rparr>\<rparr>;
          sm = (if el_leader_node_id (sm_el (d_sm d)) \<noteq> pkt_node_id pkt then discipline_reset sm else sm)
      in sm\<lparr>sm_state := DRS_STATE_FOLLOWER, sm_state_entry_ns := t, sm_last_leader_ns := t\<rparr>)"
  by (auto simp: enter_follower_def Let_def discipline_reset_def split: option.split)

section \<open>A sample node\<close>

text \<open>
  Node 7 in term 3 following node 5, without shared memory, on a clock that advances one second per
  reading, for evaluating the handlers.
\<close>

definition sample_os :: os_env where
  "sample_os = \<lparr>os_ver = PROTO_V2, os_raw = \<lambda>i. \<lparr>tv_sec = int i, tv_nsec = 0\<rparr>,
     os_mono = \<lambda>i. \<lparr>tv_sec = int i, tv_nsec = 0\<rparr>, os_sendto = \<lambda>_. True,
     os_calib = \<lambda>_. \<lparr>ce_srv_fd = - 1, ce_bind_ok = False, ce_cli_fd = - 1, ce_rounds = \<lambda>_.
       \<lparr>cr_t_send = \<lparr>tv_sec = 0, tv_nsec = 0\<rparr>, cr_sent = False, cr_recv = Calib_fatal_error,
        cr_t_recv = \<lparr>tv_sec = 0, tv_nsec = 0\<rparr>\<rparr>\<rparr>\<rparr>"

definition sample_sm :: "drs_state \<Rightarrow> sm_t" where
  "sample_sm s = \<lparr>sm_state = s, sm_vc = vclock_init 0,
     sm_pi = \<lparr>pi_integrator_ns = 0, pi_step_counter = 0, pi_step_accum_ns = 0\<rparr>,
     sm_mdf = min_delay_reset \<lparr>mdf_window = [], mdf_count = 0, mdf_head = 0, mdf_current_min = 0\<rparr>,
     sm_el = \<lparr>el_own_term = 3, el_own_node_id = 7, el_leader_node_id = 5,
              el_election_timeout_ns = 300000000, el_timeout_deadline_ns = 300000000, el_lock_mode = 0\<rparr>,
     sm_state_entry_ns = 0, sm_last_pi_update_ns = 0, sm_last_leader_ns = 0, sm_holdover_entry_ns = 0,
     sm_sync_req_sent_ns = 0, sm_last_leader_seq = 0, sm_last_rate_q32 = DRS_RATE_NOMINAL_Q32,
     sm_sync_fail_count = 0, sm_sync_rate_ns = DRS_SYNC_EXCHANGE_NS, sm_sync_req_pending = False,
     sm_last_sync_req = zero_packet, sm_sync_req_t1 = 0\<rparr>"

definition sample_daemon :: "drs_state \<Rightarrow> daemon" where
  "sample_daemon s = \<lparr>d_sm = sample_sm s,
     d_net = \<lparr>net_sock_mcast = 4, net_sock_ucast = 5, net_node_id = 7,
              net_leader_addr = \<lparr>sin_port = 0, sin_addr = 0\<rparr>\<rparr>,
     d_pe = pulse_engine_zero, d_gpio = \<lparr>gg_gpio = None, gg_fd = - 1, gg_stores = []\<rparr>,
     d_tel = \<lparr>tg_tel = None, tg_fd = - 1\<rparr>, d_udp = telem_udp_static,
     d_err = \<lparr>eg_ring = None, eg_fd = - 1\<rparr>, d_cmd = \<lparr>cg_mapped = False, cg_fd = - 1, cg_last_seq = 0\<rparr>,
     d_xr = 1, d_raw_n = 0, d_mono_n = 0, d_send_n = 0, d_calib_n = 0, d_sent = [], d_log = []\<rparr>"

definition sample_announce :: "u32 \<Rightarrow> u32 \<Rightarrow> drs_packet" where
  "sample_announce node_id term =
     zero_packet\<lparr>pkt_msg_type := DRS_MSG_ANNOUNCE, pkt_node_id := node_id, pkt_election_term := term\<rparr>"

lemmas sample_defs = sample_daemon_def sample_sm_def sample_announce_def zero_packet_def

lemma sample_announce_wins:
  "announce_wins (sm_el (d_sm (sample_daemon s))) (sample_announce i 3) \<longleftrightarrow> i \<le> 7 \<and> i \<noteq> 7"
  by (auto simp: announce_wins_def sample_defs drs_const)

section \<open>Properties\<close>

text \<open>
  C16: the state diagram. A tick makes only the six timer transitions (in particular CALIBRATION is
  left only for LISTEN); an ANNOUNCE only moves an active node to FOLLOWER; SYNC_REQ and SYNC_RESP
  never change the state; a command only makes its own transition, but FORCE_HOLDOVER and
  FORCE_LEADER make theirs from every state, start-up included.
\<close>

theorem sm_transition_diagram:
  "tick_edge (sm_state (d_sm d)) (sm_state (d_sm (sm_tick os t d))) \<and>
   (sm_state (d_sm (sm_on_announce os pkt src t d)) = sm_state (d_sm d) \<or>
    sm_is_active (d_sm d) \<and> sm_state (d_sm (sm_on_announce os pkt src t d)) = DRS_STATE_FOLLOWER) \<and>
   sm_state (d_sm (sm_on_sync_req os pkt addr t d)) = sm_state (d_sm d) \<and>
   sm_state (d_sm (sm_on_sync_resp os pkt t d)) = sm_state (d_sm d) \<and>
   command_edge cmd (sm_state (d_sm d)) (sm_state (d_sm (sm_on_command os cmd t d))) \<and>
   sm_state (d_sm (sm_on_command os DRS_CMD_FORCE_HOLDOVER t d)) = DRS_STATE_HOLDOVER \<and>
   sm_state (d_sm (sm_on_command os DRS_CMD_FORCE_LEADER t d)) = DRS_STATE_LEADER"
  using sm_tick_edge sm_on_announce_edge sm_on_command_edge
  by (simp add: sm_on_command_def drs_const sm_effect)

lemma follower_losing_announce:
  assumes "sm_state (d_sm d) = DRS_STATE_FOLLOWER" "\<not> announce_wins (sm_el (d_sm d)) pkt"
    and "d' = sm_on_announce os pkt src t d"
  shows "sm_state (d_sm d') = DRS_STATE_FOLLOWER" "sm_last_leader_ns (d_sm d') = t"
    "el_leader_node_id (sm_el (d_sm d')) = el_leader_node_id (sm_el (d_sm d))"
proof -
  have "d_sm d' = (d_sm (snd (on_announce_election os pkt d)))\<lparr>sm_last_leader_ns := t\<rparr>"
    using assms(1,2) by (simp add: assms(3) sm_on_announce_def case_prod_beta on_announce_election_follower)
  then show "sm_state (d_sm d') = DRS_STATE_FOLLOWER" "sm_last_leader_ns (d_sm d') = t"
    "el_leader_node_id (sm_el (d_sm d')) = el_leader_node_id (sm_el (d_sm d))"
    using assms(1,2) by (simp_all add: on_announce_election_sm election_on_announce_leader)
qed

lemma follower_winning_announce:
  assumes "sm_state (d_sm d) = DRS_STATE_FOLLOWER" "announce_wins (sm_el (d_sm d)) pkt"
    and "sm' = d_sm (sm_on_announce os pkt src t d)"
  shows "sm_state sm' = DRS_STATE_FOLLOWER" "sm_last_leader_ns sm' = t"
    "el_leader_node_id (sm_el sm') = pkt_node_id pkt" "sm_mdf sm' = sm_mdf (d_sm d)" "sm_pi sm' = sm_pi (d_sm d)"
    "sm_sync_req_pending sm' = sm_sync_req_pending (d_sm d)" "sm_sync_req_t1 sm' = sm_sync_req_t1 (d_sm d)"
proof -
  let ?d = "upd_sm (\<lambda>sm. sm\<lparr>sm_last_leader_ns := t\<rparr>) (snd (on_announce_election os pkt d))"
  have "sm_on_announce os pkt src t d = enter_follower pkt src t ?d"
    using assms(1,2) by (simp add: sm_on_announce_def case_prod_beta on_announce_election_follower)
  moreover have "sm_is_active (d_sm ?d)" using assms(1) by (simp add: sm_is_active_def)
  moreover have "el_leader_node_id (sm_el (d_sm ?d)) = pkt_node_id pkt"
    using assms(2) by (simp add: on_announce_election_sm election_on_announce_leader)
  ultimately show "sm_state sm' = DRS_STATE_FOLLOWER" "sm_last_leader_ns sm' = t"
    "el_leader_node_id (sm_el sm') = pkt_node_id pkt" "sm_mdf sm' = sm_mdf (d_sm d)" "sm_pi sm' = sm_pi (d_sm d)"
    "sm_sync_req_pending sm' = sm_sync_req_pending (d_sm d)" "sm_sync_req_t1 sm' = sm_sync_req_t1 (d_sm d)"
    by (simp_all add: assms(3) enter_follower_sm) (simp_all add: on_announce_election_sm)
qed

text \<open>
  C37: a follower and any ANNOUNCE. It stays a follower and restarts its 300 ms leader timeout,
  whoever announced, so a follower of a dead leader does not enter HOLDOVER while another node
  announces. One that does not win the election leaves it with its leader. One that wins makes the
  sender its leader, but the min-delay filter, the controller and the pending request of the old leader
  stay as they were: the election has already recorded the new leader, so \<open>enter_follower\<close> sees no change.
\<close>

theorem follower_on_announce:
  assumes "sm_state (d_sm d) = DRS_STATE_FOLLOWER" "d' = sm_on_announce os pkt src t d" "s64 (t' - t) < 300000000"
  shows "sm_state (d_sm d') = DRS_STATE_FOLLOWER \<and> sm_last_leader_ns (d_sm d') = t \<and>
    sm_state (d_sm (sm_tick os t' d')) = DRS_STATE_FOLLOWER \<and>
    (if announce_wins (sm_el (d_sm d)) pkt
     then el_leader_node_id (sm_el (d_sm d')) = pkt_node_id pkt \<and> sm_mdf (d_sm d') = sm_mdf (d_sm d) \<and>
       sm_pi (d_sm d') = sm_pi (d_sm d) \<and> sm_sync_req_pending (d_sm d') = sm_sync_req_pending (d_sm d) \<and>
       sm_sync_req_t1 (d_sm d') = sm_sync_req_t1 (d_sm d)
     else el_leader_node_id (sm_el (d_sm d')) = el_leader_node_id (sm_el (d_sm d)))"
proof -
  let ?lost = "\<not> announce_wins (sm_el (d_sm d)) pkt"
  have sm: "sm_state (d_sm d') = DRS_STATE_FOLLOWER \<and> sm_last_leader_ns (d_sm d') = t"
  proof (cases ?lost)
    case True
    then show ?thesis using follower_losing_announce(1,2) [OF assms(1) _ assms(2)] by blast
  next
    case False
    then show ?thesis
      unfolding assms(2) using follower_winning_announce(1,2) [OF assms(1) _ refl] by blast
  qed
  then have "sm_state (d_sm (sm_tick os t' d')) = DRS_STATE_FOLLOWER"
    using assms(3)
    by (simp add: sm_tick_def sm_tick_state_def tick_follower_def follower_heartbeat_def Let_def
        drs_const sm_effect)
  moreover have "?lost \<Longrightarrow> el_leader_node_id (sm_el (d_sm d')) = el_leader_node_id (sm_el (d_sm d))"
    by (rule follower_losing_announce(3) [OF assms(1) _ assms(2)])
  moreover note follower_winning_announce(3-7) [OF assms(1) _ arg_cong [where f = d_sm, OF assms(2)]]
  ultimately show ?thesis using sm by simp
qed

theorem follower_on_announce_witness:
  "let d = sample_daemon DRS_STATE_FOLLOWER; lost = sm_on_announce sample_os (sample_announce 9 3) None 100000000 d;
       won = sm_on_announce sample_os (sample_announce 3 3) None 100000000 d
   in sm_state (d_sm (sm_tick sample_os 200000000 lost)) = DRS_STATE_FOLLOWER \<and>
      el_leader_node_id (sm_el (d_sm lost)) = 5 \<and> el_leader_node_id (sm_el (d_sm won)) = 3 \<and>
      sm_mdf (d_sm won) = sm_mdf (d_sm d)"
proof -
  let ?d = "sample_daemon DRS_STATE_FOLLOWER"
  have f: "sm_state (d_sm ?d) = DRS_STATE_FOLLOWER" "el_leader_node_id (sm_el (d_sm ?d)) = 5"
    "pkt_node_id (sample_announce 3 3) = 3" by (simp_all add: sample_defs)
  have s: "s64 (200000000 - 100000000) < 300000000" by (simp add: s64_def)
  show ?thesis
    using follower_on_announce [OF f(1) refl s, of sample_os "sample_announce 9 3" None]
      follower_on_announce [OF f(1) refl s, of sample_os "sample_announce 3 3" None]
    by (simp add: Let_def sample_announce_wins f)
qed

text \<open>
  The FORCE_LEADER command makes the node leader, but the term boost it adds is lost: the
  promotion under the leader lock sets the term to 1000, also when it was higher, so the announced
  term can be lower than one already seen on the network.
\<close>

lemma force_leader_term:
  "let sm' = d_sm (sm_on_command os DRS_CMD_FORCE_LEADER t d)
   in sm_state sm' = DRS_STATE_LEADER \<and> el_lock_mode (sm_el sm') = DRS_LOCK_AS_LEADER \<and>
      el_own_term (sm_el sm') = 1000 \<and> el_leader_node_id (sm_el sm') = el_own_node_id (sm_el (d_sm d))"
  by (simp add: sm_on_command_def enter_leader_def Let_def case_prod_beta calibrate_eq election_promote_def
      drs_const)

text \<open>
  C18: HOLDOVER is bounded. Before 10 s a tick changes nothing of the state machine, in particular
  the virtual clock keeps its rate and offset; at the first tick from 10 s on the node clears its
  filter and controller and stands as candidate, with an election timeout of 250 to 500 ms.
\<close>

theorem holdover_bounded:
  assumes "sm_state (d_sm d) = DRS_STATE_HOLDOVER"
  shows "let elapsed = s64 (t - sm_holdover_entry_ns (d_sm d)); sm' = d_sm (sm_tick os t d)
    in (elapsed < 10000000000 \<longrightarrow> sm' = d_sm d) \<and>
       (10000000000 \<le> elapsed \<longrightarrow> sm_state sm' = DRS_STATE_CANDIDATE \<and>
          min_delay_contents (sm_mdf sm') = [] \<and> pi_integrator_ns (sm_pi sm') = 0 \<and>
          250000000 \<le> el_election_timeout_ns (sm_el sm') \<and> el_election_timeout_ns (sm_el sm') < 500000000)"
  using assms election_timeout_bounds
  by (auto simp: sm_tick_def sm_tick_state_def tick_holdover_def Let_def case_prod_beta enter_candidate_def
      arm_timeout_eq discipline_reset_def pi_ctrl_init_def calibrate_eq drs_const)

theorem holdover_bounded_witness:
  "sm_state (d_sm (sm_tick sample_os 10000000000 (sample_daemon DRS_STATE_HOLDOVER))) = DRS_STATE_CANDIDATE"
proof -
  let ?d = "sample_daemon DRS_STATE_HOLDOVER"
  have f: "sm_state (d_sm ?d) = DRS_STATE_HOLDOVER" "sm_holdover_entry_ns (d_sm ?d) = 0"
    by (simp_all add: sample_defs)
  then show ?thesis
    using holdover_bounded [OF f(1), of 10000000000 sample_os] by (simp add: Let_def s64_def)
qed

text \<open>
  The retry back-off never delays a request. Whenever a request of a live follower times out,
  the same tick sends the next one, whatever the number of failures: the interval is counted from the
  last controller update, which lies before the request, so the 200 ms of the storm rate have always
  passed when the 200 ms of the timeout have.
\<close>

lemma retry_storm_never_delays:
  assumes "sm_state (d_sm d) = DRS_STATE_FOLLOWER" "sm_inv (d_sm d) xr" "sm_sync_req_pending (d_sm d)"
    and "ns_range t" "ns_range (sm_last_pi_update_ns (d_sm d))" "ns_range (sm_sync_req_sent_ns (d_sm d))"
    and "sm_last_pi_update_ns (d_sm d) \<le> sm_sync_req_sent_ns (d_sm d)"
    and "200000000 \<le> t - sm_sync_req_sent_ns (d_sm d)"
    and "s64 (t - sm_last_leader_ns (d_sm d)) < 300000000" "os_sendto os (d_send_n d)"
  shows "\<exists>dg. d_sent (sm_tick os t d) = d_sent d @ [dg] \<and>
    sm_sync_req_pending (d_sm (sm_tick os t d)) \<and> sm_sync_req_sent_ns (d_sm (sm_tick os t d)) = t \<and>
    sm_sync_fail_count (d_sm (sm_tick os t d)) = sm_sync_fail_count (d_sm d) + 1"
proof -
  let ?sm = "sync_req_timeout t (d_sm d)"
  have x: "s64 (t - sm_sync_req_sent_ns (d_sm d)) = t - sm_sync_req_sent_ns (d_sm d)"
    "s64 (t - sm_last_pi_update_ns (d_sm d)) = t - sm_last_pi_update_ns (d_sm d)"
    using assms(4-6) by (auto intro!: s64_id simp: ns_range_def in_i64_def)
  have sm: "\<not> sm_sync_req_pending ?sm" "sm_last_pi_update_ns ?sm = sm_last_pi_update_ns (d_sm d)"
    "sm_sync_fail_count ?sm = sm_sync_fail_count (d_sm d) + 1"
    using assms(3,8) x by (simp_all add: sync_req_timeout_def Let_def drs_const)
  have "sm_sync_rate_ns ?sm \<le> 200000000"
    using sync_req_timeout_inv [OF assms(2), of t] by (auto simp: sm_inv_def drs_const)
  then have due: "sm_sync_rate_ns ?sm \<le> s64 (t - sm_last_pi_update_ns ?sm)"
    unfolding sm(2) x(2) using assms(7,8) by linarith
  have "sm_tick os t d = update_telemetry os t (follower_heartbeat t (send_sync_req os t
      (upd_sm (sync_req_timeout t) d)))"
    using assms(1,9) by (simp add: sm_tick_def sm_tick_state_def tick_follower_def drs_const)
  moreover have "d_sent (update_telemetry os t d') = d_sent d'" for d'
    by (simp add: update_telemetry_def Let_def case_prod_beta split: option.split)
  ultimately show ?thesis
    using due sm assms(10)
    by (simp add: follower_heartbeat_def Let_def send_sync_req_def case_prod_beta transmit_def
        net_send_sync_req_def send_packet_def)
qed

text \<open>
  C17: an unopposed node becomes leader. An unlocked node in LISTEN whose timeout has passed at a tick
  stands as candidate, with a deadline 250 to 500 ms after that tick's clock reading; if the deadline
  has passed at the next tick it is leader of the next term.
\<close>

theorem unopposed_node_becomes_leader:
  assumes "sm_state (d_sm d) = DRS_STATE_LISTEN" "el_lock_mode (sm_el (d_sm d)) = DRS_LOCK_AUTO"
    and "el_timeout_deadline_ns (sm_el (d_sm d)) \<le> mono_raw_ns (os_raw os (d_raw_n d))"
    and "d1 = sm_tick os t1 d"
    and "el_timeout_deadline_ns (sm_el (d_sm d1)) \<le> mono_raw_ns (os_raw os (d_raw_n d1))"
    and "d2 = sm_tick os t2 d1"
  shows "sm_state (d_sm d1) = DRS_STATE_CANDIDATE \<and>
    (\<exists>timeout. 250000000 \<le> timeout \<and> timeout < 500000000 \<and> el_timeout_deadline_ns (sm_el (d_sm d1)) =
       s64 (mono_raw_ns (os_raw os (d_raw_n d + 1)) + timeout)) \<and>
    sm_state (d_sm d2) = DRS_STATE_LEADER \<and>
    el_own_term (sm_el (d_sm d2)) = el_own_term (sm_el (d_sm d)) + 1 \<and>
    el_leader_node_id (sm_el (d_sm d2)) = el_own_node_id (sm_el (d_sm d))"
proof -
  let ?arm = "election_arm_timeout (sm_el (d_sm d)) (mono_raw_ns (os_raw os (d_raw_n d + 1))) (d_xr d)"
  have d1: "sm_state (d_sm d1) = DRS_STATE_CANDIDATE" "sm_el (d_sm d1) = fst ?arm"
    using assms(1-3)
    by (simp_all add: assms(4) sm_tick_def sm_tick_state_def timed_out_def case_prod_beta
        election_timed_out_def enter_candidate_def arm_timeout_eq drs_const)
  have arm: "el_timeout_deadline_ns (fst ?arm) =
      s64 (mono_raw_ns (os_raw os (d_raw_n d + 1)) + el_election_timeout_ns (fst ?arm))"
    by (simp add: election_arm_timeout_eq Let_def)
  have "el_lock_mode (sm_el (d_sm d1)) = DRS_LOCK_AUTO" using assms(2) d1(2) by simp
  then have "sm_state (d_sm d2) = DRS_STATE_LEADER" "sm_el (d_sm d2) = election_promote (sm_el (d_sm d1))"
    using d1(1) assms(5)
    by (simp_all add: assms(6) sm_tick_def sm_tick_state_def timed_out_def case_prod_beta
        election_timed_out_def enter_leader_def Let_def calibrate_eq drs_const)
  with d1 arm election_timeout_bounds [of "sm_el (d_sm d)" "mono_raw_ns (os_raw os (d_raw_n d + 1))" "d_xr d"]
    assms(2)
  show ?thesis by (auto simp: election_promote_def Let_def drs_const)
qed

theorem unopposed_node_becomes_leader_witness:
  "let d = (sample_daemon DRS_STATE_LISTEN)\<lparr>d_raw_n := 1\<rparr>;
       d2 = sm_tick sample_os 3000000000 (sm_tick sample_os 1000000000 d)
   in sm_state (d_sm d2) = DRS_STATE_LEADER \<and> el_own_term (sm_el (d_sm d2)) = 4"
proof -
  let ?d = "(sample_daemon DRS_STATE_LISTEN)\<lparr>d_raw_n := 1\<rparr>"
  let ?e = "sm_tick sample_os 1000000000 ?d"
  have raw: "mono_raw_ns (os_raw sample_os 1) = 1000000000" "mono_raw_ns (os_raw sample_os 2) = 2000000000"
    "mono_raw_ns (os_raw sample_os 3) = 3000000000"
    by (simp_all add: sample_os_def mono_raw_ns_def timespec_ns_def s64_def)
  have d: "sm_state (d_sm ?d) = DRS_STATE_LISTEN" "el_lock_mode (sm_el (d_sm ?d)) = DRS_LOCK_AUTO"
    "el_timeout_deadline_ns (sm_el (d_sm ?d)) = 300000000" "d_raw_n ?d = 1"
    "el_own_term (sm_el (d_sm ?d)) = 3" "telemetry_get (d_tel ?d) = None"
    by (simp_all add: sample_defs telemetry_get_def DRS_LOCK_AUTO_def)
  have e: "?e = arm_timeout sample_os (enter_state DRS_STATE_CANDIDATE 1000000000 (?d\<lparr>d_raw_n := 2\<rparr>))"
    using d raw(1)
    by (simp add: sm_tick_def sm_tick_state_def timed_out_def case_prod_beta election_timed_out_def
        enter_candidate_def update_telemetry_def arm_timeout_eq telemetry_get_def drs_const numeral_2_eq_2)
  have n: "d_raw_n ?e = 3" unfolding e by (simp add: arm_timeout_eq)
  have "el_timeout_deadline_ns (sm_el (d_sm ?e)) \<le> 3000000000"
    unfolding e
    using election_timeout_bounds [of "sm_el (d_sm ?d)" 2000000000 "d_xr ?d"] raw(2)
    by (simp add: arm_timeout_eq election_arm_timeout_eq Let_def s64_id in_i64_def drs_const)
  then show ?thesis
    using unopposed_node_becomes_leader [of ?d sample_os ?e 1000000000 _ 3000000000, OF _ _ _ refl _ refl] d raw n
    by (simp add: Let_def)
qed

end
