(* ===== verification/Startup_Guard.thy ===== *)
theory Startup_Guard
  imports Daemon Sm_Transitions
begin

text \<open>
  Start-up: what a node may do before its first successful calibration. Two invariants of the
  transition system of the daemon. The pulse engine is never armed before a calibration succeeded,
  in any run; and as long as no operator command arrives, the node takes part in elections and
  synchronisation only after one.
\<close>

section \<open>Calibration done\<close>

definition calib_ok :: "calib_env \<Rightarrow> bool" where
  "calib_ok env \<longleftrightarrow> fst (calibrate_loopback env (vclock_init 0)) = 0"

lemma calib_ok_any: "fst (calibrate_loopback env vc) = 0 \<longleftrightarrow> calib_ok env"
  by (simp add: calib_ok_def calibrate_loopback_def Let_def split: prod.split)

definition calib_done :: "os_env \<Rightarrow> daemon \<Rightarrow> bool" where
  "calib_done os d \<longleftrightarrow> (\<exists>k < d_calib_n d. calib_ok (os_calib os k))"

definition engine_used :: "pulse_engine \<Rightarrow> bool" where
  "engine_used pe \<longleftrightarrow> pe_pulse_count pe \<noteq> 0 \<or> pe_timer_at pe \<noteq> None \<or> pe_pulse_low_at pe \<noteq> None"

section \<open>What the handlers leave alone\<close>

text \<open>
  From \<open>d\<close> to \<open>d'\<close> the pulse engine stayed unused if it was, calibrations were only added, and the
  command channel was not polled.
\<close>

definition guard_frame :: "daemon \<Rightarrow> daemon \<Rightarrow> bool" where
  "guard_frame d d' \<longleftrightarrow> engine_used (d_pe d') = engine_used (d_pe d) \<and> d_calib_n d \<le> d_calib_n d' \<and>
     d_cmd d' = d_cmd d"

lemma guard_frame_refl [simp]: "guard_frame d d"
  by (simp add: guard_frame_def)

lemma guard_frame_trans: "guard_frame d d' \<Longrightarrow> guard_frame d' d'' \<Longrightarrow> guard_frame d d''"
  by (auto simp: guard_frame_def)

lemma guard_frame_done: "guard_frame d d' \<Longrightarrow> calib_done os d \<Longrightarrow> calib_done os d'"
  by (auto simp: guard_frame_def calib_done_def intro: less_le_trans)

named_theorems guard_intros \<open>handlers within the guard's frame\<close>

lemma d_cmd_keeps [simp]:
  "d_cmd (push_error os code msg d) = d_cmd d" "d_cmd (tel_write f d) = d_cmd d"
  "d_cmd (udp_emit ts st off rtt rate d) = d_cmd d" "d_cmd (snd (transmit os send d)) = d_cmd d"
  "d_cmd (snd (calibrate os d)) = d_cmd d" "d_cmd (arm_timeout os d) = d_cmd d"
  "d_cmd (enter_state s t d) = d_cmd d"
  by (simp_all add: push_error_def tel_write_def udp_emit_def transmit_def calibrate_eq arm_timeout_eq
      enter_state_def Let_def case_prod_beta split: option.split)

lemma d_pe_keeps [simp]:
  "d_pe (udp_emit ts st off rtt rate d) = d_pe d" "d_pe (snd (transmit os send d)) = d_pe d"
  "d_pe (snd (calibrate os d)) = d_pe d" "d_pe (arm_timeout os d) = d_pe d"
  "d_pe (enter_state s t d) = d_pe d"
  by (simp_all add: udp_emit_def transmit_def calibrate_eq arm_timeout_eq enter_state_def Let_def
      case_prod_beta)

lemma d_calib_n_keeps [simp]:
  "d_calib_n (tel_write f d) = d_calib_n d" "d_calib_n (udp_emit ts st off rtt rate d) = d_calib_n d"
  "d_calib_n (snd (transmit os send d)) = d_calib_n d" "d_calib_n (arm_timeout os d) = d_calib_n d"
  "d_calib_n (snd (calibrate os d)) = Suc (d_calib_n d)"
  by (simp_all add: tel_write_def udp_emit_def transmit_def arm_timeout_eq calibrate_eq Let_def
      case_prod_beta)

lemma enter_guard [guard_intros]:
  "guard_frame d (enter_listen os t d)" "guard_frame d (enter_candidate os t d)"
  "guard_frame d (enter_leader os t d)" "guard_frame d (enter_holdover t d)"
  "guard_frame d (enter_follower pkt src t d)"
  by (simp_all add: guard_frame_def enter_listen_def enter_candidate_def enter_leader_def
      enter_holdover_def enter_follower_def Let_def case_prod_beta split: option.split)

lemma health_unused [simp]:
  "engine_used (fst (pulse_engine_update_health raw offset h s)) = engine_used (fst s)"
  by (auto simp: pulse_engine_update_health_def engine_used_def Let_def split: prod.split)

lemma update_telemetry_guard [guard_intros]: "guard_frame d (update_telemetry os t d)"
  by (simp add: guard_frame_def update_telemetry_def Let_def case_prod_beta split: option.split)

lemma tick_guard [guard_intros]:
  "guard_frame d (tick_follower os t d)" "guard_frame d (tick_holdover os t d)"
  "guard_frame d (enter_state s t d)" "guard_frame d (udp_emit ts st off rtt rate d)"
  "guard_frame d (snd (timed_out os d))"
  by (simp_all add: guard_frame_def tick_follower_def tick_holdover_def follower_heartbeat_def
      send_sync_req_def timed_out_def enter_candidate_def enter_holdover_def Let_def case_prod_beta)

lemma tick_calibration_guard:
  "guard_frame d (tick_calibration os t d) \<and> sm_state (d_sm (tick_calibration os t d)) = sm_state (d_sm d) \<or>
   d_cmd (tick_calibration os t d) = d_cmd d \<and> calib_done os (tick_calibration os t d)"
proof (cases "calib_ok (os_calib os (d_calib_n d))")
  case True
  then show ?thesis
    by (intro disjI2)
      (simp add: tick_calibration_def Let_def case_prod_beta enter_listen_def calib_ok_any calib_done_def
        calibrate_eq, blast)
next
  case False
  then show ?thesis
    by (intro disjI1) (simp add: tick_calibration_def Let_def case_prod_beta calib_ok_any calibrate_eq
        guard_frame_def)
qed

text \<open>A tick keeps the frame and does not make the node active, unless it calibrated successfully.\<close>

lemma sm_tick_state_guard:
  "guard_frame d (sm_tick_state os t d) \<and>
     (sm_is_active (d_sm (sm_tick_state os t d)) \<longrightarrow> sm_is_active (d_sm d)) \<or>
   d_cmd (sm_tick_state os t d) = d_cmd d \<and> calib_done os (sm_tick_state os t d)"
proof (cases "sm_state (d_sm d)")
  case DRS_STATE_CALIBRATION
  then show ?thesis
    using tick_calibration_guard [of d os t] by (auto simp: sm_tick_state_def sm_is_active_def)
next
  case DRS_STATE_GROUND
  then show ?thesis by (simp add: sm_tick_state_def sm_is_active_def guard_intros)
qed (auto simp: sm_tick_state_def sm_is_active_def case_prod_beta intro: guard_intros guard_frame_trans)

lemma sm_tick_guard:
  "guard_frame d (sm_tick os t d) \<and> (sm_is_active (d_sm (sm_tick os t d)) \<longrightarrow> sm_is_active (d_sm d)) \<or>
   d_cmd (sm_tick os t d) = d_cmd d \<and> calib_done os (sm_tick os t d)"
proof -
  let ?d = "sm_tick_state os t d"
  have f: "guard_frame ?d (sm_tick os t d)" "d_sm (sm_tick os t d) = d_sm ?d"
    by (simp_all add: sm_tick_def guard_intros)
  have "d_cmd (sm_tick os t d) = d_cmd ?d" using f(1) by (simp add: guard_frame_def)
  then show ?thesis
    using sm_tick_state_guard [of d os t] guard_frame_trans [OF _ f(1), of d]
      guard_frame_done [OF f(1), of os] f(2) by metis
qed

lemma on_announce_election_guard: "guard_frame d (snd (on_announce_election os pkt d))"
  by (simp add: guard_frame_def on_announce_election_eq Let_def)

lemma upd_sm_guard: "guard_frame d d' \<Longrightarrow> guard_frame d (upd_sm f d')"
  by (simp add: guard_frame_def)

lemma sm_on_announce_guard [guard_intros]: "guard_frame d (sm_on_announce os pkt src t d)"
proof -
  let ?d = "snd (on_announce_election os pkt d)"
  have f: "guard_frame d (enter_follower pkt src t d')" if "guard_frame d d'" for d'
    using that enter_guard(5) by (rule guard_frame_trans)
  show ?thesis
    using on_announce_election_guard [of d os pkt]
    by (cases "sm_state (d_sm d)")
      (simp_all add: sm_on_announce_def case_prod_beta Let_def f upd_sm_guard)
qed

lemma apply_step_guard: "guard_frame d (apply_step theta t d)"
  by (simp add: guard_frame_def apply_step_def Let_def)

lemma resp_discipline_guard: "guard_frame d (resp_discipline os theta rtt t4 d)"
proof -
  let ?now = "mono_raw_ns (os_raw os (d_raw_n d))"
  have "guard_frame d (apply_step theta ?now d')" if "guard_frame d d'" for d'
    using that apply_step_guard by (rule guard_frame_trans)
  then show ?thesis
    by (simp add: resp_discipline_def Let_def case_prod_beta guard_frame_def)
qed

lemma sm_on_sync_guard [guard_intros]:
  "guard_frame d (sm_on_sync_req os pkt addr t d)" "guard_frame d (sm_on_sync_resp os pkt t d)"
proof -
  show "guard_frame d (sm_on_sync_req os pkt addr t d)"
    by (simp add: guard_frame_def sm_on_sync_req_def Let_def case_prod_beta)
next
  have seq: "guard_frame d (resp_check_seq os pkt (upd_sm resp_accept_request d))"
    by (simp add: guard_frame_def resp_check_seq_def Let_def)
  have disc: "guard_frame d (resp_discipline os theta rtt t d')" if "guard_frame d d'" for d' theta rtt
    using that resp_discipline_guard by (rule guard_frame_trans)
  have tel: "guard_frame d (tel_write f (upd_sm h d'))" if "guard_frame d d'" for d' f h
    using that by (simp add: guard_frame_def)
  show "guard_frame d (sm_on_sync_resp os pkt t d)"
    unfolding sm_on_sync_resp_def Let_def case_prod_beta
    by (simp add: tel seq disc del: d_sm_upd_sm tel_write_keeps)
qed

lemma sm_on_command_guard [guard_intros]: "guard_frame d (sm_on_command os cmd t d)"
  by (simp add: guard_frame_def sm_on_command_def enter_holdover_def enter_candidate_def enter_leader_def
      enter_listen_def Let_def case_prod_beta)

lemma receive_guard: "guard_frame d (snd (receive os res d))"
  "d_sm (snd (receive os res d)) = d_sm d"
  by (simp_all add: guard_frame_def receive_def Let_def case_prod_beta)

lemma push_error_guard [guard_intros]: "guard_frame d (push_error os code msg d)"
  by (simp add: guard_frame_def)

lemma on_heartbeat_guard [guard_intros]: "guard_frame d (on_heartbeat os d)"
  by (simp add: guard_frame_def on_heartbeat_def Let_def)

lemma on_heartbeat_sm:
  "sm_state (d_sm (on_heartbeat os d)) = sm_state (d_sm d)" "sm_el (d_sm (on_heartbeat os d)) = sm_el (d_sm d)"
  by (simp_all add: on_heartbeat_def Let_def)

text \<open>Reception keeps the frame, and a node that was not active stays so.\<close>

definition guard_kept :: "daemon \<Rightarrow> daemon \<Rightarrow> bool" where
  "guard_kept d d' \<longleftrightarrow> guard_frame d d' \<and> (sm_is_active (d_sm d') \<longrightarrow> sm_is_active (d_sm d))"

lemma guard_kept_trans: "guard_kept d d' \<Longrightarrow> guard_kept d' d'' \<Longrightarrow> guard_kept d d''"
  unfolding guard_kept_def by (blast intro: guard_frame_trans)

lemma handlers_kept:
  "guard_kept d (sm_on_announce os pkt src t d)" "guard_kept d (sm_on_sync_req os pkt addr t2 d)"
  "guard_kept d (sm_on_sync_resp os pkt t4 d)" "guard_kept d (push_error os code msg d)"
  "guard_kept d (on_heartbeat os d)" "guard_kept d (snd (receive os res d))" "guard_kept d d"
  using sm_on_announce_edge [of os pkt src t d]
  by (auto simp: guard_kept_def guard_intros receive_guard sm_is_active_def on_heartbeat_sm)

lemma on_mcast_kept: "guard_kept d (on_mcast os res t d)"
  using handlers_kept(6) [of d os res]
  by (auto simp: on_mcast_def Let_def case_prod_beta intro: guard_kept_trans handlers_kept split: option.split)

lemma on_ucast_kept: "guard_kept d (on_ucast os res d)"
  using handlers_kept(6) [of d os res]
  by (auto simp: on_ucast_def Let_def case_prod_beta intro: guard_kept_trans handlers_kept split: option.split)

section \<open>The two invariants\<close>

definition pulse_guard :: "os_env \<Rightarrow> node \<Rightarrow> bool" where
  "pulse_guard os n \<longleftrightarrow> (engine_used (d_pe (n_d n)) \<longrightarrow> calib_done os (n_d n))"

text \<open>\<open>q\<close> is the sequence number the command channel had when the daemon mapped it.\<close>

definition active_guard :: "os_env \<Rightarrow> u32 \<Rightarrow> node \<Rightarrow> bool" where
  "active_guard os q n \<longleftrightarrow>
     (cg_mapped (d_cmd (n_d n)) \<longrightarrow> cg_last_seq (d_cmd (n_d n)) = q) \<and>
     (sm_is_active (d_sm (n_d n)) \<longrightarrow> calib_done os (n_d n))"

definition no_command :: "u32 \<Rightarrow> event \<Rightarrow> bool" where
  "no_command q ev \<longleftrightarrow> cc_seq (te_channel (ev_tick ev)) = q"

definition quiet_action :: "u32 \<Rightarrow> action \<Rightarrow> bool" where
  "quiet_action q a \<longleftrightarrow> (case a of Act_iteration (Wait_events evs) \<Rightarrow> list_all (no_command q) evs | _ \<Rightarrow> True)"

lemma pulse_guard_frame: "pulse_guard os n \<Longrightarrow> guard_frame (n_d n) d' \<Longrightarrow> pulse_guard os (n\<lparr>n_d := d'\<rparr>)"
  using guard_frame_done [of "n_d n" d' os] by (auto simp: pulse_guard_def guard_frame_def)

lemma active_guard_kept: "active_guard os q n \<Longrightarrow> guard_kept (n_d n) d' \<Longrightarrow> active_guard os q (n\<lparr>n_d := d'\<rparr>)"
  using guard_frame_done [of "n_d n" d' os] by (auto simp: active_guard_def guard_frame_def guard_kept_def)

text \<open>The state of the daemon after a tick event: the tick, the poll of the channel, the command.\<close>

lemma on_tick_daemon:
  "n_d (on_tick os te t n) =
     (let d = sm_tick os t (n_d n); (cmd, g) = cmd_poll (te_channel te) (d_cmd d); d = d\<lparr>d_cmd := g\<rparr>
      in if cmd \<noteq> DRS_CMD_NONE then sm_on_command os cmd t d else d)"
  by (simp add: on_tick_def Let_def case_prod_beta)

lemma on_tick_pulse_guard: "pulse_guard os n \<Longrightarrow> pulse_guard os (on_tick os te t n)"
proof -
  assume g: "pulse_guard os n"
  let ?d = "(sm_tick os t (n_d n))\<lparr>d_cmd := snd (cmd_poll (te_channel te) (d_cmd (sm_tick os t (n_d n))))\<rparr>"
  have d: "pulse_guard os (n\<lparr>n_d := ?d\<rparr>)"
    using g sm_tick_guard [of "n_d n" os t] guard_frame_done [of "n_d n" _ os]
    by (auto simp: pulse_guard_def guard_frame_def calib_done_def)
  then have "pulse_guard os (n\<lparr>n_d := sm_on_command os c t ?d\<rparr>)" for c
    using pulse_guard_frame [OF d, of "sm_on_command os c t ?d"] by (simp add: guard_intros)
  with d show ?thesis by (simp add: pulse_guard_def on_tick_daemon Let_def case_prod_beta)
qed

lemma on_tick_active_guard:
  assumes "active_guard os q n" "cc_seq (te_channel te) = q"
  shows "active_guard os q (on_tick os te t n)"
proof -
  let ?d = "sm_tick os t (n_d n)"
  have cmd: "d_cmd ?d = d_cmd (n_d n)"
    using sm_tick_guard [of "n_d n" os t] by (auto simp: guard_frame_def)
  then have poll: "cmd_poll (te_channel te) (d_cmd ?d) = (DRS_CMD_NONE, d_cmd ?d)"
    using assms by (simp add: active_guard_def cmd_poll_def cmd_poll_seq_def)
  then have "n_d (on_tick os te t n) = ?d" by (simp add: on_tick_daemon Let_def)
  then show ?thesis
    using assms(1) cmd sm_tick_guard [of "n_d n" os t] guard_frame_done [of "n_d n" ?d os]
    by (auto simp: active_guard_def)
qed

lemma handle_event_pulse_guard: "pulse_guard os n \<Longrightarrow> pulse_guard os (handle_event os t ev n)"
  using on_mcast_kept [unfolded guard_kept_def] on_ucast_kept [unfolded guard_kept_def]
  by (intro handle_event_cases [where P = "pulse_guard os"] on_tick_pulse_guard pulse_guard_frame
      on_heartbeat_guard) blast+

lemma handle_event_active_guard:
  "active_guard os q n \<Longrightarrow> no_command q ev \<Longrightarrow> active_guard os q (handle_event os t ev n)"
  by (rule handle_event_cases [where P = "active_guard os q"])
    (simp_all add: no_command_def on_tick_active_guard active_guard_kept on_mcast_kept on_ucast_kept handlers_kept)

lemma main_iteration_pulse_guard:
  assumes g: "pulse_guard os n"
  shows "pulse_guard os (main_iteration os w n)"
proof (rule main_iteration_invariant [where ok = "\<lambda>_. True"])
  show "pulse_guard os (n\<lparr>n_d := (n_d n)\<lparr>d_raw_n := k\<rparr>\<rparr>)" for k
    using g by (rule pulse_guard_frame) (simp add: guard_frame_def)
  show "pulse_guard os (n\<lparr>n_d := push_error os c s (n_d n), n_running := False\<rparr>)" for c s
    using pulse_guard_frame [OF g push_error_guard [of "n_d n" os c s]] by (simp add: pulse_guard_def)
qed (simp_all add: g handle_event_pulse_guard list.pred_True split: wait_result.split)

lemma main_iteration_active_guard:
  assumes g: "active_guard os q n" and q: "quiet_action q (Act_iteration w)"
  shows "active_guard os q (main_iteration os w n)"
proof (rule main_iteration_invariant [where ok = "no_command q"])
  show "active_guard os q (n\<lparr>n_d := (n_d n)\<lparr>d_raw_n := k\<rparr>\<rparr>)" for k
    using g by (rule active_guard_kept) (simp add: guard_kept_def guard_frame_def)
  show "active_guard os q (n\<lparr>n_d := push_error os c s (n_d n), n_running := False\<rparr>)" for c s
    using active_guard_kept [OF g handlers_kept(4) [of "n_d n" os c s]] by (simp add: active_guard_def)
  show "case w of Wait_events evs \<Rightarrow> list_all (no_command q) evs | _ \<Rightarrow> True"
    using q by (simp add: quiet_action_def)
qed (simp_all add: g handle_event_active_guard)

text \<open>The other threads touch neither the state machine nor the command channel.\<close>

lemma pulse_round_guard:
  assumes "pulse_round os r in0 in1 d = Some d'"
    and "in0 \<longrightarrow> pe_timer_at (d_pe d) \<noteq> None" "in1 \<longrightarrow> pe_pulse_low_at (d_pe d) \<noteq> None"
  shows "d_sm d' = d_sm d \<and> d_cmd d' = d_cmd d \<and> d_calib_n d' = d_calib_n d \<and>
    (engine_used (d_pe d') \<longrightarrow> engine_used (d_pe d))"
proof -
  obtain pe rn mn g where s: "pulse_thread_round (os_raw os) (os_mono os) (sm_vc (d_sm d)) r in0 in1
      ((d_pe d, d_raw_n d, d_mono_n d), d_gpio d) = Some ((pe, rn, mn), g)"
    and d': "d' = d\<lparr>d_pe := pe, d_raw_n := rn, d_mono_n := mn, d_gpio := g\<rparr>"
    using assms(1) by (auto simp: pulse_round_def)
  have "engine_used pe \<longrightarrow> engine_used (d_pe d)"
  proof (cases "in0 \<or> in1")
    case True
    then show ?thesis using assms(2,3) by (auto simp: engine_used_def)
  next
    case False
    then show ?thesis using s by (auto simp: pulse_thread_round_def split: if_splits)
  qed
  then show ?thesis by (simp add: d')
qed

lemma node_step_pulse_guard: "node_step os a n n' \<Longrightarrow> pulse_guard os n \<Longrightarrow> pulse_guard os n'"
proof (induction rule: node_step.induct)
  case (pulse in0 n in1 r d')
  then show ?case using pulse_round_guard [OF pulse(3,1,2)] by (auto simp: pulse_guard_def calib_done_def)
qed (auto simp: main_iteration_pulse_guard, auto simp: pulse_guard_def handle_sig_def calib_done_def)

lemma node_step_active_guard:
  "node_step os a n n' \<Longrightarrow> quiet_action q a \<Longrightarrow> active_guard os q n \<Longrightarrow> active_guard os q n'"
proof (induction rule: node_step.induct)
  case (pulse in0 n in1 r d')
  then show ?case using pulse_round_guard [OF pulse(3,1,2)] by (auto simp: active_guard_def calib_done_def)
qed (auto simp: main_iteration_active_guard, auto simp: active_guard_def handle_sig_def calib_done_def)

section \<open>Start-up\<close>

lemma boot_shm_cmd:
  "cg_mapped (d_cmd (boot_shm os be static_daemon)) \<longrightarrow>
     cg_last_seq (d_cmd (boot_shm os be static_daemon)) = cc_seq (be_channel be)"
  by (simp add: boot_shm_def Let_def case_prod_beta cmd_init_def static_daemon_def)

lemma sm_init_guard:
  "d_cmd (sm_init os u i l d) = d_cmd d" "d_pe (sm_init os u i l d) = d_pe d"
  "sm_state (d_sm (sm_init os u i l d)) = DRS_STATE_GROUND"
  by (simp_all add: sm_init_def Let_def case_prod_beta)

lemma rt_apply_keeps:
  "d_cmd (rt_apply os a b c d) = d_cmd d" "d_pe (rt_apply os a b c d) = d_pe d"
  "d_sm (rt_apply os a b c d) = d_sm d"
  by (simp_all add: rt_apply_def Let_def)

lemma engine_unused_start:
  "\<not> engine_used (snd (pulse_engine_start ok (snd (pulse_engine_init fd fd'))))"
  by (simp add: pulse_engine_start_def pulse_engine_init_def pulse_engine_zero_def engine_used_def Let_def)

lemma boot_guard:
  assumes "boot os be argv = Inr n"
  shows "\<not> engine_used (d_pe (n_d n)) \<and> sm_state (d_sm (n_d n)) = DRS_STATE_GROUND \<and>
    (cg_mapped (d_cmd (n_d n)) \<longrightarrow> cg_last_seq (d_cmd (n_d n)) = cc_seq (be_channel be))"
  using assms boot_shm_cmd [of os be]
  by (auto simp: boot_def boot_epoll_def Let_def case_prod_beta rt_apply_keeps sm_init_guard engine_unused_start split: if_splits)

lemma boot_pulse_guard: "booted os be argv n \<Longrightarrow> pulse_guard os n"
  by (auto simp: booted_def pulse_guard_def dest: boot_guard)

lemma boot_active_guard: "booted os be argv n \<Longrightarrow> active_guard os (cc_seq (be_channel be)) n"
  by (auto simp: booted_def active_guard_def sm_is_active_def dest: boot_guard)

interpretation pulse_safe: safety "booted os be argv" "node_step os" "\<lambda>_. True" "pulse_guard os" for os be argv
  by unfold_locales (auto intro: boot_pulse_guard node_step_pulse_guard)

interpretation active_safe: safety "booted os be argv" "node_step os" "quiet_action (cc_seq (be_channel be))"
  "active_guard os (cc_seq (be_channel be))" for os be argv
  by unfold_locales (auto intro: boot_active_guard node_step_active_guard)

section \<open>A missing tick timer\<close>

text \<open>\<open>main\<close> does not look at the result of \<open>make_timerfd_periodic\<close>: without the timer there are no ticks.\<close>

definition no_tick :: "node \<Rightarrow> bool" where
  "no_tick n \<longleftrightarrow> n_tick_fd n < 0 \<and> list_all (\<lambda>fd. 0 \<le> fd) (n_epoll n) \<and> sm_state (d_sm (n_d n)) = DRS_STATE_GROUND"

lemma ground_receives:
  assumes "sm_state (d_sm d) = DRS_STATE_GROUND"
  shows "sm_state (d_sm (on_mcast os res t d)) = DRS_STATE_GROUND"
    and "sm_state (d_sm (on_ucast os res d)) = DRS_STATE_GROUND"
proof -
  have "sm_state (d_sm (sm_on_announce os pkt src t d')) = DRS_STATE_GROUND"
    if "d_sm d' = d_sm d" for pkt src d'
    using sm_on_announce_edge [of os pkt src t d'] assms that by (simp add: sm_is_active_def)
  then show "sm_state (d_sm (on_mcast os res t d)) = DRS_STATE_GROUND"
    "sm_state (d_sm (on_ucast os res d)) = DRS_STATE_GROUND"
    using assms
    by (simp_all add: on_mcast_def on_ucast_def case_prod_beta receive_guard split: option.split)
qed

lemma handle_event_no_tick: "no_tick n \<Longrightarrow> 0 \<le> ev_fd ev \<Longrightarrow> no_tick (handle_event os t ev n)"
  by (simp add: no_tick_def handle_event_def Let_def ground_receives on_heartbeat_sm)

lemma main_iteration_no_tick:
  assumes "no_tick n" "epoll_reports (n_epoll n) w"
  shows "no_tick (main_iteration os w n)"
proof (rule main_iteration_invariant [where ok = "\<lambda>ev. 0 \<le> ev_fd ev"])
  show "case w of Wait_events evs \<Rightarrow> list_all (\<lambda>ev. 0 \<le> ev_fd ev) evs | _ \<Rightarrow> True"
    using assms by (auto simp: epoll_reports_def no_tick_def list_all_iff split: wait_result.splits)
qed (use assms(1) in \<open>simp_all add: no_tick_def handle_event_no_tick [unfolded no_tick_def]\<close>)

lemma node_step_no_tick: "node_step os a n n' \<Longrightarrow> no_tick n \<Longrightarrow> no_tick n'"
proof (induction rule: node_step.induct)
  case (pulse in0 n in1 r d')
  then show ?case using pulse_round_guard [OF pulse(3,1,2)] by (simp add: no_tick_def)
qed (simp_all add: main_iteration_no_tick, simp_all add: no_tick_def handle_sig_def)

lemma boot_Inr: "boot os be argv = Inr n \<Longrightarrow> \<exists>ifname d. n = boot_epoll be ifname d"
  by (auto simp: boot_def Let_def case_prod_beta split: if_splits)

lemma boot_epoll_no_tick:
  "be_tick_fd be < 0 \<Longrightarrow> n_tick_fd (boot_epoll be ifname d) < 0 \<and>
     list_all (\<lambda>fd. 0 \<le> fd) (n_epoll (boot_epoll be ifname d))"
  by (simp add: boot_epoll_def make_timerfd_periodic_def epoll_add_def Let_def case_prod_beta)

lemma boot_no_tick: "booted os be argv n \<Longrightarrow> be_tick_fd be < 0 \<Longrightarrow> no_tick n"
  using boot_guard [of os be argv n] boot_Inr [of os be argv n] boot_epoll_no_tick [of be]
  by (auto simp: booted_def no_tick_def)

end
