(* ===== verification/Sync_Exchange.thy ===== *)
theory Sync_Exchange
  imports Sm_Transitions
begin

text \<open>
  The time exchange: what \<open>sm_on_sync_req\<close> answers, what offset and round trip
  \<open>sm_on_sync_resp\<close> computes from the answer, and what it does to the virtual clock.
\<close>

section \<open>The measured offset\<close>

lemma sync_theta_value:
  assumes "even (vc_seq vc)" "t1v = vclock_calc vc t1" "t4v = vclock_calc vc t4"
    and "in_i64 (pkt_t2 pkt - t1v)" "in_i64 (pkt_t3 pkt - t4v)"
    and "in_i64 (pkt_t2 pkt - t1v + (pkt_t3 pkt - t4v))"
  shows "sync_theta vc t1 pkt t4 = (pkt_t2 pkt - t1v + (pkt_t3 pkt - t4v)) sdiv 2"
  using assms by (simp add: sync_theta_def s64_id c_div64_sdiv del: diff_add_eq add_diff_eq)

lemma half_error: "\<bar>2 * ((2 * x + y) sdiv 2 - x)\<bar> \<le> \<bar>y\<bar> + 1" for x y :: int
proof -
  have "\<bar>2 * (n sdiv 2) - n\<bar> \<le> 1" for n :: int
  proof (cases "0 \<le> n")
    case True
    then have "n sdiv 2 = n div 2" by (simp add: sdiv_nonneg_eq)
    then show ?thesis by linarith
  next
    case False
    then have "n sdiv 2 = - (- n div 2)" by (simp add: sdiv_neg_eq)
    then show ?thesis by linarith
  qed
  from this [of "2 * x + y"] show ?thesis by (simp only: right_diff_distrib)
qed

section \<open>Effect on the clock\<close>

lemma apply_step_vc:
  "sm_vc (d_sm (apply_step theta t d)) =
     vclock_set_rate (vclock_step_offset (sm_vc (d_sm d)) theta t) DRS_RATE_NOMINAL_Q32 t"
  by (simp add: apply_step_def Let_def)

definition pi_period :: "i64 \<Rightarrow> sm_t \<Rightarrow> i64" where
  "pi_period now sm = (let p = s64 (now - sm_last_pi_update_ns sm)
     in if p \<le> 0 then DRS_PI_UPDATE_PERIOD_NS else p)"

lemma resp_discipline_vc:
  "sm_vc (d_sm (resp_discipline os theta rtt t4 d)) =
     (let now = mono_raw_ns (os_raw os (d_raw_n d));
          (step, rate, pi) = pi_ctrl_update (sm_pi (d_sm d)) theta (pi_period now (d_sm d))
      in if step then vclock_set_rate (vclock_step_offset (sm_vc (d_sm d)) theta now) DRS_RATE_NOMINAL_Q32 now
         else vclock_set_rate (sm_vc (d_sm d)) rate now)"
  by (simp add: resp_discipline_def Let_def case_prod_beta apply_step_vc pi_period_def)

lemma vclock_set_rate_keeps_lat:
  "vc_lat_corr_ns (vclock_set_rate vc r t) = vc_lat_corr_ns vc"
  "vc_lat_corr_ns (vclock_step_offset vc d t) = vc_lat_corr_ns vc"
  by (simp_all add: vclock_ops)

section \<open>Properties\<close>

text \<open>
  C15: accuracy of the measured offset. Let the leader's virtual clock be ahead of the follower's by
  \<open>theta\<close> during an exchange with delays \<open>d1\<close> there, \<open>p\<close> at the leader and \<open>d2\<close> back, all in the
  follower's virtual time. Then the offset \<open>sm_on_sync_resp\<close> computes differs from \<open>theta\<close> by at most
  half the path asymmetry (and rounding), so by at most half the round trip.
\<close>

theorem sync_offset_accuracy:
  assumes "even (vc_seq vc)"
    and "pkt_t2 pkt = vclock_now vc t1 + d1 + theta" "pkt_t3 pkt = pkt_t2 pkt + p"
    and "vclock_now vc t4 = vclock_now vc t1 + d1 + p + d2"
    and "0 \<le> d1" "0 \<le> d2" "\<bar>theta\<bar> \<le> 2000000000000000000" "d1 \<le> 1000000000000" "d2 \<le> 1000000000000"
  shows "\<bar>2 * (sync_theta vc t1 pkt t4 - theta)\<bar> \<le> \<bar>d1 - d2\<bar> + 1 \<and> \<bar>d1 - d2\<bar> \<le> d1 + d2"
proof -
  let ?a = "pkt_t2 pkt - vclock_calc vc t1" and ?b = "pkt_t3 pkt - vclock_calc vc t4"
  have ab: "?a = theta + d1" "?b = theta - d2" using assms(1-4) by simp_all
  then have "in_i64 ?a" "in_i64 ?b" "in_i64 (?a + ?b)"
    using assms(5-9) unfolding in_i64_def abs_le_iff by linarith+
  then have "sync_theta vc t1 pkt t4 = (?a + ?b) sdiv 2"
    using assms(1) by (intro sync_theta_value) simp_all
  moreover have "?a + ?b = 2 * theta + (d1 - d2)" using ab by linarith
  ultimately show ?thesis
    using half_error [of theta "d1 - d2"] assms(5,6) by auto
qed

theorem sync_offset_accuracy_witness:
  "let pkt = zero_packet\<lparr>pkt_t2 := 5030000, pkt_t3 := 5040000\<rparr>
   in \<bar>2 * (sync_theta (vclock_init 0) 0 pkt 90000 - 5000000)\<bar> \<le> 20001"
proof -
  let ?vc = "vclock_init 0" and ?pkt = "zero_packet\<lparr>pkt_t2 := 5030000, pkt_t3 := 5040000\<rparr>"
  have r: "vclock_range ?vc" "even (vc_seq ?vc)"
    by (simp_all add: vclock_range_def vclock_init_def ns_range_def)
  then have "vclock_now ?vc t = scale_q32 (vc_rate_q32 ?vc) t" if "ns_range t" for t
    using vclock_calc_exact [OF r(1) that] by (simp add: vclock_init_def)
  then have "vclock_now ?vc 0 = 0" "vclock_now ?vc 90000 = 90000"
    by (simp_all add: ns_range_def scale_q32_def vclock_init_def)
  with r show ?thesis
    using sync_offset_accuracy [of ?vc ?pkt 0 30000 5000000 10000 90000 50000] by simp
qed

text \<open>
  C35: every accepted response sets the virtual clock back by the latency correction. At the instant
  of the update, the clock disciplined by \<open>sm_on_sync_resp\<close> reads \<open>lat_corr_ns\<close> less than before when
  only the rate is changed, and on a phase step it moves by the measured offset less twice
  \<open>lat_corr_ns\<close>: the two updates of the clock each subtract the correction again.
\<close>

theorem sync_resp_subtracts_latency:
  assumes "even (vc_seq (sm_vc (d_sm d)))" "now = mono_raw_ns (os_raw os (d_raw_n d))"
    and "step = fst (pi_ctrl_update (sm_pi (d_sm d)) theta (pi_period now (d_sm d)))"
    and "lat = vc_lat_corr_ns (sm_vc (d_sm d))" "before = vclock_now (sm_vc (d_sm d)) now"
  shows "vclock_now (sm_vc (d_sm (resp_discipline os theta rtt t4 d))) now =
    s64 (before + (if step then theta - 2 * lat else - lat))"
proof -
  let ?vc = "sm_vc (d_sm d)"
  have ev: "even (vc_seq (vclock_set_rate ?vc r now))"
    "even (vc_seq (vclock_set_rate (vclock_step_offset ?vc theta now) r now))" for r
    using assms(1) by (simp_all add: vclock_update_seq even_plus_two)
  have "vclock_calc (vclock_set_rate ?vc r now) now = s64 (vclock_calc ?vc now - lat)" for r
    by (simp add: vclock_set_rate_calc assms(4))
  moreover have "vclock_calc (vclock_set_rate (vclock_step_offset ?vc theta now) r now) now =
      s64 (vclock_calc ?vc now + theta - 2 * lat)" for r
  proof -
    have "vclock_calc (vclock_set_rate (vclock_step_offset ?vc theta now) r now) now =
        s64 (s64 (vclock_calc ?vc now + theta - lat) - lat)"
      by (simp add: vclock_set_rate_calc vclock_step_offset_calc vclock_set_rate_keeps_lat assms(4))
    also have "\<dots> = s64 (vclock_calc ?vc now + theta - lat - lat)" by (simp only: s64_diff_l)
    finally show ?thesis by (simp add: algebra_simps)
  qed
  ultimately show ?thesis
    using assms(1,3,5) ev
    by (simp add: resp_discipline_vc Let_def case_prod_beta assms(2) [symmetric] algebra_simps)
qed

theorem sync_resp_subtracts_latency_witness:
  "let vc = vclock_set_lat_corr (vclock_init 0) 4000;
       d = (sample_daemon DRS_STATE_FOLLOWER)\<lparr>d_sm := (sample_sm DRS_STATE_FOLLOWER)\<lparr>sm_vc := vc\<rparr>\<rparr>
   in vclock_now (sm_vc (d_sm (resp_discipline sample_os 0 0 0 d))) 0 = s64 (vclock_now vc 0 - 4000)"
proof -
  let ?vc = "vclock_set_lat_corr (vclock_init 0) 4000"
  let ?d = "(sample_daemon DRS_STATE_FOLLOWER)\<lparr>d_sm := (sample_sm DRS_STATE_FOLLOWER)\<lparr>sm_vc := ?vc\<rparr>\<rparr>"
  have vc: "even (vc_seq ?vc)" "vc_lat_corr_ns ?vc = 4000" by (simp_all add: vclock_ops vclock_init_def)
  have "d_raw_n ?d = 0" by (simp add: sample_defs)
  then have now: "0 = mono_raw_ns (os_raw sample_os (d_raw_n ?d))"
    by (simp add: sample_os_def mono_raw_ns_def timespec_ns_def s64_def)
  have "\<not> fst (pi_ctrl_update pi 0 p)" for pi p
    by (simp add: pi_ctrl_update_def Let_def drs_const)
  then show ?thesis
    using sync_resp_subtracts_latency [OF _ now refl refl refl, of 0 0 0] vc by (simp add: Let_def)
qed

text \<open>
  A response is not matched with the request. \<open>sm_on_sync_resp\<close> does the same whatever node, term,
  flags and echoed \<open>t1\<close> the packet carries: while a request is pending, a response of any node, or a
  late one to an earlier request, is paired with the send time of the last request.
\<close>

lemma sync_resp_not_matched:
  "sm_on_sync_resp os (pkt\<lparr>pkt_node_id := n, pkt_election_term := e, pkt_flags := f, pkt_t1 := x\<rparr>) t4 d =
   sm_on_sync_resp os pkt t4 d"
proof -
  let ?pkt = "pkt\<lparr>pkt_node_id := n, pkt_election_term := e, pkt_flags := f, pkt_t1 := x\<rparr>"
  have "resp_check_seq os ?pkt = resp_check_seq os pkt"
    by (simp add: fun_eq_iff resp_check_seq_def)
  moreover have "sync_rtt t1 ?pkt t4 = sync_rtt t1 pkt t4" "sync_theta vc t1 ?pkt t4 = sync_theta vc t1 pkt t4"
    for t1 vc by (simp_all add: sync_rtt_def sync_theta_def)
  ultimately show ?thesis by (simp only: sm_on_sync_resp_def)
qed

end
