(* ===== verification/Cluster.thy ===== *)
theory Cluster
  imports Startup_Guard Sync_Exchange
begin

text \<open>
  Several daemons on one network. What one node sends (a datagram of \<open>d_sent\<close>, whose payload is the
  frame written by \<open>proto_encode\<close>) is what another receives from its socket: heartbeats of leaders,
  the request of a follower and the answer to it, and frames damaged on the way.
\<close>

section \<open>Reception of a frame\<close>

definition heard :: "datagram \<Rightarrow> sockaddr_in \<Rightarrow> recv_result" where
  "heard dg src = Recv_data (dg_payload dg) src"

lemma receive_frame:
  assumes "length frame = DRS_PAYLOAD_BYTES (os_ver os)"
  shows "receive os (Recv_data frame src) d =
    ((int (DRS_PAYLOAD_BYTES (os_ver os)), proto_decode (os_ver os) frame, src,
      mono_raw_ns (os_raw os (d_raw_n d))), d\<lparr>d_raw_n := d_raw_n d + 1\<rparr>)"
  using net_recv_frame [OF assms, of "replicate (DRS_PAYLOAD_BYTES (os_ver os)) 0" "[]" src]
  by (simp add: receive_def read_raw_def)

lemma receive_packet:
  assumes "packet_ok pkt" "dg_payload dg = proto_encode (os_ver os) pkt"
  shows "receive os (heard dg src) d =
    ((int (DRS_PAYLOAD_BYTES (os_ver os)), Some pkt, src, mono_raw_ns (os_raw os (d_raw_n d))),
     d\<lparr>d_raw_n := d_raw_n d + 1\<rparr>)"
  using assms by (simp add: heard_def receive_frame proto_round_trip)

lemma packet_ok_announce: "packet_ok (announce_packet sm)"
  by (simp add: packet_ok_def announce_packet_def zero_packet_def)

lemma packet_ok_sync_req: "packet_ok (sync_req_packet sm)"
  by (simp add: packet_ok_def sync_req_packet_def zero_packet_def)

lemma packet_ok_sync_resp:
  "in_i64 (pkt_t1 req) \<Longrightarrow> in_i64 t2 \<Longrightarrow> in_i64 t3 \<Longrightarrow> packet_ok (sync_resp_packet sm req t2 t3)"
  by (simp add: packet_ok_def sync_resp_packet_def)

lemma pkt_msg_type_sent [simp]:
  "pkt_msg_type (announce_packet sm) = DRS_MSG_ANNOUNCE"
  "pkt_msg_type (sync_req_packet sm) = DRS_MSG_SYNC_REQ"
  "pkt_msg_type (sync_resp_packet sm req t2 t3) = DRS_MSG_SYNC_RESP"
  by (simp_all add: announce_packet_def sync_req_packet_def sync_resp_packet_def)

lemma msg_types_differ [simp]:
  "DRS_MSG_SYNC_REQ \<noteq> DRS_MSG_ANNOUNCE" "DRS_MSG_SYNC_RESP \<noteq> DRS_MSG_ANNOUNCE"
  "DRS_MSG_SYNC_RESP \<noteq> DRS_MSG_SYNC_REQ"
  by (simp_all add: drs_const)

section \<open>Heartbeats\<close>

definition sends_heartbeat :: "os_env \<Rightarrow> daemon \<Rightarrow> datagram \<Rightarrow> bool" where
  "sends_heartbeat os d dg \<longleftrightarrow> d_sent (on_heartbeat os d) = d_sent d @ [dg]"

lemma sends_heartbeat_payload:
  "sends_heartbeat os d dg \<Longrightarrow> dg_payload dg = proto_encode (os_ver os) (announce_packet (d_sm d))"
  by (auto simp: sends_heartbeat_def on_heartbeat_def Let_def transmit_def net_send_announce_def
      send_packet_def split: if_splits)

lemma hear_announce:
  "dg_payload dg = proto_encode (os_ver os) (announce_packet sm) \<Longrightarrow>
   on_mcast os (heard dg src) t d = sm_on_announce os (announce_packet sm) (Some src) t (d\<lparr>d_raw_n := d_raw_n d + 1\<rparr>)"
  by (simp add: on_mcast_def receive_packet [OF packet_ok_announce])

lemma announce_packet_fields [simp]:
  "pkt_node_id (announce_packet sm) = el_own_node_id (sm_el sm)"
  "pkt_election_term (announce_packet sm) = el_own_term (sm_el sm)"
  by (simp_all add: announce_packet_def)

text \<open>A leader that hears an ANNOUNCE it does not yield to only raises its term.\<close>

lemma leader_hears_loser:
  assumes "sm_state (d_sm a) = DRS_STATE_LEADER" "\<not> announce_wins (sm_el (d_sm a)) pkt"
    and "a' = sm_on_announce os pkt src t a"
  shows "sm_state (d_sm a') = DRS_STATE_LEADER \<and>
    el_own_node_id (sm_el (d_sm a')) = el_own_node_id (sm_el (d_sm a)) \<and>
    el_lock_mode (sm_el (d_sm a')) = el_lock_mode (sm_el (d_sm a)) \<and>
    el_own_term (sm_el (d_sm a')) =
      (if el_lock_mode (sm_el (d_sm a)) = DRS_LOCK_AS_LEADER then el_own_term (sm_el (d_sm a))
       else max (el_own_term (sm_el (d_sm a))) (pkt_election_term pkt))"
  using assms
  by (simp add: sm_on_announce_def case_prod_beta on_announce_election_follower)
    (simp add: on_announce_election_sm election_on_announce_term)

text \<open>A leader that hears an ANNOUNCE it yields to follows the sender.\<close>

lemma leader_hears_winner:
  assumes "sm_state (d_sm b) = DRS_STATE_LEADER" "announce_wins (sm_el (d_sm b)) pkt"
    and "b' = sm_on_announce os pkt (Some src) t b"
  shows "sm_state (d_sm b') = DRS_STATE_FOLLOWER \<and> el_leader_node_id (sm_el (d_sm b')) = pkt_node_id pkt \<and>
    el_own_term (sm_el (d_sm b')) = pkt_election_term pkt \<and> sm_last_leader_ns (d_sm b') = t \<and>
    \<not> sm_sync_req_pending (d_sm b')"
proof -
  let ?b = "upd_sm discipline_reset (snd (on_announce_election os pkt b))"
  have eq: "b' = enter_follower pkt (Some src) t ?b"
    using assms by (simp add: sm_on_announce_def case_prod_beta on_announce_election_follower)
  have "sm_is_active (d_sm ?b)" using assms(1) by (simp add: sm_is_active_def)
  moreover have "el_own_term (sm_el (d_sm b)) \<le> pkt_election_term pkt" "el_lock_mode (sm_el (d_sm b)) \<noteq> DRS_LOCK_AS_LEADER"
    using assms(2) by (simp_all add: announce_wins_def)
  ultimately show ?thesis
    by (simp add: eq enter_follower_sm Let_def discipline_reset_def)
      (simp add: on_announce_election_sm election_on_announce_term max_def)
qed

text \<open>
  A message on its way: the state machine of its sender when it was sent, the datagram, the
  sender's address and the time stamp of the receiver's loop iteration.
\<close>

record message =
  m_sender :: sm_t
  m_datagram :: datagram
  m_src :: sockaddr_in
  m_time :: i64

definition hears :: "os_env \<Rightarrow> message \<Rightarrow> daemon \<Rightarrow> daemon" where
  "hears os m d = on_mcast os (heard (m_datagram m) (m_src m)) (m_time m) d"

definition announces :: "proto_ver \<Rightarrow> sm_t \<Rightarrow> datagram \<Rightarrow> bool" where
  "announces ver sm dg \<longleftrightarrow> dg_payload dg = proto_encode ver (announce_packet sm)"

text \<open>The announcement of a leader with a larger id than \<open>i\<close>.\<close>

definition rival :: "proto_ver \<Rightarrow> u32 \<Rightarrow> message \<Rightarrow> bool" where
  "rival ver i m \<longleftrightarrow> announces ver (m_sender m) (m_datagram m) \<and> i < el_own_node_id (sm_el (m_sender m))"

lemma leader_hears_rival:
  assumes "sm_state (d_sm a) = DRS_STATE_LEADER" "el_lock_mode (sm_el (d_sm a)) \<noteq> DRS_LOCK_AS_LEADER"
    and "rival (os_ver os) (el_own_node_id (sm_el (d_sm a))) m" "a' = hears os m a"
  shows "sm_state (d_sm a') = DRS_STATE_LEADER \<and>
    el_own_node_id (sm_el (d_sm a')) = el_own_node_id (sm_el (d_sm a)) \<and>
    el_lock_mode (sm_el (d_sm a')) = el_lock_mode (sm_el (d_sm a)) \<and>
    el_own_term (sm_el (d_sm a')) = max (el_own_term (sm_el (d_sm a))) (el_own_term (sm_el (m_sender m)))"
proof -
  let ?a = "a\<lparr>d_raw_n := d_raw_n a + 1\<rparr>" and ?pkt = "announce_packet (m_sender m)"
  have "a' = sm_on_announce os ?pkt (Some (m_src m)) (m_time m) ?a"
    using assms(3) by (simp add: assms(4) rival_def announces_def hears_def hear_announce)
  moreover have "\<not> announce_wins (sm_el (d_sm ?a)) ?pkt"
    using assms(3) by (auto simp: announce_wins_def rival_def)
  ultimately show ?thesis
    using leader_hears_loser [of ?a ?pkt] assms(1,2) by simp
qed

lemma leader_hears_rivals:
  assumes "sm_state (d_sm a) = DRS_STATE_LEADER" "el_lock_mode (sm_el (d_sm a)) \<noteq> DRS_LOCK_AS_LEADER"
    and "\<forall>m \<in> set ms. rival (os_ver os) (el_own_node_id (sm_el (d_sm a))) m" "a' = fold (hears os) ms a"
  shows "sm_state (d_sm a') = DRS_STATE_LEADER \<and>
    el_own_node_id (sm_el (d_sm a')) = el_own_node_id (sm_el (d_sm a)) \<and>
    el_own_term (sm_el (d_sm a)) \<le> el_own_term (sm_el (d_sm a')) \<and>
    (\<forall>m \<in> set ms. el_own_term (sm_el (m_sender m)) \<le> el_own_term (sm_el (d_sm a')))"
  using assms
proof (induction ms arbitrary: a)
  case (Cons m ms)
  have step: "sm_state (d_sm (hears os m a)) = DRS_STATE_LEADER \<and>
      el_own_node_id (sm_el (d_sm (hears os m a))) = el_own_node_id (sm_el (d_sm a)) \<and>
      el_lock_mode (sm_el (d_sm (hears os m a))) = el_lock_mode (sm_el (d_sm a)) \<and>
      el_own_term (sm_el (d_sm (hears os m a))) =
        max (el_own_term (sm_el (d_sm a))) (el_own_term (sm_el (m_sender m)))"
    using Cons.prems by (intro leader_hears_rival) auto
  then show ?case using Cons.IH [of "hears os m a"] Cons.prems by simp
qed simp

section \<open>The time exchange\<close>

lemma on_ucast_sync_req:
  "dg_payload dg = proto_encode (os_ver os) (sync_req_packet sm) \<Longrightarrow>
   on_ucast os (heard dg src) d = sm_on_sync_req os (sync_req_packet sm) src
     (mono_raw_ns (os_raw os (d_raw_n d))) (d\<lparr>d_raw_n := d_raw_n d + 1\<rparr>)"
  by (simp add: on_ucast_def receive_packet [OF packet_ok_sync_req])

lemma on_ucast_sync_resp:
  "packet_ok (sync_resp_packet sm req t2 t3) \<Longrightarrow>
   dg_payload dg = proto_encode (os_ver os) (sync_resp_packet sm req t2 t3) \<Longrightarrow>
   on_ucast os (heard dg src) d = sm_on_sync_resp os (sync_resp_packet sm req t2 t3)
     (mono_raw_ns (os_raw os (d_raw_n d))) (d\<lparr>d_raw_n := d_raw_n d + 1\<rparr>)"
  by (simp add: on_ucast_def receive_packet)

text \<open>The sequence check of a response never fires: the leader echoes the follower's own number.\<close>

lemma resp_check_seq_echo:
  assumes "pkt_seq pkt = sm_last_leader_seq (d_sm d)"
  shows "resp_check_seq os pkt d = d"
  using assms by (simp add: resp_check_seq_def upd_sm_def DRS_SEQ_DISC_THRESHOLD_def)

lemma send_sync_req_sent:
  assumes "f1 = send_sync_req os t f" "d_sent f1 = d_sent f @ [dg]"
  shows "dg_payload dg = proto_encode (os_ver os) (sync_req_packet (d_sm f)) \<and>
    d_sm f1 = (d_sm f)\<lparr>sm_last_sync_req := sync_req_packet (d_sm f),
      sm_sync_req_t1 := mono_raw_ns (os_raw os (d_raw_n f)), sm_sync_req_sent_ns := t,
      sm_sync_req_pending := True\<rparr> \<and> d_raw_n f1 = d_raw_n f + 1"
proof -
  let ?due = "\<not> sm_sync_req_pending (d_sm f) \<and> s64 (t - sm_last_pi_update_ns (d_sm f)) \<ge> sm_sync_rate_ns (d_sm f)"
  have sent: "d_sent (send_sync_req os t f) = d_sent f" if "\<not> (?due \<and> os_sendto os (d_send_n f))"
    using that by (auto simp: send_sync_req_def Let_def transmit_def net_send_sync_req_def send_packet_def
        read_raw_def)
  then have "?due \<and> os_sendto os (d_send_n f)" using assms by (metis append_self_conv not_Cons_self2)
  then show ?thesis
    using assms
    by (auto simp: send_sync_req_def Let_def transmit_def net_send_sync_req_def send_packet_def read_raw_def)
qed

text \<open>The answer of the leader: its virtual clock at the reception and before the transmission.\<close>

lemma on_sync_req_sent:
  assumes "d_sent (sm_on_sync_req os req src t2 l) = d_sent l @ [dg]"
  shows "dg_payload dg = proto_encode (os_ver os) (sync_resp_packet (d_sm l) req
    (vclock_now (sm_vc (d_sm l)) t2) (vclock_now (sm_vc (d_sm l)) (mono_raw_ns (os_raw os (d_raw_n l)))))"
  using assms
  by (auto simp: sm_on_sync_req_def Let_def case_prod_beta transmit_def net_send_sync_resp_def send_packet_def
      split: if_splits)

lemma sync_theta_resp:
  "sync_theta vc t1 (sync_resp_packet sm req t2 t3) t4 =
     c_div64 (s64 (s64 (t2 - vclock_now vc t1) + s64 (t3 - vclock_now vc t4))) 2"
  "sync_rtt t1 (sync_resp_packet sm req t2 t3) t4 = s64 (s64 (t4 - t1) - s64 (t3 - t2))"
  by (simp_all add: sync_theta_def sync_rtt_def sync_resp_packet_def)

lemma resp_discipline_keeps:
  "sm_sync_req_pending (d_sm (resp_discipline os theta rtt t4 d)) = sm_sync_req_pending (d_sm d)"
  "sm_sync_fail_count (d_sm (resp_discipline os theta rtt t4 d)) = sm_sync_fail_count (d_sm d)"
  "sm_sync_rate_ns (d_sm (resp_discipline os theta rtt t4 d)) = sm_sync_rate_ns (d_sm d)"
  "sm_last_leader_seq (d_sm (resp_discipline os theta rtt t4 d)) = sm_last_leader_seq (d_sm d)"
  by (simp_all add: resp_discipline_def apply_step_def Let_def case_prod_beta)

text \<open>The clock after an accepted measurement \<open>theta\<close> at the local time \<open>now\<close>.\<close>

definition disciplined :: "sm_t \<Rightarrow> i64 \<Rightarrow> i64 \<Rightarrow> vclock" where
  "disciplined sm theta now =
     (let (step, rate, pi) = pi_ctrl_update (sm_pi sm) theta (pi_period now sm)
      in if step then vclock_set_rate (vclock_step_offset (sm_vc sm) theta now) DRS_RATE_NOMINAL_Q32 now
         else vclock_set_rate (sm_vc sm) rate now)"

lemma sm_on_sync_resp_echo:
  assumes "sm_state (d_sm f) = DRS_STATE_FOLLOWER" "sm_sync_req_pending (d_sm f)"
    and "pkt_seq pkt = sm_last_leader_seq (d_sm f)" "f' = sm_on_sync_resp os pkt t4 f"
  shows "\<not> sm_sync_req_pending (d_sm f') \<and> sm_sync_fail_count (d_sm f') = 0 \<and>
    sm_sync_rate_ns (d_sm f') = DRS_SYNC_EXCHANGE_NS \<and> sm_last_leader_seq (d_sm f') = sm_last_leader_seq (d_sm f) \<and>
    sm_vc (d_sm f') =
      (if fst (min_delay_update (sm_mdf (d_sm f)) (sync_rtt (sm_sync_req_t1 (d_sm f)) pkt t4))
       then disciplined (d_sm f) (sync_theta (sm_vc (d_sm f)) (sm_sync_req_t1 (d_sm f)) pkt t4)
              (mono_raw_ns (os_raw os (d_raw_n f)))
       else sm_vc (d_sm f))"
proof -
  let ?f = "upd_sm resp_accept_request f"
  have seq: "resp_check_seq os pkt ?f = ?f"
    using assms(3) by (intro resp_check_seq_echo) (simp add: resp_accept_request_def)
  show ?thesis
    unfolding assms(4) sm_on_sync_resp_def Let_def seq
    using assms(1,2)
    by (simp add: case_prod_beta resp_discipline_keeps resp_discipline_vc disciplined_def Let_def
        resp_accept_request_def pi_period_def)
qed

section \<open>Damaged frames\<close>

text \<open>Of a longer datagram the socket call delivers the first bytes; a shorter one is dropped.\<close>

lemma receive_take:
  "receive os (Recv_data data src) d = receive os (Recv_data (take (DRS_PAYLOAD_BYTES (os_ver os)) data) src) d"
  by (simp add: receive_def net_recv_def Let_def)

lemma receive_short:
  "length data < DRS_PAYLOAD_BYTES (os_ver os) \<Longrightarrow> fst (fst (receive os (Recv_data data src) d)) = 0"
  "snd (receive os (Recv_data data src) d) = d\<lparr>d_raw_n := d_raw_n d + 1\<rparr>"
  by (simp_all add: receive_def net_recv_def read_raw_def Let_def)

lemma short_datagram:
  assumes "length data < DRS_PAYLOAD_BYTES (os_ver os)"
  shows "on_mcast os (Recv_data data src) t d = d\<lparr>d_raw_n := d_raw_n d + 1\<rparr>"
    "on_ucast os (Recv_data data src) d = d\<lparr>d_raw_n := d_raw_n d + 1\<rparr>"
  using receive_short(1) [OF assms, of src d] receive_short(2) [of os data src d] assms
  by (simp_all add: on_mcast_def on_ucast_def Let_def case_prod_beta)

lemma undecodable_datagram:
  assumes "DRS_PAYLOAD_BYTES (os_ver os) \<le> length data"
    and "proto_decode (os_ver os) (take (DRS_PAYLOAD_BYTES (os_ver os)) data) = None"
  shows "on_mcast os (Recv_data data src) t d =
      push_error os DRS_ERR_CRC_MISMATCH ''mcast CRC fail'' (d\<lparr>d_raw_n := d_raw_n d + 1\<rparr>)"
    "on_ucast os (Recv_data data src) d =
      push_error os DRS_ERR_CRC_MISMATCH ''ucast CRC fail'' (d\<lparr>d_raw_n := d_raw_n d + 1\<rparr>)"
  using assms by (simp_all add: on_mcast_def on_ucast_def receive_take [of os data] receive_frame)

text \<open>A frame whose magic number, version or checksum is not the one it has to be.\<close>

definition damaged :: "proto_ver \<Rightarrow> u8 list \<Rightarrow> bool" where
  "damaged ver frame \<longleftrightarrow> be_dec (get_bytes frame 0 4) \<noteq> DRS_MAGIC_V2 \<or> frame ! 4 \<noteq> DRS_VERSION ver \<or>
     be_dec (get_bytes frame 50 4) \<noteq> crc_spec (put_bytes frame 50 [0, 0, 0, 0])"

lemma damaged_iff: "damaged ver frame \<longleftrightarrow> proto_decode ver frame = None"
  by (simp add: damaged_def proto_decode_eq frame_ok_def crc32_of_spec numeral_eq_Suc)

section \<open>Messages that go out\<close>

lemma leader_sends_heartbeat:
  "sm_state (d_sm d) = DRS_STATE_LEADER \<Longrightarrow> os_sendto os (d_send_n d) \<Longrightarrow> \<exists>dg. sends_heartbeat os d dg"
  by (simp add: sends_heartbeat_def on_heartbeat_def Let_def transmit_def net_send_announce_def send_packet_def)

lemma follower_sends_request:
  "\<not> sm_sync_req_pending (d_sm d) \<Longrightarrow> sm_sync_rate_ns (d_sm d) \<le> s64 (t - sm_last_pi_update_ns (d_sm d)) \<Longrightarrow>
   os_sendto os (d_send_n d) \<Longrightarrow> \<exists>dg. d_sent (send_sync_req os t d) = d_sent d @ [dg]"
  by (simp add: send_sync_req_def Let_def transmit_def net_send_sync_req_def send_packet_def read_raw_def)

lemma leader_sends_response:
  "sm_state (d_sm d) = DRS_STATE_LEADER \<Longrightarrow> os_sendto os (d_send_n d) \<Longrightarrow>
   \<exists>dg. d_sent (sm_on_sync_req os req src t2 d) = d_sent d @ [dg]"
  by (simp add: sm_on_sync_req_def Let_def transmit_def net_send_sync_resp_def send_packet_def read_raw_def)

definition sample_node :: "drs_state \<Rightarrow> u32 \<Rightarrow> u32 \<Rightarrow> daemon" where
  "sample_node st i t = upd_sm (\<lambda>sm. sm\<lparr>sm_el := (sm_el sm)\<lparr>el_own_node_id := i, el_own_term := t\<rparr>\<rparr>) (sample_daemon st)"

lemma sample_node_simps [simp]:
  "sm_state (d_sm (sample_node st i t)) = st" "el_own_node_id (sm_el (d_sm (sample_node st i t))) = i"
  "el_own_term (sm_el (d_sm (sample_node st i t))) = t" "el_lock_mode (sm_el (d_sm (sample_node st i t))) = 0"
  "\<not> sm_sync_req_pending (d_sm (sample_node st i t))" "sm_last_pi_update_ns (d_sm (sample_node st i t)) = 0"
  "sm_sync_rate_ns (d_sm (sample_node st i t)) = DRS_SYNC_EXCHANGE_NS" "even (vc_seq (sm_vc (d_sm (sample_node st i t))))"
  by (simp_all add: sample_node_def sample_daemon_def sample_sm_def upd_sm_def vclock_init_def)

definition sample_rival :: message where
  "sample_rival = \<lparr>m_sender = d_sm (sample_node DRS_STATE_LEADER 9 5),
     m_datagram = \<lparr>dg_sock = 4, dg_dst = \<lparr>sin_port = 0, sin_addr = 0\<rparr>,
       dg_payload = proto_encode PROTO_V2 (announce_packet (d_sm (sample_node DRS_STATE_LEADER 9 5)))\<rparr>,
     m_src = \<lparr>sin_port = 0, sin_addr = 9\<rparr>, m_time = 0\<rparr>"

lemma sample_rival_ok: "rival PROTO_V2 7 sample_rival"
  by (simp add: rival_def announces_def sample_rival_def)

end
