(* ===== verification/Exchange_Run.thy ===== *)
theory Exchange_Run
  imports Servo Cluster
begin

text \<open>
  Sequences of responses as a follower handles them with \<open>sm_on_sync_resp\<close>: the offset the code
  measures against the true one, what an accepted response does to the clock and its controller, with
  and without a phase step, and the period at which a follower asks. The hypotheses speak about the
  outside only: a leader clock with a constant drift and the times of the messages.
\<close>

section \<open>Exchanges\<close>

text \<open>
  A response as the follower handles it, with the raw times of the follower at which the leader
  received the request and sent the answer.
\<close>

record exchange =
  ex_os :: os_env
  ex_daemon :: daemon
  ex_pkt :: drs_packet
  ex_t4 :: i64
  ex_heard :: i64
  ex_sent :: i64

definition ex_after :: "exchange \<Rightarrow> daemon" where
  "ex_after x = sm_on_sync_resp (ex_os x) (ex_pkt x) (ex_t4 x) (ex_daemon x)"

abbreviation ex_sm :: "exchange \<Rightarrow> sm_t" where
  "ex_sm x \<equiv> d_sm (ex_daemon x)"

text \<open>The raw time of the update, and the offset the code computes.\<close>

definition ex_now :: "exchange \<Rightarrow> i64" where
  "ex_now x = sm_last_pi_update_ns (d_sm (ex_after x))"

definition ex_theta :: "exchange \<Rightarrow> i64" where
  "ex_theta x = sync_theta (sm_vc (ex_sm x)) (sm_sync_req_t1 (ex_sm x)) (ex_pkt x) (ex_t4 x)"

definition ex_accepted :: "exchange \<Rightarrow> bool" where
  "ex_accepted x \<longleftrightarrow> sm_state (ex_sm x) = DRS_STATE_FOLLOWER \<and> sm_sync_req_pending (ex_sm x) \<and>
     fst (min_delay_update
       (sm_mdf (d_sm (resp_check_seq (ex_os x) (ex_pkt x) (upd_sm resp_accept_request (ex_daemon x)))))
       (sync_rtt (sm_sync_req_t1 (ex_sm x)) (ex_pkt x) (ex_t4 x)))"

text \<open>The offset of the virtual clock from the leader's clock \<open>L\<close> at the time of the update.\<close>

definition clock_error :: "(i64 \<Rightarrow> i64) \<Rightarrow> exchange \<Rightarrow> int" where
  "clock_error L x = L (ex_now x) - vclock_now (sm_vc (ex_sm x)) (ex_now x)"

definition leader_clock :: "(i64 \<Rightarrow> i64) \<Rightarrow> real \<Rightarrow> bool" where
  "leader_clock L rho \<longleftrightarrow>
     (\<forall>x y. \<bar>real_of_int (L y - L x) - (1 + rho) * real_of_int (y - x)\<bar> \<le> 1)"

text \<open>
  The exchange in time: the two directions differ by at most \<open>a\<close>, the update comes at most \<open>h\<close>
  after the request.
\<close>

definition ex_timing :: "(i64 \<Rightarrow> i64) \<Rightarrow> int \<Rightarrow> int \<Rightarrow> exchange \<Rightarrow> bool" where
  "ex_timing L a h x \<longleftrightarrow>
     (let t1 = sm_sync_req_t1 (ex_sm x)
      in t1 \<le> ex_heard x \<and> ex_heard x \<le> ex_sent x \<and> ex_sent x \<le> ex_t4 x \<and> ex_t4 x \<le> ex_now x \<and>
         ex_now x - t1 \<le> h \<and> \<bar>(ex_heard x - t1) - (ex_t4 x - ex_sent x)\<bar> \<le> a \<and>
         pkt_t2 (ex_pkt x) = L (ex_heard x) \<and> pkt_t3 (ex_pkt x) = L (ex_sent x))"

definition ex_ok :: "(i64 \<Rightarrow> i64) \<Rightarrow> int \<Rightarrow> int \<Rightarrow> int \<Rightarrow> int \<Rightarrow> exchange \<Rightarrow> bool" where
  "ex_ok L p a h j x \<longleftrightarrow> ex_accepted x \<and> ex_timing L a h x \<and>
     0 < ex_now x \<and> ex_now x \<le> 100000000000000000 \<and> \<bar>L (ex_now x)\<bar> \<le> 100000000000000000 \<and>
     \<bar>ex_now x - sm_last_pi_update_ns (ex_sm x) - p\<bar> \<le> j"

text \<open>Between two responses nothing touches the clock and its controller.\<close>

definition same_clock :: "sm_t \<Rightarrow> sm_t \<Rightarrow> bool" where
  "same_clock sm sm' \<longleftrightarrow> sm_vc sm' = sm_vc sm \<and> sm_pi sm' = sm_pi sm \<and>
     sm_last_pi_update_ns sm' = sm_last_pi_update_ns sm"

definition ex_follows :: "exchange \<Rightarrow> exchange \<Rightarrow> bool" where
  "ex_follows x y \<longleftrightarrow> same_clock (d_sm (ex_after x)) (ex_sm y)"

section \<open>The handler\<close>

lemma resp_discipline_pi:
  "sm_last_pi_update_ns (d_sm (resp_discipline os theta rtt t4 d)) = mono_raw_ns (os_raw os (d_raw_n d))"
  "sm_pi (d_sm (resp_discipline os theta rtt t4 d)) =
     (let (step, rate, pi) = pi_ctrl_update (sm_pi (d_sm d)) theta
            (pi_period (mono_raw_ns (os_raw os (d_raw_n d))) (d_sm d))
      in if step then pi_ctrl_init pi else pi)"
  by (simp_all add: resp_discipline_def apply_step_def Let_def case_prod_beta pi_period_def)

lemma accepted_discipline:
  assumes "ex_accepted x"
  obtains d' rtt where "ex_after x = resp_discipline (ex_os x) (ex_theta x) rtt (ex_t4 x) d'"
    "same_clock (ex_sm x) (d_sm d')"
proof
  let ?d = "resp_check_seq (ex_os x) (ex_pkt x) (upd_sm resp_accept_request (ex_daemon x))"
  let ?rtt = "sync_rtt (sm_sync_req_t1 (ex_sm x)) (ex_pkt x) (ex_t4 x)"
  let ?d' = "tel_write (\<lambda>t. t\<lparr>tel_sync_accepted := tel_sync_accepted t + 1\<rparr>)
    (upd_sm (\<lambda>sm. sm\<lparr>sm_mdf := snd (min_delay_update (sm_mdf (d_sm ?d)) ?rtt)\<rparr>) ?d)"
  have d: "sm_vc (d_sm ?d) = sm_vc (ex_sm x)" "sm_pi (d_sm ?d) = sm_pi (ex_sm x)"
    "sm_last_pi_update_ns (d_sm ?d) = sm_last_pi_update_ns (ex_sm x)"
    by (simp_all add: resp_check_seq_def resp_accept_request_def Let_def)
  then show "same_clock (ex_sm x) (d_sm ?d')" by (simp add: same_clock_def)
  show "ex_after x = resp_discipline (ex_os x) (ex_theta x) ?rtt (ex_t4 x) ?d'"
    using assms d by (simp add: ex_after_def ex_accepted_def ex_theta_def sm_on_sync_resp_def Let_def
        case_prod_beta resp_accept_request_def)
qed

lemma same_clock_pi_period: "same_clock sm sm' \<Longrightarrow> pi_period t sm' = pi_period t sm"
  by (simp add: same_clock_def pi_period_def)

abbreviation ex_update :: "exchange \<Rightarrow> bool \<times> u64 \<times> pi_ctrl" where
  "ex_update x \<equiv> pi_ctrl_update (sm_pi (ex_sm x)) (ex_theta x) (pi_period (ex_now x) (ex_sm x))"

lemma ex_after_eq:
  assumes "ex_accepted x"
  shows "sm_vc (d_sm (ex_after x)) =
      (if fst (ex_update x)
       then vclock_set_rate (vclock_step_offset (sm_vc (ex_sm x)) (ex_theta x) (ex_now x)) DRS_RATE_NOMINAL_Q32 (ex_now x)
       else vclock_set_rate (sm_vc (ex_sm x)) (fst (snd (ex_update x))) (ex_now x))"
    "sm_pi (d_sm (ex_after x)) =
      (if fst (ex_update x) then pi_ctrl_init (snd (snd (ex_update x))) else snd (snd (ex_update x)))"
proof -
  from assms obtain d' rtt where d': "ex_after x = resp_discipline (ex_os x) (ex_theta x) rtt (ex_t4 x) d'"
    "same_clock (ex_sm x) (d_sm d')" by (rule accepted_discipline)
  then have now: "ex_now x = mono_raw_ns (os_raw (ex_os x) (d_raw_n d'))"
    by (simp add: ex_now_def resp_discipline_pi)
  have pi: "sm_pi (d_sm d') = sm_pi (ex_sm x)" "sm_vc (d_sm d') = sm_vc (ex_sm x)"
    using d'(2) by (simp_all add: same_clock_def)
  show "sm_vc (d_sm (ex_after x)) =
      (if fst (ex_update x)
       then vclock_set_rate (vclock_step_offset (sm_vc (ex_sm x)) (ex_theta x) (ex_now x)) DRS_RATE_NOMINAL_Q32 (ex_now x)
       else vclock_set_rate (sm_vc (ex_sm x)) (fst (snd (ex_update x))) (ex_now x))"
    "sm_pi (d_sm (ex_after x)) =
      (if fst (ex_update x) then pi_ctrl_init (snd (snd (ex_update x))) else snd (snd (ex_update x)))"
    by (simp_all add: d'(1) resp_discipline_vc resp_discipline_pi pi Let_def case_prod_beta
        same_clock_pi_period [OF d'(2)] flip: now)
qed

text \<open>What a follower does between two responses, ticks and ANNOUNCEs of any sender, keeps the clock.\<close>

lemma same_clock_refl [simp]: "same_clock sm sm"
  by (simp add: same_clock_def)

lemma same_clock_trans [trans]: "same_clock a b \<Longrightarrow> same_clock b c \<Longrightarrow> same_clock a c"
  by (simp add: same_clock_def)

lemma send_sync_req_same_clock: "same_clock (d_sm d) (d_sm (send_sync_req os t d))"
  by (simp add: send_sync_req_def same_clock_def read_raw_def upd_sm_def Let_def case_prod_beta)

lemma follower_tick_same_clock:
  "sm_state (d_sm d) = DRS_STATE_FOLLOWER \<Longrightarrow> same_clock (d_sm d) (d_sm (sm_tick os t d))"
  by (simp add: same_clock_def sm_tick_def sm_tick_state_def tick_follower_def follower_heartbeat_def Let_def sm_effect
      sync_req_timeout_def enter_holdover_def send_sync_req_same_clock [unfolded same_clock_def])

lemma follower_announce_same_clock:
  assumes "sm_state (d_sm d) = DRS_STATE_FOLLOWER"
  shows "same_clock (d_sm d) (d_sm (sm_on_announce os pkt src t d))"
proof (cases "announce_wins (sm_el (d_sm d)) pkt")
  case True
  let ?d = "upd_sm (\<lambda>sm. sm\<lparr>sm_last_leader_ns := t\<rparr>) (snd (on_announce_election os pkt d))"
  have "sm_on_announce os pkt src t d = enter_follower pkt src t ?d"
    using assms True by (simp add: sm_on_announce_def case_prod_beta on_announce_election_follower)
  moreover have "sm_is_active (d_sm ?d)" "el_leader_node_id (sm_el (d_sm ?d)) = pkt_node_id pkt"
    using assms True by (simp_all add: sm_is_active_def on_announce_election_sm election_on_announce_leader)
  ultimately show ?thesis
    by (simp add: same_clock_def enter_follower_sm) (simp add: on_announce_election_sm)
next
  case False
  then show ?thesis
    using assms by (simp add: same_clock_def sm_on_announce_def case_prod_beta on_announce_election_follower
        on_announce_election_sm)
qed

section \<open>The measured offset\<close>

lemma leader_span:
  assumes "leader_clock L rho" "\<bar>rho\<bar> \<le> 1 / 10000" "x \<le> y" "y - x \<le> h"
  shows "\<bar>real_of_int (L y - L x - (y - x))\<bar> \<le> 1 + real_of_int h / 10000"
proof -
  have "\<bar>real_of_int (L y - L x) - (1 + rho) * real_of_int (y - x)\<bar> \<le> 1"
    using assms(1) by (simp add: leader_clock_def)
  moreover have "\<bar>rho * real_of_int (y - x)\<bar> \<le> 1 / 10000 * real_of_int h"
    unfolding abs_mult using assms(2-4) by (intro mult_mono) auto
  moreover have "real_of_int (L y - L x - (y - x)) =
      (real_of_int (L y - L x) - (1 + rho) * real_of_int (y - x)) + rho * real_of_int (y - x)"
    by (simp add: algebra_simps)
  ultimately show ?thesis by linarith
qed

lemma follower_span:
  assumes "vclock_range vc" "ns_range x" "ns_range y" "x \<le> y" "y - x \<le> h"
  shows "\<bar>real_of_int (vclock_calc vc y - vclock_calc vc x - (y - x))\<bar> \<le> 2 + 101 / 100000 * real_of_int h"
proof -
  define d e q where "d = y - x" and "e = vclock_calc vc y - vclock_calc vc x" and "q = (d * 4295) div 4294967"
  have "\<bar>e - d\<bar> \<le> q + 2" using vclock_span [OF assms(1-4)] unfolding d_def e_def q_def by linarith
  moreover have "q * 4294967 \<le> d * 4295" unfolding q_def by linarith
  moreover have "0 \<le> d" "d \<le> h" using assms(4,5) by (simp_all add: d_def)
  ultimately have "\<bar>e - d\<bar> * 100000 \<le> 200000 + 101 * h" by (simp add: abs_if split: if_splits)
  then have "\<bar>vclock_calc vc y - vclock_calc vc x - (y - x)\<bar> * 100000 \<le> 200000 + 101 * h"
    by (simp only: d_def e_def)
  then have "real_of_int (\<bar>vclock_calc vc y - vclock_calc vc x - (y - x)\<bar> * 100000) \<le> real_of_int (200000 + 101 * h)"
    by (simp only: of_int_le_iff)
  then show ?thesis by simp
qed

lemma half_real: "\<bar>2 * real_of_int (n sdiv 2) - real_of_int n\<bar> \<le> 2"
proof -
  have "real_of_int \<bar>(n sdiv 2) * 2 - n\<bar> \<le> real_of_int 2"
    using sdiv_times [of 2 n] by (simp only: of_int_le_iff)
  then show ?thesis by simp
qed

text \<open>
  The offset computed by the code is the true one up to half the asymmetry of the paths, the drift
  during the exchange, and rounding.
\<close>

lemma ex_theta_error:
  assumes "leader_clock L rho" "\<bar>rho\<bar> \<le> 1 / 10000" "ex_ok L p a h j x" "h \<le> 1000000"
    and "vclock_range (sm_vc (ex_sm x))" "\<bar>clock_error L x\<bar> \<le> 2000000000"
  shows "\<bar>real_of_int (ex_theta x) - real_of_int (clock_error L x)\<bar> \<le>
    real_of_int a / 2 + 111 / 100000 * real_of_int h + 4"
proof -
  define vc t1 t2 t3 t4 now where "vc = sm_vc (ex_sm x)" and "t1 = sm_sync_req_t1 (ex_sm x)" and "t2 = ex_heard x"
    and "t3 = ex_sent x" and "t4 = ex_t4 x" and "now = ex_now x"
  have t: "t1 \<le> t2" "t2 \<le> t3" "t3 \<le> t4" "t4 \<le> now" "now - t1 \<le> h" "\<bar>(t2 - t1) - (t4 - t3)\<bar> \<le> a"
    and pkt: "pkt_t2 (ex_pkt x) = L t2" "pkt_t3 (ex_pkt x) = L t3"
    using assms(3) by (simp_all add: ex_ok_def ex_timing_def Let_def t1_def t2_def t3_def t4_def now_def)
  have now: "0 < now" "now \<le> 100000000000000000" "\<bar>L now\<bar> \<le> 100000000000000000"
    using assms(3) by (simp_all add: ex_ok_def now_def)
  have rng: "ns_range t1" "ns_range t4" "ns_range now"
    using t now assms(4) unfolding ns_range_def by auto
  have vc: "vclock_range vc" "even (vc_seq vc)" using assms(5) by (simp_all add: vc_def vclock_range_def)
  define l2 l3 f1 f4 where "l2 = L now - L t2 - (now - t2)" and "l3 = L now - L t3 - (now - t3)"
    and "f1 = vclock_calc vc now - vclock_calc vc t1 - (now - t1)"
    and "f4 = vclock_calc vc now - vclock_calc vc t4 - (now - t4)"
  have l: "\<bar>real_of_int l2\<bar> \<le> 1 + real_of_int h / 10000" "\<bar>real_of_int l3\<bar> \<le> 1 + real_of_int h / 10000"
    unfolding l2_def l3_def using t by (intro leader_span [OF assms(1,2)]; linarith)+
  have f: "\<bar>real_of_int f1\<bar> \<le> 2 + 101 / 100000 * real_of_int h" "\<bar>real_of_int f4\<bar> \<le> 2 + 101 / 100000 * real_of_int h"
    unfolding f1_def f4_def using t by (intro follower_span [OF vc(1)] rng; linarith)+
  define e where "e = clock_error L x"
  have e: "e = L now - vclock_calc vc now" using vc by (simp add: e_def clock_error_def vc_def now_def)
  define p q where "p = L t2 - vclock_calc vc t1" and "q = L t3 - vclock_calc vc t4"
  have pq: "p = e + (t2 - t1) + f1 - l2" "q = e - (t4 - t3) + f4 - l3"
    by (simp_all add: p_def q_def e l2_def l3_def f1_def f4_def)
  have "\<bar>e\<bar> \<le> 2000000000" using assms(6) by (simp add: e_def)
  moreover have "\<bar>l2\<bar> \<le> 200000" "\<bar>l3\<bar> \<le> 200000" "\<bar>f1\<bar> \<le> 200000" "\<bar>f4\<bar> \<le> 200000"
    using l f assms(4) by linarith+
  ultimately have "in_i64 p" "in_i64 q" "in_i64 (p + q)"
    using t assms(4) unfolding pq in_i64_def by auto
  then have "ex_theta x = (p + q) sdiv 2"
    unfolding ex_theta_def p_def q_def pkt [symmetric] t4_def t1_def
    using vc(2) by (intro sync_theta_value) (simp_all add: vc_def)
  then have "\<bar>2 * real_of_int (ex_theta x) - real_of_int (p + q)\<bar> \<le> 2" by (simp only: half_real)
  moreover have "real_of_int (p + q) = 2 * real_of_int e + real_of_int ((t2 - t1) - (t4 - t3)) +
      real_of_int f1 + real_of_int f4 - real_of_int l2 - real_of_int l3"
    by (simp add: pq)
  moreover have "real_of_int \<bar>(t2 - t1) - (t4 - t3)\<bar> \<le> real_of_int a" using t(6) by (simp only: of_int_le_iff)
  ultimately show ?thesis using l f unfolding e_def [symmetric] of_int_abs by linarith
qed

section \<open>From one exchange to the next\<close>

lemma ex_period:
  assumes "ex_ok L p a h j x" "j \<le> 100000" "50000000 \<le> p" "p \<le> 100000000" "t = ex_now x - sm_last_pi_update_ns (ex_sm x)"
  shows "pi_period (ex_now x) (ex_sm x) = t" "near_period t" "\<bar>t - p\<bar> \<le> j"
proof -
  show t: "\<bar>t - p\<bar> \<le> j" using assms(1,5) by (simp add: ex_ok_def)
  with assms(2-4) show n: "near_period t" unfolding near_period_def by linarith
  then have "in_i64 t" "0 < t" by (simp_all add: near_period_def in_i64_def)
  then show "pi_period (ex_now x) (ex_sm x) = t" by (simp add: pi_period_def Let_def s64_id flip: assms(5))
qed

lemma leader_gain:
  assumes "leader_clock L rho" "\<bar>rho\<bar> \<le> 1 / 10000" "t = y - x" "\<bar>t - p\<bar> \<le> j"
  shows "\<bar>real_of_int (L y - L x) - real_of_int t - real_of_int p * rho\<bar> \<le> 1 + real_of_int j / 10000"
proof -
  have "\<bar>real_of_int (L y - L x) - (1 + rho) * real_of_int t\<bar> \<le> 1"
    using assms(1,3) by (simp add: leader_clock_def)
  moreover have "\<bar>rho * real_of_int (t - p)\<bar> \<le> 1 / 10000 * real_of_int j"
    unfolding abs_mult using assms(2,4) by (intro mult_mono) auto
  moreover have "real_of_int (L y - L x) - real_of_int t - real_of_int p * rho =
      (real_of_int (L y - L x) - (1 + rho) * real_of_int t) + rho * real_of_int (t - p)"
    by (simp add: algebra_simps)
  ultimately show ?thesis by linarith
qed

lemma update_rate_ok: "rate_ok (fst (snd (pi_ctrl_update c theta t)))"
proof -
  obtain ppm where "- 1000 \<le> ppm" "ppm \<le> 1000"
    "uint (fst (snd (pi_ctrl_update c theta t))) = 4294967296 + ppm * 4295" by (rule pi_update_rate)
  then show ?thesis by (simp add: rate_ok_def word_le_def drs_const)
qed

lemma set_rate_reading:
  assumes "vclock_range vc" "ns_range t" "ns_range t'" "ns_range (vclock_calc vc t)" "rate_ok r"
  shows "vclock_range (vclock_set_rate vc r t)"
    "vclock_calc (vclock_set_rate vc r t) t' = scale_q32 r (t' - t) + vclock_calc vc t - vc_lat_corr_ns vc"
proof -
  have "even (vc_seq vc)" using assms(1) by (simp add: vclock_range_def)
  then have "even (vc_seq vc + 1 + 1)" by (rule even_plus_two)
  moreover have "vclock_calc (vc\<lparr>vc_seq := s\<rparr>) u = vclock_calc vc u" for s u by (simp add: vclock_calc_def)
  ultimately have "vclock_range (vclock_set_rate vc r t) \<and> vc_base_local (vclock_set_rate vc r t) = t \<and>
      vc_base_global (vclock_set_rate vc r t) = vclock_calc vc t \<and> vc_offset_ns (vclock_set_rate vc r t) = 0 \<and>
      vc_rate_q32 (vclock_set_rate vc r t) = r \<and> vc_lat_corr_ns (vclock_set_rate vc r t) = vc_lat_corr_ns vc"
    using assms by (simp add: vclock_range_def vclock_ops) (simp add: ns_range_def)
  then show "vclock_range (vclock_set_rate vc r t)"
    "vclock_calc (vclock_set_rate vc r t) t' = scale_q32 r (t' - t) + vclock_calc vc t - vc_lat_corr_ns vc"
    using vclock_calc_exact [of "vclock_set_rate vc r t" t'] assms(3) by simp_all
qed

text \<open>The clock is well formed and corrected by \<open>lat\<close>, and not further from the leader than 2 s.\<close>

definition ex_clock :: "(i64 \<Rightarrow> i64) \<Rightarrow> int \<Rightarrow> exchange \<Rightarrow> bool" where
  "ex_clock L lat x \<longleftrightarrow> vclock_range (sm_vc (ex_sm x)) \<and> vc_lat_corr_ns (sm_vc (ex_sm x)) = lat \<and>
     \<bar>clock_error L x\<bar> \<le> 2000000000"

lemma ex_clock_reading:
  assumes "ex_ok L p a h j x" "ex_clock L lat x"
  shows "clock_error L x = L (ex_now x) - vclock_calc (sm_vc (ex_sm x)) (ex_now x)" "ns_range (ex_now x)"
    "\<bar>vclock_calc (sm_vc (ex_sm x)) (ex_now x)\<bar> \<le> 200000000000000000"
proof -
  show e: "clock_error L x = L (ex_now x) - vclock_calc (sm_vc (ex_sm x)) (ex_now x)"
    using assms(2) by (simp add: clock_error_def ex_clock_def vclock_range_def)
  show "ns_range (ex_now x)" using assms(1) by (simp add: ex_ok_def ns_range_def)
  have "\<bar>L (ex_now x)\<bar> \<le> 100000000000000000" "\<bar>clock_error L x\<bar> \<le> 2000000000"
    using assms by (simp_all add: ex_ok_def ex_clock_def)
  then show "\<bar>vclock_calc (sm_vc (ex_sm x)) (ex_now x)\<bar> \<le> 200000000000000000" using e by linarith
qed

text \<open>The next exchange after one that slews the clock.\<close>

lemma slew_clock:
  assumes "ex_ok L p a h j x" "ex_ok L p a h j y" "ex_follows x y" "ex_clock L lat x" "\<not> fst (ex_update x)"
  defines "r \<equiv> fst (snd (ex_update x))"
  shows "vclock_range (sm_vc (ex_sm y))" "vc_lat_corr_ns (sm_vc (ex_sm y)) = lat"
    "clock_error L y = clock_error L x + (L (ex_now y) - L (ex_now x)) - scale_q32 r (ex_now y - ex_now x) + lat"
    "sm_pi (ex_sm y) = snd (snd (ex_update x))"
proof -
  let ?vc = "sm_vc (ex_sm x)" and ?now = "ex_now x"
  have vc: "vclock_range ?vc" "vc_lat_corr_ns ?vc = lat" using assms(4) by (simp_all add: ex_clock_def)
  note e = ex_clock_reading [OF assms(1,4)]
  have y: "sm_vc (ex_sm y) = vclock_set_rate ?vc r ?now" "sm_pi (ex_sm y) = snd (snd (ex_update x))"
    using assms(1,3,5) by (simp_all add: ex_ok_def ex_follows_def same_clock_def ex_after_eq r_def)
  have "ns_range (ex_now y)" using assms(2) by (simp add: ex_ok_def ns_range_def)
  moreover have "ns_range (vclock_calc ?vc ?now)" using e(3) by (simp add: ns_range_def)
  moreover have "rate_ok r" unfolding r_def by (rule update_rate_ok)
  ultimately have rd: "vclock_range (vclock_set_rate ?vc r ?now)"
    "vclock_calc (vclock_set_rate ?vc r ?now) (ex_now y) = scale_q32 r (ex_now y - ?now) + vclock_calc ?vc ?now - lat"
    using set_rate_reading [OF vc(1) e(2)] vc(2) by auto
  then show "vclock_range (sm_vc (ex_sm y))" "vc_lat_corr_ns (sm_vc (ex_sm y)) = lat"
    by (simp_all add: y(1) vclock_set_rate_keeps_lat vc(2))
  show "clock_error L y = clock_error L x + (L (ex_now y) - L ?now) - scale_q32 r (ex_now y - ?now) + lat"
    using rd e(1) by (simp add: clock_error_def y(1) vclock_range_def)
  show "sm_pi (ex_sm y) = snd (snd (ex_update x))" by (rule y(2))
qed

text \<open>The next exchange after a phase step: both updates subtract the latency correction.\<close>

lemma step_offset_range:
  assumes "vclock_range vc" "ns_range t" "\<bar>vclock_calc vc t\<bar> \<le> 200000000000000000" "\<bar>d\<bar> \<le> 3000000000"
  shows "vclock_range (vclock_step_offset vc d t)" "vclock_calc (vclock_step_offset vc d t) t = vclock_calc vc t + d - vc_lat_corr_ns vc"
proof -
  have "ns_range (vclock_calc vc t + d)" "ns_range (vc_lat_corr_ns vc)"
    using assms by (simp_all add: ns_range_def vclock_range_def)
  then have i: "in_i64 (vclock_calc vc t + d)" "in_i64 (vclock_calc vc t + d - vc_lat_corr_ns vc)"
    unfolding ns_range_def in_i64_def abs_le_iff by linarith+
  have "even (vc_seq vc)" using assms(1) by (simp add: vclock_range_def)
  then have "even (vc_seq vc + 1 + 1)" by (rule even_plus_two)
  moreover have "vclock_calc (vc\<lparr>vc_seq := s\<rparr>) u = vclock_calc vc u" for s u by (simp add: vclock_calc_def)
  ultimately show "vclock_range (vclock_step_offset vc d t)"
    using assms(1,2) \<open>ns_range (vclock_calc vc t + d)\<close> i(1)
    by (simp add: vclock_range_def vclock_ops s64_id) (simp add: ns_range_def)
  show "vclock_calc (vclock_step_offset vc d t) t = vclock_calc vc t + d - vc_lat_corr_ns vc"
    using i(2) by (simp add: vclock_step_offset_calc s64_id)
qed

lemma step_clock:
  assumes "ex_ok L p a h j x" "ex_ok L p a h j y" "ex_follows x y" "ex_clock L lat x" "fst (ex_update x)"
    and "\<bar>ex_theta x\<bar> \<le> 3000000000" "\<bar>lat\<bar> \<le> 3000000000"
  shows "vclock_range (sm_vc (ex_sm y))" "vc_lat_corr_ns (sm_vc (ex_sm y)) = lat"
    "clock_error L y = clock_error L x - ex_theta x + 2 * lat + (L (ex_now y) - L (ex_now x)) - (ex_now y - ex_now x)"
    "pi_integrator_ns (sm_pi (ex_sm y)) = 0"
proof -
  let ?vc = "vclock_step_offset (sm_vc (ex_sm x)) (ex_theta x) (ex_now x)" and ?now = "ex_now x"
  have vc: "vclock_range (sm_vc (ex_sm x))" "vc_lat_corr_ns (sm_vc (ex_sm x)) = lat"
    using assms(4) by (simp_all add: ex_clock_def)
  note e = ex_clock_reading [OF assms(1,4)]
  have y: "sm_vc (ex_sm y) = vclock_set_rate ?vc DRS_RATE_NOMINAL_Q32 ?now"
    "sm_pi (ex_sm y) = pi_ctrl_init (snd (snd (ex_update x)))"
    using assms(1,3,5) by (simp_all add: ex_ok_def ex_follows_def same_clock_def ex_after_eq)
  note st = step_offset_range [OF vc(1) e(2,3) assms(6)]
  have "ns_range (ex_now y)" using assms(2) by (simp add: ex_ok_def ns_range_def)
  moreover have "ns_range (vclock_calc ?vc ?now)"
    unfolding st(2) vc(2) using e(3) assms(6,7) by (simp add: ns_range_def)
  moreover have "scale_q32 DRS_RATE_NOMINAL_Q32 d = d" for d by (simp add: scale_q32_def drs_const)
  ultimately have rd: "vclock_range (vclock_set_rate ?vc DRS_RATE_NOMINAL_Q32 ?now)"
    "vclock_calc (vclock_set_rate ?vc DRS_RATE_NOMINAL_Q32 ?now) (ex_now y) =
       (ex_now y - ?now) + (vclock_calc (sm_vc (ex_sm x)) ?now + ex_theta x - lat) - lat"
    using set_rate_reading [OF st(1) e(2)] st(2) vc(2) by (auto simp: vclock_set_rate_keeps_lat)
  then show "vclock_range (sm_vc (ex_sm y))" "vc_lat_corr_ns (sm_vc (ex_sm y)) = lat"
    by (simp_all add: y(1) vclock_set_rate_keeps_lat vc(2))
  show "clock_error L y = clock_error L x - ex_theta x + 2 * lat + (L (ex_now y) - L ?now) - (ex_now y - ?now)"
    using rd e(1) by (simp add: clock_error_def y(1) vclock_range_def)
  show "pi_integrator_ns (sm_pi (ex_sm y)) = 0" by (simp add: y(2) pi_ctrl_init_def)
qed

text \<open>A run: every exchange within the range, each starting from the clock the one before it left.\<close>

definition sync_run :: "(i64 \<Rightarrow> i64) \<Rightarrow> int \<Rightarrow> int \<Rightarrow> int \<Rightarrow> int \<Rightarrow> nat \<Rightarrow> (nat \<Rightarrow> exchange) \<Rightarrow> bool" where
  "sync_run L p a h j n x \<longleftrightarrow> (\<forall>k \<le> n. ex_ok L p a h j (x k)) \<and> (\<forall>k < n. ex_follows (x k) (x (Suc k)))"

section \<open>The period of the exchanges\<close>

lemma update_telemetry_keeps:
  "d_sent (update_telemetry os t d) = d_sent d" "d_sm (update_telemetry os t d) = d_sm d"
  "d_send_n (update_telemetry os t d) = d_send_n d"
  by (simp_all add: update_telemetry_def tel_write_def case_prod_beta Let_def split: option.split)

lemma idle_tick:
  assumes "sm_state (d_sm d) = DRS_STATE_FOLLOWER" "\<not> sm_sync_req_pending (d_sm d)"
    and "s64 (t - sm_last_leader_ns (d_sm d)) < DRS_FOLLOWER_TIMEOUT_NS"
  shows "d_sent (sm_tick os t d) = d_sent (send_sync_req os t d)" "d_sm (sm_tick os t d) = d_sm (send_sync_req os t d)"
    "d_send_n (sm_tick os t d) = d_send_n (send_sync_req os t d)"
proof -
  have "upd_sm (sync_req_timeout t) d = d" using assms(2) by (simp add: upd_sm_def sync_req_timeout_def)
  then have "sm_tick_state os t d = follower_heartbeat t (send_sync_req os t d)"
    using assms(1,3) by (simp add: sm_tick_state_def tick_follower_def)
  then show "d_sent (sm_tick os t d) = d_sent (send_sync_req os t d)" "d_sm (sm_tick os t d) = d_sm (send_sync_req os t d)"
    "d_send_n (sm_tick os t d) = d_send_n (send_sync_req os t d)"
    by (simp_all add: sm_tick_def update_telemetry_keeps follower_heartbeat_def udp_emit_def Let_def)
qed

lemma send_sync_req_not_due:
  "s64 (t - sm_last_pi_update_ns (d_sm d)) < sm_sync_rate_ns (d_sm d) \<Longrightarrow> send_sync_req os t d = d"
  by (simp add: send_sync_req_def)

section \<open>Properties\<close>

text \<open>
  C14: a follower exchanges time at every second tick only. The request interval is 50 ms, the same as the
  tick, but it is measured from the update, which comes \<open>r\<close> after the tick that sent the request: at the next
  tick, unless it is late by \<open>r\<close>, nothing is sent, and at the one after it the request goes out.
\<close>

theorem request_every_second_tick:
  assumes "sm_state (d_sm d) = DRS_STATE_FOLLOWER" "\<not> sm_sync_req_pending (d_sm d)"
    and "sm_sync_rate_ns (d_sm d) = DRS_SYNC_EXCHANGE_NS" "sm_last_pi_update_ns (d_sm d) = t + r"
    and "t1 = t + 50000000 + late1" "t2 = t + 100000000 + late2" "0 \<le> late1" "late1 < r" "0 \<le> late2"
    and "0 < r" "r \<le> 50000000" "late2 \<le> 1000000000"
    and "s64 (t1 - sm_last_leader_ns (d_sm d)) < DRS_FOLLOWER_TIMEOUT_NS"
    and "s64 (t2 - sm_last_leader_ns (d_sm d)) < DRS_FOLLOWER_TIMEOUT_NS"
    and "os_sendto os (d_send_n d)" "d1 = sm_tick os t1 d" "d2 = sm_tick os t2 d1"
  shows "d_sent d1 = d_sent d \<and> (\<exists>req. d_sent d2 = d_sent d @ [req]) \<and> sm_sync_req_pending (d_sm d2)"
proof -
  have "s64 (t1 - (t + r)) < DRS_SYNC_EXCHANGE_NS" "\<not> s64 (t2 - (t + r)) < DRS_SYNC_EXCHANGE_NS"
    using assms(5-12) by (simp_all add: s64_id in_i64_def drs_const)
  then have due: "send_sync_req os t1 d = d" "sm_sync_rate_ns (d_sm d) \<le> s64 (t2 - sm_last_pi_update_ns (d_sm d))"
    using assms(3,4) by (simp_all add: send_sync_req_not_due)
  have d1: "d_sent d1 = d_sent d" "d_sm d1 = d_sm d" "d_send_n d1 = d_send_n d"
    using idle_tick [OF assms(1,2,13), of os] due(1) assms(16) by simp_all
  then obtain req where req: "d_sent (send_sync_req os t2 d1) = d_sent d1 @ [req]"
    using follower_sends_request [of d1 t2 os] assms(2,15) due(2) by auto
  have "d_sent d2 = d_sent (send_sync_req os t2 d1)" "d_sm d2 = d_sm (send_sync_req os t2 d1)"
    using idle_tick [of d1 t2 os] assms(1,2,14,17) d1(2) by simp_all
  then show ?thesis using d1(1) req send_sync_req_sent [OF refl req] by simp
qed

theorem request_every_second_tick_witness:
  "\<exists>d d1 d2 req. sm_last_pi_update_ns (d_sm d) = 200000 \<and> d1 = sm_tick sample_os 50000000 d \<and>
     d2 = sm_tick sample_os 100000000 d1 \<and> d_sent d1 = d_sent d \<and> d_sent d2 = d_sent d @ [req]"
proof -
  let ?d = "(sample_daemon DRS_STATE_FOLLOWER)\<lparr>d_sm := (sample_sm DRS_STATE_FOLLOWER)\<lparr>sm_last_pi_update_ns := 200000\<rparr>\<rparr>"
  have a: "sm_state (d_sm ?d) = DRS_STATE_FOLLOWER" "\<not> sm_sync_req_pending (d_sm ?d)"
    "sm_sync_rate_ns (d_sm ?d) = DRS_SYNC_EXCHANGE_NS" "sm_last_pi_update_ns (d_sm ?d) = 0 + 200000"
    by (simp_all add: sample_sm_def)
  have b: "(50000000 :: int) = 0 + 50000000 + 0" "(100000000 :: int) = 0 + 100000000 + 0" by simp_all
  have c: "(0 :: int) \<le> 0" "(0 :: int) < 200000" "(200000 :: int) \<le> 50000000" "(0 :: int) \<le> 1000000000" by simp_all
  have e: "s64 (50000000 - sm_last_leader_ns (d_sm ?d)) < DRS_FOLLOWER_TIMEOUT_NS"
    "s64 (100000000 - sm_last_leader_ns (d_sm ?d)) < DRS_FOLLOWER_TIMEOUT_NS" "os_sendto sample_os (d_send_n ?d)"
    by (simp_all add: sample_sm_def sample_os_def s64_def drs_const)
  have "sm_last_pi_update_ns (d_sm ?d) = 200000" by simp
  then show ?thesis using request_every_second_tick [OF a b c(1,2,1,2,3,4) e refl refl] by blast
qed

section \<open>A sample run\<close>

text \<open>
  A run with a leader \<open>b\<close> ahead, without drift or delays: each exchange starts from the clock of the one
  before.
\<close>

definition sample_exchange :: "int \<Rightarrow> nat \<Rightarrow> vclock \<Rightarrow> pi_ctrl \<Rightarrow> exchange" where
  "sample_exchange b k vc c =
     (let now = 50000000 * (int k + 1)
      in \<lparr>ex_os = sample_os\<lparr>os_raw := \<lambda>_. \<lparr>tv_sec = 0, tv_nsec = now\<rparr>\<rparr>,
          ex_daemon = (sample_daemon DRS_STATE_FOLLOWER)\<lparr>d_sm := (sample_sm DRS_STATE_FOLLOWER)\<lparr>sm_vc := vc,
            sm_pi := c, sm_last_pi_update_ns := now - 50000000, sm_sync_req_pending := True, sm_sync_req_t1 := now\<rparr>\<rparr>,
          ex_pkt = zero_packet\<lparr>pkt_t2 := now + b, pkt_t3 := now + b\<rparr>,
          ex_t4 = now, ex_heard = now, ex_sent = now\<rparr>)"

fun sample_run :: "int \<Rightarrow> nat \<Rightarrow> exchange" where
  "sample_run b 0 = sample_exchange b 0 (vclock_init 0) \<lparr>pi_integrator_ns = 0, pi_step_counter = 0, pi_step_accum_ns = 0\<rparr>"
| "sample_run b (Suc k) = sample_exchange b (Suc k) (sm_vc (d_sm (ex_after (sample_run b k)))) (sm_pi (d_sm (ex_after (sample_run b k))))"

lemma sample_exchange_simps [simp]:
  "sm_vc (ex_sm (sample_exchange b k vc c)) = vc" "sm_pi (ex_sm (sample_exchange b k vc c)) = c"
  "sm_last_pi_update_ns (ex_sm (sample_exchange b k vc c)) = 50000000 * int k"
  "sm_sync_req_t1 (ex_sm (sample_exchange b k vc c)) = 50000000 * (int k + 1)"
  by (simp_all add: sample_exchange_def Let_def)

lemma sample_exchange_accepted: "ex_accepted (sample_exchange b k vc c)"
  by (simp add: ex_accepted_def sample_exchange_def Let_def resp_check_seq_def resp_accept_request_def sync_rtt_def
      sample_defs zero_packet_def min_delay_update_def min_delay_scan_def min_delay_reset_def upd_sm_def drs_const s64_def INT64_MAX_def)

lemma sample_exchange_now:
  assumes "k \<le> 1000"
  shows "ex_now (sample_exchange b k vc c) = 50000000 * (int k + 1)"
proof -
  let ?x = "sample_exchange b k vc c"
  obtain d' rtt where "ex_after ?x = resp_discipline (ex_os ?x) (ex_theta ?x) rtt (ex_t4 ?x) d'"
    using sample_exchange_accepted by (rule accepted_discipline)
  then have "ex_now ?x = mono_raw_ns (os_raw (ex_os ?x) (d_raw_n d'))"
    by (simp add: ex_now_def resp_discipline_pi)
  also have "\<dots> = 50000000 * (int k + 1)"
    using assms by (simp add: sample_exchange_def Let_def mono_raw_ns_def timespec_ns_def s64_id in_i64_def)
  finally show ?thesis .
qed

lemma sample_exchange_ok: "k \<le> 1000 \<Longrightarrow> \<bar>b\<bar> \<le> 1000000000 \<Longrightarrow> ex_ok (\<lambda>t. t + b) 50000000 0 0 0 (sample_exchange b k vc c)"
  by (simp add: ex_ok_def ex_timing_def Let_def sample_exchange_accepted sample_exchange_now drs_const)
    (simp add: sample_exchange_def Let_def)

lemma sample_run_exchange: "\<exists>vc c. sample_run b k = sample_exchange b k vc c"
  by (cases k) auto

lemma sample_run_ok: "sync_run (\<lambda>t. t + b) 50000000 0 0 0 n (sample_run b)" if "\<bar>b\<bar> \<le> 1000000000" "n \<le> 1000"
proof -
  have "ex_ok (\<lambda>t. t + b) 50000000 0 0 0 (sample_run b k)" if "k \<le> 1000" for k
    using sample_run_exchange [of b k] sample_exchange_ok [OF that \<open>\<bar>b\<bar> \<le> 1000000000\<close>] by auto
  moreover have "ex_follows (sample_run b k) (sample_run b (Suc k))" if "k < 1000" for k
  proof -
    obtain vc c where k: "sample_run b k = sample_exchange b k vc c" using sample_run_exchange by blast
    then have "sm_last_pi_update_ns (d_sm (ex_after (sample_run b k))) = 50000000 * (int k + 1)"
      using sample_exchange_now [of k b vc c] that by (simp add: ex_now_def)
    then show ?thesis by (simp add: ex_follows_def same_clock_def)
  qed
  ultimately show ?thesis using \<open>n \<le> 1000\<close> by (simp add: sync_run_def)
qed

end
