(* ===== verification/Convergence.thy ===== *)
theory Convergence
  imports Exchange_Run
begin

text \<open>
  Convergence of the whole discipline: the offset computed from the packet by \<open>sm_on_sync_resp\<close> goes to the
  controller, and the resulting rate runs the virtual clock until the next response. Near the leader the
  loop is the linear system of \<open>Servo\<close>; far from it the third response makes a phase step, after which it is near.
\<close>

section \<open>One exchange\<close>

text \<open>The state of the loop when a response is handled: the clock is well formed, and its energy at most \<open>v\<close>.\<close>

definition on_track :: "(i64 \<Rightarrow> i64) \<Rightarrow> real \<Rightarrow> int \<Rightarrow> int \<Rightarrow> real \<Rightarrow> exchange \<Rightarrow> bool" where
  "on_track L rho lat p v x \<longleftrightarrow> vclock_range (sm_vc (ex_sm x)) \<and> vc_lat_corr_ns (sm_vc (ex_sm x)) = lat \<and>
     energy (real_of_int (clock_error L x))
       (real_of_int (pi_integrator_ns (sm_pi (ex_sm x))) - (real_of_int p * rho + real_of_int lat)) \<le> v"

text \<open>The size of the disturbances of one exchange, and the energy the loop may hold without saturating.\<close>

definition loop_noise :: "int \<Rightarrow> int \<Rightarrow> int \<Rightarrow> real" where
  "loop_noise a h j = 105 / 1000 * real_of_int a + 5 / 10000 * real_of_int h + 21 / 10000 * real_of_int j + 260"

definition max_energy :: real where
  "max_energy = 112900000000"

lemma energy_limits:
  assumes "energy e J \<le> max_energy"
  shows "\<bar>e\<bar> \<le> 402500" "\<bar>J\<bar> \<le> 40250" "\<bar>11 / 100 * e + J\<bar> \<le> 40250"
  using abs_le_of_square [OF order_trans [OF energy_bounds(1) assms]]
    abs_le_of_square [OF order_trans [OF energy_bounds(2) assms]]
    abs_le_of_square [OF order_trans [OF energy_bounds(3) assms]]
  by (simp_all add: max_energy_def power2_eq_square)

lemma unsaturated_real:
  fixes e J w m :: real
  assumes "energy e J \<le> max_energy" "\<bar>w\<bar> \<le> 5000" "\<bar>m\<bar> \<le> 11200"
    and "real_of_int theta = e + m" "real_of_int i = J + w"
  shows "unsaturated theta i"
proof -
  note b = energy_limits [OF assms(1)]
  have "\<bar>real_of_int theta\<bar> \<le> 440000" "\<bar>100 * real_of_int i + real_of_int theta\<bar> \<le> 4960000"
    "\<bar>100 * real_of_int i + 11 * real_of_int theta\<bar> \<le> 4960000"
    using b assms(2,3) by (simp_all add: assms(4,5) abs_le_iff)
  then have "real_of_int \<bar>theta\<bar> \<le> real_of_int 440000" "real_of_int \<bar>100 * i + theta\<bar> \<le> real_of_int 4960000"
    "real_of_int \<bar>100 * i + 11 * theta\<bar> \<le> real_of_int 4960000" by simp_all
  then show ?thesis unfolding unsaturated_def of_int_le_iff by blast
qed

lemma unsaturated_no_step: "unsaturated theta i \<Longrightarrow> \<not> fst (pi_ctrl_update c theta t)"
  by (simp add: unsaturated_def pi_ctrl_update_def drs_const abs_le_iff)

lemma unsaturated_update:
  assumes "unsaturated theta (pi_integrator_ns c)" "near_period t"
  shows "sint (fst (snd (pi_ctrl_update c theta t))) = 4294967296 + pi_ideal_ppm (pi_integrator_ns c) theta t * 4295"
    "pi_integrator_ns (snd (snd (pi_ctrl_update c theta t))) = pi_ideal_integral (pi_integrator_ns c) theta t"
proof -
  let ?i = "pi_integrator_ns c" and ?r = "fst (snd (pi_ctrl_update c theta t))"
  have "\<bar>theta\<bar> \<le> 440000" "\<bar>100 * ?i + theta\<bar> \<le> 4960000" using assms(1) by (simp_all add: unsaturated_def)
  then have "pi_in_range ?i theta t"
    using assms(2) unfolding pi_in_range_def near_period_def by auto
  then have u: "uint ?r = 4294967296 + pi_ideal_ppm ?i theta t * 4295"
    "pi_integrator_ns (snd (snd (pi_ctrl_update c theta t))) = pi_ideal_integral ?i theta t"
    using pi_update_ideal unsaturated_no_step [OF assms(1)] by blast+
  have "\<bar>pi_ideal_ppm ?i theta t\<bar> \<le> 1000"
    using servo_ppm(2) [of theta t ?i] assms by (simp add: unsaturated_def)
  then show "sint ?r = 4294967296 + pi_ideal_ppm ?i theta t * 4295"
    using u(1) by (simp add: sint_uint signed_take_bit_int_eq_self)
  show "pi_integrator_ns (snd (snd (pi_ctrl_update c theta t))) = pi_ideal_integral ?i theta t" by (rule u(2))
qed

text \<open>The range of the outside the loop is designed for.\<close>

definition loop_env :: "(i64 \<Rightarrow> i64) \<Rightarrow> real \<Rightarrow> int \<Rightarrow> int \<Rightarrow> int \<Rightarrow> int \<Rightarrow> int \<Rightarrow> bool" where
  "loop_env L rho lat p a h j \<longleftrightarrow> leader_clock L rho \<and> \<bar>rho\<bar> \<le> 1 / 10000 \<and>
     50000000 \<le> p \<and> p \<le> 100000000 \<and> \<bar>real_of_int p * rho + real_of_int lat\<bar> \<le> 5000 \<and> 0 \<le> a \<and> a \<le> 20000 \<and> 0 \<le> h \<and> h \<le> 1000000 \<and> 0 \<le> j \<and> j \<le> 100000"

lemma on_track_measure:
  assumes "loop_env L rho lat p a h j" "ex_ok L p a h j x" "on_track L rho lat p v x" "v \<le> max_energy"
  shows "\<bar>clock_error L x\<bar> \<le> 402500"
    "\<bar>real_of_int (ex_theta x) - real_of_int (clock_error L x)\<bar> \<le> real_of_int a / 2 + 111 / 100000 * real_of_int h + 4"
    "unsaturated (ex_theta x) (pi_integrator_ns (sm_pi (ex_sm x)))"
proof -
  let ?e = "real_of_int (clock_error L x)" and ?w = "real_of_int p * rho + real_of_int lat"
  let ?i = "pi_integrator_ns (sm_pi (ex_sm x))"
  have env: "leader_clock L rho" "\<bar>rho\<bar> \<le> 1 / 10000" "\<bar>?w\<bar> \<le> 5000" "a \<le> 20000" "h \<le> 1000000"
    using assms(1) by (simp_all add: loop_env_def)
  have E: "energy ?e (real_of_int ?i - ?w) \<le> max_energy" using assms(3,4) by (auto simp: on_track_def)
  then have "\<bar>?e\<bar> \<le> 402500" by (rule energy_limits)
  then show e: "\<bar>clock_error L x\<bar> \<le> 402500" by linarith
  show m: "\<bar>real_of_int (ex_theta x) - ?e\<bar> \<le> real_of_int a / 2 + 111 / 100000 * real_of_int h + 4"
    using env assms(2,3) e by (intro ex_theta_error) (auto simp: on_track_def)
  have "real_of_int a \<le> 20000" "real_of_int h \<le> 1000000" using env(4,5) by simp_all
  with m have m': "\<bar>real_of_int (ex_theta x) - ?e\<bar> \<le> 11200" by linarith
  show "unsaturated (ex_theta x) ?i"
    by (rule unsaturated_real [OF E env(3) m']) simp_all
qed

lemma noise_sum:
  fixes A H J T :: real
  assumes "T \<le> 2 * J" "0 \<le> H"
  shows "21 / 100 * (A / 2 + 111 / 100000 * H + 4) + (1 + J / 10000) + T / 1000 + 252 \<le>
    105 / 1000 * A + 5 / 10000 * H + 21 / 10000 * J + 260"
  using assms by (simp add: field_simps)

lemma on_track_step:
  assumes "loop_env L rho lat p a h j" "ex_ok L p a h j x" "ex_ok L p a h j y" "ex_follows x y"
    and "on_track L rho lat p v x" "v \<le> max_energy"
  shows "on_track L rho lat p (95 / 100 * v + 19 * (loop_noise a h j)\<^sup>2) y"
proof -
  let ?i = "pi_integrator_ns (sm_pi (ex_sm x))" and ?now = "ex_now x"
  define t t' r w n where "t = ?now - sm_last_pi_update_ns (ex_sm x)" and "t' = ex_now y - ?now"
    and "r = fst (snd (ex_update x))" and "w = real_of_int p * rho + real_of_int lat"
    and "n = real_of_int (L (ex_now y) - L ?now) - real_of_int t' - real_of_int p * rho"
  note m = on_track_measure [OF assms(1,2,5,6)]
  have env: "leader_clock L rho" "\<bar>rho\<bar> \<le> 1 / 10000" "a \<le> 20000" "h \<le> 1000000" "j \<le> 100000" "0 \<le> h"
    and p: "50000000 \<le> p" "p \<le> 100000000"
    using assms(1) by (simp_all add: loop_env_def)
  note t = ex_period [OF assms(2) env(5) p t_def]
  have "ex_clock L lat x" using assms(5) m(1) by (simp add: on_track_def ex_clock_def)
  note clk = slew_clock [OF assms(2-4) this unsaturated_no_step [OF m(3)], folded r_def t'_def]
  have t'_def': "t' = ex_now y - sm_last_pi_update_ns (ex_sm y)"
    using assms(4) by (simp add: t'_def ex_follows_def same_clock_def ex_now_def)
  note t' = ex_period [OF assms(3) env(5) p t'_def']
  have u: "sint r = 4294967296 + pi_ideal_ppm ?i (ex_theta x) t * 4295"
    "pi_integrator_ns (sm_pi (ex_sm y)) = pi_ideal_integral ?i (ex_theta x) t"
    using unsaturated_update [OF m(3) t(2)] by (simp_all add: r_def clk(4) t(1))
  have n: "\<bar>n\<bar> \<le> 1 + real_of_int j / 10000"
    unfolding n_def by (rule leader_gain [OF env(1,2) _ t'(3)]) (simp add: t'_def)
  have "real_of_int \<bar>t' - t\<bar> \<le> 2 * real_of_int j" using t(3) t'(3) by linarith
  moreover have "0 \<le> real_of_int h" using env(6) by simp
  ultimately have noise: "21 / 100 * (real_of_int a / 2 + 111 / 100000 * real_of_int h + 4) + (1 + real_of_int j / 10000) +
      real_of_int \<bar>t' - t\<bar> / 1000 + 252 \<le> loop_noise a h j"
    unfolding loop_noise_def by (rule noise_sum)
  have "energy (real_of_int (clock_error L x) + w + n - real_of_int (scale_q32 r t' - t'))
      (real_of_int (pi_ideal_integral ?i (ex_theta x) t) - w)
    \<le> 95 / 100 * energy (real_of_int (clock_error L x)) (real_of_int ?i - w) + 19 * (loop_noise a h j)\<^sup>2"
    by (rule servo_exchange [OF m(3) t(2) t'(2) u(1) _ m(2) n noise]) simp
  moreover have "95 / 100 * energy (real_of_int (clock_error L x)) (real_of_int ?i - w) \<le> 95 / 100 * v"
    using assms(5) by (simp add: on_track_def w_def)
  moreover have "real_of_int (clock_error L y) = real_of_int (clock_error L x) + w + n - real_of_int (scale_q32 r t' - t')"
    using clk(3) by (simp add: w_def n_def)
  ultimately have "energy (real_of_int (clock_error L y)) (real_of_int (pi_integrator_ns (sm_pi (ex_sm y))) - w)
      \<le> 95 / 100 * v + 19 * (loop_noise a h j)\<^sup>2"
    unfolding u(2) by (elim ssubst) linarith
  then show ?thesis using clk(1,2) unfolding on_track_def w_def by blast
qed

section \<open>Many exchanges\<close>

definition loop_step :: "(i64 \<Rightarrow> i64) \<Rightarrow> real \<Rightarrow> int \<Rightarrow> int \<Rightarrow> int \<Rightarrow> int \<Rightarrow> int \<Rightarrow> exchange \<Rightarrow> exchange \<Rightarrow> bool" where
  "loop_step L rho lat p a h j x y \<longleftrightarrow>
     loop_env L rho lat p a h j \<and> ex_ok L p a h j x \<and> ex_ok L p a h j y \<and> ex_follows x y"

lemma on_track_mono: "on_track L rho lat p v x \<Longrightarrow> v \<le> v' \<Longrightarrow> on_track L rho lat p v' x"
  by (auto simp: on_track_def)

interpretation loop: shrinking "on_track L rho lat p" "loop_step L rho lat p a h j" "(loop_noise a h j)\<^sup>2" max_energy
  for L rho lat p a h j
  by unfold_locales (auto simp: loop_step_def intro: on_track_step on_track_mono)

lemma on_track_run:
  assumes "loop_env L rho lat p a h j" "sync_run L p a h j n x" "on_track L rho lat p v (x 0)"
    and "0 \<le> v" "v + 380 * (loop_noise a h j)\<^sup>2 \<le> max_energy"
  shows "on_track L rho lat p ((95 / 100) ^ n * v + 380 * (loop_noise a h j)\<^sup>2) (x n)"
proof (rule loop.after_steps [where x = x, OF _ assms(3-5)])
  show "\<forall>k < n. loop_step L rho lat p a h j (x k) (x (Suc k))"
    using assms(1,2) by (simp add: loop_step_def sync_run_def)
qed

lemma loop_noise_bounds:
  assumes "loop_env L rho lat p a h j"
  shows "260 \<le> loop_noise a h j" "loop_noise a h j \<le> 3100"
proof -
  have "0 \<le> real_of_int a" "real_of_int a \<le> 20000" "0 \<le> real_of_int h" "real_of_int h \<le> 1000000"
    "0 \<le> real_of_int j" "real_of_int j \<le> 100000"
    using assms by (simp_all add: loop_env_def)
  then show "260 \<le> loop_noise a h j" "loop_noise a h j \<le> 3100" by (simp_all add: loop_noise_def)
qed

lemma initial_energy:
  assumes "\<bar>e\<bar> \<le> 300000" "\<bar>w\<bar> \<le> 5000"
  shows "energy e (0 - w) \<le> 109000000000"
proof -
  have "e\<^sup>2 \<le> 300000\<^sup>2" "w\<^sup>2 \<le> 5000\<^sup>2" using assms by (simp_all only: abs_le_square_iff [symmetric] abs_numeral)
  moreover have "\<bar>e * w\<bar> \<le> 300000 * 5000" unfolding abs_mult using assms by (intro mult_mono) auto
  ultimately show ?thesis by (simp add: energy_def abs_le_iff)
qed

lemma run_energy:
  assumes "loop_env L rho lat p a h j" "sync_run L p a h j n x" "vclock_range (sm_vc (ex_sm (x 0)))"
    and "vc_lat_corr_ns (sm_vc (ex_sm (x 0))) = lat" "pi_integrator_ns (sm_pi (ex_sm (x 0))) = 0"
    and "\<bar>clock_error L (x 0)\<bar> \<le> 300000"
  shows "on_track L rho lat p ((95 / 100) ^ n * 109000000000 + 380 * (loop_noise a h j)\<^sup>2) (x n)"
    "(95 / 100) ^ n * 109000000000 + 380 * (loop_noise a h j)\<^sup>2 \<le> max_energy"
proof -
  have "energy (real_of_int (clock_error L (x 0))) (0 - (real_of_int p * rho + real_of_int lat)) \<le> 109000000000"
    using assms(1,6) by (intro initial_energy) (simp_all add: loop_env_def flip: of_int_abs)
  then have "on_track L rho lat p 109000000000 (x 0)" using assms(3-5) by (simp add: on_track_def)
  moreover have "(loop_noise a h j)\<^sup>2 \<le> 3100\<^sup>2"
    using loop_noise_bounds [OF assms(1)] by (intro power_mono) simp_all
  then have b: "380 * (loop_noise a h j)\<^sup>2 \<le> 3651800000" by simp
  ultimately show "on_track L rho lat p ((95 / 100) ^ n * 109000000000 + 380 * (loop_noise a h j)\<^sup>2) (x n)"
    by (intro on_track_run [OF assms(1,2)]) (simp_all add: max_energy_def)
  have "(95 / 100 :: real) ^ n \<le> 1" by (intro power_le_one) simp_all
  then show "(95 / 100) ^ n * 109000000000 + 380 * (loop_noise a h j)\<^sup>2 \<le> max_energy"
    using b by (simp add: max_energy_def)
qed

text \<open>After 240 exchanges what is left of the initial energy is below the noise.\<close>

lemma power_240: "(95 / 100 :: real) ^ 240 * 109000000000 \<le> 1000000"
  by (simp add: power_divide)

lemma settled_error:
  assumes "energy e J \<le> (95 / 100) ^ n * 109000000000 + 380 * S\<^sup>2" "240 \<le> n" "260 \<le> S"
  shows "\<bar>e\<bar> \<le> 25 * S"
proof -
  have "(95 / 100 :: real) ^ n \<le> (95 / 100) ^ 240" using assms(2) by (intro power_decreasing) simp_all
  then have "(95 / 100 :: real) ^ n * 109000000000 \<le> 1000000" using power_240 by linarith
  moreover have "260\<^sup>2 \<le> S\<^sup>2" using assms(3) by (intro power_mono) simp_all
  ultimately have "energy e J \<le> 279 / 400 * (25 * S)\<^sup>2" using assms(1) by (simp add: power_mult_distrib)
  from abs_le_of_square [OF energy_bounds(1) this] show ?thesis using assms(3) by simp
qed

lemma settled_offset:
  assumes "loop_env L rho lat p a h j" "on_track L rho lat p ((95 / 100) ^ n * 109000000000 + 380 * (loop_noise a h j)\<^sup>2) x"
    and "240 \<le> n"
  shows "400 * \<bar>clock_error L x\<bar> \<le> 1050 * a + 5 * h + 21 * j + 2600000"
proof -
  have "\<bar>real_of_int (clock_error L x)\<bar> \<le> 25 * loop_noise a h j"
    using assms(2) unfolding on_track_def
    by (intro settled_error [OF _ assms(3)] loop_noise_bounds(1) [OF assms(1)]) blast
  then have "real_of_int (400 * \<bar>clock_error L x\<bar>) \<le> real_of_int (1050 * a + 5 * h + 21 * j + 2600000)"
    by (simp add: loop_noise_def)
  then show ?thesis by (simp only: of_int_le_iff)
qed

text \<open>The daemon itself reports convergence when the measured offset is below 100 microseconds.\<close>

lemma resp_discipline_telemetry:
  "\<exists>g r. d_tel (resp_discipline os theta rtt t4 d) =
     telemetry_write (convergence_fields (c_abs64 theta) (mono_raw_ns (os_raw os (d_raw_n d))) r) g"
  unfolding resp_discipline_def Let_def case_prod_beta udp_emit_keeps tel_write_keeps
  by (simp only: read_raw_def fst_conv tel_write_keeps) blast

lemma convergence_written:
  assumes "abs_off < DRS_STABLE_OFFSET_THRESH_NS" "word_of_int now \<noteq> (0 :: u64)"
    and "telemetry_get (telemetry_write (convergence_fields abs_off now r) g) = Some t"
  shows "tel_convergence_unix_ns t \<noteq> 0"
  using assms by (auto simp: telemetry_get_def telemetry_write_def telemetry_begin_write_def telemetry_end_write_def
      convergence_fields_def Let_def split: option.splits if_splits)

lemma converged_telemetry:
  assumes "ex_accepted x" "\<bar>ex_theta x\<bar> < 100000" "0 < ex_now x" "ex_now x \<le> 100000000000000000"
    and "telemetry_get (d_tel (ex_after x)) = Some t"
  shows "tel_convergence_unix_ns t \<noteq> 0"
proof -
  from assms(1) obtain d' rtt where d': "ex_after x = resp_discipline (ex_os x) (ex_theta x) rtt (ex_t4 x) d'"
    by (rule accepted_discipline)
  then have now: "ex_now x = mono_raw_ns (os_raw (ex_os x) (d_raw_n d'))"
    by (simp add: ex_now_def resp_discipline_pi)
  have "c_abs64 (ex_theta x) < DRS_STABLE_OFFSET_THRESH_NS"
    using assms(2) by (simp add: c_abs64_def drs_const s64_def abs_if split: if_splits)
  moreover have "word_of_int (ex_now x) \<noteq> (0 :: u64)"
    using assms(3,4) by (simp add: word_of_int_eq_0_iff zdvd_not_zless)
  ultimately show ?thesis
    using assms(5) convergence_written [of "c_abs64 (ex_theta x)" "ex_now x" _ _ t]
      resp_discipline_telemetry [of "ex_os x" "ex_theta x" rtt "ex_t4 x" d'] by (auto simp: d' now)
qed

section \<open>Far from the leader\<close>

lemma far_measure:
  assumes "loop_env L rho lat p a h j" "ex_ok L p a h j x" "ex_clock L lat x"
  shows "\<bar>ex_theta x - clock_error L x\<bar> \<le> 11200"
proof -
  have env: "leader_clock L rho" "\<bar>rho\<bar> \<le> 1 / 10000" "a \<le> 20000" "h \<le> 1000000"
    using assms(1) by (simp_all add: loop_env_def)
  have "\<bar>real_of_int (ex_theta x) - real_of_int (clock_error L x)\<bar> \<le> real_of_int a / 2 + 111 / 100000 * real_of_int h + 4"
    using assms(3) by (intro ex_theta_error [OF env(1,2) assms(2) env(4)]) (simp_all add: ex_clock_def)
  moreover have "real_of_int a \<le> 20000" "real_of_int h \<le> 1000000" using env(3,4) by simp_all
  ultimately show ?thesis by linarith
qed

lemma loop_env_lat:
  assumes "loop_env L rho lat p a h j"
  shows "\<bar>lat\<bar> \<le> 15000" "\<bar>real_of_int p * rho\<bar> \<le> 10000"
proof -
  have env: "\<bar>rho\<bar> \<le> 1 / 10000" "\<bar>real_of_int p * rho + real_of_int lat\<bar> \<le> 5000" "50000000 \<le> p" "p \<le> 100000000"
    using assms by (simp_all add: loop_env_def)
  have "\<bar>rho * real_of_int p\<bar> \<le> 1 / 10000 * 100000000"
    unfolding abs_mult using env(1,3,4) by (intro mult_mono) auto
  then show pr: "\<bar>real_of_int p * rho\<bar> \<le> 10000" by (simp add: mult.commute)
  show "\<bar>lat\<bar> \<le> 15000" using pr env(2) by linarith
qed

lemma loop_env_gain:
  assumes "loop_env L rho lat p a h j" "ex_ok L p a h j x" "ex_ok L p a h j y" "ex_follows x y"
  shows "\<bar>L (ex_now y) - L (ex_now x) - (ex_now y - ex_now x)\<bar> \<le> 10100" "\<bar>lat\<bar> \<le> 15000"
    "0 \<le> ex_now y - ex_now x" "ex_now y - ex_now x \<le> 100100000"
proof -
  define t where "t = ex_now y - ex_now x"
  have env: "leader_clock L rho" "\<bar>rho\<bar> \<le> 1 / 10000" "\<bar>real_of_int p * rho + real_of_int lat\<bar> \<le> 5000" "j \<le> 100000"
    and p: "50000000 \<le> p" "p \<le> 100000000" using assms(1) by (simp_all add: loop_env_def)
  have t': "t = ex_now y - sm_last_pi_update_ns (ex_sm y)"
    using assms(4) by (simp add: t_def ex_follows_def same_clock_def ex_now_def)
  note per = ex_period [OF assms(3) env(4) p t']
  note pr = loop_env_lat(2) [OF assms(1)]
  have "\<bar>real_of_int (L (ex_now y) - L (ex_now x)) - real_of_int t - real_of_int p * rho\<bar> \<le> 1 + real_of_int j / 10000"
    by (rule leader_gain [OF env(1,2) t_def per(3)])
  moreover have "real_of_int j \<le> 100000" using env(4) by simp
  ultimately have "\<bar>real_of_int (L (ex_now y) - L (ex_now x)) - real_of_int t\<bar> \<le> 10100" using pr by linarith
  then show "\<bar>L (ex_now y) - L (ex_now x) - (ex_now y - ex_now x)\<bar> \<le> 10100" unfolding t_def by linarith
  show "\<bar>lat\<bar> \<le> 15000" by (rule loop_env_lat(1) [OF assms(1)])
  show "0 \<le> ex_now y - ex_now x" "ex_now y - ex_now x \<le> 100100000"
    using per(2) by (simp_all add: near_period_def flip: t_def)
qed

text \<open>A large error is slewed twice, by at most 1000 ppm, and the third response steps the clock.\<close>

lemma far_slew:
  assumes "loop_env L rho lat p a h j" "ex_ok L p a h j x" "ex_ok L p a h j y" "ex_follows x y" "ex_clock L lat x"
    and "1020000 \<le> \<bar>clock_error L x\<bar>" "\<bar>clock_error L x\<bar> \<le> 1500000000" "pi_step_counter (sm_pi (ex_sm x)) < 2"
  shows "\<not> fst (ex_update x)" "ex_clock L lat y" "\<bar>clock_error L y - clock_error L x\<bar> \<le> 130000"
    "pi_step_counter (sm_pi (ex_sm y)) = pi_step_counter (sm_pi (ex_sm x)) + 1"
proof -
  define d r where "d = ex_now y - ex_now x" and "r = fst (snd (ex_update x))"
  have big: "big_error (ex_theta x)"
    using far_measure [OF assms(1,2,5)] assms(6) by (auto simp: big_error_def drs_const)
  show ns: "\<not> fst (ex_update x)" using assms(8) by (simp add: pi_update_step_iff)
  note clk = slew_clock [OF assms(2-5) ns, folded r_def d_def]
  note g = loop_env_gain [OF assms(1-4), folded d_def]
  have "d - (d * 4295) div 4294967 - 2 \<le> scale_q32 r d \<and> scale_q32 r d \<le> d + (d * 4295) div 4294967 + 1"
    unfolding r_def by (rule scale_q32_ppm [OF update_rate_ok g(3)])
  moreover have "(d * 4295) div 4294967 \<le> 100200" using g(3,4) by linarith
  ultimately have "\<bar>scale_q32 r d - d\<bar> \<le> 100202" by linarith
  then show e: "\<bar>clock_error L y - clock_error L x\<bar> \<le> 130000" using clk(3) g(1,2) by linarith
  then have "\<bar>clock_error L y\<bar> \<le> 2000000000" using assms(7) by linarith
  then show "ex_clock L lat y" using clk(1,2) by (simp add: ex_clock_def)
  show "pi_step_counter (sm_pi (ex_sm y)) = pi_step_counter (sm_pi (ex_sm x)) + 1"
    using big by (simp add: clk(4) pi_update_counter)
qed

lemma far_step:
  assumes "loop_env L rho lat p a h j" "ex_ok L p a h j x" "ex_ok L p a h j y" "ex_follows x y" "ex_clock L lat x"
    and "1020000 \<le> \<bar>clock_error L x\<bar>" "pi_step_counter (sm_pi (ex_sm x)) = 2"
  shows "fst (ex_update x)" "ex_clock L lat y" "\<bar>clock_error L y\<bar> \<le> 60000" "pi_integrator_ns (sm_pi (ex_sm y)) = 0"
proof -
  note m = far_measure [OF assms(1,2,5)]
  then have "big_error (ex_theta x)" using assms(6) by (auto simp: big_error_def drs_const)
  then show st: "fst (ex_update x)" using assms(7) by (simp add: pi_update_step_iff)
  note g = loop_env_gain [OF assms(1-4)]
  have "\<bar>clock_error L x\<bar> \<le> 2000000000" using assms(5) by (simp add: ex_clock_def)
  then have "\<bar>ex_theta x\<bar> \<le> 3000000000" "\<bar>lat\<bar> \<le> 3000000000" using m g(2) by linarith+
  note clk = step_clock [OF assms(2-5) st this]
  show e: "\<bar>clock_error L y\<bar> \<le> 60000" using clk(3) m g(1,2) by linarith
  then show "ex_clock L lat y" using clk(1,2) by (simp add: ex_clock_def)
  show "pi_integrator_ns (sm_pi (ex_sm y)) = 0" by (rule clk(4))
qed

lemma run_settles:
  assumes "loop_env L rho lat p a h j" "sync_run L p a h j n x" "ex_clock L lat (x 0)"
    and "pi_integrator_ns (sm_pi (ex_sm (x 0))) = 0" "\<bar>clock_error L (x 0)\<bar> \<le> 300000" "240 \<le> n"
  shows "400 * \<bar>clock_error L (x n)\<bar> \<le> 1050 * a + 5 * h + 21 * j + 2600000"
  using run_energy(1) [OF assms(1,2) _ _ assms(4,5)] assms(3)
  by (intro settled_offset [OF assms(1) _ assms(6)]) (simp add: ex_clock_def)

section \<open>Properties\<close>

text \<open>
  C11: the clock of a follower converges. Let the responses be \<open>p\<close> apart up to \<open>j\<close>, with \<open>p\<close> between the
  50 ms the code asks for and the 100 ms it gets and \<open>j\<close> at most 100 us; let each be handled within \<open>h\<close> (at
  most 1 ms) of its request, the two directions differing by at most \<open>a\<close> (at most 20 us); let the leader drift
  by at most 100 ppm, and by at most 5 us per period together with the latency correction. Starting within
  300 us with an empty integrator, the offset never exceeds 402.5 us and no phase step is made; from the 240th
  exchange on it is at most \<open>2.625 a + h / 80 + 21 j / 400 + 6500\<close> ns, and the telemetry reports convergence.
\<close>

theorem clock_converges:
  assumes "loop_env L rho lat p a h j" "sync_run L p a h j n x" "vclock_range (sm_vc (ex_sm (x 0)))"
    and "vc_lat_corr_ns (sm_vc (ex_sm (x 0))) = lat" "pi_integrator_ns (sm_pi (ex_sm (x 0))) = 0"
    and "\<bar>clock_error L (x 0)\<bar> \<le> 300000"
  shows "\<bar>clock_error L (x n)\<bar> \<le> 402500 \<and> \<not> fst (ex_update (x n)) \<and>
    (240 \<le> n \<longrightarrow> 400 * \<bar>clock_error L (x n)\<bar> \<le> 1050 * a + 5 * h + 21 * j + 2600000 \<and>
      (\<forall>t. telemetry_get (d_tel (ex_after (x n))) = Some t \<longrightarrow> tel_convergence_unix_ns t \<noteq> 0))"
proof -
  note run = run_energy [OF assms]
  have ok: "ex_ok L p a h j (x n)" using assms(2) by (simp add: sync_run_def)
  note m = on_track_measure [OF assms(1) ok run]
  have "400 * \<bar>clock_error L (x n)\<bar> \<le> 1050 * a + 5 * h + 21 * j + 2600000 \<and>
      (\<forall>t. telemetry_get (d_tel (ex_after (x n))) = Some t \<longrightarrow> tel_convergence_unix_ns t \<noteq> 0)" if "240 \<le> n"
  proof -
    have b: "400 * \<bar>clock_error L (x n)\<bar> \<le> 1050 * a + 5 * h + 21 * j + 2600000"
      using settled_offset [OF assms(1) run(1) that] .
    have env: "a \<le> 20000" "h \<le> 1000000" "j \<le> 100000" using assms(1) by (simp_all add: loop_env_def)
    then have "real_of_int a / 2 + 111 / 100000 * real_of_int h + 4 \<le> 11200" by simp
    with m(2) have "\<bar>real_of_int (ex_theta (x n)) - real_of_int (clock_error L (x n))\<bar> \<le> 11200" by linarith
    then have "\<bar>ex_theta (x n) - clock_error L (x n)\<bar> \<le> 11200" by linarith
    with b env have "\<bar>ex_theta (x n)\<bar> < 100000" by linarith
    then show ?thesis using b ok converged_telemetry [of "x n"] by (simp add: ex_ok_def)
  qed
  then show ?thesis using m(1) unsaturated_no_step [OF m(3)] by blast
qed

text \<open>
  C12: a follower far from its leader steps once and converges. When the offset is between 1.3 ms and 1 s, the
  first two responses slew the clock, the third makes a phase step, and the offset is then below 60 us with an
  empty integrator: 240 exchanges later it is within the bound for a clock that started near the leader.
\<close>

theorem far_clock_converges:
  assumes "loop_env L rho lat p a h j" "sync_run L p a h j (n + 3) x" "vclock_range (sm_vc (ex_sm (x 0)))"
    and "vc_lat_corr_ns (sm_vc (ex_sm (x 0))) = lat" "pi_step_counter (sm_pi (ex_sm (x 0))) = 0"
    and "1300000 \<le> \<bar>clock_error L (x 0)\<bar>" "\<bar>clock_error L (x 0)\<bar> \<le> 1000000000"
  shows "\<not> fst (ex_update (x 0)) \<and> \<not> fst (ex_update (x 1)) \<and> fst (ex_update (x 2)) \<and>
    \<bar>clock_error L (x 3)\<bar> \<le> 60000 \<and> pi_integrator_ns (sm_pi (ex_sm (x 3))) = 0 \<and>
    (240 \<le> n \<longrightarrow> 400 * \<bar>clock_error L (x (n + 3))\<bar> \<le> 1050 * a + 5 * h + 21 * j + 2600000)"
proof -
  have ok: "ex_ok L p a h j (x 0)" "ex_ok L p a h j (x 1)" "ex_ok L p a h j (x 2)" "ex_ok L p a h j (x 3)"
    and fol: "ex_follows (x 0) (x 1)" "ex_follows (x 1) (x 2)" "ex_follows (x 2) (x 3)"
    using assms(2) by (simp_all add: sync_run_def numeral_eq_Suc)
  have c0: "ex_clock L lat (x 0)" using assms(3,4,7) by (simp add: ex_clock_def)
  note s0 = far_slew [OF assms(1) ok(1,2) fol(1) c0]
  have x1: "\<not> fst (ex_update (x 0))" "ex_clock L lat (x 1)" "\<bar>clock_error L (x 1) - clock_error L (x 0)\<bar> \<le> 130000"
    "pi_step_counter (sm_pi (ex_sm (x 1))) = 1" using s0 assms(5-7) by simp_all
  note s1 = far_slew [OF assms(1) ok(2,3) fol(2) x1(2)]
  have x2: "\<not> fst (ex_update (x 1))" "ex_clock L lat (x 2)" "\<bar>clock_error L (x 2) - clock_error L (x 1)\<bar> \<le> 130000"
    "pi_step_counter (sm_pi (ex_sm (x 2))) = 2" using s1 x1 assms(6,7) by simp_all
  have "1020000 \<le> \<bar>clock_error L (x 2)\<bar>" using x1(3) x2(3) assms(6) by linarith
  note x3 = far_step [OF assms(1) ok(3,4) fol(3) x2(2) this x2(4)]
  have "ex_follows (x (k + 3)) (x (Suc k + 3))" if "k < n" for k
    unfolding add_Suc using assms(2) that unfolding sync_run_def by (metis add_less_cancel_right)
  then have run: "sync_run L p a h j n (\<lambda>k. x (k + 3))" using assms(2) by (simp add: sync_run_def)
  have "400 * \<bar>clock_error L (x (n + 3))\<bar> \<le> 1050 * a + 5 * h + 21 * j + 2600000" if "240 \<le> n"
    using run_settles [OF assms(1) run _ _ _ that] x3 by simp
  then show ?thesis using x1(1) x2(1) x3 by blast
qed

lemma sample_start:
  "clock_error (\<lambda>t. t + b) (sample_run b 0) = b" "vclock_range (sm_vc (ex_sm (sample_run b 0)))"
  "vc_lat_corr_ns (sm_vc (ex_sm (sample_run b 0))) = 0" "pi_integrator_ns (sm_pi (ex_sm (sample_run b 0))) = 0"
  "pi_step_counter (sm_pi (ex_sm (sample_run b 0))) = 0"
proof -
  have vc: "vclock_range (vclock_init 0)" "even (vc_seq (vclock_init 0))"
    by (simp_all add: vclock_range_def vclock_init_def ns_range_def)
  have "ex_now (sample_run b 0) = 50000000" using sample_exchange_now [of 0] by simp
  then show "clock_error (\<lambda>t. t + b) (sample_run b 0) = b"
    using vclock_calc_exact [OF vc(1), of 50000000] vc(2)
    by (simp add: clock_error_def ns_range_def vclock_init_def scale_q32_def drs_const)
  show "vclock_range (sm_vc (ex_sm (sample_run b 0)))" using vc by simp
qed (simp_all add: vclock_init_def)

lemma sample_env: "loop_env (\<lambda>t. t + b) 0 0 50000000 0 0 0"
  by (simp add: loop_env_def leader_clock_def)

theorem clock_converges_witness:
  "clock_error (\<lambda>t. t + 200000) (sample_run 200000 0) = 200000 \<and>
   \<bar>clock_error (\<lambda>t. t + 200000) (sample_run 200000 240)\<bar> \<le> 6500"
  using clock_converges [OF sample_env sample_run_ok sample_start(2-4), of 200000 240] sample_start(1) [of 200000]
  by simp

theorem far_clock_converges_witness:
  "clock_error (\<lambda>t. t + 2000000) (sample_run 2000000 0) = 2000000 \<and> fst (ex_update (sample_run 2000000 2)) \<and>
   \<bar>clock_error (\<lambda>t. t + 2000000) (sample_run 2000000 243)\<bar> \<le> 6500"
  using far_clock_converges [OF sample_env sample_run_ok sample_start(2,3,5), of 2000000 240] sample_start(1) [of 2000000]
  by simp

end
