(* ===== verification/Pulse_Alignment.thy ===== *)
theory Pulse_Alignment
  imports Convergence
begin

text \<open>
  What the program is for: the pulses of the nodes coincide. The pulse thread schedules the next rising
  edge up to a second ahead with the clock it finds, \<open>next_rise_raw\<close>; for a follower that has converged,
  the leader's clock is bounded at that raw instant, although the rate of the follower's clock is the one
  the controller chose for one period.
\<close>

section \<open>The scheduled instant\<close>

text \<open>The rate of a clock within the limits is never so slow that the target is far away.\<close>

lemma sdiv_rate_bounds:
  assumes "rate_ok r" "0 \<le> y" "y \<le> 1201400000"
  shows "0 \<le> (y * 4294967296) sdiv sint r" "(y * 4294967296) sdiv sint r \<le> 1202700000"
proof -
  have r: "4290672296 \<le> sint r" using sint_rate_ok [OF assms(1)] by simp
  define q where "q = (y * 4294967296) div sint r"
  have q: "(y * 4294967296) sdiv sint r = q" using r assms(2) by (simp add: q_def sdiv_nonneg_eq)
  show "0 \<le> (y * 4294967296) sdiv sint r"
    unfolding q q_def using r assms(2) by (simp add: pos_imp_zdiv_nonneg_iff)
  have "q \<le> (1201400000 * 4294967296) div sint r"
    unfolding q_def using r assms(3) by (intro zdiv_mono1) simp_all
  also have "\<dots> \<le> (1201400000 * 4294967296) div 4290672296"
    using r by (intro zdiv_mono2) simp_all
  also have "\<dots> \<le> 1202700000" by simp
  finally show "(y * 4294967296) sdiv sint r \<le> 1202700000" unfolding q .
qed

text \<open>
  A clock that was set to the rate \<open>r\<close> at \<open>now\<close> with the reading \<open>b\<close>, of which \<open>lat\<close> is still subtracted,
  schedules a pulse within 200 ms of that: the target is at most 1.2027 s after \<open>now\<close>, and the clock reads
  a whole second there.
\<close>

lemma next_rise_after:
  assumes "vclock_range vc" "vc_base_local vc = now" "vc_base_global vc = b" "vc_offset_ns vc = 0"
    and "vc_lat_corr_ns vc = lat" "now \<le> t" "t \<le> now + 200000000" "\<bar>now\<bar> \<le> 100000000000000000"
    and "0 \<le> b - lat" "b \<le> 200000000000000000" "\<bar>lat\<bar> \<le> 15000"
  obtains q k where "next_rise_raw vc t = now + q" "0 \<le> q" "q \<le> 1202700000" "t < now + q"
    "\<bar>scale_q32 (vc_rate_q32 vc) q + b - lat - k * 1000000000\<bar> \<le> 2"
proof -
  let ?r = "vc_rate_q32 vc"
  define T g where "T = vclock_calc vc t" and "g = next_second T"
  have r: "rate_ok ?r" and ev: "even (vc_seq vc)" using assms(1) by (simp_all add: vclock_range_def)
  have nt: "ns_range t" "ns_range now" using assms(6-8) by (simp_all add: ns_range_def)
  have T: "T = scale_q32 ?r (t - now) + b - lat"
    using vclock_calc_exact [OF assms(1) nt(1)] assms(2-5) by (simp add: T_def)
  have "0 \<le> scale_q32 ?r (t - now)" "scale_q32 ?r (t - now) \<le> 200300000"
  proof -
    show "0 \<le> scale_q32 ?r (t - now)"
      using scale_q32_mono [OF r, of 0 "t - now"] assms(6) by (simp add: scale_q32_def)
    have "scale_q32 ?r (t - now) \<le> scale_q32 ?r 200000000" using assms(7) by (intro scale_q32_mono [OF r]) simp
    also have "\<dots> \<le> 200300000" using scale_q32_ppm [OF r, of 200000000] by simp
    finally show "scale_q32 ?r (t - now) \<le> 200300000" .
  qed
  then have Tb: "0 \<le> T" "T \<le> b - lat + 200300000" "T \<le> 1000000000000000000" using T assms(9-11) by linarith+
  have ge: "g = ((T + 1000000) div 1000000000 + 1) * 1000000000 \<and> T + 1000000 < g \<and> g \<le> T + 1000000 + 1000000000"
    unfolding g_def using Tb(1,3) by (intro next_second_exact) simp_all
  then have g: "T + 1000000 < g" "g \<le> T + 1001000000" "\<exists>k. g = k * 1000000000" by (linarith, linarith, blast)
  have ng: "ns_range g" using g(1,2) Tb by (simp add: ns_range_def)
  define y where "y = g - b + lat"
  define q where "q = (y * 4294967296) sdiv sint ?r"
  have y: "0 \<le> y" "y \<le> 1201400000" using g(1,2) Tb T \<open>0 \<le> scale_q32 ?r (t - now)\<close> by (simp_all add: y_def)
  have q: "0 \<le> q" "q \<le> 1202700000" unfolding q_def using sdiv_rate_bounds [OF r y] by auto
  have R: "next_rise_raw vc t = now + q"
    using ev vclock_inverse_exact(1) [OF assms(1) ng] assms(2-5)
    by (simp add: next_rise_raw_def Let_def g_def T_def q_def y_def)
  have nR: "ns_range (now + q)" using q assms(8) by (simp add: ns_range_def)
  have now: "vclock_now vc u = vclock_calc vc u" for u using ev by simp
  have "- 1000000 \<le> T" using Tb(1) by simp
  then obtain k where "\<bar>vclock_calc vc (now + q) - k * 1000000000\<bar> \<le> 2" "t < now + q"
    using next_rise_on_second [OF assms(1) nt(1), of T] nR Tb(3) by (auto simp: now R T_def)
  moreover have "vclock_calc vc (now + q) = scale_q32 ?r q + b - lat"
    using vclock_calc_exact [OF assms(1) nR] assms(2-5) by simp
  ultimately show thesis using that [OF R q] by simp
qed

section \<open>How far the rate is from the right one\<close>

text \<open>
  Over one period \<open>t\<close> the chosen rate differs from the drift of the leader by what the loop still has to
  correct, and by the latency correction, which every update subtracts again.
\<close>

lemma mismatch_sum:
  fixes X w l J u th i' i e M S :: real
  assumes "\<bar>X - (w - l)\<bar> \<le> J / 10000" "\<bar>u - (100000 * th + 1000000 * i')\<bar> \<le> 206000000"
    and "\<bar>100 * i' - (100 * i + th)\<bar> \<le> 400" "\<bar>th - e\<bar> \<le> M" "\<bar>11 / 100 * e + (i - w)\<bar> \<le> 24 / 10 * S"
    and "11 / 100 * M + J / 10000 + 210 \<le> S"
  shows "\<bar>X - u / 1000000\<bar> \<le> \<bar>l\<bar> + 34 / 10 * S"
proof (rule abs_leI)
  have l: "l \<le> \<bar>l\<bar>" "- l \<le> \<bar>l\<bar>" by simp_all
  have b: "X \<le> w - l + J / 10000" "w - l - J / 10000 \<le> X" "u / 1000000 \<le> th / 10 + i' + 206" "th / 10 + i' - 206 \<le> u / 1000000"
    "i' \<le> i + th / 100 + 4" "i + th / 100 - 4 \<le> i'" "th \<le> e + M" "e - M \<le> th"
    "11 / 100 * e + (i - w) \<le> 24 / 10 * S" "- (24 / 10 * S) \<le> 11 / 100 * e + (i - w)"
    using abs_le_D1 [OF assms(1)] abs_le_D2 [OF assms(1)] abs_le_D1 [OF assms(2)] abs_le_D2 [OF assms(2)]
      abs_le_D1 [OF assms(3)] abs_le_D2 [OF assms(3)] abs_le_D1 [OF assms(4)] abs_le_D2 [OF assms(4)]
      abs_le_D1 [OF assms(5)] abs_le_D2 [OF assms(5)] by linarith+
  show "X - u / 1000000 \<le> \<bar>l\<bar> + 34 / 10 * S" using b l assms(6) by linarith
  show "- (X - u / 1000000) \<le> \<bar>l\<bar> + 34 / 10 * S" using b l assms(6) by linarith
qed

lemma rate_mismatch:
  fixes e w M S rho :: real
  assumes "unsaturated theta i" "near_period t" "\<bar>real_of_int theta - e\<bar> \<le> M" "\<bar>rho\<bar> \<le> 1 / 10000"
    and "\<bar>t - p\<bar> \<le> j" "w = real_of_int p * rho + real_of_int lat" "\<bar>11 / 100 * e + (real_of_int i - w)\<bar> \<le> 24 / 10 * S"
    and "11 / 100 * M + real_of_int j / 10000 + 210 \<le> S"
  shows "\<bar>(rho - real_of_int (pi_ideal_ppm i theta t) / 1000000) * real_of_int t\<bar> \<le> real_of_int \<bar>lat\<bar> + 34 / 10 * S"
proof -
  define u i' where "u = real_of_int (pi_ideal_ppm i theta t * t)" and "i' = real_of_int (pi_ideal_integral i theta t)"
  have un: "\<bar>theta\<bar> \<le> 440000" "\<bar>100 * i + theta\<bar> \<le> 4960000" "\<bar>100 * i + 11 * theta\<bar> \<le> 4960000"
    using assms(1) by (simp_all add: unsaturated_def)
  have "real_of_int \<bar>100 * pi_ideal_integral i theta t - (100 * i + theta)\<bar> \<le> real_of_int 400"
    using servo_integral [OF un(1) assms(2) un(2)] by (simp only: of_int_le_iff)
  then have i': "\<bar>100 * i' - (100 * real_of_int i + real_of_int theta)\<bar> \<le> 400" by (simp add: i'_def)
  have "real_of_int \<bar>pi_ideal_ppm i theta t * t - (100000 * theta + 1000000 * pi_ideal_integral i theta t)\<bar> \<le> real_of_int 206000000"
    using servo_ppm(1) [OF un(1) assms(2) un(2,3)] by (simp only: of_int_le_iff)
  then have u: "\<bar>u - (100000 * real_of_int theta + 1000000 * i')\<bar> \<le> 206000000" by (simp add: u_def i'_def)
  have "\<bar>rho * real_of_int (t - p)\<bar> \<le> 1 / 10000 * real_of_int j"
    unfolding abs_mult using assms(4,5) by (intro mult_mono) auto
  moreover have "rho * real_of_int t = w - real_of_int lat + rho * real_of_int (t - p)"
    by (simp add: assms(6) algebra_simps)
  ultimately have rt: "\<bar>rho * real_of_int t - (w - real_of_int lat)\<bar> \<le> real_of_int j / 10000" by simp
  have "(rho - real_of_int (pi_ideal_ppm i theta t) / 1000000) * real_of_int t = rho * real_of_int t - u / 1000000"
    by (simp add: u_def algebra_simps)
  moreover have "\<bar>rho * real_of_int t - u / 1000000\<bar> \<le> real_of_int \<bar>lat\<bar> + 34 / 10 * S"
    using rt u i' assms(3,7,8) unfolding of_int_abs by (rule mismatch_sum)
  ultimately show ?thesis by simp
qed

text \<open>The advance of a clock whose rate is off by \<open>u\<close> ppm, over up to 1.2027 s.\<close>

lemma scale_q32_advance:
  assumes "sint r = 4294967296 + u * 4295" "\<bar>u\<bar> \<le> 1000" "0 \<le> q" "q \<le> 1202700000"
  shows "\<bar>real_of_int (scale_q32 r q - q) - real_of_int u / 1000000 * real_of_int q\<bar> \<le> 11"
proof -
  define z where "z = u * q"
  have z: "\<bar>z\<bar> \<le> 1202700000000"
    using mult_mono [OF assms(2), of "\<bar>q\<bar>" 1202700000] assms(3,4) by (simp add: z_def abs_mult)
  have "q * sint r = q * 4294967296 + 4295 * z" by (simp add: assms(1) z_def algebra_simps)
  then have s: "scale_q32 r q = q + (4295 * z) div 4294967296" by (simp add: scale_q32_def)
  define d where "d = (4295 * z) div 4294967296"
  have "d * 4294967296 \<le> 4295 * z" "4295 * z < d * 4294967296 + 4294967296" unfolding d_def by linarith+
  then have "\<bar>1000000 * d - z\<bar> \<le> 11000000" using z by (simp add: abs_le_iff)
  then have "real_of_int \<bar>1000000 * d - z\<bar> \<le> real_of_int 11000000" by (simp only: of_int_le_iff)
  then show ?thesis by (simp add: s d_def z_def abs_le_iff field_simps)
qed

section \<open>The pulse of a settled follower\<close>

lemma settled_rate:
  assumes "energy e J \<le> (95 / 100) ^ n * 109000000000 + 380 * S\<^sup>2" "240 \<le> n" "260 \<le> S"
  shows "\<bar>11 / 100 * e + J\<bar> \<le> 24 / 10 * S"
proof -
  have "(95 / 100 :: real) ^ n \<le> (95 / 100) ^ 240" using assms(2) by (intro power_decreasing) simp_all
  then have "(95 / 100 :: real) ^ n * 109000000000 \<le> 1000000" using power_240 by linarith
  moreover have "260\<^sup>2 \<le> S\<^sup>2" using assms(3) by (intro power_mono) simp_all
  then have "67600 \<le> S\<^sup>2" by simp
  moreover have "279 / 4 * (24 / 10 * S)\<^sup>2 = 10044 / 25 * S\<^sup>2" by (simp add: power2_eq_square)
  ultimately have "energy e J \<le> 279 / 4 * (24 / 10 * S)\<^sup>2" using assms(1) by linarith
  from abs_le_of_square [OF energy_bounds(3) this] show ?thesis using assms(3) by simp
qed

lemma set_rate_fields:
  "vc_base_local (vclock_set_rate vc r t) = t" "vc_base_global (vclock_set_rate vc r t) = vclock_calc vc t"
  "vc_offset_ns (vclock_set_rate vc r t) = 0" "vc_rate_q32 (vclock_set_rate vc r t) = r"
proof -
  have "vclock_calc (vc\<lparr>vc_seq := s\<rparr>) u = vclock_calc vc u" for s u by (simp add: vclock_calc_def)
  then show "vc_base_local (vclock_set_rate vc r t) = t" "vc_base_global (vclock_set_rate vc r t) = vclock_calc vc t"
    "vc_offset_ns (vclock_set_rate vc r t) = 0" "vc_rate_q32 (vclock_set_rate vc r t) = r"
    by (simp_all add: vclock_ops)
qed

text \<open>The clock a response of a converging follower leaves, and the pulse scheduled with it.\<close>

lemma scheduled_pulse:
  assumes "loop_env L rho lat p a h j" "ex_ok L p a h j x" "on_track L rho lat p v x" "v \<le> max_energy"
    and "1000000 \<le> L (ex_now x)" "ex_now x \<le> t" "t \<le> ex_now x + 200000000"
  obtains q k where "next_rise_raw (sm_vc (d_sm (ex_after x))) t = ex_now x + q" "0 \<le> q" "q \<le> 1202700000" "t < ex_now x + q"
    "\<bar>scale_q32 (fst (snd (ex_update x))) q + L (ex_now x) - clock_error L x - lat - k * 1000000000\<bar> \<le> 2"
proof -
  let ?r = "fst (snd (ex_update x))" and ?now = "ex_now x" and ?vc = "sm_vc (ex_sm x)"
  note m = on_track_measure [OF assms(1-4)]
  have clk: "ex_clock L lat x" "vclock_range ?vc" "vc_lat_corr_ns ?vc = lat"
    using assms(3) m(1) by (simp_all add: on_track_def ex_clock_def)
  note e = ex_clock_reading [OF assms(2) clk(1)]
  have now: "0 < ?now" "?now \<le> 100000000000000000" "\<bar>L ?now\<bar> \<le> 100000000000000000"
    using assms(2) by (simp_all add: ex_ok_def)
  have lat: "\<bar>lat\<bar> \<le> 15000" by (rule loop_env_lat(1) [OF assms(1)])
  have after: "sm_vc (d_sm (ex_after x)) = vclock_set_rate ?vc ?r ?now"
    using assms(2) unsaturated_no_step [OF m(3)] by (simp add: ex_ok_def ex_after_eq)
  have "ns_range (vclock_calc ?vc ?now)" using e(3) by (simp add: ns_range_def)
  then have rng: "vclock_range (vclock_set_rate ?vc ?r ?now)"
    using clk(2) e(2) update_rate_ok by (intro set_rate_reading(1) [where t' = ?now])
  obtain q k where qk: "next_rise_raw (vclock_set_rate ?vc ?r ?now) t = ?now + q" "0 \<le> q" "q \<le> 1202700000" "t < ?now + q"
    "\<bar>scale_q32 (vc_rate_q32 (vclock_set_rate ?vc ?r ?now)) q + vclock_calc ?vc ?now - lat - k * 1000000000\<bar> \<le> 2"
  proof (rule next_rise_after [OF rng set_rate_fields(1-3) _ assms(6,7)])
    show "vc_lat_corr_ns (vclock_set_rate ?vc ?r ?now) = lat" using clk(3) by (simp add: vclock_set_rate_keeps_lat)
    show "\<bar>?now\<bar> \<le> 100000000000000000" using now by simp
    show "0 \<le> vclock_calc ?vc ?now - lat" using e(1) m(1) assms(5) lat by linarith
    show "vclock_calc ?vc ?now \<le> 200000000000000000" using e(3) by linarith
  qed (use lat in auto)
  show thesis
    using that [OF _ qk(2-4)] qk(1,5) e(1) by (simp add: after set_rate_fields(4))
qed

lemma pulse_error_sum:
  fixes err e l z y S :: real
  assumes "\<bar>err - (e + l + z)\<bar> \<le> 14" "\<bar>e\<bar> \<le> 25 * S" "\<bar>z\<bar> \<le> 2411 / 100 * y" "y \<le> \<bar>l\<bar> + 34 / 10 * S" "260 \<le> S"
  shows "\<bar>err\<bar> \<le> 108 * S + 26 * \<bar>l\<bar>"
proof -
  have "\<bar>err\<bar> \<le> \<bar>e\<bar> + \<bar>l\<bar> + \<bar>z\<bar> + 14" using assms(1) by linarith
  moreover have "\<bar>z\<bar> \<le> 2411 / 100 * (\<bar>l\<bar> + 34 / 10 * S)"
    by (rule order_trans [OF assms(3) mult_left_mono [OF assms(4)]]) simp
  moreover have "2411 / 100 * (\<bar>l\<bar> + 34 / 10 * S) = 2411 / 100 * \<bar>l\<bar> + 81974 / 1000 * S" by (simp add: algebra_simps)
  moreover have "0 \<le> \<bar>l\<bar>" by simp
  ultimately show ?thesis using assms(2,5) by linarith
qed

text \<open>The error at the scheduled instant: the offset, the latency correction, and the drift over the wait.\<close>

lemma scheduled_error:
  assumes "loop_env L rho lat p a h j" "ex_ok L p a h j x" "on_track L rho lat p v x" "v \<le> max_energy"
    and "0 \<le> q" "q \<le> 1202700000"
    and "\<bar>scale_q32 (fst (snd (ex_update x))) q + L (ex_now x) - clock_error L x - lat - g\<bar> \<le> 2"
    and "t = ex_now x - sm_last_pi_update_ns (ex_sm x)"
    and "z = (rho - real_of_int (pi_ideal_ppm (pi_integrator_ns (sm_pi (ex_sm x))) (ex_theta x) t) / 1000000) * real_of_int q"
  shows "\<bar>real_of_int (L (ex_now x + q) - g) - (real_of_int (clock_error L x) + real_of_int lat + z)\<bar> \<le> 14"
proof -
  let ?r = "fst (snd (ex_update x))" and ?now = "ex_now x" and ?i = "pi_integrator_ns (sm_pi (ex_sm x))"
  define u where "u = pi_ideal_ppm ?i (ex_theta x) t"
  note m = on_track_measure [OF assms(1-4)]
  have env: "leader_clock L rho" "j \<le> 100000" "50000000 \<le> p" "p \<le> 100000000"
    using assms(1) by (simp_all add: loop_env_def)
  note t = ex_period [OF assms(2) env(2-4) assms(8)]
  have r: "sint ?r = 4294967296 + u * 4295"
    using unsaturated_update(1) [OF m(3) t(2)] by (simp add: t(1) u_def)
  have "\<bar>u\<bar> \<le> 1000" using servo_ppm(2) [of "ex_theta x" t ?i] m(3) t(2) by (simp add: unsaturated_def u_def)
  note adv = scale_q32_advance [OF r this assms(5,6)]
  have "\<bar>real_of_int (L (?now + q) - L ?now) - (1 + rho) * real_of_int (?now + q - ?now)\<bar> \<le> 1"
    using env(1) unfolding leader_clock_def by blast
  then have gain: "\<bar>real_of_int (L (?now + q)) - real_of_int (L ?now) - real_of_int q - rho * real_of_int q\<bar> \<le> 1"
    by (simp add: algebra_simps)
  have "real_of_int \<bar>scale_q32 ?r q + L ?now - clock_error L x - lat - g\<bar> \<le> real_of_int 2"
    using assms(7) by (simp only: of_int_le_iff)
  then have tgt: "\<bar>real_of_int (scale_q32 ?r q) + real_of_int (L ?now) - real_of_int (clock_error L x) - real_of_int lat - real_of_int g\<bar> \<le> 2"
    by simp
  have z: "z = rho * real_of_int q - real_of_int u / 1000000 * real_of_int q" by (simp add: assms(9) u_def algebra_simps)
  show ?thesis
    unfolding z of_int_diff using gain tgt adv unfolding of_int_diff by linarith
qed

section \<open>Properties\<close>

text \<open>
  C13: the pulses of a converged follower. Within the range of \<open>clock_converges\<close>, after 240 exchanges, a pulse
  that the engine schedules up to 200 ms after a response is raised in the future, and at that raw instant the
  leader's clock is within \<open>11.4 a + h / 18 + j / 4 + 28080 + 26 lat\<close> ns of a whole second (with \<open>lat\<close> in absolute value):
  the edge is scheduled up to 1.2 s ahead with a rate that was chosen for one period.
\<close>

theorem pulse_alignment:
  assumes "loop_env L rho lat p a h j" "sync_run L p a h j n x" "vclock_range (sm_vc (ex_sm (x 0)))"
    and "vc_lat_corr_ns (sm_vc (ex_sm (x 0))) = lat" "pi_integrator_ns (sm_pi (ex_sm (x 0))) = 0"
    and "\<bar>clock_error L (x 0)\<bar> \<le> 300000" "240 \<le> n" "1000000 \<le> L (ex_now (x n))"
    and "ex_now (x n) \<le> t" "t \<le> ex_now (x n) + 200000000"
  shows "\<exists>R k. next_rise_raw (sm_vc (d_sm (ex_after (x n)))) t = R \<and> t < R \<and>
    400 * \<bar>L R - k * 1000000000\<bar> \<le> 4536 * a + 22 * h + 91 * j + 11232000 + 10400 * \<bar>lat\<bar>"
proof -
  let ?S = "loop_noise a h j" and ?e = "real_of_int (clock_error L (x n))" and ?i = "pi_integrator_ns (sm_pi (ex_sm (x n)))"
  define P where "P = ex_now (x n) - sm_last_pi_update_ns (ex_sm (x n))"
  define s where "s = rho - real_of_int (pi_ideal_ppm ?i (ex_theta (x n)) P) / 1000000"
  note run = run_energy [OF assms(1-6)]
  have ok: "ex_ok L p a h j (x n)" using assms(2) by (simp add: sync_run_def)
  note m = on_track_measure [OF assms(1) ok run]
  have env: "\<bar>rho\<bar> \<le> 1 / 10000" "j \<le> 100000" "50000000 \<le> p" "p \<le> 100000000" "0 \<le> a" "0 \<le> h" "0 \<le> j"
    using assms(1) by (simp_all add: loop_env_def)
  note per = ex_period [OF ok env(2-4) P_def]
  obtain q k where q: "next_rise_raw (sm_vc (d_sm (ex_after (x n)))) t = ex_now (x n) + q" "0 \<le> q" "q \<le> 1202700000"
    "t < ex_now (x n) + q" "\<bar>scale_q32 (fst (snd (ex_update (x n)))) q + L (ex_now (x n)) - clock_error L (x n) - lat - k * 1000000000\<bar> \<le> 2"
    by (rule scheduled_pulse [OF assms(1) ok run assms(8-10)])
  have E: "energy ?e (real_of_int ?i - (real_of_int p * rho + real_of_int lat)) \<le> (95 / 100) ^ n * 109000000000 + 380 * ?S\<^sup>2"
    using run(1) by (simp add: on_track_def)
  note S = loop_noise_bounds(1) [OF assms(1)]
  have "0 \<le> real_of_int a" "0 \<le> real_of_int h" "0 \<le> real_of_int j" using env(5-7) by simp_all
  then have "11 / 100 * (real_of_int a / 2 + 111 / 100000 * real_of_int h + 4) + real_of_int j / 10000 + 210 \<le> ?S"
    unfolding loop_noise_def by (simp add: field_simps)
  note mis = rate_mismatch [OF m(3) per(2) m(2) env(1) per(3) refl settled_rate [OF E assms(7) S] this, folded s_def]
  have "0 < P" "1202700000 \<le> 2411 / 100 * real_of_int P" using per(2) by (simp_all add: near_period_def)
  then have "real_of_int q \<le> 2411 / 100 * real_of_int P" using q(3) by linarith
  then have "\<bar>s * real_of_int q\<bar> \<le> 2411 / 100 * \<bar>s * real_of_int P\<bar>"
    using q(2) \<open>0 < P\<close> mult_left_mono [of "real_of_int q" "2411 / 100 * real_of_int P" "\<bar>s\<bar>"] by (simp add: abs_mult algebra_simps)
  with scheduled_error [OF assms(1) ok run q(2,3,5) P_def refl, folded s_def] settled_error [OF E assms(7) S]
  have "\<bar>real_of_int (L (ex_now (x n) + q) - k * 1000000000)\<bar> \<le> 108 * ?S + 26 * \<bar>real_of_int lat\<bar>"
    using mis S unfolding of_int_abs by (rule pulse_error_sum)
  then have "real_of_int (400 * \<bar>L (ex_now (x n) + q) - k * 1000000000\<bar>) \<le>
      real_of_int (4536 * a + 22 * h + 91 * j + 11232000 + 10400 * \<bar>lat\<bar>)"
    using env(5-7) by (simp add: loop_noise_def)
  then show ?thesis using q(1,4) unfolding of_int_le_iff by blast
qed

lemma sample_now: "n \<le> 1000 \<Longrightarrow> ex_now (sample_run b n) = 50000000 * (int n + 1)"
  using sample_run_exchange [of b n] sample_exchange_now by auto

theorem pulse_alignment_witness:
  "clock_error (\<lambda>t. t + 200000) (sample_run 200000 0) = 200000 \<and>
   (\<exists>k. \<bar>next_rise_raw (sm_vc (d_sm (ex_after (sample_run 200000 240)))) 12100000000 + 200000 - k * 1000000000\<bar> \<le> 28080)"
  using pulse_alignment [OF sample_env sample_run_ok sample_start(2-4), of 200000 240 12100000000]
    sample_start(1) [of 200000] sample_now [of 240] by auto

end
