(* ===== verification/Seqlock_Protocol.thy ===== *)
theory Seqlock_Protocol
  imports DRS_Prelude
begin

text \<open>
  The sequence lock as the sources write it in three places (\<open>vclock_now\<close> and
  \<open>vclock_local_for_global\<close> of \<open>src/vclock.c\<close>, \<open>snap\<close> of \<open>tools/drs_mon.c\<close> and the copy of it in
  \<open>tools/drs_sync_inspect.c\<close>), under interleaving. A writer runs a list of updates, each a sequence
  of single stores between its two stores of the sequence number; a reader loads the sequence
  number, then the fields one by one, then the sequence number again. A schedule is a list of
  booleans (\<open>True\<close> the writer moves, \<open>False\<close> the reader moves), so a statement for all schedules is
  one for all sequentially consistent interleavings. The order in which the reader loads the fields
  is a parameter.

  What is protected (a clock, a telemetry record) enters through the record \<open>seqlock_impl\<close>, and what
  its operations have to satisfy is the locale \<open>seqlock\<close>.
\<close>

section \<open>Writer and reader\<close>

record ('s, 'op, 'st, 'f) seqlock_impl =
  si_seq :: "'s \<Rightarrow> u32"
  si_begin :: "'s \<Rightarrow> 's"
  si_end :: "'s \<Rightarrow> 's"
  si_stores :: "'op \<Rightarrow> 's \<Rightarrow> 'st list"
  si_store :: "'st \<Rightarrow> 's \<Rightarrow> 's"
  si_load :: "'f \<Rightarrow> 's \<Rightarrow> 's \<Rightarrow> 's"

datatype 'f reader_pc = R_Load_s1 | R_Fields "'f list" | R_Done

record ('s, 'op, 'st, 'f, 'v) seqlock_state =
  sl_mem :: 's
  wr_active :: bool
  wr_stores :: "'st list"
  wr_ops :: "'op list"
  rd_pc :: "'f reader_pc"
  rd_s1 :: u32
  rd_s2 :: u32
  rd_snap :: 's
  rd_result :: 'v

definition writer_step ::
  "('s, 'op, 'st, 'f) seqlock_impl \<Rightarrow> ('s, 'op, 'st, 'f, 'v) seqlock_state \<Rightarrow> ('s, 'op, 'st, 'f, 'v) seqlock_state" where
  "writer_step I s =
     (if wr_active s
      then (case wr_stores s of
              st # rest \<Rightarrow> s\<lparr>sl_mem := si_store I st (sl_mem s), wr_stores := rest\<rparr>
            | [] \<Rightarrow> s\<lparr>sl_mem := si_end I (sl_mem s), wr_active := False\<rparr>)
      else (case wr_ops s of
              op # ops \<Rightarrow>
                (let m = si_begin I (sl_mem s)
                 in s\<lparr>sl_mem := m, wr_active := True, wr_stores := si_stores I op m, wr_ops := ops\<rparr>)
            | [] \<Rightarrow> s))"

text \<open>
  \<open>if (s1 & 1) continue;\<close> jumps to the condition \<open>s1 != s2\<close> of the loop, with the \<open>s2\<close> of the round
  before.
\<close>

definition reader_step ::
  "('s, 'op, 'st, 'f) seqlock_impl \<Rightarrow> ('s \<Rightarrow> 'v) \<Rightarrow> 'f list \<Rightarrow>
   ('s, 'op, 'st, 'f, 'v) seqlock_state \<Rightarrow> ('s, 'op, 'st, 'f, 'v) seqlock_state" where
  "reader_step I calc order s =
     (case rd_pc s of
        R_Load_s1 \<Rightarrow>
          (let s1 = si_seq I (sl_mem s)
           in if s1 AND 1 \<noteq> 0
              then s\<lparr>rd_s1 := s1, rd_pc := (if s1 \<noteq> rd_s2 s then R_Load_s1 else R_Done)\<rparr>
              else s\<lparr>rd_s1 := s1, rd_pc := R_Fields order\<rparr>)
      | R_Fields (f # fs) \<Rightarrow> s\<lparr>rd_snap := si_load I f (sl_mem s) (rd_snap s), rd_pc := R_Fields fs\<rparr>
      | R_Fields [] \<Rightarrow>
          (let s2 = si_seq I (sl_mem s)
           in s\<lparr>rd_result := calc (rd_snap s), rd_s2 := s2,
                rd_pc := (if rd_s1 s \<noteq> s2 then R_Load_s1 else R_Done)\<rparr>)
      | R_Done \<Rightarrow> s)"

fun seqlock_run ::
  "('s, 'op, 'st, 'f) seqlock_impl \<Rightarrow> ('s \<Rightarrow> 'v) \<Rightarrow> 'f list \<Rightarrow> bool list \<Rightarrow>
   ('s, 'op, 'st, 'f, 'v) seqlock_state \<Rightarrow> ('s, 'op, 'st, 'f, 'v) seqlock_state" where
  "seqlock_run I calc order [] s = s"
| "seqlock_run I calc order (w # sched) s =
     seqlock_run I calc order sched (if w then writer_step I s else reader_step I calc order s)"

text \<open>The locals \<open>snap\<close> and \<open>result\<close> of the reader start with any value; \<open>s2\<close> starts with 0.\<close>

definition seqlock_start :: "'s \<Rightarrow> 'v \<Rightarrow> 's \<Rightarrow> 'op list \<Rightarrow> ('s, 'op, 'st, 'f, 'v) seqlock_state" where
  "seqlock_start snap result m ops =
     \<lparr>sl_mem = m, wr_active = False, wr_stores = [], wr_ops = ops,
      rd_pc = R_Load_s1, rd_s1 = 0, rd_s2 = 0, rd_snap = snap, rd_result = result\<rparr>"

section \<open>Sequence numbers\<close>

definition seq_count :: "nat \<Rightarrow> bool \<Rightarrow> nat" where
  "seq_count k active = (if active then 2 * k - 1 else 2 * k)"

lemma seq_count_inj:
  "a + of_nat c = a + (of_nat c' :: u32) \<Longrightarrow> c < 2 ^ 32 \<Longrightarrow> c' < 2 ^ 32 \<Longrightarrow> c = c'"
  by (simp add: word_of_nat_eq_iff take_bit_nat_eq_self)

lemma even_seq: "even (a :: u32) \<Longrightarrow> even (a + of_nat c) = even c"
  by simp

lemma odd_seq_count: "0 < k \<Longrightarrow> odd (seq_count k True)"
  by (cases k) (simp_all add: seq_count_def)

lemma seq_count_less: "k < 2 ^ 31 \<Longrightarrow> seq_count k a < 2 ^ 32"
  by (auto simp: seq_count_def)

lemma odd_s1_iff: "(s AND 1 \<noteq> 0) = odd (s :: u32)"
  by (simp add: and_one_eq odd_iff_mod_2_eq_one)

lemma rd_writer_step [simp]:
  "rd_pc (writer_step I s) = rd_pc s" "rd_s1 (writer_step I s) = rd_s1 s"
  "rd_snap (writer_step I s) = rd_snap s" "rd_result (writer_step I s) = rd_result s"
  by (simp_all add: writer_step_def Let_def split: list.split)

lemma wr_active_writer_step:
  "wr_active (writer_step I s) = (if wr_active s then wr_stores s \<noteq> [] else wr_ops s \<noteq> [])"
  by (simp add: writer_step_def Let_def split: list.split)

section \<open>Progress\<close>

text \<open>Once the writer has no update under way, the reader finishes alone in a bounded number of steps.\<close>

lemma reader_fields_run:
  "rd_pc s = R_Fields fs \<Longrightarrow> rd_s1 s = si_seq I (sl_mem s) \<Longrightarrow>
   rd_pc (seqlock_run I calc order (replicate (Suc (length fs)) False) s) = R_Done"
proof (induction fs arbitrary: s)
  case (Cons f fs)
  then show ?case by (simp add: reader_step_def)
qed (simp add: reader_step_def Let_def)

lemma reader_load_run:
  "rd_pc s = R_Load_s1 \<Longrightarrow> even (si_seq I (sl_mem s)) \<Longrightarrow>
   rd_pc (seqlock_run I calc order (replicate (Suc (Suc (length order))) False) s) = R_Done"
  using reader_fields_run [of "reader_step I calc order s" order I calc order]
  by (simp add: reader_step_def [of I calc order s] Let_def odd_s1_iff)

lemma seqlock_reader_stalls:
  assumes "odd (si_seq I (sl_mem s))" "rd_pc s = R_Load_s1" "rd_s2 s \<noteq> si_seq I (sl_mem s)"
  shows "rd_pc (seqlock_run I calc order (replicate n False) s) = R_Load_s1"
  using assms
proof (induction n arbitrary: s)
  case (Suc n)
  then show ?case by (simp add: reader_step_def [of _ _ _ s] Let_def odd_s1_iff)
qed simp

lemma seqlock_run_append:
  "seqlock_run I calc order (xs @ ys) s = seqlock_run I calc order ys (seqlock_run I calc order xs s)"
  by (induction xs arbitrary: s) simp_all

lemma reader_run_Suc:
  "seqlock_run I calc order (replicate (Suc n) False) s = reader_step I calc order (seqlock_run I calc order (replicate n False) s)"
  using seqlock_run_append [of I calc order "replicate n False" "[False]" s] by (simp add: replicate_append_same)

lemma reader_done_run:
  "rd_pc s = R_Done \<Longrightarrow> seqlock_run I calc order (replicate n False) s = s"
  by (induction n) (simp_all add: reader_step_def)

lemma reader_done_later:
  "rd_pc (seqlock_run I calc order (replicate m False) s) = R_Done \<Longrightarrow> m \<le> n \<Longrightarrow>
   rd_pc (seqlock_run I calc order (replicate n False) s) = R_Done"
  using replicate_add [of m "n - m" False] by (simp add: seqlock_run_append reader_done_run)

text \<open>The rest of a round of a reader that runs alone: its loads, and the comparison of the sequence numbers.\<close>

lemma reader_loads_run:
  "rd_pc s = R_Fields fs \<Longrightarrow> seqlock_run I calc order (replicate (length fs) False) s =
     s\<lparr>rd_pc := R_Fields [], rd_snap := fold (\<lambda>f. si_load I f (sl_mem s)) fs (rd_snap s)\<rparr>"
proof (induction fs arbitrary: s)
  case Nil
  then show ?case by (cases s) simp
next
  case (Cons f fs)
  then show ?case by (simp add: reader_step_def)
qed

lemma reader_round_run:
  assumes "rd_pc s = R_Fields fs" "snap = fold (\<lambda>f. si_load I f (sl_mem s)) fs (rd_snap s)"
  shows "seqlock_run I calc order (replicate (length fs + 1) False) s =
    s\<lparr>rd_snap := snap, rd_result := calc snap, rd_s2 := si_seq I (sl_mem s),
      rd_pc := (if rd_s1 s \<noteq> si_seq I (sl_mem s) then R_Load_s1 else R_Done)\<rparr>"
  unfolding replicate_add seqlock_run_append reader_loads_run [OF assms(1)]
  by (simp add: reader_step_def Let_def assms(2))

text \<open>
  A reader in the middle of a round when an update is under way: the round ends with an odd \<open>s2\<close>, the
  next load of the sequence number gives the same odd number, and \<open>continue\<close> leaves the loop with the
  result of the round.
\<close>

lemma reader_torn_run:
  assumes "rd_pc s = R_Fields fs" "even (rd_s1 s)" "odd (si_seq I (sl_mem s))"
    and "s' = seqlock_run I calc order (replicate (length fs + 2) False) s"
  shows "rd_pc s' = R_Done" "odd (rd_s1 s')" "rd_result s' = calc (fold (\<lambda>f. si_load I f (sl_mem s)) fs (rd_snap s))"
proof -
  let ?m = "si_seq I (sl_mem s)" and ?snap = "fold (\<lambda>f. si_load I f (sl_mem s)) fs (rd_snap s)"
  have "rd_s1 s \<noteq> ?m" using assms(2,3) by auto
  moreover have "s' = reader_step I calc order (seqlock_run I calc order (replicate (length fs + 1) False) s)"
    using reader_run_Suc [of I calc order "length fs + 1" s] unfolding assms(4) by (simp del: replicate.simps)
  ultimately have "s' = reader_step I calc order (s\<lparr>rd_snap := ?snap, rd_result := calc ?snap, rd_s2 := ?m, rd_pc := R_Load_s1\<rparr>)"
    by (simp only: reader_round_run [OF assms(1) refl] if_True simp_thms)
  then show "rd_pc s' = R_Done" "odd (rd_s1 s')" "rd_result s' = calc ?snap"
    using assms(3) by (simp_all add: reader_step_def Let_def odd_s1_iff)
qed

text \<open>In every reachable state a reader in its round has taken an even \<open>s1\<close> and has at most all fields to load.\<close>

definition reader_ok :: "'f list \<Rightarrow> ('s, 'op, 'st, 'f, 'v) seqlock_state \<Rightarrow> bool" where
  "reader_ok order s \<longleftrightarrow> (\<forall>fs. rd_pc s = R_Fields fs \<longrightarrow> even (rd_s1 s) \<and> length fs \<le> length order)"

lemma reader_ok_step: "reader_ok order s \<Longrightarrow> reader_ok order (reader_step I calc order s)"
  by (auto simp: reader_ok_def reader_step_def Let_def odd_s1_iff split: reader_pc.splits list.splits)

lemma reader_ok_run: "reader_ok order s \<Longrightarrow> reader_ok order (seqlock_run I calc order sched s)"
proof (induction sched arbitrary: s)
  case (Cons w sched)
  have "reader_ok order (writer_step I s)" using Cons.prems by (simp add: reader_ok_def)
  with Cons show ?case by (cases w) (simp_all add: reader_ok_step)
qed simp

lemma reader_ok_start: "reader_ok order (seqlock_start snap result m ops)"
  by (simp add: reader_ok_def seqlock_start_def)

text \<open>A reader that runs alone ends, except at the head of the loop with an update under way and another \<open>s2\<close>.\<close>

lemma reader_alone:
  assumes "reader_ok order s" "\<not> (rd_pc s = R_Load_s1 \<and> odd (si_seq I (sl_mem s)) \<and> rd_s2 s \<noteq> si_seq I (sl_mem s))"
  shows "rd_pc (seqlock_run I calc order (replicate (2 * length order + 3) False) s) = R_Done"
proof (cases "rd_pc s")
  case R_Done
  then show ?thesis by (simp add: reader_done_run)
next
  case R_Load_s1
  show ?thesis
  proof (cases "even (si_seq I (sl_mem s))")
    case True
    show ?thesis by (rule reader_done_later [OF reader_load_run [OF R_Load_s1 True]]) simp
  next
    case False
    with R_Load_s1 assms(2) have "rd_pc (seqlock_run I calc order (replicate 1 False) s) = R_Done"
      by (simp add: reader_step_def Let_def odd_s1_iff)
    then show ?thesis by (rule reader_done_later) simp
  qed
next
  case (R_Fields fs)
  then have fs: "even (rd_s1 s)" "length fs \<le> length order" using assms(1) by (simp_all add: reader_ok_def)
  show ?thesis
  proof (cases "even (si_seq I (sl_mem s))")
    case False
    show ?thesis by (rule reader_done_later [OF reader_torn_run(1) [OF R_Fields fs(1) False refl]]) (use fs(2) in simp)
  next
    case True
    define s' where "s' = seqlock_run I calc order (replicate (length fs + 1) False) s"
    have "sl_mem s' = sl_mem s" "rd_pc s' = R_Load_s1 \<or> rd_pc s' = R_Done"
      unfolding s'_def reader_round_run [OF R_Fields refl] by simp_all
    then have "rd_pc (seqlock_run I calc order (replicate (Suc (Suc (length order))) False) s') = R_Done"
      using reader_load_run [of s' I calc order] reader_done_run [of s' I calc order] True by metis
    then have "rd_pc (seqlock_run I calc order (replicate ((length fs + 1) + Suc (Suc (length order))) False) s) = R_Done"
      unfolding s'_def by (simp only: replicate_add seqlock_run_append)
    then show ?thesis by (rule reader_done_later) (use fs(2) in simp)
  qed
qed

section \<open>The contract\<close>

text \<open>
  The two stores of the sequence number add one each and the other stores leave it alone; the stores
  of an update make up the update; and a snapshot that agrees with the memory in every field gives
  the same value.
\<close>

locale seqlock =
  fixes I :: "('s, 'op, 'st, 'f) seqlock_impl"
    and apply_op :: "'op \<Rightarrow> 's \<Rightarrow> 's"
    and calc :: "'rd \<Rightarrow> 's \<Rightarrow> 'v"
  assumes seq_begin: "si_seq I (si_begin I m) = si_seq I m + 1"
    and seq_end: "si_seq I (si_end I m) = si_seq I m + 1"
    and seq_store: "si_seq I (si_store I st m) = si_seq I m"
    and stores_op: "si_end I (fold (si_store I) (si_stores I op (si_begin I m)) (si_begin I m)) = apply_op op m"
    and load_same: "si_load I f m (si_load I f m snap) = si_load I f m snap"
    and load_other: "si_load I g m snap = snap \<Longrightarrow> si_load I g m (si_load I f m snap) = si_load I f m snap"
    and load_all: "(\<And>f. si_load I f m snap = snap) \<Longrightarrow> calc rd snap = calc rd m"
begin

definition published :: "'s \<Rightarrow> 'op list \<Rightarrow> nat \<Rightarrow> 's" where
  "published m ops k = fold apply_op (take k ops) m"

text \<open>After \<open>k\<close> updates have begun the writer has stored the sequence number \<open>seq_count\<close> times.\<close>

definition writer_inv :: "'s \<Rightarrow> 'op list \<Rightarrow> nat \<Rightarrow> ('s, 'op, 'st, 'f, 'v) seqlock_state \<Rightarrow> bool" where
  "writer_inv m ops k s \<longleftrightarrow> k \<le> length ops \<and> wr_ops s = drop k ops \<and>
     si_seq I (sl_mem s) = si_seq I m + of_nat (seq_count k (wr_active s)) \<and>
     (if wr_active s
      then 0 < k \<and> si_end I (fold (si_store I) (wr_stores s) (sl_mem s)) = published m ops k
      else sl_mem s = published m ops k)"

lemma published_Suc:
  "k < length ops \<Longrightarrow> published m ops (Suc k) = apply_op (ops ! k) (published m ops k)"
  by (simp add: published_def take_Suc_conv_app_nth)

lemma writer_inv_start: "writer_inv m ops 0 (seqlock_start snap result m ops)"
  by (simp add: writer_inv_def seqlock_start_def seq_count_def published_def)

lemma writer_inv_step:
  assumes "writer_inv m ops k s"
  shows "writer_inv m ops (if wr_active s \<or> wr_ops s = [] then k else Suc k) (writer_step I s)"
proof (cases "wr_active s")
  case True
  show ?thesis
  proof (cases "wr_stores s")
    case Nil
    have "0 < k" "si_seq I (sl_mem s) = si_seq I m + of_nat (2 * k - 1)"
      using True assms by (simp_all add: writer_inv_def seq_count_def)
    then have "si_seq I (si_end I (sl_mem s)) = si_seq I m + of_nat (2 * k)"
      by (cases k) (simp_all add: seq_end)
    with Nil True assms show ?thesis
      unfolding writer_inv_def by (simp add: writer_step_def seq_count_def)
  next
    case (Cons st rest)
    with True assms show ?thesis by (simp add: writer_inv_def writer_step_def seq_store)
  qed
next
  case False
  show ?thesis
  proof (cases "wr_ops s")
    case Nil
    with False assms show ?thesis by (auto simp: writer_inv_def writer_step_def)
  next
    case (Cons op rest)
    then have d: "drop k ops = op # rest" using assms by (simp add: writer_inv_def)
    then have k: "k < length ops" "ops ! k = op" "drop (Suc k) ops = rest"
      using drop_eq_Nil [of k ops] by (auto simp: nth_via_drop drop_Suc simp flip: tl_drop)
    have i: "si_seq I (sl_mem s) = si_seq I m + of_nat (2 * k)" "sl_mem s = published m ops k"
      using False assms by (auto simp: writer_inv_def seq_count_def)
    have "si_seq I (si_begin I (sl_mem s)) = si_seq I m + of_nat (seq_count (Suc k) True)"
      using i(1) by (simp add: seq_begin seq_count_def)
    with False Cons k i(2) show ?thesis
      by (simp add: writer_inv_def writer_step_def Let_def published_Suc stores_op)
  qed
qed

definition agrees :: "'f set \<Rightarrow> 's \<Rightarrow> 's \<Rightarrow> bool" where
  "agrees F snap m \<longleftrightarrow> (\<forall>f \<in> F. si_load I f m snap = snap)"

lemma agrees_load: "agrees (F - set (f # fs)) snap m \<Longrightarrow> agrees (F - set fs) (si_load I f m snap) m"
  unfolding agrees_def by (metis DiffE DiffI load_other load_same set_ConsD)

lemma agrees_calc: "agrees UNIV snap m \<Longrightarrow> calc rd snap = calc rd m"
  by (rule load_all) (simp add: agrees_def)

lemma loads_agree: "agrees (- set fs) snap m \<Longrightarrow> agrees UNIV (fold (\<lambda>f. si_load I f m) fs snap) m"
proof (induction fs arbitrary: snap)
  case (Cons f fs)
  then show ?case using agrees_load [of UNIV f fs snap m] by (simp add: Compl_eq_Diff_UNIV)
qed simp

lemma loads_calc: "set fs = UNIV \<Longrightarrow> calc rd (fold (\<lambda>f. si_load I f m) fs snap) = calc rd m"
  by (rule agrees_calc [OF loads_agree]) (simp add: agrees_def)

definition reader_inv :: "'rd \<Rightarrow> 'f list \<Rightarrow> 's \<Rightarrow> 'op list \<Rightarrow> nat \<Rightarrow> ('s, 'op, 'st, 'f, 'v) seqlock_state \<Rightarrow> bool" where
  "reader_inv rd order m ops k s \<longleftrightarrow>
     (case rd_pc s of
        R_Load_s1 \<Rightarrow> True
      | R_Fields fs \<Rightarrow> even (rd_s1 s) \<and>
          (\<exists>c \<le> seq_count k (wr_active s). rd_s1 s = si_seq I m + of_nat c \<and>
             (c = seq_count k (wr_active s) \<longrightarrow> agrees (set order - set fs) (rd_snap s) (sl_mem s)))
      | R_Done \<Rightarrow> even (rd_s1 s) \<longrightarrow> (\<exists>j \<le> k. rd_result s = calc rd (published m ops j)))"

lemma reader_inv_FieldsE:
  assumes "reader_inv rd order m ops k s" "rd_pc s = R_Fields fs"
  obtains c where "even (rd_s1 s)" "c \<le> seq_count k (wr_active s)" "rd_s1 s = si_seq I m + of_nat c"
    "c = seq_count k (wr_active s) \<longrightarrow> agrees (set order - set fs) (rd_snap s) (sl_mem s)"
  using assms(1) unfolding reader_inv_def assms(2) reader_pc.case by blast

lemma reader_inv_FieldsI:
  assumes "rd_pc s = R_Fields fs" "even (rd_s1 s)" "c \<le> seq_count k (wr_active s)"
    "rd_s1 s = si_seq I m + of_nat c"
    "c = seq_count k (wr_active s) \<longrightarrow> agrees (set order - set fs) (rd_snap s) (sl_mem s)"
  shows "reader_inv rd order m ops k s"
  using assms unfolding reader_inv_def by (simp only: reader_pc.case) blast

lemma reader_inv_reader_step:
  assumes "writer_inv m ops k s" "reader_inv rd order m ops k s"
    and "even (si_seq I m)" "length ops < 2 ^ 31" "set order = UNIV"
  shows "reader_inv rd order m ops k (reader_step I (calc rd) order s)"
proof (cases "rd_pc s")
  case R_Load_s1
  show ?thesis
  proof (cases "odd (si_seq I (sl_mem s))")
    case True
    with R_Load_s1 show ?thesis by (auto simp: reader_inv_def reader_step_def Let_def odd_s1_iff)
  next
    case False
    with R_Load_s1 assms(1) show ?thesis
      by (auto simp: reader_inv_def reader_step_def Let_def odd_s1_iff writer_inv_def agrees_def)
  qed
next
  case (R_Fields fs)
  with assms(2) obtain c where c: "even (rd_s1 s)" "c \<le> seq_count k (wr_active s)"
      "rd_s1 s = si_seq I m + of_nat c"
      "c = seq_count k (wr_active s) \<longrightarrow> agrees (set order - set fs) (rd_snap s) (sl_mem s)"
    by (rule reader_inv_FieldsE)
  show ?thesis
  proof (cases fs)
    case (Cons f fs')
    with R_Fields c show ?thesis
      using agrees_load [of "set order" f fs' "rd_snap s" "sl_mem s"]
      by (intro reader_inv_FieldsI [of _ fs' c]) (simp_all add: reader_step_def)
  next
    case Nil
    have "k < 2 ^ 31" using assms(1,4) by (simp add: writer_inv_def)
    then have "seq_count k (wr_active s) < 2 ^ 32" by (rule seq_count_less)
    moreover have seq: "si_seq I (sl_mem s) = si_seq I m + of_nat (seq_count k (wr_active s))"
      using assms(1) by (simp add: writer_inv_def)
    ultimately have eq: "rd_s1 s = si_seq I (sl_mem s) \<Longrightarrow> c = seq_count k (wr_active s)"
      using c(2,3) seq_count_inj [of "si_seq I m" c "seq_count k (wr_active s)"] by simp
    have "rd_s1 s = si_seq I (sl_mem s) \<Longrightarrow> \<not> wr_active s"
      using eq c(1,3) even_seq [OF assms(3), of c] odd_seq_count [of k] assms(1)
      unfolding writer_inv_def by metis
    then have "rd_s1 s = si_seq I (sl_mem s) \<Longrightarrow>
        calc rd (rd_snap s) = calc rd (published m ops k)"
      using eq c(4) Nil assms(1,5) agrees_calc [of "rd_snap s" "sl_mem s"] by (simp add: writer_inv_def)
    with R_Fields Nil show ?thesis
      by (auto simp: reader_inv_def reader_step_def Let_def)
  qed
next
  case R_Done
  with assms(2) show ?thesis by (simp add: reader_inv_def reader_step_def)
qed

lemma reader_inv_writer_step:
  assumes "writer_inv m ops k s" "reader_inv rd order m ops k s" "even (si_seq I m)"
  shows "reader_inv rd order m ops (if wr_active s \<or> wr_ops s = [] then k else Suc k) (writer_step I s)"
proof (cases "rd_pc s")
  case R_Load_s1
  then show ?thesis
    by (simp add: reader_inv_def)
next
  case (R_Fields fs)
  with assms(2) obtain c where c: "even (rd_s1 s)" "c \<le> seq_count k (wr_active s)"
      "rd_s1 s = si_seq I m + of_nat c"
      "c = seq_count k (wr_active s) \<longrightarrow> agrees (set order - set fs) (rd_snap s) (sl_mem s)"
    by (rule reader_inv_FieldsE)
  have "even c" using c(1,3) even_seq [OF assms(3), of c] by metis
  moreover have k: "wr_active s \<Longrightarrow> 0 < k" using assms(1) by (simp add: writer_inv_def)
  ultimately have odd: "wr_active s \<Longrightarrow> c \<noteq> seq_count k True \<and> 0 < k" using odd_seq_count by metis
  show ?thesis
  proof (cases "wr_active s \<or> wr_ops s \<noteq> []")
    case True
    then have "c < seq_count (if wr_active s \<or> wr_ops s = [] then k else Suc k)
        (wr_active (writer_step I s))"
      using c(2) odd by (auto simp: seq_count_def wr_active_writer_step)
    with R_Fields c(1,3) show ?thesis
      by (intro reader_inv_FieldsI [of _ fs c]) simp_all
  next
    case False
    with assms(2) show ?thesis by (simp add: writer_step_def)
  qed
next
  case R_Done
  with assms(2) show ?thesis
    by (auto simp: reader_inv_def le_Suc_eq)
qed

lemma seqlock_invs:
  assumes "even (si_seq I m)" "length ops < 2 ^ 31" "set order = UNIV"
    and "writer_inv m ops k s" "reader_inv rd order m ops k s"
  shows "\<exists>k'. writer_inv m ops k' (seqlock_run I (calc rd) order sched s) \<and>
    reader_inv rd order m ops k' (seqlock_run I (calc rd) order sched s)"
  using assms(4,5)
proof (induction sched arbitrary: s k)
  case (Cons w sched)
  show ?case
  proof (cases w)
    case True
    with Cons show ?thesis
      using writer_inv_step [of m ops k s] reader_inv_writer_step [OF Cons.prems assms(1)] by fastforce
  next
    case False
    moreover have "writer_inv m ops k (reader_step I (calc rd) order s)"
      using Cons.prems(1)
      by (auto simp: writer_inv_def reader_step_def Let_def split: reader_pc.splits list.splits)
    ultimately show ?thesis
      using Cons.IH reader_inv_reader_step [OF Cons.prems assms(1,2,3)] by simp
  qed
qed auto

lemma read_consistent:
  assumes "even (si_seq I m)" "length ops < 2 ^ 31" "set order = UNIV"
    and "s = seqlock_run I (calc rd) order sched (seqlock_start snap result m ops)"
    and "rd_pc s = R_Done" "even (rd_s1 s)"
  shows "\<exists>j \<le> length ops. rd_result s = calc rd (fold apply_op (take j ops) m)"
proof -
  have "reader_inv rd order m ops 0 (seqlock_start snap result m ops)"
    by (simp add: reader_inv_def seqlock_start_def)
  then obtain k where "writer_inv m ops k s" "reader_inv rd order m ops k s"
    using seqlock_invs [OF assms(1-3) writer_inv_start] assms(4) by blast
  then show ?thesis
    using assms(5,6) by (auto simp: reader_inv_def writer_inv_def published_def intro: le_trans)
qed

end

end
