(* ===== verification/Seqlock.thy ===== *)
theory Seqlock
  imports Vclock Seqlock_Protocol
begin

text \<open>
  The sequence lock of \<open>src/vclock.c\<close>: the main thread runs a list of clock updates, each a sequence
  of single stores between \<open>seqlock_write_begin\<close> and \<open>seqlock_write_end\<close>, while the pulse thread
  runs one \<open>vclock_now\<close> or \<open>vclock_local_for_global\<close>, each load a step of its own. C leaves the
  evaluation order of the arguments of \<open>calc_now\<close> open, so the order of the loads is a parameter.
\<close>

section \<open>The writer\<close>

datatype vc_field = F_base_local | F_base_global | F_rate_q32 | F_offset_ns | F_lat_corr_ns

datatype vc_store = St_base_local i64 | St_base_global i64 | St_rate_q32 u64 | St_offset_ns i64
  | St_lat_corr_ns i64

fun apply_store :: "vc_store \<Rightarrow> vclock \<Rightarrow> vclock" where
  "apply_store (St_base_local x) vc = vc\<lparr>vc_base_local := x\<rparr>"
| "apply_store (St_base_global x) vc = vc\<lparr>vc_base_global := x\<rparr>"
| "apply_store (St_rate_q32 x) vc = vc\<lparr>vc_rate_q32 := x\<rparr>"
| "apply_store (St_offset_ns x) vc = vc\<lparr>vc_offset_ns := x\<rparr>"
| "apply_store (St_lat_corr_ns x) vc = vc\<lparr>vc_lat_corr_ns := x\<rparr>"

text \<open>The stores of an update, in program order, between its two sequence-number stores.\<close>

fun op_stores :: "vc_op \<Rightarrow> vclock \<Rightarrow> vc_store list" where
  "op_stores (Op_step_offset delta t) vc =
     [St_base_local t, St_base_global (s64 (vclock_calc vc t + delta)), St_offset_ns 0]"
| "op_stores (Op_set_rate r t) vc =
     [St_base_local t, St_base_global (vclock_calc vc t), St_offset_ns 0, St_rate_q32 r]"
| "op_stores (Op_set_lat_corr l) vc = [St_lat_corr_ns l]"

section \<open>The reader\<close>

fun load_field :: "vc_field \<Rightarrow> vclock \<Rightarrow> vclock \<Rightarrow> vclock" where
  "load_field F_base_local vc snap = snap\<lparr>vc_base_local := vc_base_local vc\<rparr>"
| "load_field F_base_global vc snap = snap\<lparr>vc_base_global := vc_base_global vc\<rparr>"
| "load_field F_rate_q32 vc snap = snap\<lparr>vc_rate_q32 := vc_rate_q32 vc\<rparr>"
| "load_field F_offset_ns vc snap = snap\<lparr>vc_offset_ns := vc_offset_ns vc\<rparr>"
| "load_field F_lat_corr_ns vc snap = snap\<lparr>vc_lat_corr_ns := vc_lat_corr_ns vc\<rparr>"

datatype vc_read = Read_now i64 | Read_local_for_global i64

fun calc_of :: "vc_read \<Rightarrow> vclock \<Rightarrow> i64" where
  "calc_of (Read_now t) vc = vclock_calc vc t"
| "calc_of (Read_local_for_global g) vc = vclock_inverse vc g"

definition vclock_seqlock :: "(vclock, vc_op, vc_store, vc_field) seqlock_impl" where
  "vclock_seqlock = \<lparr>si_seq = vc_seq, si_begin = seqlock_write_begin, si_end = seqlock_write_end,
     si_stores = op_stores, si_store = apply_store, si_load = load_field\<rparr>"

lemma vclock_seqlock_simps [simp]:
  "si_seq vclock_seqlock = vc_seq" "si_begin vclock_seqlock = seqlock_write_begin"
  "si_end vclock_seqlock = seqlock_write_end" "si_stores vclock_seqlock = op_stores"
  "si_store vclock_seqlock = apply_store" "si_load vclock_seqlock = load_field"
  by (simp_all add: vclock_seqlock_def)

section \<open>The contract holds\<close>

lemma fold_op_stores:
  "seqlock_write_end (fold apply_store (op_stores op (seqlock_write_begin vc))
     (seqlock_write_begin vc)) = apply_op op vc"
  by (cases op) (simp_all add: vclock_step_offset_def vclock_set_rate_def vclock_set_lat_corr_def Let_def)

lemma vc_seq_apply_store [simp]: "vc_seq (apply_store st vc) = vc_seq vc"
  by (cases st) simp_all

lemma load_field_other:
  "load_field g vc snap = snap \<Longrightarrow> load_field g vc (load_field f vc snap) = load_field f vc snap"
  by (cases f; cases g; cases snap) simp_all

lemma load_field_same: "load_field f vc (load_field f vc snap) = load_field f vc snap"
  by (cases f) simp_all

lemma snapshot_calc:
  assumes "\<And>f. load_field f vc snap = snap"
  shows "calc_of rd snap = calc_of rd vc"
proof -
  have "snap = vc\<lparr>vc_seq := vc_seq snap\<rparr>"
    using assms [of F_base_local] assms [of F_base_global] assms [of F_rate_q32] assms [of F_offset_ns]
      assms [of F_lat_corr_ns]
    by (cases snap; cases vc) simp
  moreover have "calc_of rd (vc\<lparr>vc_seq := n\<rparr>) = calc_of rd vc" for n
    by (cases rd) (simp_all add: vclock_calc_def vclock_inverse_def)
  ultimately show ?thesis by metis
qed

interpretation vcl: seqlock vclock_seqlock apply_op calc_of
  by unfold_locales
    (simp_all add: seqlock_write_begin_def seqlock_write_end_def fold_op_stores [unfolded seqlock_write_begin_def
       seqlock_write_end_def] load_field_same load_field_other snapshot_calc)

text \<open>The clock after the first \<open>k\<close> updates.\<close>

definition published :: "vclock \<Rightarrow> vc_op list \<Rightarrow> nat \<Rightarrow> vclock" where
  "published vc ops k = fold apply_op (take k ops) vc"

abbreviation vclock_start :: "vclock \<Rightarrow> vc_op list \<Rightarrow> (vclock, vc_op, vc_store, vc_field, i64) seqlock_state" where
  "vclock_start \<equiv> seqlock_start (vclock_init 0) 0"

abbreviation vclock_run where
  "vclock_run \<equiv> seqlock_run vclock_seqlock"

section \<open>Properties\<close>

text \<open>
  C28: for every interleaving with fewer than \<open>2^31\<close> updates during the read, a read of the virtual
  clock that leaves its loop with an even \<open>s1\<close> returns the value computed from one published
  state of the clock, never from a mixture of two.
\<close>

theorem seqlock_read_consistent:
  assumes "even (vc_seq vc)" "length ops < 2 ^ 31" "set order = UNIV"
    and "s = vclock_run (calc_of rd) order sched (vclock_start vc ops)"
    and "rd_pc s = R_Done" "even (rd_s1 s)"
  shows "\<exists>j \<le> length ops. rd_result s = calc_of rd (published vc ops j)"
  using vcl.read_consistent [of vc ops order s rd] assms by (simp add: published_def)

text \<open>Two overlapping schedules: one where the reader retries, one where it is caught after the first store of an update.\<close>

definition retry_schedule :: "bool list" where
  "retry_schedule = [False, False, True, True, True, True, True, True,
     False, False, False, False, False, False, False, False, False, False, False, False]"

definition torn_schedule :: "vc_field list \<Rightarrow> bool list" where
  "torn_schedule order = [False, True, True] @ replicate (length order + 2) False"

definition all_fields :: "vc_field list" where
  "all_fields = [F_base_local, F_base_global, F_rate_q32, F_offset_ns, F_lat_corr_ns]"

lemma set_all_fields: "set all_fields = UNIV"
  using vc_field.exhaust by (auto simp: all_fields_def)

lemma length_all_fields: "length all_fields = 5"
  by (simp add: all_fields_def)

theorem seqlock_read_consistent_witness:
  "\<exists>j \<le> 1. rd_result (vclock_run (calc_of (Read_now 9000)) all_fields
       retry_schedule
       (vclock_start (vclock_init 0) [Op_set_rate DRS_RATE_MAX_Q32 5000])) =
     calc_of (Read_now 9000) (published (vclock_init 0) [Op_set_rate DRS_RATE_MAX_Q32 5000] j)"
  using seqlock_read_consistent [where vc = "vclock_init 0" and order = all_fields and
      ops = "[Op_set_rate DRS_RATE_MAX_Q32 5000]" and rd = "Read_now 9000" and
      sched = retry_schedule, OF _ _ set_all_fields refl]
  by (simp add: seqlock_start_def reader_step_def writer_step_def all_fields_def vclock_init_def
      seqlock_write_begin_def seqlock_write_end_def Let_def retry_schedule_def)

text \<open>
  C36: the loop as written can also be left through \<open>continue\<close>, which jumps to the condition
  \<open>s1 != s2\<close> with the \<open>s2\<close> of the round before. For every clock with values in range, and every phase step and rate change
  of it, there is an interleaving in which a reader at the instant of the update returns a torn value: the new
  base of the raw clock with the old base of the virtual clock, so that all the time since the last
  update is missing from the reading, where the clock showed the time before the update and shows the time moved
  by its jump after it.
\<close>

theorem seqlock_torn_read:
  assumes "vclock_range vc" "ns_range t" "ns_range (vclock_now vc t)" "ns_range delta"
    and "op = Op_step_offset delta t \<or> op = Op_set_rate r t" "set order = UNIV"
    and "s = vclock_run (calc_of (Read_now t)) order (torn_schedule order) (vclock_start vc (op # ops))"
  shows "rd_pc s = R_Done \<and> rd_result s = vclock_now vc t - scale_q32 (vc_rate_q32 vc) (t - vc_base_local vc) \<and>
    calc_of (Read_now t) (published vc (op # ops) 0) = vclock_now vc t \<and>
    calc_of (Read_now t) (published vc (op # ops) 1) = vclock_now vc t + op_jumps (vc_lat_corr_ns vc) [op]"
proof -
  have ev: "even (vc_seq vc)" using assms(1) by (simp add: vclock_range_def)
  let ?m = "vc\<lparr>vc_seq := vc_seq vc + 1, vc_base_local := t\<rparr>"
  obtain stores where "op_stores op (seqlock_write_begin vc) = St_base_local t # stores" using assms(5) by auto
  then have s1: "vclock_run (calc_of (Read_now t)) order [False, True, True] (vclock_start vc (op # ops)) =
      (vclock_start vc ops)\<lparr>sl_mem := ?m, wr_active := True, wr_stores := stores, rd_s1 := vc_seq vc, rd_pc := R_Fields order\<rparr>"
    (is "_ = ?s")
    using ev by (simp add: seqlock_start_def reader_step_def writer_step_def Let_def odd_s1_iff seqlock_write_begin_def)
  have "s = vclock_run (calc_of (Read_now t)) order (replicate (length order + 2) False) ?s"
    by (simp only: assms(7) torn_schedule_def seqlock_run_append s1)
  note torn = reader_torn_run [OF _ _ _ this]
  have "rd_result s = calc_of (Read_now t) ?m"
    using torn(3) ev vcl.loads_calc [OF assms(6), of "Read_now t" ?m] by simp
  also have "\<dots> = vclock_calc (vc\<lparr>vc_base_local := t\<rparr>) t" by (simp add: vclock_calc_def)
  also have "\<dots> = vclock_calc vc t - scale_q32 (vc_rate_q32 vc) (t - vc_base_local vc)"
    using assms(1,2) vclock_calc_exact [of "vc\<lparr>vc_base_local := t\<rparr>" t]
    by (simp add: vclock_range_def vclock_calc_exact scale_q32_def)
  finally show ?thesis
    using torn(1) ev update_jump [OF assms(1,2)] assms(3-5) by (auto simp: published_def)
qed

theorem seqlock_torn_read_witness:
  "let s = vclock_run (calc_of (Read_now 5000)) all_fields (torn_schedule all_fields)
         (vclock_start (vclock_init 0) [Op_step_offset 1000000000 5000])
   in rd_pc s = R_Done \<and> rd_result s = 0 \<and>
      calc_of (Read_now 5000) (published (vclock_init 0) [Op_step_offset 1000000000 5000] 0) = 5000 \<and>
      calc_of (Read_now 5000) (published (vclock_init 0) [Op_step_offset 1000000000 5000] 1) = 1000005000"
proof -
  have vc: "vclock_range (vclock_init 0)" by (simp add: vclock_range_def vclock_init_def ns_range_def)
  have c: "vclock_now (vclock_init 0) 5000 = 5000"
    using vclock_calc_exact [OF vc, of 5000] by (simp add: ns_range_def vclock_init_def scale_q32_def drs_const)
  show ?thesis
    using seqlock_torn_read [of "vclock_init 0" 5000 1000000000 "Op_step_offset 1000000000 5000" 0 all_fields _ "[]", OF vc _ _ _ disjI1 [OF refl] set_all_fields refl] c
    by (simp add: ns_range_def Let_def) (simp add: vclock_init_def scale_q32_def drs_const)
qed

text \<open>
  C29: when a read of the clock ends. In every reachable state, let the writer not be scheduled any more. The
  reader then spins for ever exactly when an update is under way, it is at the head of its loop and the
  \<open>s2\<close> of its last round is not the present sequence number; in every other case, also within
  an update, it ends by itself in at most two rounds.
\<close>

theorem seqlock_reader_progress:
  assumes "s = vclock_run (calc_of rd) order sched (vclock_start vc ops)"
  shows "if rd_pc s = R_Load_s1 \<and> odd (vc_seq (sl_mem s)) \<and> rd_s2 s \<noteq> vc_seq (sl_mem s)
    then \<forall>n. rd_pc (vclock_run (calc_of rd) order (replicate n False) s) = R_Load_s1
    else rd_pc (vclock_run (calc_of rd) order (replicate (2 * length order + 3) False) s) = R_Done"
proof -
  have "reader_ok order s" unfolding assms by (intro reader_ok_run reader_ok_start)
  then show ?thesis
    using seqlock_reader_stalls [of vclock_seqlock s] reader_alone [of order s vclock_seqlock] by auto
qed

theorem seqlock_reader_progress_witness:
  "rd_pc (vclock_run (calc_of (Read_now 7)) all_fields (replicate 13 False) (vclock_start (vclock_init 0) [])) = R_Done \<and>
   rd_pc (vclock_run (calc_of (Read_now 7)) all_fields (replicate 100 False)
     (vclock_run (calc_of (Read_now 7)) all_fields [True] (vclock_start (vclock_init 0) [Op_set_lat_corr 4000]))) = R_Load_s1"
  using seqlock_reader_progress [of _ "Read_now 7" all_fields "[]" "vclock_init 0" "[]", OF refl]
    seqlock_reader_progress [of _ "Read_now 7" all_fields "[True]" "vclock_init 0" "[Op_set_lat_corr 4000]", OF refl]
  by (simp add: length_all_fields seqlock_start_def vclock_init_def writer_step_def seqlock_write_begin_def Let_def)

end
