(* ===== verification/Monitor.thy ===== *)
theory Monitor
  imports Daemon Seqlock_Protocol
begin

text \<open>
  The two telemetry tools, \<open>tools/drs_mon.c\<close> and \<open>tools/drs_sync_inspect.c\<close>: the snapshot they take
  of the shared record while the daemon writes it, the writes of the daemon as the single stores
  such a snapshot can overlap, and the integers the monitor derives from a snapshot and keeps for the
  next round. What they print is in the theory \<open>Tool_Output\<close>.
\<close>

section \<open>The snapshot\<close>

datatype tel_field = T_pid | T_version | T_state | T_flags | T_leader_node_id | T_election_term |
  T_offset_ns | T_rate_q32_32 | T_latency_corr_ns | T_last_rtt_ns | T_convergence_unix_ns |
  T_holdover_remaining_ms | T_error_code_last | T_error_count | T_pulse_count | T_lock_mode |
  T_sync_accepted | T_sync_rejected | T_step_count | T_holdover_count

fun load_tel :: "tel_field \<Rightarrow> drs_telemetry \<Rightarrow> drs_telemetry \<Rightarrow> drs_telemetry" where
  "load_tel T_pid t snap = snap\<lparr>tel_pid := tel_pid t\<rparr>"
| "load_tel T_version t snap = snap\<lparr>tel_version := tel_version t\<rparr>"
| "load_tel T_state t snap = snap\<lparr>tel_state := tel_state t\<rparr>"
| "load_tel T_flags t snap = snap\<lparr>tel_flags := tel_flags t\<rparr>"
| "load_tel T_leader_node_id t snap = snap\<lparr>tel_leader_node_id := tel_leader_node_id t\<rparr>"
| "load_tel T_election_term t snap = snap\<lparr>tel_election_term := tel_election_term t\<rparr>"
| "load_tel T_offset_ns t snap = snap\<lparr>tel_offset_ns := tel_offset_ns t\<rparr>"
| "load_tel T_rate_q32_32 t snap = snap\<lparr>tel_rate_q32_32 := tel_rate_q32_32 t\<rparr>"
| "load_tel T_latency_corr_ns t snap = snap\<lparr>tel_latency_corr_ns := tel_latency_corr_ns t\<rparr>"
| "load_tel T_last_rtt_ns t snap = snap\<lparr>tel_last_rtt_ns := tel_last_rtt_ns t\<rparr>"
| "load_tel T_convergence_unix_ns t snap = snap\<lparr>tel_convergence_unix_ns := tel_convergence_unix_ns t\<rparr>"
| "load_tel T_holdover_remaining_ms t snap = snap\<lparr>tel_holdover_remaining_ms := tel_holdover_remaining_ms t\<rparr>"
| "load_tel T_error_code_last t snap = snap\<lparr>tel_error_code_last := tel_error_code_last t\<rparr>"
| "load_tel T_error_count t snap = snap\<lparr>tel_error_count := tel_error_count t\<rparr>"
| "load_tel T_pulse_count t snap = snap\<lparr>tel_pulse_count := tel_pulse_count t\<rparr>"
| "load_tel T_lock_mode t snap = snap\<lparr>tel_lock_mode := tel_lock_mode t\<rparr>"
| "load_tel T_sync_accepted t snap = snap\<lparr>tel_sync_accepted := tel_sync_accepted t\<rparr>"
| "load_tel T_sync_rejected t snap = snap\<lparr>tel_sync_rejected := tel_sync_rejected t\<rparr>"
| "load_tel T_step_count t snap = snap\<lparr>tel_step_count := tel_step_count t\<rparr>"
| "load_tel T_holdover_count t snap = snap\<lparr>tel_holdover_count := tel_holdover_count t\<rparr>"

text \<open>
  A write of the daemon stores the fields \<open>fs\<close>, each with the value it has in \<open>g t\<close>, where \<open>t\<close> is the
  record after \<open>telemetry_begin_write\<close>.
\<close>

type_synonym tel_op = "tel_field list \<times> (drs_telemetry \<Rightarrow> drs_telemetry)"
type_synonym tel_store = "tel_field \<times> drs_telemetry"

definition tel_bump :: "drs_telemetry \<Rightarrow> drs_telemetry" where
  "tel_bump t = t\<lparr>tel_seqlock := tel_seqlock t + 1\<rparr>"

definition tel_op_stores :: "tel_op \<Rightarrow> drs_telemetry \<Rightarrow> tel_store list" where
  "tel_op_stores op t = map (\<lambda>f. (f, snd op t)) (fst op)"

definition apply_tel_store :: "tel_store \<Rightarrow> drs_telemetry \<Rightarrow> drs_telemetry" where
  "apply_tel_store st t = load_tel (fst st) (snd st) t"

definition apply_tel_op :: "tel_op \<Rightarrow> drs_telemetry \<Rightarrow> drs_telemetry" where
  "apply_tel_op op t = tel_bump (fold apply_tel_store (tel_op_stores op (tel_bump t)) (tel_bump t))"

text \<open>The copy is the whole structure; its copy of the sequence number is never looked at.\<close>

definition snap_value :: "unit \<Rightarrow> drs_telemetry \<Rightarrow> drs_telemetry" where
  "snap_value u t = t\<lparr>tel_seqlock := 0\<rparr>"

definition telemetry_seqlock :: "(drs_telemetry, tel_op, tel_store, tel_field) seqlock_impl" where
  "telemetry_seqlock = \<lparr>si_seq = tel_seqlock, si_begin = tel_bump, si_end = tel_bump,
     si_stores = tel_op_stores, si_store = apply_tel_store, si_load = load_tel\<rparr>"

lemma telemetry_seqlock_simps [simp]:
  "si_seq telemetry_seqlock = tel_seqlock" "si_begin telemetry_seqlock = tel_bump"
  "si_end telemetry_seqlock = tel_bump" "si_stores telemetry_seqlock = tel_op_stores"
  "si_store telemetry_seqlock = apply_tel_store" "si_load telemetry_seqlock = load_tel"
  by (simp_all add: telemetry_seqlock_def)

lemma tel_seqlock_load [simp]: "tel_seqlock (load_tel f t snap) = tel_seqlock snap"
  by (cases f) simp_all

lemma load_tel_same: "load_tel f t (load_tel f t snap) = load_tel f t snap"
  by (cases f) simp_all

lemma load_tel_other: "load_tel g t snap = snap \<Longrightarrow> load_tel g t (load_tel f t snap) = load_tel f t snap"
  by (cases f; cases g; cases snap) simp_all

definition tel_fields :: "tel_field list" where
  "tel_fields =
     [T_pid, T_version, T_state, T_flags, T_leader_node_id, T_election_term, T_offset_ns,
     T_rate_q32_32, T_latency_corr_ns, T_last_rtt_ns, T_convergence_unix_ns,
     T_holdover_remaining_ms, T_error_code_last, T_error_count, T_pulse_count, T_lock_mode,
     T_sync_accepted, T_sync_rejected, T_step_count, T_holdover_count]"

lemma set_tel_fields: "set tel_fields = UNIV"
  using tel_field.exhaust by (auto simp: tel_fields_def)

lemma load_tel_all: "fold (\<lambda>f. load_tel f t) tel_fields snap = t\<lparr>tel_seqlock := tel_seqlock snap\<rparr>"
  by (cases t; cases snap) (simp add: tel_fields_def)

lemma snapshot_value:
  assumes "\<And>f. load_tel f t snap = snap"
  shows "snap_value u snap = snap_value u t"
proof -
  have "fold (\<lambda>f. load_tel f t) fs snap = snap" for fs
    by (induction fs) (simp_all add: assms)
  then have "snap = t\<lparr>tel_seqlock := tel_seqlock snap\<rparr>" using load_tel_all by metis
  then show ?thesis unfolding snap_value_def by (metis drs_telemetry.surjective drs_telemetry.update_convs(1))
qed

interpretation tsl: seqlock telemetry_seqlock apply_tel_op snap_value
proof unfold_locales
  show "snap_value rd snap = snap_value rd m" if "\<And>f. si_load telemetry_seqlock f m snap = snap" for m snap rd
    using that snapshot_value by simp
qed (simp_all add: tel_bump_def apply_tel_store_def apply_tel_op_def load_tel_same load_tel_other)

section \<open>The writes of the daemon\<close>

text \<open>\<open>g\<close> changes no field but those in \<open>fs\<close>, and \<open>fs\<close> are the fields its stores name.\<close>

definition covers :: "tel_field list \<Rightarrow> (drs_telemetry \<Rightarrow> drs_telemetry) \<Rightarrow> bool" where
  "covers fs g \<longleftrightarrow> (\<forall>t. fold (\<lambda>f. load_tel f (g t)) fs t = g t)"

lemma apply_tel_op_write:
  assumes "covers fs g"
  shows "apply_tel_op (fs, g) t = (let t' = g (tel_bump t) in tel_bump t')"
proof -
  have "fold apply_tel_store (map (\<lambda>f. (f, v)) fs) t = fold (\<lambda>f. load_tel f v) fs t" for v t
    by (induction fs arbitrary: t) (simp_all add: apply_tel_store_def)
  then show ?thesis using assms by (simp add: apply_tel_op_def tel_op_stores_def covers_def Let_def)
qed

text \<open>So an update of the model is the bracketed write the state machine makes.\<close>

lemma telemetry_write_op:
  "covers fs g \<Longrightarrow> tg_tel (telemetry_write g tg) = map_option (apply_tel_op (fs, g)) (tg_tel tg)"
  by (simp add: tg_tel_write apply_tel_op_write tel_bump_def Let_def cong: map_option_cong)

definition update_fields :: "tel_field list" where
  "update_fields = [T_state, T_leader_node_id, T_election_term, T_rate_q32_32, T_latency_corr_ns,
     T_lock_mode, T_pulse_count, T_holdover_remaining_ms, T_flags]"

text \<open>The eight writes of \<open>src/statemachine.c\<close>.\<close>

lemma daemon_writes_covered:
  "covers update_fields (telemetry_fields sm c now)"
  "covers [T_holdover_count] (\<lambda>t. t\<lparr>tel_holdover_count := tel_holdover_count t + 1\<rparr>)"
  "covers [T_sync_rejected] (\<lambda>t. t\<lparr>tel_sync_rejected := tel_sync_rejected t + 1\<rparr>)"
  "covers [T_sync_accepted] (\<lambda>t. t\<lparr>tel_sync_accepted := tel_sync_accepted t + 1\<rparr>)"
  "covers [T_offset_ns, T_last_rtt_ns] (\<lambda>t. t\<lparr>tel_offset_ns := theta, tel_last_rtt_ns := rtt\<rparr>)"
  "covers [T_step_count] (\<lambda>t. t\<lparr>tel_step_count := tel_step_count t + 1\<rparr>)"
  "covers [T_convergence_unix_ns, T_rate_q32_32] (convergence_fields a now rate)"
  by (simp_all add: covers_def update_fields_def telemetry_fields_def convergence_fields_def Let_def)

section \<open>The rounds of the monitor\<close>

text \<open>The refresh interval from the argument; \<open>atoi\<close> reads white space, a sign and digits.\<close>

fun atoi_digits :: "string \<Rightarrow> int \<Rightarrow> int" where
  "atoi_digits [] acc = acc"
| "atoi_digits (c # cs) acc =
     (if 48 \<le> (of_char c :: int) \<and> (of_char c :: int) \<le> 57
      then atoi_digits cs (10 * acc + (of_char c - 48)) else acc)"

definition c_isspace :: "char \<Rightarrow> bool" where
  "c_isspace c \<longleftrightarrow> c = CHR '' '' \<or> (9 \<le> (of_char c :: nat) \<and> (of_char c :: nat) \<le> 13)"

definition atoi :: "string \<Rightarrow> int" where
  "atoi s =
     (case dropWhile c_isspace s of
        [] \<Rightarrow> 0
      | c # cs \<Rightarrow> if c = CHR ''-'' then - atoi_digits cs 0
                  else if c = CHR ''+'' then atoi_digits cs 0 else atoi_digits (c # cs) 0)"

definition mon_interval :: "string list \<Rightarrow> int" where
  "mon_interval argv =
     (let interval_ms = 500;
          interval_ms = (if length argv > 1 then atoi (argv ! 1) else interval_ms);
          interval_ms = (if interval_ms < 100 then 100 else interval_ms)
      in if interval_ms > 5000 then 5000 else interval_ms)"

definition mon_sleep :: "int \<Rightarrow> timespec" where
  "mon_sleep interval_ms = \<lparr>tv_sec = interval_ms sdiv 1000, tv_nsec = (interval_ms smod 1000) * 1000000\<rparr>"

record mon =
  mon_prev_offset :: i64
  mon_prev_rate :: i64
  mon_prev_pulse :: u32
  mon_prev_accepted :: u32
  mon_prev_rejected :: u32
  mon_prev_steps :: u32
  mon_first :: bool
  mon_tick :: int

definition mon_init :: mon where
  "mon_init = \<lparr>mon_prev_offset = 0, mon_prev_rate = sint DRS_RATE_NOMINAL_Q32, mon_prev_pulse = 0,
     mon_prev_accepted = 0, mon_prev_rejected = 0, mon_prev_steps = 0, mon_first = True, mon_tick = 0\<rparr>"

text \<open>What a round derives: the differences are those of the integers, before any scaling.\<close>

record mon_view =
  mv_in_holdover :: bool
  mv_d_off :: i64
  mv_d_rate :: i64
  mv_d_pulse :: u32
  mv_d_acc :: u32
  mv_d_rej :: u32
  mv_d_steps :: u32

definition mon_derive :: "drs_telemetry \<Rightarrow> mon \<Rightarrow> mon_view" where
  "mon_derive s m =
     \<lparr>mv_in_holdover = (tel_state s = 6),
      mv_d_off = (if mon_first m then 0 else s64 (tel_offset_ns s - mon_prev_offset m)),
      mv_d_rate = (if mon_first m then 0 else s64 (tel_rate_q32_32 s - mon_prev_rate m)),
      mv_d_pulse = tel_pulse_count s - mon_prev_pulse m,
      mv_d_acc = tel_sync_accepted s - mon_prev_accepted m,
      mv_d_rej = tel_sync_rejected s - mon_prev_rejected m,
      mv_d_steps = tel_step_count s - mon_prev_steps m\<rparr>"

definition mon_keep :: "drs_telemetry \<Rightarrow> mon \<Rightarrow> mon" where
  "mon_keep s m =
     m\<lparr>mon_prev_offset := tel_offset_ns s, mon_prev_rate := tel_rate_q32_32 s,
       mon_prev_pulse := tel_pulse_count s, mon_prev_accepted := tel_sync_accepted s,
       mon_prev_rejected := tel_sync_rejected s, mon_prev_steps := tel_step_count s, mon_first := False\<rparr>"

definition mon_round :: "drs_telemetry \<Rightarrow> mon \<Rightarrow> mon_view \<times> mon" where
  "mon_round s m = (mon_derive s m, mon_keep s (m\<lparr>mon_tick := mon_tick m + 1\<rparr>))"

fun mon_rounds :: "drs_telemetry list \<Rightarrow> mon \<Rightarrow> mon_view list" where
  "mon_rounds [] m = []"
| "mon_rounds (s # ss) m = (case mon_round s m of (v, m') \<Rightarrow> v # mon_rounds ss m')"

text \<open>The increments shown add up to the counter, whatever wraps around.\<close>

lemma mon_rounds_pulses:
  "ss \<noteq> [] \<Longrightarrow> sum_list (map mv_d_pulse (mon_rounds ss m)) = tel_pulse_count (last ss) - mon_prev_pulse m"
  by (induction ss arbitrary: m) (auto simp: mon_round_def mon_derive_def mon_keep_def)

lemma mon_interval_bounds: "100 \<le> mon_interval argv" "mon_interval argv \<le> 5000"
  by (simp_all add: mon_interval_def Let_def)

lemma mon_sleep_valid:
  "0 \<le> tv_nsec (mon_sleep (mon_interval argv)) \<and> tv_nsec (mon_sleep (mon_interval argv)) < 1000000000 \<and>
   tv_sec (mon_sleep (mon_interval argv)) * 1000 + tv_nsec (mon_sleep (mon_interval argv)) div 1000000 =
     mon_interval argv"
  using mon_interval_bounds [of argv]
  by (simp add: mon_sleep_def sdiv_nonneg_eq smod_nonneg_eq)

end
