(* ===== verification/Tool_Output.thy ===== *)
theory Tool_Output
  imports Monitor
begin

text \<open>
  What \<open>tools/drs_mon.c\<close> and \<open>tools/drs_sync_inspect.c\<close> print, character by character (UTF-8 and
  terminal escapes included). Floating point is not modelled: \<open>fd spec a b\<close>, a parameter, stands for
  the text \<open>printf\<close> produces under the conversion \<open>spec\<close> for the quotient of \<open>a\<close> and \<open>b\<close>. Where the
  code compares such a quotient with a whole number or cuts it off, the model compares or divides
  the integers, which gives the same for the magnitudes an \<open>int64_t\<close> telemetry field can have before
  the conversion to \<open>int\<close> in \<open>bar\<close> overflows (offsets below three hours).
\<close>

section \<open>Text\<close>

definition NL :: string where
  "NL = [CHR 0x0A]"

definition times :: "nat \<Rightarrow> string \<Rightarrow> string" where
  "times n s = concat (replicate n s)"

definition u_hline :: string where
  "u_hline = [CHR 0xE2, CHR 0x94, CHR 0x80]"

definition u_dline :: string where
  "u_dline = [CHR 0xE2, CHR 0x95, CHR 0x90]"

definition u_dbar :: string where
  "u_dbar = [CHR 0xE2, CHR 0x95, CHR 0x91]"

definition u_tl :: string where
  "u_tl = [CHR 0xE2, CHR 0x95, CHR 0x94]"

definition u_tr :: string where
  "u_tr = [CHR 0xE2, CHR 0x95, CHR 0x97]"

definition u_bl :: string where
  "u_bl = [CHR 0xE2, CHR 0x95, CHR 0x9A]"

definition u_br :: string where
  "u_br = [CHR 0xE2, CHR 0x95, CHR 0x9D]"

definition u_micro :: string where
  "u_micro = [CHR 0xC2, CHR 0xB5]"

definition u_delta :: string where
  "u_delta = [CHR 0xCE, CHR 0x94]"

definition u_arrow :: string where
  "u_arrow = [CHR 0xE2, CHR 0x86, CHR 0x92]"

definition u_ge :: string where
  "u_ge = [CHR 0xE2, CHR 0x89, CHR 0xA5]"

definition RST :: string where
  "RST = CHR 0x1B # ''[0m''"

definition BOLD :: string where
  "BOLD = CHR 0x1B # ''[1m''"

definition RED :: string where
  "RED = CHR 0x1B # ''[31m''"

definition GRN :: string where
  "GRN = CHR 0x1B # ''[32m''"

definition YEL :: string where
  "YEL = CHR 0x1B # ''[33m''"

definition CYN :: string where
  "CYN = CHR 0x1B # ''[36m''"

definition GRY :: string where
  "GRY = CHR 0x1B # ''[90m''"

definition BG_RED :: string where
  "BG_RED = CHR 0x1B # ''[41m''"

definition BG_GRN :: string where
  "BG_GRN = CHR 0x1B # ''[42m''"

definition CLS :: string where
  "CLS = CHR 0x1B # ''[2J'' @ CHR 0x1B # ''[H''"

text \<open>The conversions \<open>%u\<close>, \<open>%d\<close>, \<open>%6u\<close>, \<open>%-5u\<close> and \<open>%02X\<close>.\<close>

fun dec :: "nat \<Rightarrow> string" where
  "dec n = (if n < 10 then [char_of (48 + n)] else dec (n div 10) @ [char_of (48 + n mod 10)])"

declare dec.simps [simp del]

definition pu :: "'a::len word \<Rightarrow> string" where
  "pu w = dec (unat w)"

definition pd :: "int \<Rightarrow> string" where
  "pd i = (if i < 0 then ''-'' @ dec (nat (- i)) else dec (nat i))"

definition pad_left :: "nat \<Rightarrow> char \<Rightarrow> string \<Rightarrow> string" where
  "pad_left n c s = replicate (n - length s) c @ s"

definition pad_right :: "nat \<Rightarrow> string \<Rightarrow> string" where
  "pad_right n s = s @ replicate (n - length s) CHR '' ''"

definition hex_digit :: "nat \<Rightarrow> char" where
  "hex_digit n = (if n < 10 then char_of (48 + n) else char_of (55 + n))"

fun hex :: "nat \<Rightarrow> string" where
  "hex n = (if n < 16 then [hex_digit n] else hex (n div 16) @ [hex_digit (n mod 16)])"

declare hex.simps [simp del]

section \<open>Names and colours\<close>

definition mon_state_name :: "u32 \<Rightarrow> string" where
  "mon_state_name s =
     (if s = 0 then ''GROUND'' else if s = 1 then ''CALIBRATION'' else if s = 2 then ''LISTEN''
      else if s = 3 then ''CANDIDATE'' else if s = 4 then ''FOLLOWER'' else if s = 5 then ''LEADER''
      else if s = 6 then ''HOLDOVER'' else ''UNKNOWN'')"

definition inspect_state_name :: "u32 \<Rightarrow> string" where
  "inspect_state_name s =
     (if s = 0 then ''GROUND'' else if s = 1 then ''CALIBRATION'' else if s = 2 then ''LISTEN''
      else if s = 3 then ''CANDIDATE'' else if s = 4 then ''FOLLOWER'' else if s = 5 then ''LEADER''
      else if s = 6 then ''HOLDOVER'' else ''UNKNOWN'')"

definition state_col :: "u32 \<Rightarrow> string" where
  "state_col s =
     (if s = 5 then GRN else if s = 4 then CYN else if s = 6 then RED
      else if s = 2 \<or> s = 3 then YEL else GRY)"

definition mon_lock_name :: "u32 \<Rightarrow> string" where
  "mon_lock_name m =
     (if m = word_of_int DRS_LOCK_AUTO then ''AUTO''
      else if m = word_of_int DRS_LOCK_AS_LEADER then ''LOCK_LEADER''
      else if m = word_of_int DRS_LOCK_AS_FOLLOWER then ''LOCK_FOLLOWER'' else ''?'')"

definition inspect_lock_name :: "u32 \<Rightarrow> string" where
  "inspect_lock_name m =
     (if m = word_of_int DRS_LOCK_AUTO then ''AUTO''
      else if m = word_of_int DRS_LOCK_AS_LEADER then ''LEADER''
      else if m = word_of_int DRS_LOCK_AS_FOLLOWER then ''FOLLOWER'' else ''?'')"

definition off_col :: "i64 \<Rightarrow> string" where
  "off_col ns =
     (let a = c_abs64 ns in if a < 50000 then GRN else if a < 100000 then YEL else RED)"

text \<open>\<open>bar(num / den, mx, w, col)\<close> for non-negative \<open>num\<close>.\<close>

definition bar :: "int \<Rightarrow> int \<Rightarrow> int \<Rightarrow> nat \<Rightarrow> string \<Rightarrow> string" where
  "bar num den mx w col =
     (let f = num * int w div (den * mx);
          f = (if f > int w then int w else f);
          f = (if f < 0 then 0 else f)
      in col @ ''['' @ map (\<lambda>i. if int i < f then CHR ''#'' else CHR '' '') [0..<w] @ '']'' @ RST)"

definition has_flag :: "u32 \<Rightarrow> u32 \<Rightarrow> bool" where
  "has_flag flags fl \<longleftrightarrow> flags AND fl \<noteq> 0"

section \<open>The screen of drs\_mon\<close>

definition print_holdover_banner :: "bool \<Rightarrow> u32 \<Rightarrow> u32 \<Rightarrow> string" where
  "print_holdover_banner in_holdover holdover_ms holdover_count =
     (if in_holdover then
       BG_RED @ BOLD @ ''  !!  HOLDOVER ACTIVE  '' @ em_dash @ ''  Leader lost  '' @ em_dash @
       ''  Freerun mode  !!  '' @ NL @ RST @ RED @ BOLD @ ''  Remaining: '' @ pu holdover_ms @
       '' ms   (max '' @ pd (c_div64 DRS_HOLDOVER_MAX_NS 1000000000) @
       '' s)   Total HOLDOVER events: '' @ pu holdover_count @ NL @ RST @ NL
      else
       BG_GRN @ BOLD @ ''  OK  SYNC ACTIVE  '' @ em_dash @
       ''  Not in holdover                      '' @ NL @ RST @
       (if holdover_count > 0 then
         GRY @ ''  (HOLDOVER entered '' @ pu holdover_count @ '' time'' @
         (if holdover_count = 1 then '''' else ''s'') @ '' this session)'' @ NL @ RST
        else []) @ NL)"

definition mon_header :: "int \<Rightarrow> int \<Rightarrow> u32 \<Rightarrow> string" where
  "mon_header interval_ms tick pid =
     CLS @ BOLD @ u_tl @ times 50 u_dline @ u_tr @ NL @ u_dbar @ ''          drs_mon  '' @
     em_dash @ ''  live telemetry              '' @ u_dbar @ NL @ u_bl @ times 50 u_dline @ u_br @
     NL @ RST @ GRY @ ''  refresh '' @ pd interval_ms @ '' ms  |  tick '' @ pd tick @
     ''  |  PID '' @ pu pid @ NL @ NL @ RST"

definition mon_state_lines :: "drs_telemetry \<Rightarrow> string" where
  "mon_state_lines s =
     BOLD @ ''  State      '' @ RST @ '': '' @ state_col (tel_state s) @
     mon_state_name (tel_state s) @ RST @
     (if has_flag (tel_flags s) DRS_FLAG_LEADER then GRN @ '' [LEADER]'' @ RST else []) @
     (if has_flag (tel_flags s) DRS_FLAG_HOLDOVER then RED @ '' [HOLDOVER]'' @ RST else []) @
     (if has_flag (tel_flags s) DRS_FLAG_CALIBRATED then CYN @ '' [CAL]'' @ RST else []) @
     (if has_flag (tel_flags s) DRS_FLAG_FAULT then RED @ '' [FAULT]'' @ RST else []) @ NL @
     BOLD @ ''  Leader ID  '' @ RST @ '': '' @ pad_right 5 (pu (tel_leader_node_id s)) @ ''  '' @
     BOLD @ ''Term'' @ RST @ '': '' @ pad_right 5 (pu (tel_election_term s)) @ ''  '' @ BOLD @
     ''Lock'' @ RST @ '': '' @ mon_lock_name (tel_lock_mode s) @ NL @ NL"

definition mon_offset_lines :: "(string \<Rightarrow> int \<Rightarrow> int \<Rightarrow> string) \<Rightarrow> bool \<Rightarrow> mon_view \<Rightarrow> drs_telemetry \<Rightarrow> string" where
  "mon_offset_lines fd first v s =
     BOLD @ ''  Offset     '' @ RST @ '': '' @ off_col (tel_offset_ns s) @
     fd ''%+9.3f'' (tel_offset_ns s) 1000 @ '' '' @ u_micro @ ''s'' @ RST @
     (if first then [] else
       ''  '' @ (if mv_d_off v > 0 then YEL else CYN) @ ''('' @ u_delta @ '' '' @
       fd ''%+.3f'' (mv_d_off v) 1000 @ '' '' @ u_micro @ ''s/tick)'' @ RST) @
     NL @ ''  '' @ bar \<bar>tel_offset_ns s\<bar> 1000 200 32 (off_col (tel_offset_ns s)) @
     ''  '' @ fd ''%.1f'' \<bar>tel_offset_ns s\<bar> 1000 @ '' / 200 '' @ u_micro @ ''s'' @ NL @ NL"

definition mon_rate_lines :: "(string \<Rightarrow> int \<Rightarrow> int \<Rightarrow> string) \<Rightarrow> bool \<Rightarrow> mon_view \<Rightarrow> drs_telemetry \<Rightarrow> string" where
  "mon_rate_lines fd first v s =
     (let rate = s64 (tel_rate_q32_32 s - sint DRS_RATE_NOMINAL_Q32);
          col = (if \<bar>rate\<bar> < 100 * DRS_RATE_PPM_Q32 then GRN else YEL)
      in BOLD @ ''  Rate       '' @ RST @ '': '' @ col @ fd ''%+9.4f'' rate DRS_RATE_PPM_Q32 @
         '' ppm'' @ RST @
         (if first \<or> mv_d_rate v = 0 then [] else
           GRY @ ''  ('' @ u_delta @ '' '' @ fd ''%+.4f'' (mv_d_rate v) DRS_RATE_PPM_Q32 @
           '' ppm/tick)'' @ RST) @
         NL @ ''  '' @ bar \<bar>rate\<bar> DRS_RATE_PPM_Q32 1000 32 col @ ''  '' @
         fd ''%.2f'' \<bar>rate\<bar> DRS_RATE_PPM_Q32 @ '' / 1000 ppm'' @ NL @ NL)"

definition mon_network_lines :: "(string \<Rightarrow> int \<Rightarrow> int \<Rightarrow> string) \<Rightarrow> drs_telemetry \<Rightarrow> string" where
  "mon_network_lines fd s =
     BOLD @ ''  RTT (last) '' @ RST @ '': '' @ fd ''%7.3f'' (tel_last_rtt_ns s) 1000 @ '' '' @
     u_micro @ ''s'' @ NL @ BOLD @ ''  Lat corr   '' @ RST @ '': '' @
     fd ''%7.3f'' (tel_latency_corr_ns s) 1000 @ '' '' @ u_micro @ ''s'' @ NL @ NL"

definition mon_converged_lines :: "drs_telemetry \<Rightarrow> string" where
  "mon_converged_lines s =
     (if tel_convergence_unix_ns s \<noteq> 0 then
       BOLD @ ''  Converged  '' @ RST @ '': '' @ GRN @ ''YES'' @ RST @ GRY @ ''  (GPIO 23 '' @
       u_arrow @ '' LOW)'' @ RST @ NL
      else
       BOLD @ ''  Converged  '' @ RST @ '': '' @ YEL @ ''NO '' @ RST @ GRY @ ''  (|offset| '' @
       u_ge @ '' 100 '' @ u_micro @ ''s or < 10 s stable)'' @ RST @ NL) @ NL"

definition mon_accept_text :: "(string \<Rightarrow> int \<Rightarrow> int \<Rightarrow> string) \<Rightarrow> u32 \<Rightarrow> u32 \<Rightarrow> string" where
  "mon_accept_text fd d_acc d_rej =
     (let n = d_acc + d_rej;
          (num, den) = (if n > 0 then (100 * uint d_acc, uint n) else (100, 1));
          ac = (if num \<ge> 90 * den then GRN else if num \<ge> 70 * den then YEL else RED)
      in ''  '' @ ac @ ''accept rate '' @ fd ''%.0f'' num den @ '' %'' @ RST)"

definition mon_error_line :: "drs_telemetry \<Rightarrow> string" where
  "mon_error_line s =
     (if tel_error_count s > 0 then
       BOLD @ ''  Errors     '' @ RST @ '': '' @ RED @ pu (tel_error_count s) @
       '' total, last code = '' @ pu (tel_error_code_last s) @ RST @ NL
      else BOLD @ ''  Errors     '' @ RST @ '': '' @ GRN @ ''0'' @ RST @ NL)"

definition mon_counter_lines :: "(string \<Rightarrow> int \<Rightarrow> int \<Rightarrow> string) \<Rightarrow> bool \<Rightarrow> mon_view \<Rightarrow> drs_telemetry \<Rightarrow> string" where
  "mon_counter_lines fd first v s =
     BOLD @ ''  '' @ times 2 u_hline @ '' Counters '' @ times 35 u_hline @ NL @ RST @ BOLD @
     ''  Sync OK    '' @ RST @ '': '' @ pad_left 6 CHR '' '' (pu (tel_sync_accepted s)) @
     '' total  '' @ GRY @ ''+'' @ pu (mv_d_acc v) @ '' this tick'' @ RST @ NL @ BOLD @
     ''  Sync REJ   '' @ RST @ '': '' @ pad_left 6 CHR '' '' (pu (tel_sync_rejected s)) @
     '' total  '' @ GRY @ ''+'' @ pu (mv_d_rej v) @ '' this tick'' @ RST @
     (if first then [] else mon_accept_text fd (mv_d_acc v) (mv_d_rej v)) @ NL @
     BOLD @ ''  Steps      '' @ RST @ '': '' @ pad_left 6 CHR '' '' (pu (tel_step_count s)) @
     '' total'' @
     (if first \<or> mv_d_steps v = 0 then [] else ''  '' @ YEL @ ''+'' @ pu (mv_d_steps v) @ '' this tick'' @ RST) @ NL @
     BOLD @ ''  HOLDOVER # '' @ RST @ '': '' @ pad_left 6 CHR '' '' (pu (tel_holdover_count s)) @
     '' '' @
     (if tel_holdover_count s = 0 then GRN @ ''(none)'' @ RST
      else if tel_holdover_count s < 3 then YEL @ ''(few)'' @ RST else RED @ ''(many)'' @ RST) @ NL @
     BOLD @ ''  Pulses     '' @ RST @ '': '' @ pad_left 6 CHR '' '' (pu (tel_pulse_count s)) @
     '' total  '' @ GRY @ ''+'' @ pu (mv_d_pulse v) @ '' this tick'' @ RST @ NL @
     mon_error_line s"

text \<open>One refresh: the screen and the values kept for the next one.\<close>

definition mon_screen :: "(string \<Rightarrow> int \<Rightarrow> int \<Rightarrow> string) \<Rightarrow> int \<Rightarrow> drs_telemetry \<Rightarrow> mon \<Rightarrow> string \<times> mon" where
  "mon_screen fd interval_ms s m =
     (let (v, m') = mon_round s m
      in (mon_header interval_ms (mon_tick m) (tel_pid s) @
          print_holdover_banner (mv_in_holdover v) (tel_holdover_remaining_ms s) (tel_holdover_count s) @
          mon_state_lines s @ mon_offset_lines fd (mon_first m) v s @ mon_rate_lines fd (mon_first m) v s @
          mon_network_lines fd s @ mon_converged_lines s @ mon_counter_lines fd (mon_first m) v s @
          NL @ GRY @ ''  Ctrl+C to exit'' @ NL @ RST, m'))"

section \<open>The report of drs\_sync\_inspect\<close>

definition inspect_report :: "(string \<Rightarrow> int \<Rightarrow> int \<Rightarrow> string) \<Rightarrow> drs_telemetry \<Rightarrow> string" where
  "inspect_report fd s =
     ''=== drs_syncd telemetry ==='' @ NL @ ''  PID          : '' @ pu (tel_pid s) @ NL @
     ''  State        : '' @ inspect_state_name (tel_state s) @ NL @
     ''  Flags        : 0x'' @ pad_left 2 CHR ''0'' (hex (unat (tel_flags s))) @
     (if has_flag (tel_flags s) DRS_FLAG_LEADER then '' LEADER'' else []) @
     (if has_flag (tel_flags s) DRS_FLAG_HOLDOVER then '' HOLDOVER'' else []) @
     (if has_flag (tel_flags s) DRS_FLAG_CALIBRATED then '' CALIBRATED'' else []) @
     (if has_flag (tel_flags s) DRS_FLAG_FAULT then '' FAULT'' else []) @ NL @
     ''  Leader NodeID: '' @ pu (tel_leader_node_id s) @ NL @ ''  Election Term: '' @ pu (tel_election_term s) @ NL @
     ''  Offset       : '' @ fd ''%.3f'' (tel_offset_ns s) 1000 @ '' '' @ u_micro @ ''s'' @ NL @
     ''  Rate         : '' @ fd ''%.3f'' (s64 (tel_rate_q32_32 s - sint DRS_RATE_NOMINAL_Q32)) DRS_RATE_PPM_Q32 @ '' ppm'' @ NL @
     ''  RTT (last)   : '' @ fd ''%.3f'' (tel_last_rtt_ns s) 1000 @ '' '' @ u_micro @ ''s'' @ NL @
     ''  Lat corr     : '' @ fd ''%.3f'' (tel_latency_corr_ns s) 1000 @ '' '' @ u_micro @ ''s'' @ NL @
     ''  Pulse count  : '' @ pu (tel_pulse_count s) @ NL @
     ''  Lock mode    : '' @ inspect_lock_name (tel_lock_mode s) @ NL @
     (if tel_state s = 6 then ''  Holdover rem : '' @ pu (tel_holdover_remaining_ms s) @ '' ms'' @ NL else []) @
     (if tel_convergence_unix_ns s \<noteq> 0 then ''  Converged at : '' @ pu (tel_convergence_unix_ns s) @ '' ns'' @ NL
      else ''  Converged    : NO'' @ NL)"

section \<open>The two programs\<close>

text \<open>
  Exit status, standard output and standard error. \<open>fdes\<close> and \<open>map_ok\<close> are the outcomes of \<open>open\<close> and
  \<open>mmap\<close>, \<open>err\<close> is the text of the error number; \<open>ss\<close> are the snapshots \<open>drs_mon\<close> takes until a
  signal ends it.
\<close>

fun mon_screens :: "(string \<Rightarrow> int \<Rightarrow> int \<Rightarrow> string) \<Rightarrow> int \<Rightarrow> drs_telemetry list \<Rightarrow> mon \<Rightarrow> string" where
  "mon_screens fd interval_ms [] m = []"
| "mon_screens fd interval_ms (s # ss) m =
     (case mon_screen fd interval_ms s m of (txt, m') \<Rightarrow> txt @ mon_screens fd interval_ms ss m')"

definition mon_main ::
  "(string \<Rightarrow> int \<Rightarrow> int \<Rightarrow> string) \<Rightarrow> string list \<Rightarrow> int \<Rightarrow> bool \<Rightarrow> string \<Rightarrow> drs_telemetry list \<Rightarrow>
   int \<times> string \<times> string" where
  "mon_main fd argv fdes map_ok err ss =
     (if fdes < 0
      then (1, [], RED @ ''drs_mon: cannot open '' @ DRS_SHM_STATE_PATH @ NL @ ''Is drs_syncd running?'' @ NL @ RST)
      else if \<not> map_ok then (1, [], ''mmap: '' @ err @ NL)
      else (0, mon_screens fd (mon_interval argv) ss mon_init @ NL @ RST @ ''drs_mon: bye.'' @ NL, []))"

definition inspect_main ::
  "(string \<Rightarrow> int \<Rightarrow> int \<Rightarrow> string) \<Rightarrow> int \<Rightarrow> bool \<Rightarrow> string \<Rightarrow> drs_telemetry \<Rightarrow> int \<times> string \<times> string" where
  "inspect_main fd fdes map_ok err s =
     (if fdes < 0 then (1, [], ''Cannot open '' @ DRS_SHM_STATE_PATH @ '' (is drs_syncd running?)'' @ NL)
      else if \<not> map_ok then (1, [], ''mmap: '' @ err @ NL)
      else (0, inspect_report fd s, []))"

text \<open>The screens do not depend on how the rounds are grouped: a round needs only the state kept by the last.\<close>

lemma mon_screens_append:
  "mon_screens fd i (ss @ ss') m = mon_screens fd i ss m @ mon_screens fd i ss' (fold (\<lambda>s m. snd (mon_round s m)) ss m)"
  by (induction ss arbitrary: m) (simp_all add: mon_screen_def case_prod_beta Let_def)

section \<open>The tools and the daemon agree\<close>

lemma mon_state_name_agrees: "mon_state_name (of_nat (state_code s)) = state_name s"
  by (cases s) (simp_all add: mon_state_name_def)

lemma inspect_state_name_agrees: "inspect_state_name (of_nat (state_code s)) = state_name s"
  by (cases s) (simp_all add: inspect_state_name_def)

lemma tel_after_tick:
  assumes "tg_tel (d_tel (sm_tick_state os t d)) = Some tel"
  shows "\<exists>tel'. tg_tel (d_tel (sm_tick os t d)) = Some tel' \<and>
    tel_state tel' = of_nat (state_code (sm_state (d_sm (sm_tick os t d)))) \<and>
    tel_leader_node_id tel' = el_leader_node_id (sm_el (d_sm (sm_tick os t d))) \<and>
    tel_election_term tel' = el_own_term (sm_el (d_sm (sm_tick os t d))) \<and>
    tel_lock_mode tel' = word_of_int (el_lock_mode (sm_el (d_sm (sm_tick os t d))))"
  using assms
  by (simp add: sm_tick_def update_telemetry_def telemetry_get_def Let_def case_prod_beta tg_tel_write
      telemetry_fields_def)

end
