(* ===== verification/Startup_Run.thy ===== *)
theory Startup_Run
  imports Startup_Guard
begin

text \<open>
  The way from start-up to LISTEN, and a sample node that takes it: boot on a host without shared
  memory, two iterations of the event loop with one tick each, the second with a successful
  calibration.
\<close>

section \<open>Ticks during start-up\<close>

lemma update_telemetry_unmapped: "tg_tel (d_tel d) = None \<Longrightarrow> update_telemetry os t d = d"
  by (simp add: update_telemetry_def telemetry_get_def)

lemma ground_tick:
  assumes "sm_state (d_sm d) = DRS_STATE_GROUND" "DRS_GROUND_DURATION_NS \<le> s64 (t - sm_state_entry_ns (d_sm d))"
    and "tg_tel (d_tel d) = None"
  shows "sm_tick os t d = enter_state DRS_STATE_CALIBRATION t d"
  using assms by (simp add: sm_tick_def sm_tick_state_def update_telemetry_unmapped)

lemma d_tel_keeps:
  "d_tel (arm_timeout os d) = d_tel d" "d_tel (enter_state s t d) = d_tel d" "d_tel (upd_sm f d) = d_tel d"
  by (simp_all add: arm_timeout_eq enter_state_def upd_sm_def Let_def)

lemma tick_calibration_ok:
  assumes "calib_ok (os_calib os (d_calib_n d))" "d' = tick_calibration os t d"
  shows "sm_state (d_sm d') = DRS_STATE_LISTEN" "pe_timer_at (d_pe d') \<noteq> None"
    and "d_calib_n d' = Suc (d_calib_n d)" "d_tel d' = d_tel d"
  using assms
  by (simp_all add: tick_calibration_def Let_def case_prod_beta enter_listen_def calibrate_eq calib_ok_any
      pulse_engine_arm_def d_tel_keeps)

lemma calibration_tick:
  assumes "sm_state (d_sm d) = DRS_STATE_CALIBRATION" "calib_ok (os_calib os (d_calib_n d))"
    and "tg_tel (d_tel d) = None" "d' = sm_tick os t d"
  shows "sm_state (d_sm d') = DRS_STATE_LISTEN \<and> pe_timer_at (d_pe d') \<noteq> None \<and> d_calib_n d' = Suc (d_calib_n d)"
  using tick_calibration_ok [OF assms(2) refl, of t] assms(1,3,4)
  by (simp add: sm_tick_def sm_tick_state_def update_telemetry_unmapped)

section \<open>An iteration with one tick\<close>

definition tick_event :: "node \<Rightarrow> drs_cmd_channel \<Rightarrow> event" where
  "tick_event n ch = \<lparr>ev_fd = n_tick_fd n,
     ev_tick = \<lparr>te_carrier = None, te_ifaddrs = None, te_join_ok = False, te_channel = ch\<rparr>,
     ev_recv = Recv_would_block\<rparr>"

lemma tick_iteration:
  assumes "n_running n" "\<not> cg_mapped (d_cmd (n_d n))"
  shows "n_d (main_iteration os (Wait_events [tick_event n ch]) n) =
    sm_tick os (mono_raw_ns (os_raw os (d_raw_n (n_d n)))) ((n_d n)\<lparr>d_raw_n := d_raw_n (n_d n) + 1\<rparr>)"
proof -
  let ?t = "mono_raw_ns (os_raw os (d_raw_n (n_d n)))" and ?d = "(n_d n)\<lparr>d_raw_n := d_raw_n (n_d n) + 1\<rparr>"
  have "d_cmd (sm_tick os ?t ?d) = d_cmd (n_d n)"
    using sm_tick_guard [of ?d os ?t] by (auto simp: guard_frame_def)
  then have "cmd_poll ch (d_cmd (sm_tick os ?t ?d)) = (DRS_CMD_NONE, d_cmd (sm_tick os ?t ?d))"
    using assms(2) by (simp add: cmd_poll_def cmd_poll_seq_def)
  then show ?thesis
    using assms(1)
    by (simp add: main_iteration_def read_raw_def handle_event_def tick_event_def on_tick_daemon Let_def)
qed

lemma tick_iteration_fixed:
  "n_running n \<Longrightarrow> n_running (main_iteration os (Wait_events [tick_event n ch]) n) \<and>
   n_tick_fd (main_iteration os (Wait_events [tick_event n ch]) n) = n_tick_fd n \<and>
   n_epoll (main_iteration os (Wait_events [tick_event n ch]) n) = n_epoll n"
  by (simp add: main_iteration_def read_raw_def handle_event_def tick_event_def on_tick_def Let_def case_prod_beta)

section \<open>A sample run\<close>

definition run_os :: os_env where
  "run_os = sample_os\<lparr>os_raw := \<lambda>i. \<lparr>tv_sec = 10 * int i, tv_nsec = 0\<rparr>,
     os_calib := \<lambda>_. \<lparr>ce_srv_fd = 6, ce_bind_ok = True, ce_cli_fd = 7, ce_rounds = \<lambda>_.
       \<lparr>cr_t_send = \<lparr>tv_sec = 5, tv_nsec = 0\<rparr>, cr_sent = True, cr_recv = Calib_received,
        cr_t_recv = \<lparr>tv_sec = 5, tv_nsec = 30000\<rparr>\<rparr>\<rparr>\<rparr>"

definition run_channel :: drs_cmd_channel where
  "run_channel = \<lparr>cc_seq = 7, cc_code = 0, cc_unix_ns = 0, cc_payload = []\<rparr>"

definition run_boot :: boot_env where
  "run_boot =
     \<lparr>be_pid = 1, be_tel = (- 1, False, False), be_err = (- 1, False, False), be_cmd = (- 1, False, False),
      be_channel = run_channel, be_gpio_fd = - 1, be_gpio_page = None,
      be_net = \<lparr>ne_ifaddrs = Some [\<lparr>ifa_name = ''eth0'', ifa_inet = Some (ipv4 10 0 0 42)\<rparr>],
                ne_mcast_fd = 6, ne_mcast_bind_ok = True, ne_ucast_fd = 7, ne_ucast_bind_ok = True\<rparr>,
      be_timer_fd = 8, be_low_fd = 9, be_urandom = None, be_pulse_thread_ok = True, be_udp_sock = 10,
      be_udp_thread_ok = True, be_affinity_ok = True, be_sched_ok = True, be_mlock_ok = True, be_epfd = 11,
      be_tick_fd = 12, be_hb_fd = 13, be_epoll_ok = \<lambda>_. True\<rparr>"

lemma run_calib_ok: "calib_ok (os_calib run_os k)"
proof -
  let ?r = "\<lparr>cr_t_send = \<lparr>tv_sec = 5, tv_nsec = 0\<rparr>, cr_sent = True, cr_recv = Calib_received,
    cr_t_recv = \<lparr>tv_sec = 5, tv_nsec = 30000\<rparr>\<rparr>"
  have "calib_collect (\<lambda>_. ?r) 0 50 [] = replicate 50 30000"
    using calib_collect_steady [of ?r "[]" 50 0] by (simp add: timespec_ns_def s64_def DRS_CALIB_SAMPLES_def)
  moreover have "calib_valid 30000 (replicate 50 30000) = (30000, 50)"
    using calib_valid_correct [of "replicate 50 30000"] by (simp add: in_i64_def INT64_MAX_def)
  ultimately show ?thesis
    by (simp add: calib_ok_def run_os_def calibrate_loopback_def Let_def DRS_CALIB_SAMPLES_def
        calib_min_Min MIN_VALID_SAMPLES_def)
qed

lemmas boot_unfold = booted_def boot_def run_boot_def Let_def net_io_init_def open_mcast_socket_def
  open_ucast_socket_def pulse_engine_init_def pulse_engine_start_def boot_epoll_def make_timerfd_periodic_def
  epoll_add_def boot_shm_def telemetry_init_def errors_init_def cmd_init_def gpio_init_def static_daemon_def
  sm_init_def rt_apply_def case_prod_beta push_error_def read_raw_def enter_state_def

lemma run_booted:
  "\<exists>n. booted run_os run_boot [''drs_syncd''] n \<and> n_running n \<and> n_tick_fd n = 12 \<and> n_epoll n = [6, 7, 12, 13] \<and>
     \<not> cg_mapped (d_cmd (n_d n)) \<and> tg_tel (d_tel (n_d n)) = None \<and> d_calib_n (n_d n) = 0 \<and>
     d_raw_n (n_d n) = 3 \<and> sm_state (d_sm (n_d n)) = DRS_STATE_GROUND \<and>
     sm_state_entry_ns (d_sm (n_d n)) = mono_raw_ns (os_raw run_os 2)"
  by (simp add: boot_unfold numeral_2_eq_2)

lemma run_step:
  assumes "n_running n" "n_tick_fd n \<in> set (n_epoll n)"
  shows "node_step run_os (Act_iteration (Wait_events [tick_event n run_channel])) n
    (main_iteration run_os (Wait_events [tick_event n run_channel]) n)"
  using assms by (intro node_step.iteration) (simp_all add: epoll_reports_def tick_event_def MAX_EVENTS_def)

lemma run_quiet:
  "quiet_action (cc_seq (be_channel run_boot)) (Act_iteration (Wait_events [tick_event n run_channel]))"
  by (simp add: quiet_action_def no_command_def tick_event_def run_boot_def)

lemma run_to_listen:
  "\<exists>n. reach (booted run_os run_boot [''drs_syncd'']) (node_step run_os) (quiet_action (cc_seq (be_channel run_boot))) n \<and>
     sm_state (d_sm (n_d n)) = DRS_STATE_LISTEN \<and> pe_timer_at (d_pe (n_d n)) \<noteq> None \<and> d_calib_n (n_d n) = 1"
proof -
  obtain n0 where n0: "booted run_os run_boot [''drs_syncd''] n0" "n_running n0" "n_tick_fd n0 = 12" "n_epoll n0 = [6, 7, 12, 13]"
    "\<not> cg_mapped (d_cmd (n_d n0))" "tg_tel (d_tel (n_d n0)) = None" "d_calib_n (n_d n0) = 0"
    "d_raw_n (n_d n0) = 3" "sm_state (d_sm (n_d n0)) = DRS_STATE_GROUND"
    "sm_state_entry_ns (d_sm (n_d n0)) = mono_raw_ns (os_raw run_os 2)"
    using run_booted by blast
  define n1 where "n1 = main_iteration run_os (Wait_events [tick_event n0 run_channel]) n0"
  define n2 where "n2 = main_iteration run_os (Wait_events [tick_event n1 run_channel]) n1"
  let ?t = "mono_raw_ns (os_raw run_os 3)" and ?d = "(n_d n0)\<lparr>d_raw_n := 4\<rparr>"
  have "DRS_GROUND_DURATION_NS \<le> s64 (?t - mono_raw_ns (os_raw run_os 2))"
    by (simp add: run_os_def mono_raw_ns_def timespec_ns_def s64_def DRS_GROUND_DURATION_NS_def)
  then have "sm_tick run_os ?t ?d = enter_state DRS_STATE_CALIBRATION ?t ?d"
    using n0 by (intro ground_tick) simp_all
  then have n1: "n_d n1 = enter_state DRS_STATE_CALIBRATION ?t ?d"
    using tick_iteration [OF n0(2,5), of run_os run_channel] n0(8) by (simp add: n1_def)
  have k1: "n_running n1" "n_tick_fd n1 = 12" "n_epoll n1 = [6, 7, 12, 13]"
    using tick_iteration_fixed [OF n0(2), of run_os run_channel] n0(3,4) by (simp_all add: n1_def)
  have c1: "\<not> cg_mapped (d_cmd (n_d n1))" using n0(5) by (simp add: n1)
  let ?e = "(n_d n1)\<lparr>d_raw_n := d_raw_n (n_d n1) + 1\<rparr>"
  have "sm_state (d_sm ?e) = DRS_STATE_CALIBRATION" "tg_tel (d_tel ?e) = None" "d_calib_n ?e = 0"
    using n0(6,7) by (simp_all add: n1 d_tel_keeps)
  then have "sm_state (d_sm (n_d n2)) = DRS_STATE_LISTEN \<and> pe_timer_at (d_pe (n_d n2)) \<noteq> None \<and> d_calib_n (n_d n2) = 1"
    using calibration_tick [of ?e run_os "n_d n2"] tick_iteration [OF k1(1) c1, of run_os run_channel]
    by (simp add: n2_def run_calib_ok)
  moreover have "node_step run_os (Act_iteration (Wait_events [tick_event n0 run_channel])) n0 n1"
    "node_step run_os (Act_iteration (Wait_events [tick_event n1 run_channel])) n1 n2"
    using run_step [of n0] run_step [of n1] n0(2-4) k1 by (simp_all add: n1_def n2_def)
  ultimately show ?thesis
    using n0(1) run_quiet by (meson reach.init reach.step)
qed

lemma run_reaches_listen:
  "\<exists>n. reachable run_os run_boot [''drs_syncd''] n \<and> sm_state (d_sm (n_d n)) = DRS_STATE_LISTEN \<and>
     pe_timer_at (d_pe (n_d n)) \<noteq> None \<and> d_calib_n (n_d n) = 1"
proof -
  obtain n where n: "reach (booted run_os run_boot [''drs_syncd'']) (node_step run_os)
      (quiet_action (cc_seq (be_channel run_boot))) n"
    "sm_state (d_sm (n_d n)) = DRS_STATE_LISTEN" "pe_timer_at (d_pe (n_d n)) \<noteq> None" "d_calib_n (n_d n) = 1"
    using run_to_listen by blast
  from n(1) have "reachable run_os run_boot [''drs_syncd''] n" by (rule reach_mono) simp
  with n(2-4) show ?thesis by blast
qed

lemma reachable_signal:
  assumes "booted os be argv n"
  shows "reachable os be argv (handle_sig n)"
proof -
  from assms have "reachable os be argv n" by (rule reach.init)
  moreover have "node_step os Act_signal n (handle_sig n)" by (rule node_step.signal)
  ultimately show ?thesis by (rule reach.step) simp
qed

text \<open>The sample host with the telemetry segment available.\<close>

lemma run_booted_telemetry:
  "\<exists>n tel. booted run_os (run_boot\<lparr>be_tel := (3, True, True)\<rparr>) [''drs_syncd''] n \<and>
     sm_state (d_sm (n_d n)) = DRS_STATE_GROUND \<and> tg_tel (d_tel (n_d n)) = Some tel"
  by (simp add: boot_unfold)

section \<open>The outcome of start-up\<close>

definition net_ok :: "net_env \<Rightarrow> bool" where
  "net_ok env \<longleftrightarrow> 0 \<le> ne_mcast_fd env \<and> ne_mcast_bind_ok env \<and> 0 \<le> ne_ucast_fd env \<and> ne_ucast_bind_ok env"

lemma net_io_init_ok: "fst (net_io_init env ifname) = 0 \<longleftrightarrow> net_ok env"
  by (auto simp: net_ok_def net_io_init_def open_mcast_socket_def open_ucast_socket_def Let_def)

lemma pulse_engine_init_ok: "fst (pulse_engine_init a b) = 0 \<longleftrightarrow> 0 \<le> a \<and> 0 \<le> b"
  by (auto simp: pulse_engine_init_def Let_def)

lemma pulse_engine_start_ok: "fst (pulse_engine_start ok pe) = 0 \<longleftrightarrow> ok"
  by (simp add: pulse_engine_start_def Let_def)

definition resources_ok :: "boot_env \<Rightarrow> bool" where
  "resources_ok be \<longleftrightarrow> net_ok (be_net be) \<and> 0 \<le> be_timer_fd be \<and> 0 \<le> be_low_fd be \<and> be_pulse_thread_ok be \<and>
     0 \<le> be_epfd be"

lemma gpio_close_unmapped: "gg_gpio (gpio_close g) = None"
  by (simp add: gpio_close_def Let_def reg_store_def split: option.split)

lemma run_boots: "\<exists>n. booted run_os (run_boot\<lparr>be_tick_fd := fd\<rparr>) argv n"
  by (simp add: booted_def boot_def Let_def case_prod_beta net_io_init_ok pulse_engine_init_ok
      pulse_engine_start_ok)
    (simp add: run_boot_def net_ok_def)

end
