(* ===== verification/Byte_Layout.thy ===== *)
theory Byte_Layout
  imports Proto_V2
begin

text \<open>
  How data is laid out in the memory that processes share: little-endian integers, the rules by
  which a C compiler places the members of a structure, and what Python's \<open>struct\<close> module makes of a
  format string. The host is little-endian, as the telemetry requirements of the repository state.
\<close>

section \<open>Little-endian integers\<close>

definition le_enc :: "nat \<Rightarrow> 'a::len word \<Rightarrow> u8 list" where
  "le_enc n w = rev (be_enc n w)"

definition le_dec :: "u8 list \<Rightarrow> 'a::len word" where
  "le_dec bs = be_dec (rev bs)"

definition le_i64 :: "i64 \<Rightarrow> u8 list" where
  "le_i64 x = le_enc 8 (word_of_int x :: u64)"

definition le_dec_i64 :: "u8 list \<Rightarrow> i64" where
  "le_dec_i64 bs = sint (le_dec bs :: u64)"

definition in_i32 :: "int \<Rightarrow> bool" where
  "in_i32 x \<longleftrightarrow> - (2 ^ 31) \<le> x \<and> x < 2 ^ 31"

definition le_i32 :: "int \<Rightarrow> u8 list" where
  "le_i32 x = le_enc 4 (word_of_int x :: u32)"

definition le_dec_i32 :: "u8 list \<Rightarrow> int" where
  "le_dec_i32 bs = sint (le_dec bs :: u32)"

lemma length_le_enc [simp]: "length (le_enc n w) = n"
  by (simp add: le_enc_def)

interpretation le32: fixed_width_field "le_enc 4" "le_dec :: _ \<Rightarrow> u32" 4 "\<lambda>_. True"
proof unfold_locales
  show "le_enc 4 (le_dec bs :: u32) = bs" if "length bs = 4" for bs
    using that be32.enc_dec [of "rev bs"] by (simp add: le_enc_def le_dec_def)
qed (simp_all add: le_enc_def le_dec_def be_dec_be_enc)

interpretation le64: fixed_width_field "le_enc 8" "le_dec :: _ \<Rightarrow> u64" 8 "\<lambda>_. True"
proof unfold_locales
  show "le_enc 8 (le_dec bs :: u64) = bs" if "length bs = 8" for bs
    using that be_enc_be_acc [where ?'a = 64, of "rev bs" 0] by (simp add: be_dec_def le_enc_def le_dec_def)
qed (simp_all add: le_enc_def le_dec_def be_dec_be_enc)

interpretation le64s: fixed_width_field le_i64 le_dec_i64 8 in_i64
proof unfold_locales
  show "le_i64 (le_dec_i64 bs) = bs" if "length bs = 8" for bs
    using that le64.enc_dec [of bs] by (simp add: le_i64_def le_dec_i64_def)
qed (simp_all add: le_i64_def le_dec_i64_def le64.dec_enc sint_word_of_int_s64 s64_id)

lemma sint_word_of_int_i32: "in_i32 x \<Longrightarrow> sint (word_of_int x :: u32) = x"
  by (simp add: in_i32_def signed_of_int signed_take_bit_int_eq_self)

interpretation le32s: fixed_width_field le_i32 le_dec_i32 4 in_i32
proof unfold_locales
  show "le_i32 (le_dec_i32 bs) = bs" if "length bs = 4" for bs
    using that le32.enc_dec [of bs] by (simp add: le_i32_def le_dec_i32_def)
  show "in_i32 (le_dec_i32 bs)" for bs
    using sint_range_size [of "le_dec bs :: u32"] by (simp add: in_i32_def le_dec_i32_def word_size)
qed (simp_all add: le_i32_def le_dec_i32_def le32.dec_enc sint_word_of_int_i32)

lemma length_le_ints [simp]: "length (le_i64 x) = 8" "length (le_i32 y) = 4"
  by (simp_all add: le_i64_def le_i32_def)

section \<open>C structures\<close>

text \<open>
  The members that occur. A nested structure or an array is an aggregate with its size and
  alignment. \<open>c_layout\<close> gives every member its offset and returns the end of the last one.
\<close>

datatype c_type = C_u32 | C_i32 | C_u64 | C_i64 | C_aggregate nat nat

fun c_size :: "c_type \<Rightarrow> nat" where
  "c_size C_u32 = 4"
| "c_size C_i32 = 4"
| "c_size C_u64 = 8"
| "c_size C_i64 = 8"
| "c_size (C_aggregate n a) = n"

fun c_align :: "c_type \<Rightarrow> nat" where
  "c_align (C_aggregate n a) = a"
| "c_align t = c_size t"

definition round_up :: "nat \<Rightarrow> nat \<Rightarrow> nat" where
  "round_up n a = (n + a - 1) div a * a"

fun c_layout :: "bool \<Rightarrow> c_type list \<Rightarrow> nat \<Rightarrow> nat list \<times> nat" where
  "c_layout packed [] off = ([], off)"
| "c_layout packed (t # ts) off =
     (let o1 = (if packed then off else round_up off (c_align t));
          (os, e) = c_layout packed ts (o1 + c_size t)
      in (o1 # os, e))"

definition c_offsets :: "bool \<Rightarrow> c_type list \<Rightarrow> nat list" where
  "c_offsets packed ts = fst (c_layout packed ts 0)"

definition c_struct :: "bool \<Rightarrow> c_type list \<Rightarrow> c_type" where
  "c_struct packed ts =
     (let a = (if packed then 1 else fold (max \<circ> c_align) ts 1)
      in C_aggregate (round_up (snd (c_layout packed ts 0)) a) a)"

definition c_array :: "nat \<Rightarrow> c_type \<Rightarrow> c_type" where
  "c_array n t = C_aggregate (n * c_size t) (c_align t)"

text \<open>The bytes of a structure: its members at their offsets, zero bytes in between.\<close>

datatype c_value = C_int int | C_raw "u8 list"

fun c_bytes :: "c_type \<Rightarrow> c_value \<Rightarrow> u8 list" where
  "c_bytes C_u32 (C_int i) = le_enc 4 (word_of_int i :: u32)"
| "c_bytes C_i32 (C_int i) = le_i32 i"
| "c_bytes C_u64 (C_int i) = le_enc 8 (word_of_int i :: u64)"
| "c_bytes C_i64 (C_int i) = le_i64 i"
| "c_bytes (C_aggregate n a) (C_raw bs) = bs"
| "c_bytes t v = replicate (c_size t) 0"

fun c_image :: "bool \<Rightarrow> (c_type \<times> c_value) list \<Rightarrow> u8 list \<Rightarrow> u8 list" where
  "c_image packed [] img = img"
| "c_image packed ((t, v) # fs) img =
     (let off = (if packed then length img else round_up (length img) (c_align t))
      in c_image packed fs (img @ replicate (off - length img) 0 @ c_bytes t v))"

text \<open>Without padding the image is the concatenation of the members.\<close>

definition gapless :: "bool \<Rightarrow> c_type list \<Rightarrow> nat \<Rightarrow> bool" where
  "gapless packed ts off \<longleftrightarrow> snd (c_layout packed ts off) = off + sum_list (map c_size ts)"

definition well_sized :: "c_type \<times> c_value \<Rightarrow> bool" where
  "well_sized f = (case f of (t, v) \<Rightarrow> length (c_bytes t v) = c_size t)"

lemma round_up_ge: "0 < a \<Longrightarrow> n \<le> round_up n a"
  using dividend_less_times_div [of a "n + a - 1"] by (simp add: round_up_def mult.commute)

lemma c_layout_end_ge:
  "list_all (\<lambda>t. 0 < c_align t) ts \<Longrightarrow> off + sum_list (map c_size ts) \<le> snd (c_layout packed ts off)"
proof (induction ts arbitrary: off)
  case (Cons t ts)
  let ?o = "if packed then off else round_up off (c_align t)"
  have "off \<le> ?o" using Cons.prems round_up_ge by simp
  moreover have "?o + c_size t + sum_list (map c_size ts) \<le> snd (c_layout packed ts (?o + c_size t))"
    using Cons by simp
  ultimately show ?case by (simp add: Let_def case_prod_beta)
qed simp

lemma c_image_gapless:
  assumes "list_all well_sized fs" "list_all (\<lambda>t. 0 < c_align t) (map fst fs)"
    and "gapless packed (map fst fs) (length img)"
  shows "c_image packed fs img = img @ concat (map (\<lambda>(t, v). c_bytes t v) fs)"
  using assms
proof (induction fs arbitrary: img)
  case (Cons f fs)
  obtain t v where f: "f = (t, v)" by (cases f)
  let ?o = "if packed then length img else round_up (length img) (c_align t)"
  have le: "length img \<le> ?o" using Cons.prems(2) round_up_ge by (simp add: f)
  have "?o + c_size t + sum_list (map c_size (map fst fs)) \<le>
      snd (c_layout packed (map fst fs) (?o + c_size t))"
    using Cons.prems(2) by (intro c_layout_end_ge) simp
  with Cons.prems(3) le have o: "?o = length img"
    by (simp add: gapless_def Let_def case_prod_beta f)
  then have "gapless packed (map fst fs) (length (img @ c_bytes t v))"
    using Cons.prems(1,3) by (simp add: gapless_def Let_def case_prod_beta f well_sized_def)
  then show ?case
    using Cons.IH [of "img @ c_bytes t v"] Cons.prems(1,2) o by (simp add: f Let_def)
qed simp

section \<open>Python's struct module\<close>

text \<open>
  The formats with a byte-order prefix, which have standard sizes and no alignment; \<open>=\<close> is the byte
  order of the host. \<open>None\<close> is \<open>struct.error\<close>.
\<close>

datatype fmt_item = Fmt_I | Fmt_i | Fmt_Q | Fmt_q | Fmt_s nat

fun fmt_size :: "fmt_item \<Rightarrow> nat" where
  "fmt_size Fmt_I = 4"
| "fmt_size Fmt_i = 4"
| "fmt_size Fmt_Q = 8"
| "fmt_size Fmt_q = 8"
| "fmt_size (Fmt_s n) = n"

definition fmt_letter :: "char \<Rightarrow> nat \<Rightarrow> fmt_item list option" where
  "fmt_letter c n =
     (if c = CHR ''I'' then Some (replicate n Fmt_I)
      else if c = CHR ''i'' then Some (replicate n Fmt_i)
      else if c = CHR ''Q'' then Some (replicate n Fmt_Q)
      else if c = CHR ''q'' then Some (replicate n Fmt_q)
      else if c = CHR ''s'' then Some [Fmt_s n]
      else None)"

text \<open>The repeat count read so far, if any, precedes its letter.\<close>

fun fmt_items :: "nat option \<Rightarrow> string \<Rightarrow> fmt_item list option" where
  "fmt_items None [] = Some []"
| "fmt_items (Some n) [] = None"
| "fmt_items cnt (c # cs) =
     (if 48 \<le> (of_char c :: nat) \<and> (of_char c :: nat) \<le> 57
      then fmt_items (Some (10 * (case cnt of Some n \<Rightarrow> n | None \<Rightarrow> 0) + (of_char c - 48))) cs
      else (case (fmt_letter c (case cnt of Some n \<Rightarrow> n | None \<Rightarrow> 1), fmt_items None cs) of
              (Some is, Some rest) \<Rightarrow> Some (is @ rest)
            | _ \<Rightarrow> None))"

definition struct_format :: "string \<Rightarrow> fmt_item list option" where
  "struct_format fmt =
     (case fmt of
        c # cs \<Rightarrow> if c = CHR ''='' \<or> c = CHR ''<'' then fmt_items None cs else None
      | [] \<Rightarrow> None)"

definition calcsize :: "fmt_item list \<Rightarrow> nat" where
  "calcsize is = sum_list (map fmt_size is)"

fun fmt_offsets :: "fmt_item list \<Rightarrow> nat \<Rightarrow> nat list" where
  "fmt_offsets [] off = []"
| "fmt_offsets (i # is) off = off # fmt_offsets is (off + fmt_size i)"

datatype py_item = Py_num int | Py_raw "u8 list"

fun unpack_item :: "fmt_item \<Rightarrow> u8 list \<Rightarrow> py_item" where
  "unpack_item Fmt_I bs = Py_num (uint (le_dec bs :: u32))"
| "unpack_item Fmt_i bs = Py_num (le_dec_i32 bs)"
| "unpack_item Fmt_Q bs = Py_num (uint (le_dec bs :: u64))"
| "unpack_item Fmt_q bs = Py_num (le_dec_i64 bs)"
| "unpack_item (Fmt_s n) bs = Py_raw bs"

fun unpack_items :: "fmt_item list \<Rightarrow> u8 list \<Rightarrow> py_item list" where
  "unpack_items [] raw = []"
| "unpack_items (i # is) raw =
     unpack_item i (take (fmt_size i) raw) # unpack_items is (drop (fmt_size i) raw)"

definition struct_unpack :: "string \<Rightarrow> u8 list \<Rightarrow> py_item list option" where
  "struct_unpack fmt raw =
     (case struct_format fmt of
        None \<Rightarrow> None
      | Some is \<Rightarrow> if length raw = calcsize is then Some (unpack_items is raw) else None)"

definition unpack_from :: "string \<Rightarrow> u8 list \<Rightarrow> nat \<Rightarrow> py_item list option" where
  "unpack_from fmt raw off =
     (case struct_format fmt of
        None \<Rightarrow> None
      | Some is \<Rightarrow>
          if off + calcsize is \<le> length raw then Some (unpack_items is (drop off raw)) else None)"

fun pack_item :: "fmt_item \<Rightarrow> py_item \<Rightarrow> u8 list option" where
  "pack_item Fmt_I (Py_num x) = (if 0 \<le> x \<and> x < 2 ^ 32 then Some (le_enc 4 (word_of_int x :: u32)) else None)"
| "pack_item Fmt_i (Py_num x) = (if in_i32 x then Some (le_i32 x) else None)"
| "pack_item Fmt_Q (Py_num x) = (if 0 \<le> x \<and> x < 2 ^ 64 then Some (le_enc 8 (word_of_int x :: u64)) else None)"
| "pack_item Fmt_q (Py_num x) = (if in_i64 x then Some (le_i64 x) else None)"
| "pack_item (Fmt_s n) (Py_raw bs) = Some (take n (bs @ replicate n 0))"
| "pack_item i v = None"

fun pack_items :: "fmt_item list \<Rightarrow> py_item list \<Rightarrow> u8 list option" where
  "pack_items [] [] = Some []"
| "pack_items (i # is) (v # vs) =
     (case (pack_item i v, pack_items is vs) of
        (Some bs, Some rest) \<Rightarrow> Some (bs @ rest)
      | _ \<Rightarrow> None)"
| "pack_items is vs = None"

definition struct_pack :: "string \<Rightarrow> py_item list \<Rightarrow> u8 list option" where
  "struct_pack fmt vs = Option.bind (struct_format fmt) (\<lambda>is. pack_items is vs)"

lemma length_pack_item: "pack_item i v = Some bs \<Longrightarrow> length bs = fmt_size i"
  by (cases "(i, v)" rule: pack_item.cases) (auto split: if_splits)

lemma length_pack_items: "pack_items is vs = Some bs \<Longrightarrow> length bs = calcsize is"
  by (induction "is" vs arbitrary: bs rule: pack_items.induct)
    (auto simp: calcsize_def length_pack_item split: option.splits)

lemma calcsize_simps [simp]: "calcsize [] = 0" "calcsize (i # is) = fmt_size i + calcsize is"
  by (simp_all add: calcsize_def)

text \<open>A character string shorter or longer than its field does not come back as it was.\<close>

fun exact_item :: "fmt_item \<Rightarrow> py_item \<Rightarrow> bool" where
  "exact_item (Fmt_s n) (Py_raw bs) \<longleftrightarrow> length bs = n"
| "exact_item i v \<longleftrightarrow> True"

lemma unpack_pack_item:
  "pack_item i v = Some bs \<Longrightarrow> exact_item i v \<Longrightarrow> unpack_item i bs = v"
  by (cases "(i, v)" rule: pack_item.cases)
    (auto simp: le32.dec_enc le64.dec_enc le32s.dec_enc le64s.dec_enc uint_word_of_int_eq take_bit_int_eq_self
      split: if_splits)

lemma unpack_pack_items:
  "pack_items is vs = Some bs \<Longrightarrow> list_all2 exact_item is vs \<Longrightarrow> unpack_items is (bs @ rest) = vs"
proof (induction "is" vs arbitrary: bs rule: pack_items.induct)
  case (2 i "is" v vs)
  then obtain b bs' where "pack_item i v = Some b" "pack_items is vs = Some bs'" "bs = b @ bs'"
    by (auto split: option.splits)
  with 2 show ?case using length_pack_item [of i v b] unpack_pack_item [of i v b] by simp
qed simp_all

end
