(* ===== verification/Shm_Image.thy ===== *)
theory Shm_Image
  imports Byte_Layout Telemetry Errors Cmd Telemetry_Udp
begin

text \<open>
  The bytes of the structures the daemon shares: the telemetry record, the command slot and the error
  ring in shared memory, and the record of the UDP stream, with their members in the order of the
  headers, paddings included. They are what \<open>src/code/agent/agent.py\<close> and \<open>src/telemetry_listen.py\<close>
  read.
\<close>

section \<open>The telemetry record\<close>

definition telemetry_members :: "drs_telemetry \<Rightarrow> (c_type \<times> c_value) list" where
  "telemetry_members t =
     [(C_u32, C_int (uint (tel_seqlock t))), (C_u32, C_int (uint (tel_pid t))),
      (C_u32, C_int (uint (tel_version t))), (C_u32, C_int (uint (tel_state t))),
      (C_u32, C_int (uint (tel_flags t))), (C_u32, C_int (uint (tel_leader_node_id t))),
      (C_u32, C_int (uint (tel_election_term t))), (C_u32, C_int 0),
      (C_i64, C_int (tel_offset_ns t)), (C_i64, C_int (tel_rate_q32_32 t)),
      (C_i64, C_int (tel_latency_corr_ns t)), (C_i64, C_int (tel_last_rtt_ns t)),
      (C_u64, C_int (uint (tel_convergence_unix_ns t))), (C_u32, C_int (uint (tel_holdover_remaining_ms t))),
      (C_u32, C_int (uint (tel_error_code_last t))), (C_u32, C_int (uint (tel_error_count t))),
      (C_u32, C_int (uint (tel_pulse_count t))), (C_u32, C_int (uint (tel_lock_mode t))), (C_u32, C_int 0),
      (C_u32, C_int (uint (tel_sync_accepted t))), (C_u32, C_int (uint (tel_sync_rejected t))),
      (C_u32, C_int (uint (tel_step_count t))), (C_u32, C_int (uint (tel_holdover_count t))),
      (C_aggregate 16 1, C_raw (replicate 16 0))]"

definition telemetry_image :: "drs_telemetry \<Rightarrow> u8 list" where
  "telemetry_image t = c_image False (telemetry_members t) []"

definition telemetry_types :: "c_type list" where
  "telemetry_types = map fst (telemetry_members zero_telemetry)"

section \<open>The command slot\<close>

definition cmd_members :: "drs_cmd_channel \<Rightarrow> (c_type \<times> c_value) list" where
  "cmd_members ch =
     [(C_u32, C_int (uint (cc_seq ch))), (C_u32, C_int (uint (cc_code ch))),
      (C_u64, C_int (uint (cc_unix_ns ch))), (C_aggregate 48 1, C_raw (cc_payload ch))]"

definition cmd_image :: "drs_cmd_channel \<Rightarrow> u8 list" where
  "cmd_image ch = c_image False (cmd_members ch) []"

text \<open>What a process that maps the slot sees in its bytes.\<close>

definition cmd_view :: "u8 list \<Rightarrow> drs_cmd_channel" where
  "cmd_view raw = \<lparr>cc_seq = le_dec (get_bytes raw 0 4), cc_code = le_dec (get_bytes raw 4 4),
     cc_unix_ns = le_dec (get_bytes raw 8 8), cc_payload = get_bytes raw 16 48\<rparr>"

section \<open>The error ring\<close>

definition char_bytes :: "string \<Rightarrow> u8 list" where
  "char_bytes s = map of_char s"

definition entry_members :: "drs_error_entry \<Rightarrow> (c_type \<times> c_value) list" where
  "entry_members e =
     [(C_u32, C_int (uint (ee_code e))), (C_u32, C_int (uint (ee_count e))),
      (C_i64, C_int (ee_timestamp_ns e)), (C_aggregate 48 1, C_raw (char_bytes (ee_msg e)))]"

definition entry_image :: "drs_error_entry \<Rightarrow> u8 list" where
  "entry_image e = c_image False (entry_members e) []"

definition entry_type :: c_type where
  "entry_type = c_struct False (map fst (entry_members zero_entry))"

definition ring_members :: "drs_error_ring \<Rightarrow> (c_type \<times> c_value) list" where
  "ring_members ring =
     [(C_u32, C_int (uint (er_head ring))), (C_u32, C_int 0),
      (c_array DRS_ERROR_RING_SLOTS entry_type, C_raw (concat (map entry_image (er_slots ring))))]"

definition ring_image :: "drs_error_ring \<Rightarrow> u8 list" where
  "ring_image ring = c_image False (ring_members ring) []"

section \<open>The record of the UDP stream\<close>

definition record_members :: "telem_udp_record \<Rightarrow> (c_type \<times> c_value) list" where
  "record_members r =
     [(C_i64, C_int (tu_timestamp_ns r)), (C_i32, C_int (tu_state r)), (C_i64, C_int (tu_offset_ns r)),
      (C_i64, C_int (tu_rtt_ns r)), (C_i64, C_int (tu_rate_q32 r)), (C_u32, C_int (uint (tu_node_id r)))]"

definition record_image :: "telem_udp_record \<Rightarrow> u8 list" where
  "record_image r = c_image True (record_members r) []"

section \<open>Sizes and bytes\<close>

lemma c_types [simp]:
  "map fst (telemetry_members t) = telemetry_types" "map fst (entry_members e) = map fst (entry_members zero_entry)"
  by (simp_all add: telemetry_types_def telemetry_members_def entry_members_def)

lemmas layout_simps = gapless_def c_struct_def c_offsets_def round_up_def Let_def c_array_def

lemma entry_type_eq: "entry_type = C_aggregate 64 8"
  by (simp add: entry_type_def entry_members_def layout_simps)

lemma telemetry_types_eq:
  "telemetry_types =
     [C_u32, C_u32, C_u32, C_u32, C_u32, C_u32, C_u32, C_u32, C_i64, C_i64, C_i64, C_i64, C_u64,
      C_u32, C_u32, C_u32, C_u32, C_u32, C_u32, C_u32, C_u32, C_u32, C_u32, C_aggregate 16 1]"
  by (simp add: telemetry_types_def telemetry_members_def del: c_types)

lemma telemetry_gapless: "gapless False telemetry_types 0"
  unfolding telemetry_types_eq by code_simp

lemma telemetry_well_sized: "list_all well_sized (telemetry_members t)"
  by (simp add: telemetry_members_def well_sized_def)

lemma telemetry_image_concat: "telemetry_image t = concat (map (\<lambda>(t, v). c_bytes t v) (telemetry_members t))"
  using c_image_gapless [of "telemetry_members t" False "[]"] telemetry_gapless telemetry_well_sized
  by (simp add: telemetry_image_def telemetry_types_eq)

lemma telemetry_image_eq:
  "telemetry_image t =
     le_enc 4 (tel_seqlock t) @ le_enc 4 (tel_pid t) @ le_enc 4 (tel_version t) @ le_enc 4 (tel_state t) @
     le_enc 4 (tel_flags t) @ le_enc 4 (tel_leader_node_id t) @ le_enc 4 (tel_election_term t) @
     le_enc 4 (0 :: u32) @ le_i64 (tel_offset_ns t) @ le_i64 (tel_rate_q32_32 t) @
     le_i64 (tel_latency_corr_ns t) @ le_i64 (tel_last_rtt_ns t) @ le_enc 8 (tel_convergence_unix_ns t) @
     le_enc 4 (tel_holdover_remaining_ms t) @ le_enc 4 (tel_error_code_last t) @ le_enc 4 (tel_error_count t) @
     le_enc 4 (tel_pulse_count t) @ le_enc 4 (tel_lock_mode t) @ le_enc 4 (0 :: u32) @
     le_enc 4 (tel_sync_accepted t) @ le_enc 4 (tel_sync_rejected t) @ le_enc 4 (tel_step_count t) @
     le_enc 4 (tel_holdover_count t) @ replicate 16 0"
  by (simp add: telemetry_image_concat telemetry_members_def)

lemma cmd_image_eq:
  "length (cc_payload ch) = 48 \<Longrightarrow>
   cmd_image ch = le_enc 4 (cc_seq ch) @ le_enc 4 (cc_code ch) @ le_enc 8 (cc_unix_ns ch) @ cc_payload ch"
  unfolding cmd_image_def
  by (subst c_image_gapless) (simp_all add: cmd_members_def well_sized_def layout_simps)

lemma entry_image_eq:
  "length (ee_msg e) = 48 \<Longrightarrow>
   entry_image e = le_enc 4 (ee_code e) @ le_enc 4 (ee_count e) @ le_i64 (ee_timestamp_ns e) @ char_bytes (ee_msg e)"
  unfolding entry_image_def
  by (subst c_image_gapless)
    (simp_all add: entry_members_def well_sized_def layout_simps zero_entry_def char_bytes_def)

lemma length_entry_image: "length (ee_msg e) = 48 \<Longrightarrow> length (entry_image e) = 64"
  by (simp add: entry_image_eq char_bytes_def)

lemma error_ring_inv_msgs:
  "error_ring_inv ring \<Longrightarrow> length (er_slots ring) = 64 \<and> (\<forall>e \<in> set (er_slots ring). length (ee_msg e) = 48)"
  by (simp add: error_ring_inv_def drs_const ERROR_MSG_BYTES_def list_all_iff)

lemma length_concat_const: "\<forall>x \<in> set xs. length (f x) = n \<Longrightarrow> length (concat (map f xs)) = length xs * n"
  by (induction xs) simp_all

lemma ring_image_eq:
  assumes "error_ring_inv ring"
  shows "ring_image ring = le_enc 4 (er_head ring) @ le_enc 4 (0 :: u32) @ concat (map entry_image (er_slots ring))"
proof -
  have "length (concat (map entry_image (er_slots ring))) = 64 * 64"
    using error_ring_inv_msgs [OF assms] length_concat_const [of "er_slots ring" entry_image 64]
    by (simp add: length_entry_image)
  then show ?thesis
    unfolding ring_image_def
    by (subst c_image_gapless)
      (simp_all add: ring_members_def well_sized_def layout_simps entry_type_eq drs_const)
qed

lemma record_image_eq:
  "record_image r = le_i64 (tu_timestamp_ns r) @ le_i32 (tu_state r) @ le_i64 (tu_offset_ns r) @
     le_i64 (tu_rtt_ns r) @ le_i64 (tu_rate_q32 r) @ le_enc 4 (tu_node_id r)"
  unfolding record_image_def
  by (subst c_image_gapless) (simp_all add: record_members_def well_sized_def layout_simps)

end
