(* ===== verification/Agent.thy ===== *)
theory Agent
  imports Shm_Image Tool_Output
begin

text \<open>
  The HTTP agent, \<open>src/code/agent/agent.py\<close>, as far as it works on the shared memory of the daemon:
  the decoding of the telemetry record, the command slot, the error ring, the health checks, and the
  four handlers of \<open>/api/sync\<close> that use them; \<open>Agent_Net\<close> has the others. A Python object is a value of \<open>pyval\<close>, a dict an
  association list in insertion order; an unhandled exception is \<open>None\<close>, and answered by \<open>Http_failure\<close>.
  The bytes of the mapped files, the outcomes of the system calls and the texts of floating-point
  numbers are arguments.
\<close>

section \<open>Python values\<close>

text \<open>
  \<open>F_div a b\<close> is the float nearest to the quotient, \<open>F_round x n\<close> is \<open>round(x, n)\<close>. A text of the
  program is given in UTF-8, one that was decoded from bytes by its code points (\<open>Py_text\<close>).
\<close>

datatype pyfloat = F_lit int | F_div int int | F_round pyfloat nat

datatype pyval = Py_None | Py_int int | Py_bool bool | Py_str string | Py_text "nat list" | Py_float pyfloat
  | Py_list "pyval list" | Py_dict "(string \<times> pyval) list"

type_synonym pydict = "(string \<times> pyval) list"

definition dict_get :: "pydict \<Rightarrow> string \<Rightarrow> pyval \<Rightarrow> pyval" where
  "dict_get d k dflt = (case map_of d k of Some v \<Rightarrow> v | None \<Rightarrow> dflt)"

fun int_of :: "pyval \<Rightarrow> int" where
  "int_of (Py_int i) = i"
| "int_of v = 0"

fun bool_of :: "pyval \<Rightarrow> bool" where
  "bool_of (Py_bool b) = b"
| "bool_of v = False"

text \<open>\<open>str\<close> of the values that are put into texts.\<close>

fun py_str :: "(pyfloat \<Rightarrow> string) \<Rightarrow> pyval \<Rightarrow> string" where
  "py_str ftext Py_None = ''None''"
| "py_str ftext (Py_int i) = pd i"
| "py_str ftext (Py_bool b) = (if b then ''True'' else ''False'')"
| "py_str ftext (Py_str s) = s"
| "py_str ftext (Py_float x) = ftext x"
| "py_str ftext v = []"

section \<open>Constants\<close>

definition STATE_NAMES :: "(int \<times> string) list" where
  "STATE_NAMES = [(0, ''GROUND''), (1, ''CALIBRATION''), (2, ''LISTEN''), (3, ''CANDIDATE''),
     (4, ''FOLLOWER''), (5, ''LEADER''), (6, ''HOLDOVER'')]"

definition LOCK_NAMES :: "(int \<times> string) list" where
  "LOCK_NAMES = [(0, ''AUTO''), (1, ''LEADER''), (2, ''FOLLOWER'')]"

definition name_of :: "(int \<times> string) list \<Rightarrow> int \<Rightarrow> string" where
  "name_of names k = (case map_of names k of Some s \<Rightarrow> s | None \<Rightarrow> pd k)"

definition RATE_NOMINAL_Q32 :: int where
  "RATE_NOMINAL_Q32 = 0x100000000"

definition RATE_PPM_Q32 :: int where
  "RATE_PPM_Q32 = 4295"

definition TELEMETRY_FMT :: string where
  "TELEMETRY_FMT = ''=IIIIIIIIqqqqQIIIIIIIIII16s''"

definition CMD_FMT :: string where
  "CMD_FMT = ''=IIQ48s''"

definition CMD_SIZE :: nat where
  "CMD_SIZE = 64"

definition ERROR_ENTRY_SIZE :: nat where
  "ERROR_ENTRY_SIZE = 4 + 4 + 8 + 48"

definition cmd_map :: "(string \<times> int) list" where
  "cmd_map = [(''recalibrate'', 1), (''force_holdover'', 2), (''force_demote'', 3), (''reset_filters'', 4),
     (''force_leader'', 5), (''force_follower'', 6), (''auto_mode'', 7)]"

definition systemctl_map :: "(string \<times> string list) list" where
  "systemctl_map =
     [(''start'', [''systemctl'', ''start'', ''drs_syncd.service'']),
      (''stop'', [''systemctl'', ''stop'', ''drs_syncd.service'']),
      (''restart'', [''systemctl'', ''restart'', ''drs_syncd.service''])]"

section \<open>Mapping the files\<close>

text \<open>
  What \<open>os.open\<close> and \<open>mmap\<close> do. A file that is still shorter than the mapping makes \<open>mmap\<close> raise a
  \<open>ValueError\<close>, which \<open>open\<close> does not catch.
\<close>

datatype open_outcome = Open_mapped int | Open_failed | Mmap_failed int | Mmap_value_error int

record shm =
  shm_mm :: bool
  shm_fd :: int

definition shm_open :: "open_outcome \<Rightarrow> shm \<Rightarrow> bool option \<times> shm" where
  "shm_open res s =
     (case res of
        Open_mapped fd \<Rightarrow> (Some True, s\<lparr>shm_fd := fd, shm_mm := True\<rparr>)
      | Open_failed \<Rightarrow> (Some False, s)
      | Mmap_failed fd \<Rightarrow> (Some False, s\<lparr>shm_fd := fd\<rparr>)
      | Mmap_value_error fd \<Rightarrow> (None, s\<lparr>shm_fd := fd\<rparr>))"

definition shm_close :: "shm \<Rightarrow> shm" where
  "shm_close s =
     (let s = (if shm_mm s then s\<lparr>shm_mm := False\<rparr> else s)
      in if 0 \<le> shm_fd s then s\<lparr>shm_fd := - 1\<rparr> else s)"

definition read_bytes :: "nat \<Rightarrow> u8 list \<Rightarrow> shm \<Rightarrow> u8 list" where
  "read_bytes sz mem s = (if \<not> shm_mm s then replicate sz 0 else take sz mem)"

section \<open>Telemetry\<close>

text \<open>The loop of \<open>decode_telemetry\<close> with the rounds left; the last resort is its \<open>else\<close> branch.\<close>

fun unpack_rounds :: "nat \<Rightarrow> u8 list \<Rightarrow> py_item list option" where
  "unpack_rounds 0 raw = struct_unpack TELEMETRY_FMT raw"
| "unpack_rounds (Suc n) raw =
     (case unpack_from ''=I'' raw 0 of
        Some [Py_num seq1] \<Rightarrow>
          if odd seq1 then unpack_rounds n raw
          else (case (struct_unpack TELEMETRY_FMT raw, unpack_from ''=I'' raw 0) of
                  (Some vals, Some [Py_num seq2]) \<Rightarrow>
                    if seq1 = seq2 then Some vals else unpack_rounds n raw
                | _ \<Rightarrow> None)
      | _ \<Rightarrow> None)"

definition num_at :: "py_item list \<Rightarrow> nat \<Rightarrow> int" where
  "num_at vals i = (case vals ! i of Py_num x \<Rightarrow> x | Py_raw _ \<Rightarrow> 0)"

definition flag_set :: "int \<Rightarrow> int \<Rightarrow> bool" where
  "flag_set flags fl \<longleftrightarrow> flags AND fl \<noteq> 0"

definition telemetry_dict :: "py_item list \<Rightarrow> pydict" where
  "telemetry_dict vals =
     (let pid = num_at vals 1; state = num_at vals 3; flags = num_at vals 4;
          leader_id = num_at vals 5; term = num_at vals 6; offset_ns = num_at vals 8;
          rate_q32 = num_at vals 9; lat_corr = num_at vals 10; last_rtt = num_at vals 11;
          convergence = num_at vals 12; holdover_ms = num_at vals 13; err_last = num_at vals 14;
          err_count = num_at vals 15; pulse_count = num_at vals 16; lock_mode = num_at vals 17;
          sync_accepted = num_at vals 19; sync_rejected = num_at vals 20;
          step_count = num_at vals 21; holdover_count = num_at vals 22;
          rate_ppm = F_div (rate_q32 - RATE_NOMINAL_Q32) RATE_PPM_Q32;
          total_sync = sync_accepted + sync_rejected;
          accept_pct = (if total_sync > 0 then F_round (F_div (100 * sync_accepted) total_sync) 1 else F_lit 100)
      in [(''pid'', Py_int pid), (''state'', Py_str (name_of STATE_NAMES state)), (''state_id'', Py_int state),
          (''flags'', Py_int flags), (''is_leader'', Py_bool (flag_set flags 1)),
          (''is_holdover'', Py_bool (flag_set flags 2)), (''is_calibrated'', Py_bool (flag_set flags 4)),
          (''leader_node_id'', Py_int leader_id), (''election_term'', Py_int term),
          (''offset_ns'', Py_int offset_ns), (''offset_us'', Py_float (F_div offset_ns 1000)),
          (''rate_ppm'', Py_float (F_round rate_ppm 4)), (''latency_corr_ns'', Py_int lat_corr),
          (''last_rtt_ns'', Py_int last_rtt), (''last_rtt_us'', Py_float (F_div last_rtt 1000)),
          (''convergence_ns'', Py_int convergence), (''converged'', Py_bool (convergence \<noteq> 0)),
          (''holdover_ms'', Py_int holdover_ms), (''error_last'', Py_int err_last),
          (''error_count'', Py_int err_count), (''pulse_count'', Py_int pulse_count),
          (''lock_mode'', Py_str (name_of LOCK_NAMES lock_mode)), (''sync_accepted'', Py_int sync_accepted),
          (''sync_rejected'', Py_int sync_rejected), (''sync_accept_pct'', Py_float accept_pct),
          (''step_count'', Py_int step_count), (''holdover_count'', Py_int holdover_count)])"

definition decode_telemetry :: "u8 list \<Rightarrow> pydict option" where
  "decode_telemetry raw =
     (if length raw < 128 then Some [] else map_option telemetry_dict (unpack_rounds 10 raw))"

definition get_telemetry :: "open_outcome \<Rightarrow> u8 list \<Rightarrow> shm \<Rightarrow> pydict option \<times> shm" where
  "get_telemetry res mem s =
     (if \<not> shm_mm s then
        (case shm_open res s of
           (None, s) \<Rightarrow> (None, s)
         | (Some False, s) \<Rightarrow> (Some [], s)
         | (Some True, s) \<Rightarrow> (decode_telemetry (read_bytes 128 mem s), s))
      else (decode_telemetry (read_bytes 128 mem s), s))"

section \<open>Commands\<close>

text \<open>The bytes of the slot after \<open>write_cmd\<close>; \<open>ns\<close> is \<open>time.monotonic_ns()\<close>.\<close>

definition write_cmd :: "int \<Rightarrow> int \<Rightarrow> shm \<Rightarrow> u8 list \<Rightarrow> u8 list option" where
  "write_cmd code ns s mem =
     (if \<not> shm_mm s then Some mem
      else (case struct_unpack CMD_FMT (take CMD_SIZE mem) of
              Some [Py_num seq, Py_num old_code, Py_num unix_ns, Py_raw payload] \<Rightarrow>
                (case struct_pack CMD_FMT [Py_num ((seq + 1) AND 0xFFFFFFFF), Py_num code, Py_num ns,
                                           Py_raw (replicate 48 0)] of
                   Some packed \<Rightarrow> Some (put_bytes mem 0 packed)
                 | None \<Rightarrow> None)
            | _ \<Rightarrow> None))"

definition send_cmd :: "open_outcome \<Rightarrow> int \<Rightarrow> int \<Rightarrow> shm \<Rightarrow> u8 list \<Rightarrow> u8 list option \<times> shm" where
  "send_cmd res code ns s mem =
     (let (ok, s) = (if \<not> shm_mm s then shm_open res s else (Some True, s))
      in if ok = None then (None, s) else (write_cmd code ns s mem, s))"

section \<open>Errors\<close>

definition rstrip_nul :: "u8 list \<Rightarrow> u8 list" where
  "rstrip_nul bs = rev (dropWhile (\<lambda>b. b = 0) (rev bs))"

text \<open>
  \<open>decode("utf-8", errors="replace")\<close>: code points, with U+FFFD for every maximal part of an
  ill-formed sequence.
\<close>

definition utf8_cont :: "u8 \<Rightarrow> bool" where
  "utf8_cont b \<longleftrightarrow> 0x80 \<le> b \<and> b \<le> 0xBF"

text \<open>How many bytes follow a first byte, and which second bytes are allowed.\<close>

definition utf8_first :: "u8 \<Rightarrow> (nat \<times> u8 \<times> u8) option" where
  "utf8_first b =
     (if 0xC2 \<le> b \<and> b \<le> 0xDF then Some (1, 0x80, 0xBF)
      else if b = 0xE0 then Some (2, 0xA0, 0xBF)
      else if b = 0xED then Some (2, 0x80, 0x9F)
      else if 0xE1 \<le> b \<and> b \<le> 0xEF then Some (2, 0x80, 0xBF)
      else if b = 0xF0 then Some (3, 0x90, 0xBF)
      else if b = 0xF4 then Some (3, 0x80, 0x8F)
      else if 0xF1 \<le> b \<and> b \<le> 0xF3 then Some (3, 0x80, 0xBF)
      else None)"

definition utf8_value :: "u8 \<Rightarrow> u8 list \<Rightarrow> nat" where
  "utf8_value b cs =
     fold (\<lambda>c v. 64 * v + unat c mod 64) cs
       (unat b mod (if length cs = 1 then 32 else if length cs = 2 then 16 else 8))"

fun utf8_replace :: "u8 list \<Rightarrow> nat list" where
  "utf8_replace [] = []"
| "utf8_replace (b # bs) =
     (if b < 0x80 then unat b # utf8_replace bs
      else (case utf8_first b of
              None \<Rightarrow> 0xFFFD # utf8_replace bs
            | Some (n, lo, hi) \<Rightarrow>
                let good = (case bs of
                              [] \<Rightarrow> 0
                            | c # cs \<Rightarrow> if lo \<le> c \<and> c \<le> hi then 1 + length (takeWhile utf8_cont (take (n - 1) cs)) else 0)
                in (if good = n then utf8_value b (take n bs) else 0xFFFD) # utf8_replace (drop good bs)))"

text \<open>The loop over \<open>i\<close>; \<open>break\<close> ends it, an entry with code 0 is skipped.\<close>

fun errors_loop :: "u8 list \<Rightarrow> int \<Rightarrow> int \<Rightarrow> int list \<Rightarrow> pydict list option" where
  "errors_loop raw head limit [] = Some []"
| "errors_loop raw head limit (i # is) =
     (let idx = (head - limit + i) mod int DRS_ERROR_RING_SLOTS;
          off = 8 + nat idx * ERROR_ENTRY_SIZE
      in if off + ERROR_ENTRY_SIZE > length raw then Some []
         else
           (case unpack_from ''=IIq'' raw off of
              Some [Py_num code, Py_num count, Py_num ts_ns] \<Rightarrow>
                let msg = utf8_replace (rstrip_nul (get_bytes raw (off + 16) 48))
                in map_option
                     (\<lambda>rest. if code \<noteq> 0
                        then [(''code'', Py_int code), (''count'', Py_int count), (''timestamp_ns'', Py_int ts_ns),
                              (''msg'', Py_text msg)] # rest
                        else rest)
                     (errors_loop raw head limit is)
            | _ \<Rightarrow> None))"

definition errors_of :: "int \<Rightarrow> u8 list \<Rightarrow> pydict list option" where
  "errors_of limit raw =
     (case unpack_from ''=I'' raw 0 of
        Some [Py_num head] \<Rightarrow>
          errors_loop raw head limit [0..min limit (int DRS_ERROR_RING_SLOTS) - 1]
      | _ \<Rightarrow> None)"

definition get_errors :: "open_outcome \<Rightarrow> int \<Rightarrow> u8 list \<Rightarrow> shm \<Rightarrow> pydict list option \<times> shm" where
  "get_errors res limit mem s =
     (let sz = 8 + DRS_ERROR_RING_SLOTS * ERROR_ENTRY_SIZE
      in if \<not> shm_mm s then
           (case shm_open res s of
              (None, s) \<Rightarrow> (None, s)
            | (Some False, s) \<Rightarrow> (Some [], s)
            | (Some True, s) \<Rightarrow> (errors_of limit (read_bytes sz mem s), s))
         else (errors_of limit (read_bytes sz mem s), s))"

section \<open>Health checks\<close>

text \<open>
  \<open>fd spec a b\<close> is the text of the quotient under a format, \<open>path_exists\<close> what \<open>Path.exists\<close> answers for
  the telemetry file.
\<close>

definition check :: "string \<Rightarrow> string \<Rightarrow> pyval \<Rightarrow> string \<Rightarrow> pydict" where
  "check name severity ok msg =
     [(''name'', Py_str name), (''severity'', Py_str severity), (''ok'', ok), (''message'', Py_str msg)]"

definition truthy :: "pyval \<Rightarrow> bool" where
  "truthy v =
     (case v of Py_None \<Rightarrow> False | Py_int i \<Rightarrow> i \<noteq> 0 | Py_bool b \<Rightarrow> b | Py_str s \<Rightarrow> s \<noteq> []
      | Py_text s \<Rightarrow> s \<noteq> [] | Py_float x \<Rightarrow> x \<noteq> F_lit 0 | Py_list vs \<Rightarrow> vs \<noteq> [] | Py_dict d \<Rightarrow> d \<noteq> [])"

definition health_checks ::
  "(string \<Rightarrow> int \<Rightarrow> int \<Rightarrow> string) \<Rightarrow> (pyfloat \<Rightarrow> string) \<Rightarrow> bool \<Rightarrow> pydict \<Rightarrow> pydict list" where
  "health_checks fd ftext path_exists tel =
     (let str = py_str ftext;
          state_id = int_of (dict_get tel ''state_id'' (Py_int (- 1)));
          abs_off = \<bar>int_of (dict_get tel ''offset_ns'' (Py_int 999999))\<bar>;
          rtt = int_of (dict_get tel ''last_rtt_ns'' (Py_int 0));
          err_cnt = int_of (dict_get tel ''error_count'' (Py_int 0));
          pid = dict_get tel ''pid'' (Py_int 0);
          pulses = dict_get tel ''pulse_count'' (Py_int 0);
          lock = dict_get tel ''lock_mode'' Py_None;
          converged = dict_get tel ''converged'' (Py_bool False)
      in [check ''daemon_running'' ''critical'' (Py_bool path_exists) ''drs_syncd shared memory present'',
          check ''state_active'' ''critical'' (Py_bool (2 \<le> state_id))
            (''State = '' @ str (dict_get tel ''state'' (Py_str ''UNKNOWN'')) @ '' (need >= LISTEN)''),
          check ''calibrated'' ''warning'' (dict_get tel ''is_calibrated'' (Py_bool False))
            ''Latency calibration complete'',
          check ''converged'' ''warning'' converged (''|offset| < 100 '' @ u_micro @ ''s for 10 s''),
          check ''offset_ok'' ''warning'' (Py_bool (abs_off < 100000))
            (''|offset| = '' @ fd ''.1f'' abs_off 1000 @ '' '' @ u_micro @ ''s (threshold 100 '' @ u_micro @ ''s)''),
          check ''not_holdover'' ''warning'' (Py_bool (\<not> truthy (dict_get tel ''is_holdover'' (Py_bool True))))
            ''Not in HOLDOVER mode'',
          check ''rtt_ok'' ''info'' (Py_bool (0 < rtt \<and> rtt < 5000000))
            (''RTT = '' @ fd ''.1f'' rtt 1000 @ '' '' @ u_micro @ ''s''),
          check ''gpio_stable'' ''info'' converged ''GPIO 23 stability (proxy: convergence)'',
          check ''lock_auto'' ''info'' (Py_bool (lock = Py_str ''AUTO'')) (''Lock mode = '' @ str lock),
          check ''low_errors'' ''info'' (Py_bool (err_cnt < 10)) (''Error ring count = '' @ pd err_cnt),
          check ''pid_valid'' ''info'' (Py_bool (0 < int_of pid)) (''Daemon PID = '' @ str pid),
          check ''pulse_active'' ''info'' (Py_bool (0 < int_of pulses)) (''Pulse count = '' @ str pulses)])"

section \<open>Handlers\<close>

text \<open>A status with a JSON body, a bad request with its text, or an exception aiohttp answers with 500.\<close>

datatype http = Http_json nat pyval | Http_bad_request string | Http_failure

definition handle_sync_state :: "open_outcome \<Rightarrow> u8 list \<Rightarrow> shm \<Rightarrow> http \<times> shm" where
  "handle_sync_state res mem s =
     (let (tel, s) = get_telemetry res mem s
      in (case tel of Some d \<Rightarrow> Http_json 200 (Py_dict d) | None \<Rightarrow> Http_failure, s))"

definition critical_fail :: "pydict list \<Rightarrow> bool" where
  "critical_fail checks =
     list_ex (\<lambda>c. dict_get c ''severity'' Py_None = Py_str ''critical'' \<and> \<not> truthy (dict_get c ''ok'' Py_None)) checks"

definition handle_sync_health ::
  "(string \<Rightarrow> int \<Rightarrow> int \<Rightarrow> string) \<Rightarrow> (pyfloat \<Rightarrow> string) \<Rightarrow> bool \<Rightarrow> open_outcome \<Rightarrow> u8 list \<Rightarrow> shm \<Rightarrow>
   http \<times> shm" where
  "handle_sync_health fd ftext path_exists res mem s =
     (let (tel, s) = get_telemetry res mem s
      in (case tel of
            None \<Rightarrow> Http_failure
          | Some tel \<Rightarrow>
              let checks = health_checks fd ftext path_exists tel
              in Http_json 200 (Py_dict [(''healthy'', Py_bool (\<not> critical_fail checks)),
                   (''checks'', Py_list (map Py_dict checks)), (''telemetry'', Py_dict tel)]), s))"

datatype run_outcome = Run_ok | Run_called_process_error string | Run_raises

text \<open>
  The body is \<open>None\<close> when it is not JSON. The action is looked up in the two dicts, which raises
  for a list or a dict. The slot comes back as it is after the call, with the command that is run.
\<close>

definition handle_sync_control ::
  "(pyfloat \<Rightarrow> string) \<Rightarrow> pyval option \<Rightarrow> open_outcome \<Rightarrow> int \<Rightarrow> (string list \<Rightarrow> run_outcome) \<Rightarrow> shm \<Rightarrow> u8 list \<Rightarrow>
   http \<times> shm \<times> u8 list" where
  "handle_sync_control ftext body res ns run s mem =
     (case body of
        None \<Rightarrow> (Http_bad_request ''Invalid JSON'', s, mem)
      | Some (Py_dict d) \<Rightarrow>
          (let action = dict_get d ''action'' (Py_str []);
               ok = Http_json 200 (Py_dict [(''ok'', Py_bool True), (''action'', action)]);
               unknown = Http_bad_request (''Unknown action: '' @ py_str ftext action)
           in case action of
                Py_str a \<Rightarrow>
                  (case map_of cmd_map a of
                     Some code \<Rightarrow>
                       (case send_cmd res code ns s mem of
                          (Some mem, s) \<Rightarrow> (ok, s, mem)
                        | (None, s) \<Rightarrow> (Http_failure, s, mem))
                   | None \<Rightarrow>
                       (case map_of systemctl_map a of
                          Some cmd \<Rightarrow>
                            (case run cmd of
                               Run_ok \<Rightarrow> (ok, s, mem)
                             | Run_called_process_error e \<Rightarrow>
                                 (Http_json 500 (Py_dict [(''ok'', Py_bool False), (''error'', Py_str e)]), s, mem)
                             | Run_raises \<Rightarrow> (Http_failure, s, mem))
                        | None \<Rightarrow> (unknown, s, mem)))
              | Py_list vs \<Rightarrow> (Http_failure, s, mem)
              | Py_dict d' \<Rightarrow> (Http_failure, s, mem)
              | _ \<Rightarrow> (unknown, s, mem))
      | Some _ \<Rightarrow> (Http_failure, s, mem))"

text \<open>\<open>int\<close> of a text in ASCII; \<open>prev\<close> holds when a digit was just read.\<close>

fun int_digits :: "bool \<Rightarrow> nat \<Rightarrow> string \<Rightarrow> nat option" where
  "int_digits prev n [] = (if prev then Some n else None)"
| "int_digits prev n (c # cs) =
     (if 48 \<le> (of_char c :: nat) \<and> (of_char c :: nat) \<le> 57 then int_digits True (10 * n + (of_char c - 48)) cs
      else if c = CHR ''_'' \<and> prev then int_digits False n cs
      else None)"

definition py_space :: "char \<Rightarrow> bool" where
  "py_space c \<longleftrightarrow> (let n = (of_char c :: nat) in n = 32 \<or> (9 \<le> n \<and> n \<le> 13) \<or> (28 \<le> n \<and> n \<le> 31))"

definition py_int :: "string \<Rightarrow> int option" where
  "py_int s =
     (case rev (dropWhile py_space (rev (dropWhile py_space s))) of
        [] \<Rightarrow> None
      | c # cs \<Rightarrow>
          if c = CHR ''-'' then map_option (\<lambda>n. - int n) (int_digits False 0 cs)
          else if c = CHR ''+'' then map_option int (int_digits False 0 cs)
          else map_option int (int_digits False 0 (c # cs)))"

definition handle_sync_errors :: "string option \<Rightarrow> open_outcome \<Rightarrow> u8 list \<Rightarrow> shm \<Rightarrow> http \<times> shm" where
  "handle_sync_errors query res mem s =
     (case py_int (case query of Some q \<Rightarrow> q | None \<Rightarrow> ''20'') of
        None \<Rightarrow> (Http_failure, s)
      | Some limit \<Rightarrow>
          let limit = max 1 (min limit (int DRS_ERROR_RING_SLOTS));
              (entries, s) = get_errors res limit mem s
          in (case entries of Some es \<Rightarrow> Http_json 200 (Py_list (map Py_dict es)) | None \<Rightarrow> Http_failure, s))"

end
