(* ===== verification/Agent_Views.thy ===== *)
theory Agent_Views
  imports Agent
begin

text \<open>
  What the agent makes of the bytes the daemon shares: the formats of the Python side against the
  layouts of the headers, the decoding of the telemetry record, and the list of the latest errors.
\<close>

section \<open>Formats and layouts\<close>

fun c_fmt :: "c_type \<Rightarrow> fmt_item" where
  "c_fmt C_u32 = Fmt_I"
| "c_fmt C_i32 = Fmt_i"
| "c_fmt C_u64 = Fmt_Q"
| "c_fmt C_i64 = Fmt_q"
| "c_fmt (C_aggregate n a) = Fmt_s n"

fun c_py :: "c_type \<times> c_value \<Rightarrow> py_item" where
  "c_py (t, C_int i) = Py_num i"
| "c_py (t, C_raw bs) = Py_raw bs"

fun c_fits :: "c_type \<times> c_value \<Rightarrow> bool" where
  "c_fits (C_u32, C_int i) \<longleftrightarrow> 0 \<le> i \<and> i < 2 ^ 32"
| "c_fits (C_i32, C_int i) \<longleftrightarrow> in_i32 i"
| "c_fits (C_u64, C_int i) \<longleftrightarrow> 0 \<le> i \<and> i < 2 ^ 64"
| "c_fits (C_i64, C_int i) \<longleftrightarrow> in_i64 i"
| "c_fits (C_aggregate n a, C_raw bs) \<longleftrightarrow> length bs = n"
| "c_fits f \<longleftrightarrow> False"

lemma c_fmt_size: "fmt_size (c_fmt t) = c_size t"
  by (cases t) simp_all

lemma c_fits_size: "c_fits (t, v) \<Longrightarrow> length (c_bytes t v) = c_size t"
  by (cases "(t, v)" rule: c_fits.cases) simp_all

lemma unpack_c_item: "c_fits (t, v) \<Longrightarrow> unpack_item (c_fmt t) (c_bytes t v) = c_py (t, v)"
  by (cases "(t, v)" rule: c_fits.cases)
    (simp_all add: le32.dec_enc le64.dec_enc le32s.dec_enc le64s.dec_enc uint_word_of_int_eq
      take_bit_int_eq_self)

lemma unpack_c_items:
  "list_all c_fits fs \<Longrightarrow>
   unpack_items (map (c_fmt \<circ> fst) fs) (concat (map (\<lambda>(t, v). c_bytes t v) fs) @ rest) = map c_py fs"
  by (induction fs) (auto simp: c_fmt_size c_fits_size unpack_c_item)

lemma uint_fits [simp]: "c_fits (C_u32, C_int (uint (w :: u32)))" "c_fits (C_u64, C_int (uint (x :: u64)))"
  using uint_bounded [of w] uint_bounded [of x] by simp_all

lemma telemetry_format: "struct_format TELEMETRY_FMT = Some (map c_fmt telemetry_types)"
  by (simp add: struct_format_def TELEMETRY_FMT_def fmt_letter_def telemetry_types_def telemetry_members_def)

lemma cmd_format: "struct_format CMD_FMT = Some [Fmt_I, Fmt_I, Fmt_Q, Fmt_s 48]"
  by (simp add: struct_format_def CMD_FMT_def fmt_letter_def)

lemma seq_format: "struct_format ''=I'' = Some [Fmt_I]"
  by (simp add: struct_format_def fmt_letter_def)

lemma entry_format: "struct_format ''=IIq'' = Some [Fmt_I, Fmt_I, Fmt_q]"
  by (simp add: struct_format_def fmt_letter_def)

lemma calcsize_telemetry: "calcsize (map c_fmt telemetry_types) = 128"
  by (simp add: telemetry_types_def telemetry_members_def)

section \<open>Decoding\<close>

lemma length_telemetry_image: "length (telemetry_image t) = 128"
  by (simp add: telemetry_image_eq)

lemma unpack_rounds_any:
  assumes "length raw = 128"
  shows "unpack_rounds n raw = Some (unpack_items (map c_fmt telemetry_types) raw)"
proof (induction n)
  case (Suc n)
  have "unpack_from ''=I'' raw 0 = Some [Py_num (uint (le_dec (take 4 raw) :: u32))]"
    using assms by (simp add: unpack_from_def seq_format)
  then show ?case
    using Suc assms by (simp add: struct_unpack_def telemetry_format calcsize_telemetry)
qed (simp add: assms struct_unpack_def telemetry_format calcsize_telemetry)

lemma decode_any:
  "length raw = 128 \<Longrightarrow> decode_telemetry raw = Some (telemetry_dict (unpack_items (map c_fmt telemetry_types) raw))"
  by (simp add: decode_telemetry_def unpack_rounds_any)

definition telemetry_in_range :: "drs_telemetry \<Rightarrow> bool" where
  "telemetry_in_range t \<longleftrightarrow> in_i64 (tel_offset_ns t) \<and> in_i64 (tel_rate_q32_32 t) \<and>
     in_i64 (tel_latency_corr_ns t) \<and> in_i64 (tel_last_rtt_ns t)"

lemma telemetry_fits: "telemetry_in_range t \<Longrightarrow> list_all c_fits (telemetry_members t)"
  unfolding telemetry_members_def telemetry_in_range_def by (simp del: c_fits.simps(1,3)) simp

lemma unpack_telemetry_image:
  "telemetry_in_range t \<Longrightarrow>
   unpack_items (map c_fmt telemetry_types) (telemetry_image t) = map c_py (telemetry_members t)"
  using unpack_c_items [OF telemetry_fits, of t "[]"]
  by (simp add: telemetry_image_concat flip: map_map)

lemma decode_image:
  "telemetry_in_range t \<Longrightarrow>
   decode_telemetry (telemetry_image t) = Some (telemetry_dict (map c_py (telemetry_members t)))"
  by (simp add: decode_any length_telemetry_image unpack_telemetry_image)

lemma nth_telemetry_image:
  "num_at (unpack_items (map c_fmt telemetry_types) (telemetry_image t)) 3 = uint (tel_state t)"
  by (simp add: telemetry_image_eq telemetry_types_def telemetry_members_def num_at_def le32.dec_enc)

lemma name_of_state: "name_of STATE_NAMES (int (state_code s)) = state_name s"
  by (cases s) (simp_all add: name_of_def STATE_NAMES_def)

lemma name_of_lock:
  "name_of LOCK_NAMES 0 = ''AUTO''" "name_of LOCK_NAMES 1 = ''LEADER''" "name_of LOCK_NAMES 2 = ''FOLLOWER''"
  by (simp_all add: name_of_def LOCK_NAMES_def)

lemma flag_set_uint: "flag_set (uint (f :: u32)) (uint g) \<longleftrightarrow> f AND g \<noteq> 0"
  by (simp add: flag_set_def flip: uint_and) (metis uint_0_iff)

text \<open>A lookup walks along the dict without simplifying the rest of it.\<close>

lemma dict_get_Cons: "dict_get ((k, v) # d) k' dflt = (if k = k' then v else dict_get d k' dflt)"
  by (simp add: dict_get_def)

lemma dict_get_cong: "k = k' \<Longrightarrow> dict_get d k dflt = dict_get d k' dflt"
  by simp

lemma telemetry_dict_numbers:
  "dict_get (telemetry_dict vals) ''pid'' dflt = Py_int (num_at vals 1)"
  "dict_get (telemetry_dict vals) ''state_id'' dflt = Py_int (num_at vals 3)"
  "dict_get (telemetry_dict vals) ''flags'' dflt = Py_int (num_at vals 4)"
  "dict_get (telemetry_dict vals) ''leader_node_id'' dflt = Py_int (num_at vals 5)"
  "dict_get (telemetry_dict vals) ''election_term'' dflt = Py_int (num_at vals 6)"
  "dict_get (telemetry_dict vals) ''offset_ns'' dflt = Py_int (num_at vals 8)"
  "dict_get (telemetry_dict vals) ''latency_corr_ns'' dflt = Py_int (num_at vals 10)"
  "dict_get (telemetry_dict vals) ''last_rtt_ns'' dflt = Py_int (num_at vals 11)"
  "dict_get (telemetry_dict vals) ''holdover_ms'' dflt = Py_int (num_at vals 13)"
  "dict_get (telemetry_dict vals) ''error_count'' dflt = Py_int (num_at vals 15)"
  "dict_get (telemetry_dict vals) ''pulse_count'' dflt = Py_int (num_at vals 16)"
  "dict_get (telemetry_dict vals) ''sync_accepted'' dflt = Py_int (num_at vals 19)"
  "dict_get (telemetry_dict vals) ''sync_rejected'' dflt = Py_int (num_at vals 20)"
  "dict_get (telemetry_dict vals) ''step_count'' dflt = Py_int (num_at vals 21)"
  "dict_get (telemetry_dict vals) ''holdover_count'' dflt = Py_int (num_at vals 22)"
  unfolding telemetry_dict_def Let_def by (simp_all add: dict_get_Cons cong: dict_get_cong)

lemma num_at_members:
  "num_at (map c_py (telemetry_members t)) (Suc 0) = uint (tel_pid t)"
  "num_at (map c_py (telemetry_members t)) 3 = uint (tel_state t)"
  "num_at (map c_py (telemetry_members t)) 4 = uint (tel_flags t)"
  "num_at (map c_py (telemetry_members t)) 5 = uint (tel_leader_node_id t)"
  "num_at (map c_py (telemetry_members t)) 6 = uint (tel_election_term t)"
  "num_at (map c_py (telemetry_members t)) 8 = tel_offset_ns t"
  "num_at (map c_py (telemetry_members t)) 9 = tel_rate_q32_32 t"
  "num_at (map c_py (telemetry_members t)) 10 = tel_latency_corr_ns t"
  "num_at (map c_py (telemetry_members t)) 11 = tel_last_rtt_ns t"
  "num_at (map c_py (telemetry_members t)) 12 = uint (tel_convergence_unix_ns t)"
  "num_at (map c_py (telemetry_members t)) 13 = uint (tel_holdover_remaining_ms t)"
  "num_at (map c_py (telemetry_members t)) 14 = uint (tel_error_code_last t)"
  "num_at (map c_py (telemetry_members t)) 15 = uint (tel_error_count t)"
  "num_at (map c_py (telemetry_members t)) 16 = uint (tel_pulse_count t)"
  "num_at (map c_py (telemetry_members t)) 17 = uint (tel_lock_mode t)"
  "num_at (map c_py (telemetry_members t)) 19 = uint (tel_sync_accepted t)"
  "num_at (map c_py (telemetry_members t)) 20 = uint (tel_sync_rejected t)"
  "num_at (map c_py (telemetry_members t)) 21 = uint (tel_step_count t)"
  "num_at (map c_py (telemetry_members t)) 22 = uint (tel_holdover_count t)"
  by (simp_all add: num_at_def telemetry_members_def)

section \<open>Layouts\<close>

lemma telemetry_layout:
  "c_struct False telemetry_types = C_aggregate 128 8"
  "c_offsets False telemetry_types =
     [0, 4, 8, 12, 16, 20, 24, 28, 32, 40, 48, 56, 64, 72, 76, 80, 84, 88, 92, 96, 100, 104, 108, 112]"
  "fmt_offsets (map c_fmt telemetry_types) 0 =
     [0, 4, 8, 12, 16, 20, 24, 28, 32, 40, 48, 56, 64, 72, 76, 80, 84, 88, 92, 96, 100, 104, 108, 112]"
  unfolding telemetry_types_eq by code_simp+

lemma small_layouts:
  "c_struct False (map fst (cmd_members ch)) = C_aggregate 64 8"
  "c_offsets False (map fst (cmd_members ch)) = [0, 4, 8, 16]"
  "c_offsets False (map fst (entry_members e)) = [0, 4, 8, 16]"
  "c_offsets False (map fst (ring_members ring)) = [0, 4, 8]"
  "c_struct False (map fst (ring_members ring)) = C_aggregate (8 + 64 * 64) 8"
  "c_struct True (map fst (record_members r)) = C_aggregate 40 1"
  "c_offsets True (map fst (record_members r)) = [0, 8, 12, 20, 28, 36]"
  by (simp_all add: cmd_members_def entry_members_def ring_members_def record_members_def entry_type_eq
      drs_const layout_simps del: c_types)

lemma cmd_fmt:
  "map (c_fmt \<circ> fst) (cmd_members ch) = [Fmt_I, Fmt_I, Fmt_Q, Fmt_s 48]"
  "fmt_offsets [Fmt_I, Fmt_I, Fmt_Q, Fmt_s 48] 0 = [0, 4, 8, 16]"
  by (simp_all add: cmd_members_def)

lemma entry_fmt: "map (c_fmt \<circ> fst) (take 3 (entry_members e)) = [Fmt_I, Fmt_I, Fmt_q]"
  by (simp add: entry_members_def)

section \<open>Properties\<close>

text \<open>
  C40: layout of the shared structures. The natural layout of the C members has the offsets the
  header comments give and exactly 128, 64, 64 bytes for the telemetry record, the command slot and
  an error entry, without any padding a compiler would add; the packed stream record has 40 bytes;
  and the format strings of the agent put the same fields, with the same width and sign, at the same
  offsets, and its mapping of the error ring has the size of the C structure.
\<close>

theorem shm_layouts_agree:
  "c_struct False telemetry_types = C_aggregate 128 8 \<and>
   c_offsets False telemetry_types =
     [0, 4, 8, 12, 16, 20, 24, 28, 32, 40, 48, 56, 64, 72, 76, 80, 84, 88, 92, 96, 100, 104, 108, 112] \<and>
   struct_format TELEMETRY_FMT = Some (map c_fmt telemetry_types) \<and>
   fmt_offsets (map c_fmt telemetry_types) 0 = c_offsets False telemetry_types \<and>
   c_struct False (map fst (cmd_members ch)) = C_aggregate 64 8 \<and>
   c_offsets False (map fst (cmd_members ch)) = [0, 4, 8, 16] \<and>
   struct_format CMD_FMT = Some (map (c_fmt \<circ> fst) (cmd_members ch)) \<and>
   fmt_offsets (map (c_fmt \<circ> fst) (cmd_members ch)) 0 = c_offsets False (map fst (cmd_members ch)) \<and>
   entry_type = C_aggregate ERROR_ENTRY_SIZE 8 \<and> c_offsets False (map fst (entry_members e)) = [0, 4, 8, 16] \<and>
   struct_format ''=IIq'' = Some (map (c_fmt \<circ> fst) (take 3 (entry_members e))) \<and>
   c_offsets False (map fst (ring_members ring)) = [0, 4, 8] \<and>
   c_struct False (map fst (ring_members ring)) = C_aggregate (8 + DRS_ERROR_RING_SLOTS * ERROR_ENTRY_SIZE) 8 \<and>
   c_struct True (map fst (record_members r)) = C_aggregate 40 1 \<and>
   c_offsets True (map fst (record_members r)) = [0, 8, 12, 20, 28, 36]"
  by (intro conjI) (simp_all only: telemetry_layout small_layouts telemetry_format cmd_format entry_format
      entry_type_eq cmd_fmt entry_fmt, simp_all add: ERROR_ENTRY_SIZE_def drs_const)

text \<open>
  C22: round trip of the telemetry record through the shared memory. From the bytes of a record the
  agent makes exactly this dictionary, all 27 entries of its JSON answer: counters, times, codes and flags
  unchanged, the state name the tools show, the name of the lock mode, and the values it derives from
  offset, round-trip time, rate and acceptance counts. It does so whatever the sequence number is:
  the loop that should wait for an even, unchanged number reads one and the same copy, so that a
  record that is being written is reported like any other.
\<close>

theorem agent_telemetry_faithful:
  assumes "telemetry_in_range t"
  shows "decode_telemetry (telemetry_image (t\<lparr>tel_seqlock := any\<rparr>)) = Some
      [(''pid'', Py_int (uint (tel_pid t))), (''state'', Py_str (name_of STATE_NAMES (uint (tel_state t)))),
       (''state_id'', Py_int (uint (tel_state t))), (''flags'', Py_int (uint (tel_flags t))),
       (''is_leader'', Py_bool (tel_flags t AND DRS_FLAG_LEADER \<noteq> 0)),
       (''is_holdover'', Py_bool (tel_flags t AND DRS_FLAG_HOLDOVER \<noteq> 0)),
       (''is_calibrated'', Py_bool (tel_flags t AND DRS_FLAG_CALIBRATED \<noteq> 0)),
       (''leader_node_id'', Py_int (uint (tel_leader_node_id t))),
       (''election_term'', Py_int (uint (tel_election_term t))),
       (''offset_ns'', Py_int (tel_offset_ns t)), (''offset_us'', Py_float (F_div (tel_offset_ns t) 1000)),
       (''rate_ppm'', Py_float (F_round (F_div (tel_rate_q32_32 t - 4294967296) 4295) 4)),
       (''latency_corr_ns'', Py_int (tel_latency_corr_ns t)), (''last_rtt_ns'', Py_int (tel_last_rtt_ns t)),
       (''last_rtt_us'', Py_float (F_div (tel_last_rtt_ns t) 1000)),
       (''convergence_ns'', Py_int (uint (tel_convergence_unix_ns t))),
       (''converged'', Py_bool (tel_convergence_unix_ns t \<noteq> 0)),
       (''holdover_ms'', Py_int (uint (tel_holdover_remaining_ms t))),
       (''error_last'', Py_int (uint (tel_error_code_last t))),
       (''error_count'', Py_int (uint (tel_error_count t))), (''pulse_count'', Py_int (uint (tel_pulse_count t))),
       (''lock_mode'', Py_str (name_of LOCK_NAMES (uint (tel_lock_mode t)))),
       (''sync_accepted'', Py_int (uint (tel_sync_accepted t))),
       (''sync_rejected'', Py_int (uint (tel_sync_rejected t))),
       (''sync_accept_pct'', Py_float
         (if tel_sync_accepted t = 0 \<and> tel_sync_rejected t = 0 then F_lit 100
          else F_round (F_div (100 * uint (tel_sync_accepted t))
                  (uint (tel_sync_accepted t) + uint (tel_sync_rejected t))) 1)),
       (''step_count'', Py_int (uint (tel_step_count t))),
       (''holdover_count'', Py_int (uint (tel_holdover_count t)))] \<and>
    (\<forall>s. tel_state t = of_nat (state_code s) \<longrightarrow> name_of STATE_NAMES (uint (tel_state t)) = state_name s) \<and>
    (tel_lock_mode t \<in> {0, 1, 2} \<longrightarrow> name_of LOCK_NAMES (uint (tel_lock_mode t)) =
       (if tel_lock_mode t = 0 then ''AUTO'' else if tel_lock_mode t = 1 then ''LEADER'' else ''FOLLOWER''))"
proof -
  let ?t = "t\<lparr>tel_seqlock := any\<rparr>"
  have "telemetry_in_range ?t" using assms by (simp add: telemetry_in_range_def)
  then have dec: "decode_telemetry (telemetry_image ?t) = Some (telemetry_dict (map c_py (telemetry_members ?t)))"
    by (rule decode_image)
  have flags: "flag_set (uint f) 1 = (f AND DRS_FLAG_LEADER \<noteq> 0)" "flag_set (uint f) 2 = (f AND DRS_FLAG_HOLDOVER \<noteq> 0)"
    "flag_set (uint f) 4 = (f AND DRS_FLAG_CALIBRATED \<noteq> 0)" for f :: u32
    using flag_set_uint [of f 1] flag_set_uint [of f 2] flag_set_uint [of f 4] by (simp_all add: drs_const)
  have code: "uint (of_nat (state_code s) :: u32) = int (state_code s)" for s by (cases s) simp_all
  have total: "uint x + uint y > 0 \<longleftrightarrow> \<not> (x = 0 \<and> y = 0)" for x y :: u32
  proof -
    have "0 \<le> uint x" "0 \<le> uint y" by simp_all
    then show ?thesis using uint_0_iff [of x] uint_0_iff [of y] by linarith
  qed
  show ?thesis
    unfolding dec telemetry_dict_def Let_def
    by (auto simp: num_at_members flags code total name_of_state uint_0_iff RATE_NOMINAL_Q32_def RATE_PPM_Q32_def name_of_lock)
qed

theorem agent_telemetry_faithful_witness:
  "\<exists>d. decode_telemetry (telemetry_image (zero_telemetry\<lparr>tel_state := 4, tel_lock_mode := 2, tel_offset_ns := - 5, tel_seqlock := 3\<rparr>)) =
     Some d \<and> map_of d ''offset_ns'' = Some (Py_int (- 5)) \<and> map_of d ''state'' = Some (Py_str ''FOLLOWER'') \<and>
     map_of d ''lock_mode'' = Some (Py_str ''FOLLOWER'')"
  using agent_telemetry_faithful [of "zero_telemetry\<lparr>tel_state := 4, tel_lock_mode := 2, tel_offset_ns := - 5\<rparr>" 3]
    name_of_state [of DRS_STATE_FOLLOWER]
  by (simp add: telemetry_in_range_def zero_telemetry_def in_i64_def name_of_lock)

text \<open>A copy that has taken \<open>k\<close> bytes of the record \<open>a\<close> when the daemon makes it \<open>b\<close>.\<close>

definition overlapped_copy :: "nat \<Rightarrow> drs_telemetry \<Rightarrow> drs_telemetry \<Rightarrow> u8 list" where
  "overlapped_copy k a b = take k (telemetry_image a) @ drop k (telemetry_image b)"

lemma overlapped_40:
  assumes "telemetry_in_range a" "telemetry_in_range b"
  shows "unpack_items (map c_fmt telemetry_types) (overlapped_copy 40 a b) =
    take 9 (map c_py (telemetry_members a)) @ drop 9 (map c_py (telemetry_members b))"
proof -
  let ?fs = "take 9 (telemetry_members a) @ drop 9 (telemetry_members b)"
  have "overlapped_copy 40 a b = concat (map (\<lambda>(t, v). c_bytes t v) ?fs)"
    by (simp add: overlapped_copy_def telemetry_image_eq telemetry_members_def)
  moreover have "map c_fmt telemetry_types = map (c_fmt \<circ> fst) ?fs"
    by (simp add: telemetry_types_eq telemetry_members_def)
  moreover have "list_all c_fits ?fs"
    using telemetry_fits [OF assms(1)] telemetry_fits [OF assms(2)]
    by (auto simp: list_all_iff dest: in_set_takeD in_set_dropD)
  ultimately show ?thesis
    using unpack_c_items [of ?fs "[]"] by (simp add: take_map drop_map)
qed

text \<open>
  A torn snapshot is reported. The copy the agent decodes is one \<open>read\<close> of the mapping; when
  the daemon writes while it is made, the result is accepted at whatever byte the write falls, with
  whatever sequence numbers, and if it falls after the offset, the answer has the offset of the old
  record and the round-trip time of the new one.
\<close>

lemma agent_torn_snapshot:
  assumes "telemetry_in_range a" "telemetry_in_range b"
  shows "(\<exists>d. decode_telemetry (overlapped_copy k a b) = Some d) \<and>
    (\<exists>d. decode_telemetry (overlapped_copy 40 a b) = Some d \<and>
       dict_get d ''offset_ns'' Py_None = Py_int (tel_offset_ns a) \<and>
       dict_get d ''last_rtt_ns'' Py_None = Py_int (tel_last_rtt_ns b))"
proof
  have "length (overlapped_copy k a b) = 128" for k
    by (simp add: overlapped_copy_def length_telemetry_image)
  note dec = decode_any [OF this]
  show "\<exists>d. decode_telemetry (overlapped_copy k a b) = Some d" by (simp add: dec)
  let ?vals = "take 9 (map c_py (telemetry_members a)) @ drop 9 (map c_py (telemetry_members b))"
  have "num_at ?vals 8 = tel_offset_ns a" "num_at ?vals 11 = tel_last_rtt_ns b"
    by (simp_all add: num_at_def telemetry_members_def)
  then show "\<exists>d. decode_telemetry (overlapped_copy 40 a b) = Some d \<and>
       dict_get d ''offset_ns'' Py_None = Py_int (tel_offset_ns a) \<and>
       dict_get d ''last_rtt_ns'' Py_None = Py_int (tel_last_rtt_ns b)"
    by (simp add: dec overlapped_40 [OF assms] telemetry_dict_numbers)
qed

end
