(* ===== verification/Agent_Control.thy ===== *)
theory Agent_Control
  imports Agent_Views Startup_Run
begin

text \<open>
  The agent and the daemon together: a command that is posted to the agent is the one the daemon's
  next tick runs, and the health answer tells whether the node takes part in the synchronisation.
\<close>

section \<open>The slot after a write\<close>

lemma mask32: "word_of_int (x AND 0xFFFFFFFF) = (word_of_int x :: u32)" "0 \<le> x AND 0xFFFFFFFF"
  "x AND 0xFFFFFFFF < 2 ^ 32"
proof -
  have x: "x AND 0xFFFFFFFF = take_bit 32 x" by (simp add: take_bit_eq_mask mask_numeral)
  show "word_of_int (x AND 0xFFFFFFFF) = (word_of_int x :: u32)"
    unfolding x by (rule bit_word_eqI) (simp add: bit_simps)
  show "0 \<le> x AND 0xFFFFFFFF" "x AND 0xFFFFFFFF < 2 ^ 32"
    unfolding x by (simp_all add: take_bit_int_less_exp del: power_numeral)
qed

definition cmd_bytes :: "u32 \<Rightarrow> int \<Rightarrow> int \<Rightarrow> u8 list" where
  "cmd_bytes seq code ns = le_enc 4 seq @ le_enc 4 (word_of_int code :: u32) @
     le_enc 8 (word_of_int ns :: u64) @ replicate 48 0"

lemma write_cmd_bytes:
  assumes "length mem = 64" "0 \<le> code" "code < 2 ^ 32" "0 \<le> ns" "ns < 2 ^ 64" "shm_mm s"
  shows "write_cmd code ns s mem = Some (cmd_bytes (cc_seq (cmd_view mem) + 1) code ns)"
proof -
  let ?seq = "cc_seq (cmd_view mem)"
  have un: "struct_unpack CMD_FMT (take CMD_SIZE mem) =
      Some [Py_num (uint ?seq), Py_num (uint (cc_code (cmd_view mem))),
        Py_num (uint (cc_unix_ns (cmd_view mem))), Py_raw (cc_payload (cmd_view mem))]"
    using assms(1) by (simp add: struct_unpack_def cmd_format CMD_SIZE_def cmd_view_def get_bytes_def)
  let ?new = "(uint ?seq + 1) AND 0xFFFFFFFF"
  have "(word_of_int ?new :: u32) = ?seq + 1" by (simp add: mask32(1))
  moreover have "0 \<le> ?new" "?new < 2 ^ 32" by (rule mask32)+
  ultimately have "struct_pack CMD_FMT [Py_num ?new, Py_num code, Py_num ns, Py_raw (replicate 48 0)] =
      Some (cmd_bytes (?seq + 1) code ns)"
    using assms(2-5) by (simp add: struct_pack_def cmd_format cmd_bytes_def)
  then show ?thesis
    using assms(1,6) by (simp add: write_cmd_def un put_bytes_def) (simp add: cmd_bytes_def)
qed

lemma view_cmd_bytes:
  "cmd_view (cmd_bytes seq code ns) = \<lparr>cc_seq = seq, cc_code = word_of_int code, cc_unix_ns = word_of_int ns,
     cc_payload = replicate 48 0\<rparr>"
  by (simp add: cmd_view_def cmd_bytes_def get_bytes_def le32.dec_enc le64.dec_enc)

section \<open>The handler\<close>

text \<open>The actions of the API and the codes of \<open>src/cmd.h\<close> they stand for.\<close>

definition agent_actions :: "(string \<times> u32) list" where
  "agent_actions =
     [(''recalibrate'', DRS_CMD_RECALIBRATE), (''force_holdover'', DRS_CMD_FORCE_HOLDOVER),
      (''force_demote'', DRS_CMD_FORCE_DEMOTE), (''reset_filters'', DRS_CMD_RESET_FILTERS),
      (''force_leader'', DRS_CMD_FORCE_LEADER), (''force_follower'', DRS_CMD_FORCE_FOLLOWER),
      (''auto_mode'', DRS_CMD_AUTO_MODE)]"

lemma agent_actions_codes: "cmd_map = map (\<lambda>(a, c). (a, uint c)) agent_actions"
  by (simp add: cmd_map_def agent_actions_def drs_const)

lemma agent_actions_distinct: "distinct (map fst cmd_map)"
  by (simp add: cmd_map_def)

lemma agent_action_code: "(a, c) \<in> set agent_actions \<Longrightarrow> map_of cmd_map a = Some (uint c)"
  using agent_actions_distinct by (force simp: agent_actions_codes intro: map_of_is_SomeI)

lemma agent_actions_some: "(a, c) \<in> set agent_actions \<Longrightarrow> c \<noteq> DRS_CMD_NONE"
  by (auto simp: agent_actions_def drs_const)

definition slot_ready :: "open_outcome \<Rightarrow> shm \<Rightarrow> bool" where
  "slot_ready res s \<longleftrightarrow> shm_mm s \<or> (\<exists>fd. res = Open_mapped fd)"

lemma send_cmd_bytes:
  assumes "slot_ready res s" "length mem = 64" "0 \<le> ns" "ns < 2 ^ 64"
  shows "fst (send_cmd res (uint (c :: u32)) ns s mem) = Some (cmd_bytes (cc_seq (cmd_view mem) + 1) (uint c) ns)"
proof -
  have "0 \<le> uint c" "uint c < 2 ^ 32" using uint_bounded [of c] by simp_all
  note w = write_cmd_bytes [OF assms(2) this assms(3,4)]
  show ?thesis
    using assms(1) w by (auto simp: send_cmd_def slot_ready_def shm_open_def Let_def)
qed

definition action_ok :: "string \<Rightarrow> http" where
  "action_ok a = Http_json 200 (Py_dict [(''ok'', Py_bool True), (''action'', Py_str a)])"

lemma control_known:
  assumes "(a, c) \<in> set agent_actions" "dict_get d ''action'' (Py_str []) = Py_str a"
    and "slot_ready res s" "length mem = 64" "0 \<le> ns" "ns < 2 ^ 64"
  shows "\<exists>s'. handle_sync_control ftext (Some (Py_dict d)) res ns run s mem =
    (action_ok a, s', cmd_bytes (cc_seq (cmd_view mem) + 1) (uint c) ns)"
proof -
  obtain s' where "send_cmd res (uint c) ns s mem = (Some (cmd_bytes (cc_seq (cmd_view mem) + 1) (uint c) ns), s')"
    using send_cmd_bytes [OF assms(3-6), of c] by (metis prod.collapse)
  then show ?thesis
    by (simp add: handle_sync_control_def assms(2) agent_action_code [OF assms(1)] action_ok_def)
qed

section \<open>Properties\<close>

text \<open>
  C20: a command posted to the agent is executed once. For each of the seven actions the agent
  answers that it is done and leaves in the shared slot what the daemon's own \<open>cmd_send\<close> would, with
  an empty payload; the next tick event of the daemon runs exactly the command of that name after the
  tick, and the tick event after it runs none, whatever action it was.
\<close>

theorem agent_command_executed:
  assumes "(a, c) \<in> set agent_actions" "dict_get d ''action'' (Py_str []) = Py_str a"
    and "slot_ready res s" "length mem = 64" "0 \<le> ns" "ns < 2 ^ 64"
    and "cg_mapped (d_cmd (n_d n))" "cg_last_seq (d_cmd (n_d n)) = cc_seq (cmd_view mem)"
    and "(answer, s', mem') = handle_sync_control ftext (Some (Py_dict d)) res ns run s mem"
    and "te_channel te = cmd_view mem'" "n1 = on_tick os te t1 n"
  shows "answer = action_ok a \<and>
    cmd_view mem' = (snd (cmd_send True c ns (cmd_view mem)))\<lparr>cc_payload := replicate 48 0\<rparr> \<and>
    (\<exists>g. n_d n1 = sm_on_command os c t1 ((sm_tick os t1 (n_d n))\<lparr>d_cmd := g\<rparr>)) \<and>
    n_d (on_tick os te t2 n1) = sm_tick os t2 (n_d n1)"
proof -
  have mem': "answer = action_ok a" "mem' = cmd_bytes (cc_seq (cmd_view mem) + 1) (uint c) ns"
    using control_known [OF assms(1-6), of ftext run] assms(9) by auto
  let ?ch = "cmd_view mem'"
  have ch: "?ch = (snd (cmd_send True c ns (cmd_view mem)))\<lparr>cc_payload := replicate 48 0\<rparr>"
    by (simp add: mem'(2) view_cmd_bytes cmd_send_def cmd_send_seq_def cmd_send_code_def)
  have code: "cc_code ?ch = c" "cc_seq ?ch = cc_seq (cmd_view mem) + 1"
    by (simp_all add: mem'(2) view_cmd_bytes)
  let ?d = "sm_tick os t1 (n_d n)"
  have g: "d_cmd ?d = d_cmd (n_d n)" using sm_tick_guard [of "n_d n" os t1] by (auto simp: guard_frame_def)
  let ?g = "(d_cmd ?d)\<lparr>cg_last_seq := cc_seq ?ch\<rparr>"
  have "cmd_poll ?ch (d_cmd ?d) = (c, ?g)"
    using assms(7,8) code by (simp add: cmd_poll_def cmd_poll_seq_def g)
  then have n1: "n_d n1 = sm_on_command os c t1 (?d\<lparr>d_cmd := ?g\<rparr>)"
    using agent_actions_some [OF assms(1)] by (simp add: assms(10,11) on_tick_daemon Let_def)
  have "d_cmd (n_d n1) = ?g" "cg_mapped ?g"
    using sm_on_command_guard [of "?d\<lparr>d_cmd := ?g\<rparr>" os c t1] assms(7) n1 g by (auto simp: guard_frame_def)
  moreover have "d_cmd (sm_tick os t2 (n_d n1)) = d_cmd (n_d n1)"
    using sm_tick_guard [of "n_d n1" os t2] by (auto simp: guard_frame_def)
  ultimately have "cmd_poll ?ch (d_cmd (sm_tick os t2 (n_d n1))) = (DRS_CMD_NONE, d_cmd (sm_tick os t2 (n_d n1)))"
    by (simp add: cmd_poll_def cmd_poll_seq_def)
  then have "n_d (on_tick os te t2 n1) = sm_tick os t2 (n_d n1)"
    by (simp add: assms(10) on_tick_daemon Let_def)
  with mem'(1) ch n1 show ?thesis by blast
qed

text \<open>A node in LISTEN with an empty slot, and a request for the automatic mode.\<close>

definition control_node :: node where
  "control_node = \<lparr>n_d = (sample_daemon DRS_STATE_LISTEN)\<lparr>d_cmd := \<lparr>cg_mapped = True, cg_fd = 4, cg_last_seq = 0\<rparr>\<rparr>,
     n_running = True, n_tick_fd = 8, n_hb_fd = 9, n_tick_timer = None, n_hb_timer = None, n_epoll = [8, 9],
     n_link_check_ticks = 0, n_carrier_was_up = True, n_ifname = ''eth0''\<rparr>"

definition control_post :: "http \<times> shm \<times> u8 list" where
  "control_post = handle_sync_control (\<lambda>_. []) (Some (Py_dict [(''action'', Py_str ''auto_mode'')])) (Open_mapped 5) 7
     (\<lambda>_. Run_raises) \<lparr>shm_mm = False, shm_fd = - 1\<rparr> (replicate 64 0)"

definition control_tick :: tick_env where
  "control_tick = \<lparr>te_carrier = None, te_ifaddrs = None, te_join_ok = False,
     te_channel = cmd_view (snd (snd control_post))\<rparr>"

theorem agent_command_executed_witness:
  "fst control_post = action_ok ''auto_mode'' \<and>
   (\<exists>g. n_d (on_tick sample_os control_tick 0 control_node) =
      sm_on_command sample_os DRS_CMD_AUTO_MODE 0 ((sm_tick sample_os 0 (n_d control_node))\<lparr>d_cmd := g\<rparr>))"
proof -
  have a: "(''auto_mode'', DRS_CMD_AUTO_MODE) \<in> set agent_actions" by (simp add: agent_actions_def)
  have b: "dict_get [(''action'', Py_str ''auto_mode'')] ''action'' (Py_str []) = Py_str ''auto_mode''"
    by (simp add: dict_get_def)
  have c: "slot_ready (Open_mapped 5) \<lparr>shm_mm = False, shm_fd = - 1\<rparr>" by (simp add: slot_ready_def)
  have l: "length (replicate 64 (0 :: u8)) = 64" "(0 :: int) \<le> 7" "(7 :: int) < 2 ^ 64" by simp_all
  have m: "cg_mapped (d_cmd (n_d control_node))" by (simp add: control_node_def)
  have q: "cg_last_seq (d_cmd (n_d control_node)) = cc_seq (cmd_view (replicate 64 0))"
    by (simp add: control_node_def cmd_view_def get_bytes_def le_dec_def be_dec_def eval_nat_numeral)
  have h: "(fst control_post, fst (snd control_post), snd (snd control_post)) =
      handle_sync_control (\<lambda>_. []) (Some (Py_dict [(''action'', Py_str ''auto_mode'')])) (Open_mapped 5) 7
        (\<lambda>_. Run_raises) \<lparr>shm_mm = False, shm_fd = - 1\<rparr> (replicate 64 0)"
    by (simp add: control_post_def)
  have t: "te_channel control_tick = cmd_view (snd (snd control_post))" by (simp add: control_tick_def)
  show ?thesis
    using agent_command_executed [OF a b c l m q h t refl, of sample_os 0] by blast
qed

text \<open>
  Bad requests. A body that is not JSON and an action that is neither a command nor a service
  action are answered with status 400, a service action whose command fails with status 500, and none
  of them touches the slot. But when the slot can not be opened the agent answers every command with
  success, although nothing is written and the daemon polls nothing.
\<close>

lemma agent_control_errors:
  assumes "map_of cmd_map b = None" "map_of systemctl_map b = None" "(a, c) \<in> set agent_actions"
    and "map_of systemctl_map u = Some argv" "run argv = Run_called_process_error e" "map_of cmd_map u = None"
    and "\<not> shm_mm s"
  defines "post \<equiv> \<lambda>x. Some (Py_dict [(''action'', Py_str x)])"
  shows "handle_sync_control ftext None res ns run s mem = (Http_bad_request ''Invalid JSON'', s, mem) \<and>
    handle_sync_control ftext (post b) res ns run s mem = (Http_bad_request (''Unknown action: '' @ b), s, mem) \<and>
    handle_sync_control ftext (post u) res ns run s mem =
      (Http_json 500 (Py_dict [(''ok'', Py_bool False), (''error'', Py_str e)]), s, mem) \<and>
    handle_sync_control ftext (post a) Open_failed ns run s mem = (action_ok a, s, mem) \<and>
    (cg_last_seq g = cc_seq (cmd_view mem) \<longrightarrow> fst (cmd_poll (cmd_view mem) g) = DRS_CMD_NONE)"
  using assms(1-7)
  by (simp add: handle_sync_control_def post_def dict_get_def agent_action_code [OF assms(3)] send_cmd_def
      shm_open_def write_cmd_def action_ok_def cmd_poll_def cmd_poll_seq_def)

text \<open>
  The slot is written in one \<open>write\<close>, sequence number first. A daemon that polls when only that has
  arrived runs the command before once more, and never the new one.
\<close>

lemma agent_write_race:
  assumes "length mem = 64" "0 \<le> ns" "ns < 2 ^ 64" "shm_mm s" "cg_mapped g"
    and "cg_last_seq g = cc_seq (cmd_view mem)" "write_cmd (uint (c :: u32)) ns s mem = Some mem'"
  shows "case cmd_poll (cmd_view (take 4 mem' @ drop 4 mem)) g of
    (code, g') \<Rightarrow> code = cc_code (cmd_view mem) \<and> fst (cmd_poll (cmd_view mem') g') = DRS_CMD_NONE"
proof -
  have "0 \<le> uint c" "uint c < 2 ^ 32" using uint_bounded [of c] by simp_all
  then have mem': "mem' = cmd_bytes (cc_seq (cmd_view mem) + 1) (uint c) ns"
    using write_cmd_bytes [OF assms(1) _ _ assms(2-4)] assms(7) by simp
  have "cc_seq (cmd_view (take 4 mem' @ drop 4 mem)) = cc_seq (cmd_view mem) + 1"
    "cc_code (cmd_view (take 4 mem' @ drop 4 mem)) = cc_code (cmd_view mem)"
    using assms(1) by (simp_all add: mem' cmd_bytes_def cmd_view_def get_bytes_def le32.dec_enc)
  then show ?thesis
    using assms(5,6) by (simp add: cmd_poll_def cmd_poll_seq_def mem' view_cmd_bytes)
qed

section \<open>The health answer\<close>

lemma health_fail:
  "critical_fail (health_checks fd ftext path_exists tel) \<longleftrightarrow>
     \<not> path_exists \<or> int_of (dict_get tel ''state_id'' (Py_int (- 1))) < 2"
  by (auto simp: critical_fail_def health_checks_def check_def dict_get_def truthy_def Let_def)

definition healthy :: "http \<Rightarrow> bool option" where
  "healthy h =
     (case h of
        Http_json status (Py_dict d) \<Rightarrow>
          (case dict_get d ''healthy'' Py_None of Py_bool b \<Rightarrow> Some b | _ \<Rightarrow> None)
      | _ \<Rightarrow> None)"

lemma handle_sync_health_image:
  assumes "slot_ready res s"
  shows "healthy (fst (handle_sync_health fd ftext path_exists res (telemetry_image t) s)) =
    Some (path_exists \<and> 2 \<le> uint (tel_state t))"
proof -
  let ?tel = "telemetry_dict (unpack_items (map c_fmt telemetry_types) (telemetry_image t))"
  have "fst (get_telemetry res (telemetry_image t) s) = Some ?tel"
    using assms length_telemetry_image [of t]
    by (auto simp: get_telemetry_def slot_ready_def shm_open_def read_bytes_def decode_any)
  moreover have "dict_get ?tel ''state_id'' (Py_int (- 1)) = Py_int (uint (tel_state t))"
    by (simp add: telemetry_dict_numbers nth_telemetry_image)
  ultimately show ?thesis
    by (simp add: handle_sync_health_def Let_def case_prod_beta healthy_def dict_get_def health_fail not_less)
qed

text \<open>
  C23: the health answer against the node. After a tick with the telemetry segment mapped, the agent
  that reads the segment answers healthy exactly when the file is there and the node is active, that is
  past GROUND and CALIBRATION, whether it is synchronised or not; without the segment it answers
  unhealthy. The file is not removed when the daemon ends, so the answer then stays what it was.
\<close>

theorem agent_health_iff_active:
  assumes "tg_tel (d_tel (sm_tick_state os t d)) = Some tel0" "telemetry_get (d_tel (sm_tick os t d)) = Some tel"
    and "slot_ready res s" "\<not> shm_mm s0"
  shows "healthy (fst (handle_sync_health fd ftext path_exists res (telemetry_image tel) s)) =
      Some (path_exists \<and> sm_is_active (d_sm (sm_tick os t d))) \<and>
    healthy (fst (handle_sync_health fd ftext path_exists Open_failed mem s0)) = Some False"
proof
  have "tel_state tel = of_nat (state_code (sm_state (d_sm (sm_tick os t d))))"
    using tel_after_tick [OF assms(1)] assms(2) by (auto simp: telemetry_get_def)
  moreover have "(2 \<le> uint (of_nat (state_code x) :: u32)) = (x \<noteq> DRS_STATE_GROUND \<and> x \<noteq> DRS_STATE_CALIBRATION)" for x
    by (cases x) simp_all
  ultimately show "healthy (fst (handle_sync_health fd ftext path_exists res (telemetry_image tel) s)) =
      Some (path_exists \<and> sm_is_active (d_sm (sm_tick os t d)))"
    by (simp add: handle_sync_health_image [OF assms(3)] sm_is_active_def)
  have "int_of (dict_get [] ''state_id'' (Py_int (- 1))) < 2" by (simp add: dict_get_def)
  then show "healthy (fst (handle_sync_health fd ftext path_exists Open_failed mem s0)) = Some False"
    using assms(4)
    by (simp add: handle_sync_health_def get_telemetry_def shm_open_def Let_def healthy_def health_fail)
      (simp add: dict_get_def)
qed

theorem agent_health_iff_active_witness:
  "\<exists>(n :: node) tel. healthy (fst (handle_sync_health (\<lambda>_ _ _. []) (\<lambda>_. []) True (Open_mapped 3)
       (telemetry_image tel) \<lparr>shm_mm = False, shm_fd = - 1\<rparr>)) =
     Some (sm_is_active (d_sm (sm_tick run_os 0 (n_d n))))"
proof -
  obtain n tel where "booted run_os (run_boot\<lparr>be_tel := (3, True, True)\<rparr>) [''drs_syncd''] n"
    and n: "sm_state (d_sm (n_d n)) = DRS_STATE_GROUND" "tg_tel (d_tel (n_d n)) = Some tel"
    using run_booted_telemetry by blast
  have st: "tg_tel (d_tel (sm_tick_state run_os 0 (n_d n))) = Some tel"
    using n by (simp add: sm_tick_state_def d_tel_keeps)
  then obtain tel' where tel': "telemetry_get (d_tel (sm_tick run_os 0 (n_d n))) = Some tel'"
    using tel_after_tick [OF st] by (auto simp: telemetry_get_def)
  have ready: "slot_ready (Open_mapped 3) \<lparr>shm_mm = False, shm_fd = - 1\<rparr>" "\<not> shm_mm \<lparr>shm_mm = False, shm_fd = - 1\<rparr>"
    by (simp_all add: slot_ready_def)
  show ?thesis
    using agent_health_iff_active [OF st tel' ready, where path_exists = True and fd = "\<lambda>_ _ _. []" and
        ftext = "\<lambda>_. []"] by (intro exI [of _ n] exI [of _ tel']) simp
qed

end
