(* ===== verification/Agent_Errors.thy ===== *)
theory Agent_Errors
  imports Agent_Views
begin

text \<open>
  The error list the agent reads from the bytes of the ring: which slots the loop of \<open>get_errors\<close>
  visits, what it makes of a slot, and that the result is the list of the latest pushes.
\<close>

section \<open>The list of errors\<close>

lemma unat_of_char: "unat (of_char c :: u8) = of_char c"
proof -
  have "unat (of_nat (of_char c) :: u8) = of_char c mod 2 ^ LENGTH(8)" by (rule unat_of_nat)
  then show ?thesis unfolding of_nat_of_char by simp
qed

lemma of_char_0_iff: "(of_char c :: u8) = 0 \<longleftrightarrow> c = NUL"
proof -
  have "(of_char c :: u8) = 0 \<longleftrightarrow> of_char c = (0 :: nat)"
    by (simp only: unat_of_char flip: unat_eq_zero)
  also have "\<dots> \<longleftrightarrow> of_char c = (of_char NUL :: nat)" by (simp add: NUL_def)
  finally show ?thesis by (simp only: of_char_eq_iff)
qed

lemma rstrip_nul_padded: "0 \<notin> set s \<Longrightarrow> rstrip_nul (s @ replicate k 0) = s"
proof -
  assume "0 \<notin> set s"
  then have "dropWhile (\<lambda>b. b = 0) (rev s) = rev s"
    by (intro dropWhile_eq_self_iff [THEN iffD2]) (metis hd_in_set rev.simps(1) set_rev)
  then show ?thesis by (simp add: rstrip_nul_def dropWhile_append)
qed

text \<open>A message that a push stored ends in nothing but zero bytes.\<close>

definition msg_padded :: "drs_error_entry \<Rightarrow> bool" where
  "msg_padded e \<longleftrightarrow> ee_msg e = cstring (ee_msg e) @ replicate (48 - length (cstring (ee_msg e))) NUL"

lemma rstrip_msg:
  assumes "msg_padded e"
  shows "rstrip_nul (char_bytes (ee_msg e)) = char_bytes (cstring (ee_msg e))"
proof -
  let ?s = "cstring (ee_msg e)"
  have "char_bytes (ee_msg e) = char_bytes (?s @ replicate (48 - length ?s) NUL)"
    using assms by (metis msg_padded_def)
  also have "\<dots> = char_bytes ?s @ replicate (48 - length ?s) 0"
    by (simp add: char_bytes_def NUL_def)
  finally have eq: "char_bytes (ee_msg e) = char_bytes ?s @ replicate (48 - length ?s) 0" .
  have "0 \<notin> set (char_bytes ?s)"
    by (auto simp: char_bytes_def cstring_def of_char_0_iff dest: set_takeWhileD)
  then show ?thesis unfolding eq by (rule rstrip_nul_padded)
qed

lemma strncpy_padded:
  assumes "length dst = Suc n"
  shows "(strncpy dst src n)[n := NUL] = take n (cstring src) @ replicate (Suc n - length (take n (cstring src))) NUL"
proof -
  have "drop n dst = [dst ! n]"
    using assms by (metis Cons_nth_drop_Suc drop_all lessI order_refl)
  then show ?thesis
    by (simp add: strncpy_def Let_def cstring_def list_update_append Suc_diff_le replicate_append_same)
qed

lemma fill_padded:
  assumes "length (ee_msg e) = ERROR_MSG_BYTES"
  shows "msg_padded (error_entry_fill code (Some m) now e)"
proof -
  have "ee_msg (error_entry_fill code (Some m) now e) =
      take 47 (cstring m) @ replicate (48 - length (take 47 (cstring m))) NUL"
    using assms strncpy_padded [of "ee_msg e" 47 m]
    by (simp add: error_entry_fill_def Let_def ERROR_MSG_BYTES_def)
  moreover have "cstring (ee_msg (error_entry_fill code (Some m) now e)) = take 47 (cstring m)"
    using assms cstring_strncpy [of "ee_msg e" 47 m]
    by (simp add: error_entry_fill_def Let_def ERROR_MSG_BYTES_def)
  ultimately show ?thesis by (simp add: msg_padded_def)
qed

lemma push_padded:
  assumes "error_ring_inv ring" "\<forall>e \<in> set (er_slots ring). msg_padded e"
  shows "\<forall>e \<in> set (er_slots (error_ring_push code (Some m) now ring)). msg_padded e"
proof -
  let ?i = "unat (er_head ring) mod DRS_ERROR_RING_SLOTS"
  have "?i < length (er_slots ring)" using assms(1) by (simp add: error_ring_inv_def drs_const)
  then have "length (ee_msg (er_slots ring ! ?i)) = ERROR_MSG_BYTES"
    using assms(1) by (simp add: error_ring_inv_def)
  then show ?thesis
    using assms(2) fill_padded
    by (auto simp: error_ring_push_def Let_def dest!: set_update_subset_insert [THEN subsetD])
qed

definition messages_given :: "(u32 \<times> string option \<times> i64) list \<Rightarrow> bool" where
  "messages_given xs \<longleftrightarrow> list_all (\<lambda>(code, msg, now). msg \<noteq> None) xs"

lemma pushes_padded:
  assumes "error_ring_inv ring" "\<forall>e \<in> set (er_slots ring). msg_padded e" "messages_given xs"
  shows "\<forall>e \<in> set (er_slots (fold push_event xs ring)). msg_padded e"
  using assms
proof (induction xs arbitrary: ring)
  case (Cons x xs)
  obtain code m now where x: "x = (code, Some m, now)"
    using Cons.prems(3) by (auto simp: messages_given_def)
  let ?ring = "error_ring_push code (Some m) now ring"
  have "error_ring_inv ?ring" by (rule error_ring_push_inv [OF Cons.prems(1)])
  moreover have "\<forall>e \<in> set (er_slots ?ring). msg_padded e" by (rule push_padded [OF Cons.prems(1,2)])
  moreover have "messages_given xs" using Cons.prems(3) by (simp add: messages_given_def)
  ultimately show ?case using Cons.IH [of ?ring] by (simp add: x push_event_def)
qed simp

lemma fresh_ring_slots: "e \<in> set (er_slots fresh_ring) \<Longrightarrow> e = zero_entry"
  by (simp add: fresh_ring_def)

lemma cstring_nuls: "cstring (replicate n NUL) = []"
  by (simp add: cstring_def)

lemma zero_entry_padded: "msg_padded zero_entry"
proof -
  have "ee_msg zero_entry = replicate 48 NUL" by (simp add: zero_entry_def ERROR_MSG_BYTES_def)
  then show ?thesis
    unfolding msg_padded_def by (metis cstring_nuls append_Nil diff_zero list.size(3))
qed

lemma fresh_ring_padded: "e \<in> set (er_slots fresh_ring) \<Longrightarrow> msg_padded e"
  by (drule fresh_ring_slots) (simp only: zero_entry_padded)

text \<open>The same for a property of the time stamps.\<close>

lemma pushes_times:
  assumes "\<forall>e \<in> set (er_slots ring). in_i64 (ee_timestamp_ns e)" "error_ring_inv ring"
    and "list_all (\<lambda>(code, msg, now). in_i64 now) xs"
  shows "\<forall>e \<in> set (er_slots (fold push_event xs ring)). in_i64 (ee_timestamp_ns e)"
  using assms
proof (induction xs arbitrary: ring)
  case (Cons x xs)
  obtain code m now where x: "x = (code, m, now)" by (cases x)
  have "ee_timestamp_ns (error_entry_fill code m now e) = now" for e
    by (simp add: error_entry_fill_def Let_def split: option.split)
  then have "\<forall>e \<in> set (er_slots (push_event x ring)). in_i64 (ee_timestamp_ns e)"
    using Cons.prems by (auto simp: x push_event_def error_ring_push_def Let_def
        dest!: set_update_subset_insert [THEN subsetD])
  then show ?case
    using Cons error_ring_push_inv by (simp add: x push_event_def)
qed simp

section \<open>Reading the slots\<close>

lemma drop_concat_const:
  assumes "\<forall>x \<in> set xs. length (f x) = n" "j < length xs"
  shows "drop (j * n) (concat (map f xs)) = f (xs ! j) @ concat (map f (drop (Suc j) xs))"
  using assms
proof (induction xs arbitrary: j)
  case (Cons x xs)
  then show ?case by (cases j) simp_all
qed simp

definition agent_entry :: "drs_error_entry \<Rightarrow> pydict" where
  "agent_entry e =
     [(''code'', Py_int (uint (ee_code e))), (''count'', Py_int (uint (ee_count e))),
      (''timestamp_ns'', Py_int (ee_timestamp_ns e)),
      (''msg'', Py_text (utf8_replace (rstrip_nul (char_bytes (ee_msg e)))))]"

lemma drop_ring_image:
  assumes "error_ring_inv ring" "j < 64"
  shows "\<exists>rest. drop (8 + j * 64) (ring_image ring) = entry_image (er_slots ring ! j) @ rest"
proof -
  note inv = error_ring_inv_msgs [OF assms(1)]
  have "drop (8 + j * 64) (ring_image ring) = drop (j * 64) (concat (map entry_image (er_slots ring)))"
    by (simp add: ring_image_eq [OF assms(1)])
  then show ?thesis
    using inv assms(2) drop_concat_const [of "er_slots ring" entry_image 64 j] by (simp add: length_entry_image)
qed

lemma length_ring_image: "error_ring_inv ring \<Longrightarrow> length (ring_image ring) = 8 + 64 * 64"
  using error_ring_inv_msgs [of ring] length_concat_const [of "er_slots ring" entry_image 64]
  by (simp add: ring_image_eq length_entry_image)

lemma read_entry:
  assumes "error_ring_inv ring" "j < 64" "in_i64 (ee_timestamp_ns (er_slots ring ! j))"
  defines "e \<equiv> er_slots ring ! j" and "off \<equiv> 8 + j * ERROR_ENTRY_SIZE"
  shows "unpack_from ''=IIq'' (ring_image ring) off =
      Some [Py_num (uint (ee_code e)), Py_num (uint (ee_count e)), Py_num (ee_timestamp_ns e)]"
    and "get_bytes (ring_image ring) (off + 16) 48 = char_bytes (ee_msg e)"
proof -
  have len: "length (ee_msg e) = 48" using error_ring_inv_msgs [OF assms(1)] assms(2) by (simp add: e_def)
  have off: "off = 8 + j * 64" by (simp add: off_def ERROR_ENTRY_SIZE_def)
  obtain rest where d: "drop off (ring_image ring) = entry_image e @ rest"
    using drop_ring_image [OF assms(1,2)] by (auto simp: off e_def)
  have "off + 16 \<le> length (ring_image ring)" using assms(2) by (simp add: length_ring_image [OF assms(1)] off)
  moreover have "in_i64 (ee_timestamp_ns e)" using assms(3) by (simp add: e_def)
  ultimately show "unpack_from ''=IIq'' (ring_image ring) off =
      Some [Py_num (uint (ee_code e)), Py_num (uint (ee_count e)), Py_num (ee_timestamp_ns e)]"
    by (simp add: unpack_from_def entry_format d entry_image_eq [OF len] le32.dec_enc le64s.dec_enc)
  have "drop (off + 16) (ring_image ring) = drop 16 (drop off (ring_image ring))"
    by (simp add: add.commute)
  then show "get_bytes (ring_image ring) (off + 16) 48 = char_bytes (ee_msg e)"
    by (simp add: get_bytes_def d entry_image_eq [OF len]) (simp add: char_bytes_def len)
qed

lemma errors_loop_image:
  assumes "error_ring_inv ring" "\<forall>e \<in> set (er_slots ring). in_i64 (ee_timestamp_ns e)"
  shows "errors_loop (ring_image ring) head limit is = Some (map agent_entry
    (filter (\<lambda>e. ee_code e \<noteq> 0) (map (\<lambda>i. er_slots ring ! nat ((head - limit + i) mod 64)) is)))"
proof (induction "is")
  case (Cons i "is")
  define j where "j = nat ((head - limit + i) mod 64)"
  have j: "j < 64" "(head - limit + i) mod 64 = int j" by (simp_all add: j_def nat_less_iff)
  have slot: "er_slots ring ! j \<in> set (er_slots ring)"
    using error_ring_inv_msgs [OF assms(1)] j(1) by (intro nth_mem) simp
  have "8 + j * ERROR_ENTRY_SIZE + ERROR_ENTRY_SIZE \<le> length (ring_image ring)"
    using j(1) by (simp add: length_ring_image [OF assms(1)] ERROR_ENTRY_SIZE_def)
  moreover have "in_i64 (ee_timestamp_ns (er_slots ring ! j))" using assms(2) slot by blast
  note read_entry [OF assms(1) j(1) this]
  ultimately show ?case
    by (simp add: Cons.IH j(2) Let_def drs_const agent_entry_def uint_0_iff)
qed simp

lemma errors_of_image:
  assumes "error_ring_inv ring" "\<forall>e \<in> set (er_slots ring). in_i64 (ee_timestamp_ns e)"
    and "1 \<le> limit" "limit \<le> 64"
  shows "errors_of limit (ring_image ring) = Some (map agent_entry (filter (\<lambda>e. ee_code e \<noteq> 0)
    (drop (64 - nat limit) (ring_slice (er_slots ring) (unat (er_head ring)) (unat (er_head ring) + 64)))))"
proof -
  let ?h = "unat (er_head ring)"
  have len: "length (er_slots ring) = 64" using error_ring_inv_msgs [OF assms(1)] by simp
  have "map (\<lambda>i. er_slots ring ! nat ((int ?h - limit + i) mod 64)) [0..limit - 1] =
      drop (64 - nat limit) (ring_slice (er_slots ring) ?h (?h + 64))"
  proof (rule nth_equalityI)
    fix i assume "i < length (map (\<lambda>i. er_slots ring ! nat ((int ?h - limit + i) mod 64)) [0..limit - 1])"
    then have i: "i < nat limit" by simp
    have "(int ?h - limit + int i) mod 64 = (int ?h - limit + int i + 64) mod 64" by simp
    also have "int ?h - limit + int i + 64 = int (?h + (64 - nat limit + i))" using assms(3,4) by simp
    finally have "nat ((int ?h - limit + int i) mod 64) = (?h + (64 - nat limit + i)) mod 64"
      by (metis nat_int of_nat_mod of_nat_numeral)
    then show "map (\<lambda>i. er_slots ring ! nat ((int ?h - limit + i) mod 64)) [0..limit - 1] ! i =
        drop (64 - nat limit) (ring_slice (er_slots ring) ?h (?h + 64)) ! i"
      using i assms(3,4) len by (simp add: ring_slice_map nth_upto)
  qed (use assms(3,4) in simp)
  moreover have "unpack_from ''=I'' (ring_image ring) 0 = Some [Py_num (int ?h)]"
    by (simp add: unpack_from_def seq_format length_ring_image [OF assms(1)])
      (simp add: ring_image_eq [OF assms(1)] le32.dec_enc)
  ultimately show ?thesis
    using assms(3,4) by (simp add: errors_of_def errors_loop_image [OF assms(1,2)] drs_const min_absorb1)
qed

section \<open>The latest errors\<close>

text \<open>What the answer says of an error that was pushed.\<close>

definition error_reported :: "u32 \<times> string option \<times> i64 \<Rightarrow> pyval list" where
  "error_reported x = (case x of (code, msg, now) \<Rightarrow>
     [Py_int (uint code), Py_int now,
      Py_text (utf8_replace (char_bytes (take 47 (cstring (case msg of Some m \<Rightarrow> m | None \<Rightarrow> [])))))])"

definition error_answer :: "pydict \<Rightarrow> pyval list" where
  "error_answer d = map (\<lambda>k. dict_get d k Py_None) [''code'', ''timestamp_ns'', ''msg'']"

definition view_reported :: "u32 \<times> i64 \<times> string \<Rightarrow> pyval list" where
  "view_reported v = (case v of (code, now, s) \<Rightarrow>
     [Py_int (uint code), Py_int now, Py_text (utf8_replace (char_bytes s))])"

lemma answer_agent_entry: "msg_padded e \<Longrightarrow> error_answer (agent_entry e) = view_reported (entry_view e)"
  by (simp add: error_answer_def agent_entry_def dict_get_def rstrip_msg entry_view_def view_reported_def)

lemma view_stored: "view_reported (error_stored x) = error_reported x"
  by (simp add: view_reported_def error_stored_def error_reported_def ERROR_MSG_BYTES_def cstring_def
      split: prod.split option.split)

definition codes_set :: "(u32 \<times> string option \<times> i64) list \<Rightarrow> bool" where
  "codes_set xs \<longleftrightarrow> list_all (\<lambda>(code, msg, now). code \<noteq> 0) xs"

lemma filter_stored:
  "codes_set xs \<Longrightarrow> filter (\<lambda>v. fst v \<noteq> 0) (map error_stored xs) = map error_stored xs"
  by (induction xs) (auto simp: codes_set_def error_stored_def)

lemma codes_set_drop: "codes_set xs \<Longrightarrow> codes_set (drop n xs)"
  by (auto simp: codes_set_def list_all_iff dest: in_set_dropD)

lemma filter_map_view:
  "map entry_view (filter (\<lambda>e. ee_code e \<noteq> 0) es) = filter (\<lambda>v. fst v \<noteq> 0) (map entry_view es)"
  by (simp add: filter_map comp_def entry_view_def)

lemma fresh_contents: "error_ring_contents fresh_ring = replicate 64 (0, 0, [])"
proof -
  have "entry_view zero_entry = (0, 0, [])"
    by (simp add: entry_view_def zero_entry_def cstring_nuls)
  then have "\<forall>v \<in> set (error_ring_contents fresh_ring). v = (0, 0, [])"
    by (auto simp: error_ring_contents_def ring_slice_def fresh_ring_def drs_const)
  moreover have "length (error_ring_contents fresh_ring) = 64"
    by (simp add: error_ring_contents_def drs_const)
  ultimately show ?thesis by (metis replicate_eqI)
qed

text \<open>The last \<open>limit\<close> slots hold the last pushes, after slots that were never used.\<close>

lemma latest_contents:
  assumes "r = fold push_event events fresh_ring" "codes_set events" "limit \<le> 64"
  shows "filter (\<lambda>v. fst v \<noteq> 0) (drop (64 - limit) (error_ring_contents r)) =
    map error_stored (drop (length events - limit) events)"
proof -
  let ?n = "length events"
  have "drop (64 - limit) (error_ring_contents r) =
      drop (64 - limit + ?n) (replicate 64 (0, 0, []) @ map error_stored events)"
    by (simp only: fresh_ring_pushes(3) [OF assms(1)] fresh_contents drop_drop)
  also have "\<dots> = replicate (64 - (64 - limit + ?n)) (0, 0, []) @ map error_stored (drop (?n - limit) events)"
  proof -
    have "64 - limit + ?n - 64 = ?n - limit" using assms(3) by arith
    then show ?thesis by (simp only: drop_append drop_replicate length_replicate drop_map)
  qed
  finally show ?thesis
    using filter_stored [OF codes_set_drop [OF assms(2)]] by simp
qed

text \<open>
  C39: the error list of the agent. After a successful \<open>errors_init\<close> and any number of pushes, each
  with a code and a message, the agent reports from the bytes of the ring the last \<open>limit\<close> pushes, or
  all if there were fewer, oldest first, each with its code, its time and the first 47 bytes of its
  message as UTF-8 text.
\<close>

theorem agent_errors_latest:
  assumes "errors_init fd True True g = (0, g0)" "0 \<le> fd" "1 \<le> limit" "limit \<le> 64"
    and "codes_set events" "messages_given events" "list_all (\<lambda>(code, msg, now). in_i64 now) events"
    and "eg_ring (fold (\<lambda>(code, msg, now). errors_push code msg now) events g0) = Some ring"
  shows "\<exists>es. errors_of limit (ring_image ring) = Some es \<and>
    map error_answer es = map error_reported (drop (length events - nat limit) events)"
proof -
  have "eg_ring g0 = Some fresh_ring"
    using assms(1,2) by (auto simp: errors_init_def Let_def fresh_ring_def)
  then have ring: "ring = fold push_event events fresh_ring" using errors_pushes_ring assms(8) by force
  have inv: "error_ring_inv ring" unfolding ring by (rule erw.invar_pushes [OF fresh_ring_inv])
  have "\<forall>e \<in> set (er_slots fresh_ring). in_i64 (ee_timestamp_ns e)"
    using fresh_ring_slots by (force simp: zero_entry_def in_i64_def)
  then have times: "\<forall>e \<in> set (er_slots ring). in_i64 (ee_timestamp_ns e)"
    unfolding ring by (rule pushes_times [OF _ fresh_ring_inv assms(7)])
  have pad: "\<forall>e \<in> set (er_slots ring). msg_padded e"
    unfolding ring using fresh_ring_padded by (intro pushes_padded [OF fresh_ring_inv _ assms(6)]) blast
  define W where "W = drop (64 - nat limit) (ring_slice (er_slots ring) (unat (er_head ring)) (unat (er_head ring) + 64))"
  have "set W \<subseteq> set (er_slots ring)"
    using error_ring_inv_msgs [OF inv] by (auto simp: W_def ring_slice_def dest!: in_set_dropD)
  then have "map error_answer (map agent_entry (filter (\<lambda>e. ee_code e \<noteq> 0) W)) =
      map view_reported (map entry_view (filter (\<lambda>e. ee_code e \<noteq> 0) W))"
    using pad by (auto simp: answer_agent_entry subset_iff)
  also have "map entry_view (filter (\<lambda>e. ee_code e \<noteq> 0) W) =
      filter (\<lambda>v. fst v \<noteq> 0) (drop (64 - nat limit) (error_ring_contents ring))"
    by (simp add: filter_map_view W_def error_ring_contents_def drs_const drop_map)
  also have "\<dots> = map error_stored (drop (length events - nat limit) events)"
    using assms(3,4) by (intro latest_contents [OF ring assms(5)]) simp
  also have "map view_reported \<dots> = map error_reported (drop (length events - nat limit) events)"
    by (simp add: view_stored)
  finally show ?thesis
    using errors_of_image [OF inv times assms(3,4)] by (auto simp: W_def)
qed

theorem agent_errors_latest_witness:
  "\<exists>g0 ring es. errors_init 5 True True \<lparr>eg_ring = None, eg_fd = - 1\<rparr> = (0, g0) \<and>
     eg_ring (fold (\<lambda>(code, msg, now). errors_push code msg now)
       [(3, Some ''first'', 10), (4, Some ''ab'', 20)] g0) = Some ring \<and>
     errors_of 1 (ring_image ring) = Some es \<and> map error_answer es = [[Py_int 4, Py_int 20, Py_text [97, 98]]]"
proof -
  let ?i = "errors_init 5 True True \<lparr>eg_ring = None, eg_fd = - 1\<rparr>"
  let ?evs = "[(3, Some ''first'', 10), (4, Some ''ab'', 20)] :: (u32 \<times> string option \<times> i64) list"
  have i: "?i = (0, snd ?i)" "eg_ring (snd ?i) = Some fresh_ring"
    by (simp_all add: errors_init_def Let_def fresh_ring_def)
  have r: "eg_ring (fold (\<lambda>(code, msg, now). errors_push code msg now) ?evs (snd ?i)) =
      Some (fold push_event ?evs fresh_ring)"
    by (rule errors_pushes_ring [OF i(2)])
  have "error_reported (4, Some ''ab'', 20) = [Py_int 4, Py_int 20, Py_text [97, 98]]"
    by (simp add: error_reported_def char_bytes_def cstring_def NUL_def)
  then show ?thesis
    using agent_errors_latest [OF i(1) _ _ _ _ _ _ r, of 1] i r
    by (auto simp: codes_set_def messages_given_def in_i64_def)
qed

end
