(* ===== verification/Agent_Net.thy ===== *)
theory Agent_Net
  imports Agent
begin

text \<open>
  The handlers of the agent that run external programs and ask other nodes: \<open>get_local_subnet\<close>,
  \<open>scan_peers\<close> and the handlers of \<open>/api/sync/cluster\<close>, \<open>/api/peers\<close>, \<open>/api/transport\<close> and
  \<open>/api/wifi\<close> of \<open>src/code/agent/agent.py\<close>. What a program prints, which hosts answer and what a peer
  returns are arguments. Texts read from a program are lists of code points, as in \<open>Py_text\<close>.
\<close>

section \<open>Texts\<close>

definition uni :: "string \<Rightarrow> nat list" where
  "uni s = map of_char s"

definition line_break :: "nat \<Rightarrow> bool" where
  "line_break c \<longleftrightarrow> c \<in> set [10, 11, 12, 13, 28, 29, 30, 133, 8232, 8233]"

definition uspace :: "nat \<Rightarrow> bool" where
  "uspace c \<longleftrightarrow> (9 \<le> c \<and> c \<le> 13) \<or> (28 \<le> c \<and> c \<le> 32) \<or> (8192 \<le> c \<and> c \<le> 8202) \<or>
     c \<in> set [133, 160, 5760, 8232, 8233, 8239, 8287, 12288]"

text \<open>\<open>splitlines()\<close>, \<open>split()\<close>, \<open>split\<close> at a character and \<open>strip()\<close>; \<open>acc\<close> holds the part read so far, reversed.\<close>

fun lines_from :: "nat list \<Rightarrow> bool \<Rightarrow> nat list \<Rightarrow> nat list list" where
  "lines_from acc cr [] = (if acc = [] then [] else [rev acc])"
| "lines_from acc cr (c # cs) =
     (if cr \<and> c = 10 then lines_from [] False cs
      else if line_break c then rev acc # lines_from [] (c = 13) cs
      else lines_from (c # acc) False cs)"

definition splitlines :: "nat list \<Rightarrow> nat list list" where
  "splitlines s = lines_from [] False s"

fun words_from :: "nat list \<Rightarrow> nat list \<Rightarrow> nat list list" where
  "words_from acc [] = (if acc = [] then [] else [rev acc])"
| "words_from acc (c # cs) =
     (if \<not> uspace c then words_from (c # acc) cs
      else if acc = [] then words_from [] cs else rev acc # words_from [] cs)"

definition split_words :: "nat list \<Rightarrow> nat list list" where
  "split_words s = words_from [] s"

fun split_at :: "nat \<Rightarrow> nat list \<Rightarrow> nat list \<Rightarrow> nat list list" where
  "split_at sep acc [] = [rev acc]"
| "split_at sep acc (c # cs) = (if c = sep then rev acc # split_at sep [] cs else split_at sep (c # acc) cs)"

definition strip :: "nat list \<Rightarrow> nat list" where
  "strip s = rev (dropWhile uspace (rev (dropWhile uspace s)))"

definition starts :: "nat list \<Rightarrow> nat list \<Rightarrow> bool" where
  "starts p s \<longleftrightarrow> take (length p) s = p"

fun contains :: "nat list \<Rightarrow> nat list \<Rightarrow> bool" where
  "contains p [] \<longleftrightarrow> p = []"
| "contains p (c # cs) \<longleftrightarrow> starts p (c # cs) \<or> contains p cs"

section \<open>IPv4 networks\<close>

text \<open>
  \<open>ipaddress\<close> on an IPv4 address with or without a prefix length: the network as a text and its hosts.
  \<open>other\<close> is what it makes of any other text (a netmask, an IPv6 address), \<open>None\<close> for an exception.
\<close>

definition digit :: "nat \<Rightarrow> bool" where
  "digit c \<longleftrightarrow> 48 \<le> c \<and> c \<le> 57"

definition dec_value :: "nat list \<Rightarrow> nat" where
  "dec_value s = fold (\<lambda>c n. 10 * n + (c - 48)) s 0"

definition parse_octet :: "nat list \<Rightarrow> nat option" where
  "parse_octet s =
     (if s = [] \<or> \<not> list_all digit s \<or> 3 < length s \<or> (s \<noteq> [48] \<and> hd s = 48) \<or> 255 < dec_value s
      then None else Some (dec_value s))"

definition parse_v4 :: "nat list \<Rightarrow> nat option" where
  "parse_v4 s =
     (case map parse_octet (split_at 46 [] s) of
        [Some a, Some b, Some c, Some d] \<Rightarrow> Some (((a * 256 + b) * 256 + c) * 256 + d)
      | _ \<Rightarrow> None)"

definition parse_len :: "nat list \<Rightarrow> nat option" where
  "parse_len s = (if s = [] \<or> \<not> list_all digit s \<or> 32 < dec_value s then None else Some (dec_value s))"

definition decimal :: "nat \<Rightarrow> nat list" where
  "decimal n = uni (pd (int n))"

definition v4_text :: "nat \<Rightarrow> nat list" where
  "v4_text n = decimal (n div 16777216) @ [46] @ decimal (n div 65536 mod 256) @ [46] @
     decimal (n div 256 mod 256) @ [46] @ decimal (n mod 256)"

definition net_base :: "nat \<Rightarrow> nat \<Rightarrow> nat" where
  "net_base n k = n div 2 ^ (32 - k) * 2 ^ (32 - k)"

definition net_text :: "nat \<Rightarrow> nat \<Rightarrow> nat list" where
  "net_text n k = v4_text (net_base n k) @ [47] @ decimal k"

definition net_hosts :: "nat \<Rightarrow> nat \<Rightarrow> nat list" where
  "net_hosts n k =
     (let b = net_base n k
      in if k = 32 then [b] else if k = 31 then [b, b + 1] else [b + 1 ..< b + 2 ^ (32 - k) - 1])"

type_synonym ip_other = "nat list \<Rightarrow> (nat list \<times> nat list list) option"

definition v4_net :: "nat \<Rightarrow> nat \<Rightarrow> nat list \<times> nat list list" where
  "v4_net n k = (net_text n k, map v4_text (net_hosts n k))"

definition ip_network :: "ip_other \<Rightarrow> nat list \<Rightarrow> (nat list \<times> nat list list) option" where
  "ip_network other s =
     (case split_at 47 [] s of
        [a] \<Rightarrow> (case parse_v4 a of Some n \<Rightarrow> Some (v4_net n 32) | None \<Rightarrow> other s)
      | [a, l] \<Rightarrow>
          (case (parse_v4 a, parse_len l) of (Some n, Some k) \<Rightarrow> Some (v4_net n k) | _ \<Rightarrow> other s)
      | _ \<Rightarrow> other s)"

section \<open>Discovery of peers\<close>

text \<open>A program that is run: it raises (with the text of the exception), or ends and has printed something.\<close>

datatype proc = Proc_raises string | Proc_done "nat list"

type_synonym run = "pyval list \<Rightarrow> proc"

text \<open>The loops of \<open>get_local_subnet\<close>: \<open>None\<close> for an exception, \<open>Some None\<close> when they end without a return.\<close>

fun addr_lines :: "ip_other \<Rightarrow> nat list list \<Rightarrow> nat list option option" where
  "addr_lines other [] = Some None"
| "addr_lines other (l # ls) =
     (let l = strip l
      in if starts (uni ''inet '') l
         then (case ip_network other (split_words l ! 1) of Some (net, _) \<Rightarrow> Some (Some net) | None \<Rightarrow> None)
         else addr_lines other ls)"

fun after_dev :: "nat list list \<Rightarrow> nat list option option" where
  "after_dev [] = Some None"
| "after_dev (w # ws) =
     (if w = uni ''dev'' then (case ws of [] \<Rightarrow> None | d # _ \<Rightarrow> Some (Some d)) else after_dev ws)"

fun route_lines :: "ip_other \<Rightarrow> run \<Rightarrow> nat list list \<Rightarrow> nat list option option" where
  "route_lines other run [] = Some None"
| "route_lines other run (l # ls) =
     (if contains (uni ''default'') l
      then (case after_dev (split_words l) of
              None \<Rightarrow> None
            | Some None \<Rightarrow> route_lines other run ls
            | Some (Some dev) \<Rightarrow>
                (case run [Py_str ''ip'', Py_str ''-4'', Py_str ''addr'', Py_str ''show'', Py_text dev] of
                   Proc_raises _ \<Rightarrow> None
                 | Proc_done out \<Rightarrow>
                     (case addr_lines other (splitlines out) of
                        Some None \<Rightarrow> route_lines other run ls
                      | r \<Rightarrow> r)))
      else route_lines other run ls)"

definition get_local_subnet :: "ip_other \<Rightarrow> run \<Rightarrow> nat list option" where
  "get_local_subnet other run =
     (case run [Py_str ''ip'', Py_str ''-4'', Py_str ''route'', Py_str ''show'', Py_str ''default''] of
        Proc_raises _ \<Rightarrow> None
      | Proc_done out \<Rightarrow>
          (case route_lines other run (splitlines out) of Some (Some net) \<Rightarrow> Some net | _ \<Rightarrow> None))"

text \<open>\<open>own\<close> is the address of the own host name, \<open>None\<close> when it has none; \<open>probe\<close> whether a host accepts on port 8080.\<close>

definition scan_peers :: "ip_other \<Rightarrow> nat list option \<Rightarrow> (nat list \<Rightarrow> bool) \<Rightarrow> nat list \<Rightarrow> nat list list" where
  "scan_peers other own probe subnet =
     (case (ip_network other subnet, own) of
        (Some (_, hosts), Some me) \<Rightarrow> filter probe (filter (\<lambda>h. h \<noteq> me) (take 254 hosts))
      | _ \<Rightarrow> [])"

definition handle_peers_discover ::
  "ip_other \<Rightarrow> run \<Rightarrow> nat list option \<Rightarrow> (nat list \<Rightarrow> bool) \<Rightarrow> http \<times> nat list list" where
  "handle_peers_discover other run own probe =
     (let subnet = (case get_local_subnet other run of
                      Some s \<Rightarrow> if s = [] then uni ''10.0.0.0/24'' else s
                    | None \<Rightarrow> uni ''10.0.0.0/24'');
          peers = scan_peers other own probe subnet
      in (Http_json 200 (Py_dict [(''subnet'', Py_text subnet), (''peers'', Py_list (map Py_text peers))]), peers))"

section \<open>The cluster\<close>

text \<open>
  \<open>enters\<close> is whether the object in the first \<open>async with\<close> is an asynchronous context manager, \<open>ask\<close> the
  JSON a peer answers, \<open>None\<close> for an exception.
\<close>

definition handle_sync_cluster ::
  "bool \<Rightarrow> (nat list \<Rightarrow> pyval option) \<Rightarrow> open_outcome \<Rightarrow> u8 list \<Rightarrow> nat list list \<Rightarrow> shm \<Rightarrow> http \<times> shm" where
  "handle_sync_cluster enters ask res mem peers s =
     (let (tel, s) = get_telemetry res mem s
      in (case tel of
            None \<Rightarrow> Http_failure
          | Some local \<Rightarrow>
              if \<not> enters then Http_failure
              else Http_json 200 (Py_list
                ([Py_dict [(''ip'', Py_str ''localhost''), (''telemetry'', Py_dict local)]] @
                 [Py_dict [(''ip'', Py_text ip), (''telemetry'', the (ask ip))]. ip \<leftarrow> peers, ask ip \<noteq> None])), s))"

section \<open>Programs that are run\<close>

text \<open>
  A sequence of \<open>subprocess.run\<close> without \<open>check\<close>: the first that raises ends it with its exception.
  The commands that were started are returned.
\<close>

fun run_all :: "run \<Rightarrow> pyval list list \<Rightarrow> string option \<times> pyval list list" where
  "run_all run [] = (None, [])"
| "run_all run (c # cs) =
     (case run c of
        Proc_raises e \<Rightarrow> (Some e, [c])
      | Proc_done _ \<Rightarrow> (let (err, done) = run_all run cs in (err, c # done)))"

definition http_error :: "string \<Rightarrow> http" where
  "http_error e = Http_json 500 (Py_dict [(''ok'', Py_bool False), (''error'', Py_str e)])"

text \<open>
  The transport: \<open>conf\<close> is the content of \<open>/etc/drs_sync/transport.conf\<close>, \<open>store\<close> the outcome of writing
  it: an exception, with what the file holds then.
\<close>

definition handle_transport ::
  "pyval option \<Rightarrow> run \<Rightarrow> (string \<times> string option) option \<Rightarrow> string option \<Rightarrow> http \<times> string option \<times> pyval list list" where
  "handle_transport body run store conf =
     (case body of
        None \<Rightarrow> (Http_bad_request ''Invalid JSON'', conf, [])
      | Some (Py_dict d) \<Rightarrow>
          (let iface = dict_get d ''interface'' (Py_str ''eth0'')
           in if iface \<noteq> Py_str ''eth0'' \<and> iface \<noteq> Py_str ''wlan0''
              then (Http_bad_request ''interface must be eth0 or wlan0'', conf, [])
              else
                let (err, cmds) = run_all run [[Py_str ''systemctl'', Py_str ''restart'', Py_str ''drs_syncd.service'']]
                in (case err of
                      Some e \<Rightarrow> (http_error e, conf, cmds)
                    | None \<Rightarrow>
                        (case store of
                           Some (e, left) \<Rightarrow> (http_error e, left, cmds)
                         | None \<Rightarrow>
                             (Http_json 200 (Py_dict [(''ok'', Py_bool True), (''interface'', iface)]),
                              Some (''IFACE='' @ py_str (\<lambda>_. []) iface @ [CHR 0x0A]), cmds))))
      | Some _ \<Rightarrow> (Http_failure, conf, []))"

definition wifi_network :: "nat list list \<Rightarrow> pyval" where
  "wifi_network p = Py_dict
     [(''bssid'', Py_text (p ! 0)), (''freq'', Py_text (p ! 1)), (''signal'', Py_text (p ! 2)),
      (''flags'', Py_text (p ! 3)), (''ssid'', Py_text (p ! 4))]"

definition handle_wifi_scan :: "run \<Rightarrow> http" where
  "handle_wifi_scan run =
     (case run [Py_str ''wpa_cli'', Py_str ''-i'', Py_str ''wlan0'', Py_str ''scan_results''] of
        Proc_raises e \<Rightarrow> Http_json 500 (Py_dict [(''error'', Py_str e)])
      | Proc_done out \<Rightarrow>
          (let rows = map (split_at 9 []) (drop 1 (splitlines (strip out)))
           in Http_json 200 (Py_dict [(''networks'', Py_list (map wifi_network (filter (\<lambda>p. 5 \<le> length p) rows)))])))"

text \<open>The text of a JSON value in an f-string; \<open>fmt\<close> gives it for the values that are not texts.\<close>

definition fstring :: "(pyval \<Rightarrow> string) \<Rightarrow> pyval \<Rightarrow> string" where
  "fstring fmt v = (case v of Py_str s \<Rightarrow> s | _ \<Rightarrow> fmt v)"

definition wpa :: "pyval list \<Rightarrow> pyval list" where
  "wpa args = [Py_str ''wpa_cli'', Py_str ''-i'', Py_str ''wlan0''] @ args"

definition quoted :: "(pyval \<Rightarrow> string) \<Rightarrow> pyval \<Rightarrow> pyval" where
  "quoted fmt v = Py_str ([CHR 0x22] @ fstring fmt v @ [CHR 0x22])"

definition wifi_commands :: "(pyval \<Rightarrow> string) \<Rightarrow> pyval \<Rightarrow> pyval \<Rightarrow> pyval \<Rightarrow> pyval list list" where
  "wifi_commands fmt ssid psk net_id =
     [wpa [Py_str ''set_network'', net_id, Py_str ''ssid'', quoted fmt ssid],
      (if truthy psk then wpa [Py_str ''set_network'', net_id, Py_str ''psk'', quoted fmt psk]
       else wpa [Py_str ''set_network'', net_id, Py_str ''key_mgmt'', Py_str ''NONE'']),
      wpa [Py_str ''enable_network'', net_id], wpa [Py_str ''save_config'']]"

definition handle_wifi_connect :: "(pyval \<Rightarrow> string) \<Rightarrow> pyval option \<Rightarrow> run \<Rightarrow> http \<times> pyval list list" where
  "handle_wifi_connect fmt body run =
     (case body of
        None \<Rightarrow> (Http_bad_request ''Invalid JSON'', [])
      | Some (Py_dict d) \<Rightarrow>
          (let ssid = dict_get d ''ssid'' (Py_str []); psk = dict_get d ''psk'' (Py_str [])
           in if \<not> truthy ssid then (Http_bad_request ''ssid required'', [])
              else
                let add = wpa [Py_str ''add_network'']
                in (case run add of
                      Proc_raises e \<Rightarrow> (http_error e, [add])
                    | Proc_done out \<Rightarrow>
                        (let (err, cmds) = run_all run (wifi_commands fmt ssid psk (Py_text (strip out)))
                         in (case err of
                               Some e \<Rightarrow> http_error e
                             | None \<Rightarrow> Http_json 200 (Py_dict [(''ok'', Py_bool True), (''ssid'', ssid)]), add # cmds))))
      | Some _ \<Rightarrow> (Http_failure, []))"

section \<open>Parsing what is printed\<close>

lemma decimal_rec: "decimal n = (if n < 10 then [48 + n] else decimal (n div 10) @ [48 + n mod 10])"
proof -
  have "uni (dec n) = (if n < 10 then [48 + n] else uni (dec (n div 10)) @ [48 + n mod 10])"
    by (subst dec.simps) (simp add: uni_def of_char_of)
  then show ?thesis by (simp add: decimal_def pd_def)
qed

lemma decimal_induct [case_names small large]:
  assumes "\<And>n. n < 10 \<Longrightarrow> P n" "\<And>n. 10 \<le> n \<Longrightarrow> P (n div 10) \<Longrightarrow> P n"
  shows "P (n :: nat)"
proof (induction n rule: less_induct)
  case (less n)
  then show ?case using assms by (cases "n < 10") simp_all
qed

lemma decimal_ne [simp]: "decimal n \<noteq> []"
  by (subst decimal_rec) simp

lemma decimal_digits [simp]: "list_all digit (decimal n)"
proof (induction n rule: decimal_induct)
  case (small n)
  then show ?case by (subst decimal_rec) (simp add: digit_def)
next
  case (large n)
  moreover have "digit (48 + n mod 10)" by (simp add: digit_def)
  ultimately show ?case by (subst decimal_rec) simp
qed

lemma dec_value_snoc: "dec_value (s @ [c]) = 10 * dec_value s + (c - 48)"
  by (simp add: dec_value_def)

lemma dec_value_decimal [simp]: "dec_value (decimal n) = n"
proof (induction n rule: decimal_induct)
  case (small n)
  then show ?case by (subst decimal_rec) (simp add: dec_value_def)
next
  case (large n)
  then show ?case by (subst decimal_rec) (simp add: dec_value_snoc)
qed

lemma decimal_hd: "0 < n \<Longrightarrow> hd (decimal n) \<noteq> 48"
proof (induction n rule: decimal_induct)
  case (large n)
  then show ?case by (subst decimal_rec) simp
qed (subst decimal_rec, simp)

lemma decimal_length: "n < 1000 \<Longrightarrow> length (decimal n) \<le> 3"
  by (subst decimal_rec, subst decimal_rec, subst decimal_rec) auto

lemma parse_octet_decimal: "b < 256 \<Longrightarrow> parse_octet (decimal b) = Some b"
proof -
  assume b: "b < 256"
  have "decimal b = [48] \<or> hd (decimal b) \<noteq> 48"
    using decimal_hd [of b] decimal_rec [of 0] by (cases "b = 0") simp_all
  then show ?thesis using b decimal_length [of b] by (auto simp: parse_octet_def)
qed

lemma parse_len_decimal: "k \<le> 32 \<Longrightarrow> parse_len (decimal k) = Some k"
  by (simp add: parse_len_def)

lemma split_at_word: "list_all (\<lambda>c. c \<noteq> sep) w \<Longrightarrow> split_at sep acc w = [rev acc @ w]"
  by (induction w arbitrary: acc) auto

lemma split_at_append:
  "list_all (\<lambda>c. c \<noteq> sep) w \<Longrightarrow> split_at sep acc (w @ [sep] @ s) = (rev acc @ w) # split_at sep [] s"
  by (induction w arbitrary: acc) auto

lemma digits_no_sep: "list_all digit w \<Longrightarrow> sep < 48 \<Longrightarrow> list_all (\<lambda>c. c \<noteq> sep) w"
  by (auto simp: list_all_iff digit_def)

lemma byte_split:
  "((n div 16777216 * 256 + n div 65536 mod 256) * 256 + n div 256 mod 256) * 256 + n mod 256 = (n :: nat)"
proof -
  have "n div 65536 = n div 256 div 256" "n div 16777216 = n div 256 div 256 div 256"
    by (simp_all flip: div_mult2_eq)
  then show ?thesis by (simp only: div_mult_mod_eq)
qed

lemma parse_v4_text: "n < 4294967296 \<Longrightarrow> parse_v4 (v4_text n) = Some n"
proof -
  assume n: "n < 4294967296"
  define a b c d where "a = n div 16777216" and "b = n div 65536 mod 256" and "c = n div 256 mod 256" and "d = n mod 256"
  have r: "a < 256" "b < 256" "c < 256" "d < 256" using n by (auto simp: a_def b_def c_def d_def)
  have "list_all (\<lambda>x. x \<noteq> 46) (decimal x)" for x
    by (rule digits_no_sep) simp_all
  then have "split_at 46 [] (v4_text n) = [decimal a, decimal b, decimal c, decimal d]"
    using r by (simp add: v4_text_def split_at_append [simplified] split_at_word flip: a_def b_def c_def d_def)
  then have "parse_v4 (v4_text n) = Some (((a * 256 + b) * 256 + c) * 256 + d)"
    using r by (simp add: parse_v4_def parse_octet_decimal)
  moreover have "((a * 256 + b) * 256 + c) * 256 + d = n"
    unfolding a_def b_def c_def d_def by (rule byte_split)
  ultimately show ?thesis by simp
qed

lemma v4_text_no_slash: "n < 4294967296 \<Longrightarrow> list_all (\<lambda>x. x \<noteq> 47) (v4_text n)"
  using digits_no_sep [OF decimal_digits, of 47] by (simp add: v4_text_def)

text \<open>The text of a network is read back as the same network.\<close>

lemma ip_network_text:
  assumes "n < 4294967296" "k \<le> 32"
  shows "ip_network other (net_text n k) = Some (v4_net n k)"
proof -
  let ?b = "net_base n k"
  have "?b \<le> n" by (simp add: net_base_def)
  then have b: "?b < 4294967296" using assms(1) by simp
  have "net_base ?b k = ?b" by (simp add: net_base_def)
  then have "v4_net ?b k = v4_net n k" by (simp add: v4_net_def net_text_def net_hosts_def)
  moreover have "list_all (\<lambda>x. x \<noteq> 47) (decimal k)"
    by (rule digits_no_sep) simp_all
  ultimately show ?thesis
    using b parse_v4_text [OF b] parse_len_decimal [OF assms(2)]
    by (simp add: ip_network_def net_text_def split_at_append [OF v4_text_no_slash, simplified] split_at_word)
qed

section \<open>What the handlers do\<close>

lemma after_dev_found: "uni ''dev'' \<notin> set ws \<Longrightarrow> after_dev (ws @ uni ''dev'' # d # ws') = Some (Some d)"
  by (induction ws) auto

lemma addr_lines_skip:
  "\<forall>l \<in> set ls. \<not> starts (uni ''inet '') (strip l) \<Longrightarrow> addr_lines other (ls @ ls') = addr_lines other ls'"
  by (induction ls) (auto simp: Let_def)

lemma length_net_hosts: "24 \<le> k \<Longrightarrow> k \<le> 30 \<Longrightarrow> length (net_hosts n k) \<le> 254"
proof -
  assume k: "24 \<le> k" "k \<le> 30"
  then have "(2 :: nat) ^ (32 - k) \<le> 2 ^ 8" by (intro power_increasing) auto
  then show ?thesis using k by (simp add: net_hosts_def Let_def)
qed

text \<open>
  Discovery from the output of \<open>ip\<close>: with a default route over \<open>d\<close>, whose first \<open>inet\<close> line gives the
  address \<open>n\<close> with a prefix of 24 to 30 bits, the answer holds that network and exactly the other hosts
  of it that accept a connection, in ascending order.
\<close>

lemma peers_discovered:
  fixes probe :: "nat list \<Rightarrow> bool" and run :: run
  assumes "run [Py_str ''ip'', Py_str ''-4'', Py_str ''route'', Py_str ''show'', Py_str ''default''] = Proc_done routes"
    and "splitlines routes = l # ls" "contains (uni ''default'') l"
    and "split_words l = ws @ uni ''dev'' # d # ws'" "uni ''dev'' \<notin> set ws"
    and "run [Py_str ''ip'', Py_str ''-4'', Py_str ''addr'', Py_str ''show'', Py_text d] = Proc_done addrs"
    and "splitlines addrs = as @ a # as'" "\<forall>x \<in> set as. \<not> starts (uni ''inet '') (strip x)"
    and "starts (uni ''inet '') (strip a)" "split_words (strip a) ! 1 = v4_text n @ [47] @ decimal k"
    and "n < 4294967296" "24 \<le> k" "k \<le> 30" "own = Some me"
  defines "peers \<equiv> filter probe (filter (\<lambda>h. h \<noteq> me) (map v4_text [net_base n k + 1 ..< net_base n k + 2 ^ (32 - k) - 1]))"
  shows "handle_peers_discover other run own probe =
    (Http_json 200 (Py_dict [(''subnet'', Py_text (net_text n k)), (''peers'', Py_list (map Py_text peers))]), peers)"
proof -
  have k: "k \<le> 32" using assms(13) by simp
  have "split_at 47 [] (v4_text n @ [47] @ decimal k) = [v4_text n, decimal k]"
    using v4_text_no_slash [OF assms(11)] digits_no_sep [OF decimal_digits, of 47 k]
    by (simp only: split_at_append split_at_word) simp
  then have "ip_network other (v4_text n @ [47] @ decimal k) = Some (v4_net n k)"
    using parse_v4_text [OF assms(11)] parse_len_decimal [OF k] by (simp add: ip_network_def)
  then have "addr_lines other (splitlines addrs) = Some (Some (net_text n k))"
    using assms(9,10) by (simp add: assms(7) addr_lines_skip [OF assms(8)] v4_net_def Let_def)
  then have net: "get_local_subnet other run = Some (net_text n k)"
    using assms(1,3,6) by (simp add: get_local_subnet_def assms(2,4) after_dev_found [OF assms(5)])
  have "take 254 (net_hosts n k) = net_hosts n k" using length_net_hosts [OF assms(12,13)] by simp
  moreover have "net_hosts n k = [net_base n k + 1 ..< net_base n k + 2 ^ (32 - k) - 1]"
    using assms(12,13) by (simp add: net_hosts_def Let_def)
  ultimately have "scan_peers other own probe (net_text n k) = peers"
    by (simp add: scan_peers_def ip_network_text [OF assms(11) k] v4_net_def assms(14) peers_def take_map)
  moreover have "net_text n k \<noteq> []" by (simp add: net_text_def)
  ultimately show ?thesis by (simp add: handle_peers_discover_def net)
qed

text \<open>
  Without a default route the fixed network is scanned. A request for the cluster never gets to the
  peers when the event loop is no asynchronous context manager.
\<close>

lemma decimal_small: "n < 10 \<Longrightarrow> decimal n = [48 + n]" "9 < n \<Longrightarrow> n < 100 \<Longrightarrow> decimal n = [48 + n div 10, 48 + n mod 10]"
  by (simp add: decimal_rec [of n], simp add: decimal_rec [of n] decimal_rec [of "n div 10"])

lemma default_subnet: "ip_network other (uni ''10.0.0.0/24'') = Some (v4_net 167772160 24)"
proof -
  have "uni ''10.0.0.0/24'' = net_text 167772160 24"
    by (simp add: net_text_def net_base_def v4_text_def decimal_small uni_def)
  then show ?thesis by (simp add: ip_network_text)
qed

lemma cluster_always_fails: "fst (handle_sync_cluster False ask res mem peers s) = Http_failure"
  by (simp add: handle_sync_cluster_def case_prod_beta split: option.split)

lemma run_all_done: "\<forall>c \<in> set cs. \<exists>out. run c = Proc_done out \<Longrightarrow> run_all run cs = (None, cs)"
  by (induction cs) (auto simp: Let_def)

lemma run_all_prefix: "\<exists>rest. cs = snd (run_all run cs) @ rest"
  by (induction cs) (auto simp: case_prod_beta split: proc.split)

text \<open>
  Joining a network: the five commands are run in order, for the network number the first one printed,
  and the answer is positive whatever any of them printed or returned, \<open>FAIL\<close> included.
\<close>

lemma wifi_connect_commands:
  assumes "\<forall>c. \<exists>out. run c = Proc_done out" "truthy (dict_get d ''ssid'' (Py_str []))"
    and "run (wpa [Py_str ''add_network'']) = Proc_done out"
  shows "handle_wifi_connect fmt (Some (Py_dict d)) run =
    (Http_json 200 (Py_dict [(''ok'', Py_bool True), (''ssid'', dict_get d ''ssid'' (Py_str []))]),
     wpa [Py_str ''add_network''] #
       wifi_commands fmt (dict_get d ''ssid'' (Py_str [])) (dict_get d ''psk'' (Py_str [])) (Py_text (strip out)))"
proof -
  have "run_all run cs = (None, cs)" for cs using assms(1) by (intro run_all_done) blast
  then show ?thesis using assms(2,3) by (simp add: handle_wifi_connect_def Let_def)
qed

text \<open>
  The transport switch: the restart comes before the choice is stored, a refused interface changes nothing,
  and the file is written only when the restart did not raise.
\<close>

lemma transport_outcomes:
  "handle_transport None run store conf = (Http_bad_request ''Invalid JSON'', conf, [])"
  "i \<noteq> Py_str ''eth0'' \<Longrightarrow> i \<noteq> Py_str ''wlan0'' \<Longrightarrow> handle_transport (Some (Py_dict [(''interface'', i)])) run store conf =
     (Http_bad_request ''interface must be eth0 or wlan0'', conf, [])"
  "run [Py_str ''systemctl'', Py_str ''restart'', Py_str ''drs_syncd.service''] = Proc_raises e \<Longrightarrow>
     i \<in> {Py_str ''eth0'', Py_str ''wlan0''} \<Longrightarrow> fst (snd (handle_transport (Some (Py_dict [(''interface'', i)])) run store conf)) = conf"
  "run [Py_str ''systemctl'', Py_str ''restart'', Py_str ''drs_syncd.service''] = Proc_done out \<Longrightarrow>
     handle_transport (Some (Py_dict [(''interface'', Py_str ''wlan0'')])) run None conf =
       (Http_json 200 (Py_dict [(''ok'', Py_bool True), (''interface'', Py_str ''wlan0'')]), Some (''IFACE=wlan0'' @ [CHR 0x0A]),
        [[Py_str ''systemctl'', Py_str ''restart'', Py_str ''drs_syncd.service'']])"
  by (auto simp: handle_transport_def dict_get_def http_error_def)

text \<open>A node at 192.168.1.17/24: what \<open>ip\<close> prints, and the discovery with two neighbours that answer.\<close>

definition sample_ip :: run where
  "sample_ip c =
     (if c ! 2 = Py_str ''route''
      then Proc_done (uni ''default via 192.168.1.1 dev eth0 proto dhcp'' @ [10])
      else Proc_done (uni ''2: eth0: mtu 1500'' @ [10] @ uni ''    inet 192.168.1.17/24 brd 192.168.1.255'' @ [10]))"

lemma sample_discovery:
  "get_local_subnet (\<lambda>_. None) sample_ip = Some (uni ''192.168.1.0/24'')"
  by (simp add: get_local_subnet_def sample_ip_def uni_def splitlines_def line_break_def starts_def split_words_def uspace_def
     strip_def ip_network_def parse_v4_def parse_octet_def parse_len_def dec_value_def digit_def v4_net_def net_text_def
     net_base_def v4_text_def decimal_small decimal_rec Let_def)

end
