(* ===== verification/Telemetry_Stream.thy ===== *)
theory Telemetry_Stream
  imports Agent_Views
begin

text \<open>
  The UDP telemetry from end to end: the loop of the sender thread, \<open>sender_thread\<close> of
  \<open>src/telemetry_udp.c\<close>, the listener \<open>src/telemetry_listen.py\<close>, and which handlers of the state machine emit
  records. The network between them is the list of datagrams the listener receives.
\<close>

section \<open>The listener\<close>

definition TELEM_RECORD_SIZE :: nat where
  "TELEM_RECORD_SIZE = 40"

type_synonym listen_record = "int \<times> int \<times> int \<times> int \<times> int \<times> int"

definition unpack_num :: "string \<Rightarrow> u8 list \<Rightarrow> nat \<Rightarrow> int option" where
  "unpack_num fmt data off = (case unpack_from fmt data off of Some [Py_num x] \<Rightarrow> Some x | _ \<Rightarrow> None)"

text \<open>\<open>None\<close> is the answer for a datagram of another size; the formats below never raise for this size.\<close>

definition unpack_record :: "u8 list \<Rightarrow> listen_record option" where
  "unpack_record data =
     (if length data \<noteq> TELEM_RECORD_SIZE then None
      else (case (unpack_num ''<q'' data 0, unpack_num ''<i'' data 8, unpack_num ''<q'' data 12,
                  unpack_num ''<q'' data 20, unpack_num ''<q'' data 28, unpack_num ''<I'' data 36) of
              (Some ts_ns, Some state, Some off_ns, Some rtt_ns, Some rate, Some node_id) \<Rightarrow>
                Some (ts_ns, state, off_ns, rtt_ns, rate, node_id)
            | _ \<Rightarrow> None))"

definition LISTEN_STATE_NAMES :: "(int \<times> string) list" where
  "LISTEN_STATE_NAMES = [(0, ''GROUND''), (1, ''CALIBRATION''), (2, ''LISTEN''),
     (3, ''CANDIDATE''), (4, ''FOLLOWER''), (5, ''LEADER''), (6, ''HOLDOVER'')]"

definition csv_header :: string where
  "csv_header = ''node_id,timestamp_ns,state,offset_ns,rtt_ns,rate_q32''"

definition csv_line :: "listen_record \<Rightarrow> string" where
  "csv_line rec =
     (case rec of (ts_ns, state, off_ns, rtt_ns, rate, node_id) \<Rightarrow>
        pd node_id @ '','' @ pd ts_ns @ '','' @ name_of LISTEN_STATE_NAMES state @ '','' @ pd off_ns @ '','' @
        pd rtt_ns @ '','' @ pd rate)"

text \<open>One round of \<open>main\<close>: whether the deadline has passed, and what \<open>recvfrom\<close> does.\<close>

datatype listen_event = Listen_data "u8 list" | Listen_timeout | Listen_interrupt

fun listen_loop :: "(bool \<times> listen_event) list \<Rightarrow> string list" where
  "listen_loop [] = []"
| "listen_loop ((expired, ev) # evs) =
     (if expired then []
      else (case ev of
              Listen_interrupt \<Rightarrow> []
            | Listen_timeout \<Rightarrow> listen_loop evs
            | Listen_data d \<Rightarrow>
                (case unpack_record (take 256 d) of
                   None \<Rightarrow> listen_loop evs
                 | Some rec \<Rightarrow> csv_line rec # listen_loop evs)))"

definition listen_main :: "(bool \<times> listen_event) list \<Rightarrow> string list" where
  "listen_main evs = csv_header # listen_loop evs"

section \<open>The sender thread\<close>

text \<open>The datagrams of one pass: the records whose \<open>sendto\<close> succeeded.\<close>

definition sent_datagrams :: "(nat \<Rightarrow> send_outcome) \<Rightarrow> telem_udp_record list \<Rightarrow> u8 list list" where
  "sent_datagrams outcomes recs = [record_image (recs ! k). k \<leftarrow> [0..<length recs], outcomes k = Sent]"

text \<open>What happens to the ring: a record emitted by the real-time thread, or a pass of the sender thread.\<close>

datatype stream_op = Stream_emit telem_args | Stream_pass "nat \<Rightarrow> send_outcome"

fun stream_step :: "stream_op \<Rightarrow> telem_udp \<times> u8 list list \<Rightarrow> telem_udp \<times> u8 list list" where
  "stream_step (Stream_emit x) (g, out) = (telem_emit_args x g, out)"
| "stream_step (Stream_pass outcomes) (g, out) =
     (case sender_pass outcomes g of (g', recs) \<Rightarrow> (g', out @ sent_datagrams outcomes recs))"

fun stream_emits :: "stream_op list \<Rightarrow> telem_args list" where
  "stream_emits [] = []"
| "stream_emits (Stream_emit x # ops) = x # stream_emits ops"
| "stream_emits (Stream_pass outcomes # ops) = stream_emits ops"

section \<open>From the record to the line\<close>

definition args_in_range :: "telem_args \<Rightarrow> bool" where
  "args_in_range x = (case x of (ts, st, off, rtt, rate) \<Rightarrow>
     in_i64 ts \<and> in_i32 st \<and> in_i64 off \<and> in_i64 rtt \<and> in_i64 rate)"

definition args_line :: "u32 \<Rightarrow> telem_args \<Rightarrow> string" where
  "args_line node x = (case x of (ts, st, off, rtt, rate) \<Rightarrow> csv_line (ts, st, off, rtt, rate, uint node))"

lemma stream_formats:
  "struct_format ''<q'' = Some [Fmt_q]" "struct_format ''<i'' = Some [Fmt_i]" "struct_format ''<I'' = Some [Fmt_I]"
  by (simp_all add: struct_format_def fmt_letter_def)

lemma length_record_image: "length (record_image r) = 40"
  by (simp add: record_image_eq)

lemma unpack_record_image:
  assumes "args_in_range (record_args r)"
  shows "unpack_record (record_image r) =
    Some (tu_timestamp_ns r, tu_state r, tu_offset_ns r, tu_rtt_ns r, tu_rate_q32 r, uint (tu_node_id r))"
  using assms
  by (simp add: unpack_record_def TELEM_RECORD_SIZE_def length_record_image unpack_num_def unpack_from_def
      stream_formats args_in_range_def record_args_def)
    (simp add: record_image_eq le32.dec_enc le64s.dec_enc le32s.dec_enc)

section \<open>The stream keeps its order\<close>

text \<open>
  After the operations so far: \<open>n\<close> more may follow, \<open>ys\<close> was sent, \<open>xs\<close> was emitted. The datagrams are those
  of \<open>ys\<close>; what was sent and what waits are a subsequence of what was emitted, and all of it as long as
  at most 64 records were.
\<close>

definition datagram_of :: "u32 \<Rightarrow> telem_args \<Rightarrow> u8 list" where
  "datagram_of node x = (case x of (ts, st, off, rtt, rate) \<Rightarrow>
     record_image \<lparr>tu_timestamp_ns = ts, tu_state = st, tu_offset_ns = off, tu_rtt_ns = rtt,
       tu_rate_q32 = rate, tu_node_id = node\<rparr>)"

definition stream_inv ::
  "u32 \<Rightarrow> nat \<Rightarrow> telem_args list \<Rightarrow> telem_args list \<Rightarrow> telem_udp \<times> u8 list list \<Rightarrow> bool" where
  "stream_inv node n xs ys s = (case s of (g, out) \<Rightarrow>
     telem_inv n g \<and> tu_running g \<and> tu_own_node_id g = node \<and> out = map (datagram_of node) ys \<and>
     subseq (ys @ telem_pending g) xs \<and> (length xs \<le> 64 \<longrightarrow> ys @ telem_pending g = xs))"

lemma telem_emit_keeps:
  "tu_running (telem_emit_args x g) = tu_running g" "tu_own_node_id (telem_emit_args x g) = tu_own_node_id g"
  by (simp_all add: telem_emit_args_def telem_udp_emit_def telem_publish_def telem_fill_def split: prod.split)

lemma stream_inv_emit:
  assumes "stream_inv node (Suc n) xs ys (g, out)"
  shows "stream_inv node n (xs @ [x]) ys (telem_emit_args x g, out)"
proof -
  have inv: "telem_inv (Suc n) g" and sub: "subseq (ys @ telem_pending g) xs"
    and all: "length xs \<le> 64 \<Longrightarrow> ys @ telem_pending g = xs"
    using assms by (simp_all add: stream_inv_def)
  note e = telem_emit_pending [OF inv, of x]
  have "subseq (ys @ telem_pending (telem_emit_args x g)) (xs @ [x])"
  proof (cases "length (telem_pending g) < TELEM_RING_SIZE")
    case True
    have "subseq ((ys @ telem_pending g) @ [x]) (xs @ [x])" by (rule list_emb_append_mono [OF sub]) simp
    with e True show ?thesis by simp
  next
    case False
    with e sub show ?thesis by (simp add: subseq_rev_drop_many)
  qed
  moreover have "ys @ telem_pending (telem_emit_args x g) = xs @ [x]" if "length (xs @ [x]) \<le> 64"
  proof -
    have eq: "ys @ telem_pending g = xs" using that by (intro all) simp
    then have "length (telem_pending g) < TELEM_RING_SIZE"
      using that by (metis Suc_le_eq TELEM_RING_SIZE_def length_append length_append_singleton
          le_add2 order_le_less_trans)
    with e eq show ?thesis by auto
  qed
  ultimately show ?thesis
    using assms e by (simp add: stream_inv_def telem_emit_keeps)
qed

lemma sender_drain_node:
  "sender_drain outcomes w k (g, out) = (g', out') \<Longrightarrow>
   tu_running g' = tu_running g \<and> tu_own_node_id g' = tu_own_node_id g \<and>
   (\<exists>recs. out' = out @ recs \<and> (\<forall>r \<in> set recs. tu_node_id r = tu_own_node_id g))"
proof (induction outcomes w k "(g, out)" arbitrary: g out rule: sender_drain.induct)
  case (1 outcomes w k g out)
  show ?case
  proof (cases "tu_read_idx g < w \<and> outcomes k \<noteq> Send_ENOBUFS")
    case True
    then show ?thesis
      using 1 by (subst (asm) (2) sender_drain.simps) (fastforce simp: sender_record_def)
  next
    case False
    then show ?thesis using 1(2) by (subst (asm) sender_drain.simps) (auto split: if_splits)
  qed
qed

lemma record_image_args:
  "tu_node_id r = node \<Longrightarrow> record_image r = datagram_of node (record_args r)"
  by (cases r) (simp add: datagram_of_def record_args_def)

lemma telem_take_funpow_inv:
  "telem_inv n g \<Longrightarrow> m \<le> length (telem_pending g) \<Longrightarrow> telem_inv n ((telem_take ^^ m) g)"
proof (induction m arbitrary: g)
  case (Suc m)
  then have lt: "tu_read_idx g < tu_write_idx g" by (simp add: word_less_nat_alt)
  then have "length (telem_pending (telem_take g)) = length (telem_pending g) - 1"
    by (simp add: telem_take_def unat_idx_Suc)
  then show ?case
    using Suc telem_take_inv [OF Suc.prems(1) lt] by (simp add: funpow_swap1 del: length_telem_pending)
qed simp

lemma sent_all:
  assumes "\<forall>j < length recs. outcomes j = Sent"
  shows "sent_datagrams outcomes recs = map record_image recs"
proof -
  have "sent_datagrams outcomes recs = concat (map (\<lambda>k. [record_image (recs ! k)]) [0..<length recs])"
    unfolding sent_datagrams_def using assms by (intro arg_cong [where f = concat] map_cong) simp_all
  then show ?thesis by (simp add: map_nth flip: map_map [unfolded comp_def, where g = "(!) recs"])
qed

lemma stream_inv_pass:
  assumes "stream_inv node n xs ys (g, out)" "\<forall>k. outcomes k \<noteq> Send_failed"
  shows "\<exists>ys'. stream_inv node n xs ys' (stream_step (Stream_pass outcomes) (g, out))"
proof -
  have inv: "telem_inv n g" "tu_running g" "tu_own_node_id g = node" "out = map (datagram_of node) ys"
    using assms(1) by (simp_all add: stream_inv_def)
  obtain m recs where d: "sender_drain outcomes (tu_write_idx g) 0 (g, []) = ((telem_take ^^ m) g, recs)"
    and r: "map record_args recs = take m (telem_pending g)"
    and p: "telem_pending ((telem_take ^^ m) g) = drop m (telem_pending g)"
    and m: "m \<le> length (telem_pending g)" "\<forall>j < m. outcomes j \<noteq> Send_ENOBUFS"
    using sender_drain_take [OF inv(1) refl, of outcomes 0 "[]"] by auto
  note node = sender_drain_node [OF d]
  have "length recs = m" using r m(1) by (metis length_map length_take min_absorb2)
  then have "\<forall>j < length recs. outcomes j = Sent" using m(2) assms(2) by (metis send_outcome.exhaust)
  then have "sent_datagrams outcomes recs = map record_image recs" by (rule sent_all)
  also have "\<dots> = map (datagram_of node) (map record_args recs)"
    using node inv(3) by (simp add: record_image_args)
  finally have s: "stream_step (Stream_pass outcomes) (g, out) =
      ((telem_take ^^ m) g, out @ map (datagram_of node) (take m (telem_pending g)))"
    by (simp add: sender_pass_def inv(2) d r)
  have app: "(ys @ take m (telem_pending g)) @ telem_pending ((telem_take ^^ m) g) = ys @ telem_pending g"
    by (simp add: p)
  have "stream_inv node n xs (ys @ take m (telem_pending g)) (stream_step (Stream_pass outcomes) (g, out))"
    unfolding s using assms(1) telem_take_funpow_inv [OF inv(1) m(1)] node inv
    by (simp add: stream_inv_def app del: append_assoc)
  then show ?thesis by blast
qed

definition no_send_failure :: "stream_op \<Rightarrow> bool" where
  "no_send_failure op = (case op of Stream_pass outcomes \<Rightarrow> \<forall>k. outcomes k \<noteq> Send_failed | Stream_emit x \<Rightarrow> True)"

lemma stream_inv_run:
  assumes "stream_inv node (n + length (stream_emits ops)) xs ys s" "list_all no_send_failure ops"
  shows "\<exists>ys'. stream_inv node n (xs @ stream_emits ops) ys' (fold stream_step ops s)"
  using assms
proof (induction ops arbitrary: xs ys s)
  case (Cons op ops)
  obtain g out where s: "s = (g, out)" by (cases s)
  show ?case
  proof (cases op)
    case (Stream_emit x)
    then show ?thesis
      using Cons.IH [of "xs @ [x]" ys "(telem_emit_args x g, out)"] Cons.prems stream_inv_emit
      by (simp add: s)
  next
    case (Stream_pass outcomes)
    then obtain ys' where "stream_inv node (n + length (stream_emits ops)) xs ys' (stream_step op s)"
      using stream_inv_pass [of node "n + length (stream_emits ops)" xs ys g out outcomes] Cons.prems
      by (auto simp: s no_send_failure_def)
    then show ?thesis
      using Cons.IH Cons.prems(2) by (simp add: Stream_pass)
  qed
qed auto

section \<open>The listener prints the stream\<close>

text \<open>
  The datagrams of the right size among the events; timeouts and other datagrams leave no trace, as
  long as the listener is neither interrupted nor past its deadline.
\<close>

fun stream_data :: "(bool \<times> listen_event) list \<Rightarrow> u8 list list" where
  "stream_data [] = []"
| "stream_data ((expired, Listen_data d) # evs) =
     (if length d = 40 then d # stream_data evs else stream_data evs)"
| "stream_data (e # evs) = stream_data evs"

definition listening :: "(bool \<times> listen_event) list \<Rightarrow> bool" where
  "listening evs \<longleftrightarrow> list_all (\<lambda>(expired, ev). \<not> expired \<and> ev \<noteq> Listen_interrupt) evs"

lemma unpack_wrong_size: "length d \<noteq> 40 \<Longrightarrow> unpack_record (take 256 d) = None"
  by (simp add: unpack_record_def TELEM_RECORD_SIZE_def min_def)

lemma listen_loop_stream:
  assumes "listening evs" "stream_data evs = map (datagram_of node) ys" "list_all args_in_range ys"
  shows "listen_loop evs = map (args_line node) ys"
  using assms
proof (induction evs arbitrary: ys rule: stream_data.induct)
  case (2 expired d evs)
  show ?case
  proof (cases "length d = 40")
    case True
    with 2(4) obtain y zs where ys: "ys = y # zs" "d = datagram_of node y" by (cases ys) auto
    obtain ts st off rtt rate where y: "y = (ts, st, off, rtt, rate)" by (cases y)
    have "unpack_record d = Some (ts, st, off, rtt, rate, uint node)"
      using 2(5) unpack_record_image by (simp add: ys y datagram_of_def record_args_def)
    then show ?thesis
      using 2 True by (simp add: listening_def ys y args_line_def)
  next
    case False
    then show ?thesis using 2 unpack_wrong_size [OF False] by (simp add: listening_def)
  qed
qed (auto simp: listening_def)

section \<open>Who emits\<close>

text \<open>A response is accepted when one was awaited and the filter takes its round-trip time.\<close>

definition resp_accepted :: "os_env \<Rightarrow> drs_packet \<Rightarrow> i64 \<Rightarrow> daemon \<Rightarrow> bool" where
  "resp_accepted os pkt t4 d \<longleftrightarrow> sm_state (d_sm d) = DRS_STATE_FOLLOWER \<and> sm_sync_req_pending (d_sm d) \<and>
     fst (min_delay_update (sm_mdf (d_sm (resp_check_seq os pkt d))) (sync_rtt (sm_sync_req_t1 (d_sm d)) pkt t4))"

lemma d_udp_keeps [simp]:
  "d_udp (snd (read_raw os d)) = d_udp d" "d_udp (arm_timeout os d) = d_udp d"
  "d_udp (snd (calibrate os d)) = d_udp d" "d_udp (snd (transmit os send d)) = d_udp d"
  "d_udp (enter_state s t d) = d_udp d" "d_udp (update_telemetry os t d) = d_udp d"
  "d_udp (snd (timed_out os d)) = d_udp d" "d_udp (snd (on_announce_election os pkt d)) = d_udp d"
  by (simp_all add: read_raw_def arm_timeout_def calibrate_def transmit_def enter_state_def update_telemetry_def
      timed_out_def on_announce_election_def Let_def case_prod_beta split: option.split)

lemma d_udp_enter [simp]:
  "d_udp (enter_listen os t d) = d_udp d" "d_udp (enter_candidate os t d) = d_udp d"
  "d_udp (enter_leader os t d) = d_udp d" "d_udp (enter_holdover t d) = d_udp d"
  "d_udp (enter_follower pkt src t d) = d_udp d"
  by (simp_all add: enter_listen_def enter_candidate_def enter_leader_def enter_holdover_def enter_follower_def
      Let_def case_prod_beta split: option.split)

lemma d_udp_ticks:
  "d_udp (tick_calibration os t d) = d_udp d" "d_udp (tick_holdover os t d) = d_udp d"
  "d_udp (send_sync_req os t d) = d_udp d"
  by (simp_all add: tick_calibration_def tick_holdover_def send_sync_req_def Let_def case_prod_beta)

lemma send_sync_req_tel:
  "d_tel (send_sync_req os t d) = d_tel d" "sm_last_rate_q32 (d_sm (send_sync_req os t d)) = sm_last_rate_q32 (d_sm d)"
  by (simp_all add: send_sync_req_def read_raw_def transmit_def upd_sm_def push_error_def Let_def case_prod_beta
      split: option.split)

lemma d_udp_handlers:
  "d_udp (sm_on_announce os pkt src t d) = d_udp d" "d_udp (sm_on_sync_req os pkt dest t d) = d_udp d"
  "d_udp (sm_on_command os cmd t d) = d_udp d"
  by (simp_all add: sm_on_announce_def sm_on_sync_req_def sm_on_command_def Let_def case_prod_beta
      split: drs_state.split)

lemma d_udp_resp_parts:
  "d_udp (resp_check_seq os pkt d) = d_udp d" "sm_vc (d_sm (resp_check_seq os pkt d)) = sm_vc (d_sm d)"
  "d_udp (apply_step theta t d) = d_udp d"
  by (simp_all add: resp_check_seq_def apply_step_def Let_def)

lemma resp_accept_request_keeps:
  "sm_vc (resp_accept_request sm) = sm_vc sm" "sm_sync_req_t1 (resp_accept_request sm) = sm_sync_req_t1 sm"
  "sm_mdf (d_sm (resp_check_seq os pkt (upd_sm resp_accept_request d))) = sm_mdf (d_sm (resp_check_seq os pkt d))"
  by (simp_all add: resp_accept_request_def resp_check_seq_def upd_sm_def Let_def)

lemma d_udp_discipline:
  "d_udp (resp_discipline os theta rtt t4 d) =
     telem_udp_emit t4 4 theta rtt (sint (sm_last_rate_q32 (d_sm (resp_discipline os theta rtt t4 d)))) (d_udp d)"
  by (simp add: resp_discipline_def Let_def case_prod_beta udp_emit_def d_udp_resp_parts)

section \<open>Properties\<close>

text \<open>
  C21: the telemetry stream from end to end. After \<open>telem_udp_init\<close>, for any interleaving of emitted
  records and passes of the sender thread in which no \<open>sendto\<close> fails for good, a listener that receives
  the datagrams in the order they were sent, among timeouts and foreign datagrams of other sizes, prints
  its header and then one line per record sent, with the fields as they were emitted and the node's id;
  the lines and what still waits in the ring are the emitted records in their order, none invented or
  repeated, and none is missing as long as at most 64 were emitted. At most 64 wait, and a slot that is
  filled but not yet published changes nothing for the sender.
\<close>

theorem telemetry_stream_end_to_end:
  assumes "telem_udp_init fd True dest_ip node g = (0, g0)" "length (tu_ring g) = 64"
    and "length (stream_emits ops) < 2 ^ 64" "list_all args_in_range (stream_emits ops)"
    and "list_all no_send_failure ops" "fold stream_step ops (g0, []) = (g1, datagrams)"
    and "listening evs" "stream_data evs = datagrams"
  shows "\<exists>ys. listen_main evs = csv_header # map (args_line node) ys \<and>
    subseq (ys @ telem_pending g1) (stream_emits ops) \<and>
    length (telem_pending g1) \<le> 64 \<and>
    (length (stream_emits ops) \<le> 64 \<longrightarrow> ys @ telem_pending g1 = stream_emits ops) \<and>
    (\<not> telem_full g1 \<longrightarrow> telem_pending (telem_fill rec g1) = telem_pending g1)"
proof -
  have "tu_own_node_id g0 = node"
    using assms(1) by (auto simp: telem_udp_init_def Let_def split: option.splits if_splits)
  then have "stream_inv node (0 + length (stream_emits ops)) [] [] (g0, [])"
    using telem_udp_init_inv [OF assms(1), of "length (stream_emits ops)"] assms(2,3)
    by (simp add: stream_inv_def TELEM_RING_SIZE_def)
  from stream_inv_run [OF this assms(5)] obtain ys where
    inv: "stream_inv node 0 (stream_emits ops) ys (g1, datagrams)" by (auto simp: assms(6))
  have sub: "subseq (ys @ telem_pending g1) (stream_emits ops)" using inv by (simp add: stream_inv_def)
  then have "set ys \<subseteq> set (stream_emits ops)"
    using list_emb_set [OF sub] by (metis Un_iff set_append subsetI)
  then have "list_all args_in_range ys" using assms(4) by (auto simp: list_all_iff)
  moreover have "stream_data evs = map (datagram_of node) ys" using inv assms(8) by (simp add: stream_inv_def)
  ultimately have "listen_main evs = csv_header # map (args_line node) ys"
    using listen_loop_stream [OF assms(7)] by (simp add: listen_main_def)
  moreover have "telem_inv 0 g1" using inv by (simp add: stream_inv_def)
  ultimately show ?thesis
    using inv telem_fill_pending [of 0 g1] by (auto simp: stream_inv_def telem_inv_def TELEM_RING_SIZE_def)
qed

lemma length_datagram: "length (datagram_of node x) = 40"
  by (simp add: datagram_of_def length_record_image split: prod.split)

lemma stream_data_datagrams:
  "stream_data (map (\<lambda>d. (False, Listen_data d)) (map (datagram_of node) ys)) = map (datagram_of node) ys"
  by (induction ys) (simp_all add: length_datagram)

theorem telemetry_stream_end_to_end_witness:
  "\<exists>g1 datagrams ys.
     fold stream_step [Stream_emit (1, 4, 10, 20, 30), Stream_pass (\<lambda>_. Sent), Stream_emit (2, 4, 11, 21, 31)]
       (snd (telem_udp_init 7 True None 42 telem_udp_static), []) = (g1, datagrams) \<and>
     listen_main (map (\<lambda>d. (False, Listen_data d)) datagrams) = csv_header # map (args_line 42) ys \<and>
     ys @ telem_pending g1 = [(1, 4, 10, 20, 30), (2, 4, 11, 21, 31)]"
proof -
  let ?i = "telem_udp_init 7 True None 42 telem_udp_static"
  let ?ops = "[Stream_emit (1, 4, 10, 20, 30), Stream_pass (\<lambda>_. Sent), Stream_emit (2, 4, 11, 21, 31)]"
  have "inet_pton ''127.0.0.1'' \<noteq> None" by (simp add: inet_pton_def octet_def)
  then have i: "?i = (0, snd ?i)" "tu_own_node_id (snd ?i) = 42" by (auto simp: telem_udp_init_def Let_def)
  have l: "length (tu_ring telem_udp_static) = 64" by (simp add: telem_udp_static_def TELEM_RING_SIZE_def)
  have f: "list_all no_send_failure ?ops" by (simp add: no_send_failure_def)
  have "stream_inv 42 (0 + length (stream_emits ?ops)) [] [] (snd ?i, [])"
    using telem_udp_init_inv [OF i(1), of "0 + length (stream_emits ?ops)"] l i(2)
    by (simp add: stream_inv_def TELEM_RING_SIZE_def)
  from stream_inv_run [OF this f] obtain ys where ys: "snd (fold stream_step ?ops (snd ?i, [])) = map (datagram_of 42) ys"
    by (auto simp: stream_inv_def case_prod_beta simp del: fold.simps)
  obtain g1 where r: "fold stream_step ?ops (snd ?i, []) = (g1, map (datagram_of 42) ys)"
    using ys by (metis prod.collapse)
  have e: "listening (map (\<lambda>d. (False, Listen_data d)) (map (datagram_of 42) ys))"
    by (simp add: listening_def list_all_iff)
  have "args_in_range (1, 4, 10, 20, 30)" "args_in_range (2, 4, 11, 21, 31)"
    by (simp_all add: args_in_range_def in_i64_def in_i32_def)
  then show ?thesis
    using telemetry_stream_end_to_end [OF i(1) l _ _ f r e stream_data_datagrams] r by (auto simp del: fold.simps)
qed

text \<open>
  C38: what is emitted. A tick emits one record in LEADER, with offset and round-trip time 0 and the
  nominal rate, and none in any other state but FOLLOWER; there, unless the leader timed out, it emits
  the last measured values once more, so that a follower sends 20 records a second whether or not an
  exchange was accepted, against \<open>src/telemetry_requirements.md\<close>. A response emits a record exactly when
  the filter accepts it, announcements, requests and commands never do.
\<close>

theorem telemetry_emission_rules:
  "d_udp (sm_tick os t d) =
     (case sm_state (d_sm d) of
        DRS_STATE_LEADER \<Rightarrow> telem_udp_emit t 5 0 0 (2 ^ 32) (d_udp d)
      | DRS_STATE_FOLLOWER \<Rightarrow>
          if s64 (t - sm_last_leader_ns (d_sm d)) \<ge> DRS_FOLLOWER_TIMEOUT_NS then d_udp d
          else telem_udp_emit t 4
                 (case telemetry_get (d_tel d) of Some tel \<Rightarrow> tel_offset_ns tel | None \<Rightarrow> 0)
                 (case telemetry_get (d_tel d) of Some tel \<Rightarrow> tel_last_rtt_ns tel | None \<Rightarrow> 0)
                 (sint (sm_last_rate_q32 (d_sm d))) (d_udp d)
      | _ \<Rightarrow> d_udp d) \<and>
   d_udp (sm_on_sync_resp os pkt t4 d) =
     (if resp_accepted os pkt t4 d
      then telem_udp_emit t4 4 (sync_theta (sm_vc (d_sm d)) (sm_sync_req_t1 (d_sm d)) pkt t4)
             (sync_rtt (sm_sync_req_t1 (d_sm d)) pkt t4)
             (sint (sm_last_rate_q32 (d_sm (sm_on_sync_resp os pkt t4 d)))) (d_udp d)
      else d_udp d) \<and>
   d_udp (sm_on_announce os pkt src t d) = d_udp d \<and> d_udp (sm_on_sync_req os pkt dest t d) = d_udp d \<and>
   d_udp (sm_on_command os cmd t d) = d_udp d"
proof (intro conjI d_udp_handlers)
  show "d_udp (sm_tick os t d) = (case sm_state (d_sm d) of
        DRS_STATE_LEADER \<Rightarrow> telem_udp_emit t 5 0 0 (2 ^ 32) (d_udp d)
      | DRS_STATE_FOLLOWER \<Rightarrow>
          if s64 (t - sm_last_leader_ns (d_sm d)) \<ge> DRS_FOLLOWER_TIMEOUT_NS then d_udp d
          else telem_udp_emit t 4
                 (case telemetry_get (d_tel d) of Some tel \<Rightarrow> tel_offset_ns tel | None \<Rightarrow> 0)
                 (case telemetry_get (d_tel d) of Some tel \<Rightarrow> tel_last_rtt_ns tel | None \<Rightarrow> 0)
                 (sint (sm_last_rate_q32 (d_sm d))) (d_udp d)
      | _ \<Rightarrow> d_udp d)"
    by (cases "sm_state (d_sm d)")
      (simp_all add: sm_tick_def sm_tick_state_def d_udp_ticks tick_follower_def follower_heartbeat_def udp_emit_def
        send_sync_req_tel sync_req_timeout_def upd_sm_def Let_def case_prod_beta drs_const)
  show "d_udp (sm_on_sync_resp os pkt t4 d) =
     (if resp_accepted os pkt t4 d
      then telem_udp_emit t4 4 (sync_theta (sm_vc (d_sm d)) (sm_sync_req_t1 (d_sm d)) pkt t4)
             (sync_rtt (sm_sync_req_t1 (d_sm d)) pkt t4)
             (sint (sm_last_rate_q32 (d_sm (sm_on_sync_resp os pkt t4 d)))) (d_udp d)
      else d_udp d)"
    by (simp add: sm_on_sync_resp_def resp_accepted_def Let_def case_prod_beta d_udp_discipline d_udp_resp_parts
        resp_accept_request_keeps)
qed

end
