(* ===== verification/Unit_Tests.thy ===== *)
theory Unit_Tests
  imports Tool_Output Shm_Image
begin

text \<open>
  The test programs under \<open>tests/\<close>, translated like the code they test: each gives the exit status of
  its \<open>main\<close> and the text it prints. They run in the model as they do on the machine, for both
  versions of the protocol and whatever the uninitialised local variables hold, and all pass, so the
  model agrees with the implementation on the inputs its authors chose. \<open>proto_encode\<close>, which always
  returns 0, has no error branch here.
\<close>

section \<open>The programs\<close>

type_synonym test_result = "int \<times> string"

definition hex8 :: "u32 \<Rightarrow> string" where
  "hex8 w = pad_left 8 (CHR ''0'') (hex (unat w))"

definition test_crc32 :: test_result where
  "test_crc32 =
     (let msg = ''123456789'';
          expected = 0xCBF43926;
          (got, g) = crc32_ieee crc_globals_init (char_bytes msg)
      in if got \<noteq> expected
         then (1, ''FAIL test_crc32: expected 0x'' @ hex8 expected @ '', got 0x'' @ hex8 got @ NL)
         else
           let (zero, g) = crc32_ieee g []
           in if zero \<noteq> 0 then (1, ''FAIL test_crc32 zero-len: got 0x'' @ hex8 zero @ NL)
              else (0, ''PASS test_crc32'' @ NL))"

text \<open>The first loop: whether all samples were accepted.\<close>

fun feed_samples :: "nat \<Rightarrow> min_delay \<Rightarrow> bool \<times> min_delay" where
  "feed_samples 0 f = (True, f)"
| "feed_samples (Suc n) f =
     (let (accepted, f) = min_delay_update f 100000
      in if \<not> accepted then (False, f) else feed_samples n f)"

definition test_min_delay :: "min_delay \<Rightarrow> test_result" where
  "test_min_delay f =
     (let f = min_delay_init f;
          (fed, f) = feed_samples 10 f
      in if \<not> fed then (1, ''FAIL test_min_delay: first 10 samples should be accepted'' @ NL)
         else if min_delay_min f \<noteq> 100000
         then (1, ''FAIL test_min_delay: min should be 100000, got '' @ pd (min_delay_min f) @ NL)
         else
           let (r, f) = min_delay_update f (100000 + 300000)
           in if r then (1, ''FAIL test_min_delay: outlier (300'' @ u_micro @ ''s above) should be rejected'' @ NL)
              else
                let (r, f) = min_delay_update f (100000 + DRS_MIN_DELAY_TOLERANCE_NS)
                in if \<not> r then (1, ''FAIL test_min_delay: sample at min+tolerance should be accepted'' @ NL)
                   else
                     let f = min_delay_reset f
                     in if min_delay_min f \<noteq> INT64_MAX
                        then (1, ''FAIL test_min_delay: min after reset should be INT64_MAX'' @ NL)
                        else (0, ''PASS test_min_delay'' @ NL))"

text \<open>The loop of the first check: the index of a step that came too early, if there is one.\<close>

fun early_step :: "nat \<Rightarrow> int \<Rightarrow> pi_ctrl \<Rightarrow> int option \<times> pi_ctrl" where
  "early_step 0 i pi = (None, pi)"
| "early_step (Suc n) i pi =
     (let (step, rate, pi) = pi_ctrl_update pi 2000000 DRS_PI_UPDATE_PERIOD_NS
      in if step then (Some i, pi) else early_step n (i + 1) pi)"

definition test_pi_ctrl :: "pi_ctrl \<Rightarrow> test_result" where
  "test_pi_ctrl pi =
     (let pi = pi_ctrl_init pi;
          (early, pi) = early_step (nat (DRS_STEP_CONFIRM_SAMPLES - 1)) 0 pi
      in case early of
           Some i \<Rightarrow> (1, ''FAIL test_pi_ctrl: step triggered too early (i='' @ pd i @ '')'' @ NL)
         | None \<Rightarrow>
             let (step, rate, pi) = pi_ctrl_update pi 2000000 DRS_PI_UPDATE_PERIOD_NS
             in if \<not> step
                then (1, ''FAIL test_pi_ctrl: step not triggered after '' @ pd DRS_STEP_CONFIRM_SAMPLES @
                        '' samples'' @ NL)
                else
                  let (step, rate, pi) = pi_ctrl_update (pi_ctrl_init pi) 500000 DRS_PI_UPDATE_PERIOD_NS
                  in if step then (1, ''FAIL test_pi_ctrl: step triggered for |e| < 1ms'' @ NL)
                     else if rate = DRS_RATE_NOMINAL_Q32
                     then (1, ''FAIL test_pi_ctrl: rate unchanged for non-zero error'' @ NL)
                     else
                       let (step, rate, pi) = pi_ctrl_update (pi_ctrl_init pi) 999999 DRS_PI_UPDATE_PERIOD_NS
                       in if rate > DRS_RATE_MAX_Q32 then (1, ''FAIL test_pi_ctrl: rate exceeds max'' @ NL)
                          else if rate < DRS_RATE_MIN_Q32 then (1, ''FAIL test_pi_ctrl: rate below min'' @ NL)
                          else
                            let (step, rate, pi) = pi_ctrl_update (pi_ctrl_init pi) 0 DRS_PI_UPDATE_PERIOD_NS
                            in if step then (1, ''FAIL test_pi_ctrl: step on zero error'' @ NL)
                               else if rate \<noteq> DRS_RATE_NOMINAL_Q32
                               then (1, ''FAIL test_pi_ctrl: rate != nominal for zero error, got '' @ pu rate @ NL)
                               else (0, ''PASS test_pi_ctrl'' @ NL))"

definition test_packet :: drs_packet where
  "test_packet =
     \<lparr>pkt_msg_type = DRS_MSG_SYNC_RESP, pkt_flags = ucast (DRS_FLAG_LEADER OR DRS_FLAG_CALIBRATED),
      pkt_seq = 0xABCD, pkt_node_id = 42, pkt_election_term = 7,
      pkt_t1 = 1000000001, pkt_t2 = 1000000050, pkt_t3 = 1000000055, pkt_t4 = 1000000100\<rparr>"

definition test_proto :: "proto_ver \<Rightarrow> test_result" where
  "test_proto ver =
     (let orig = test_packet;
          buf = proto_encode ver orig
      in case proto_decode ver buf of
           None \<Rightarrow> (1, ''FAIL test_proto: decode returned error'' @ NL)
         | Some got \<Rightarrow>
             if pkt_msg_type got \<noteq> pkt_msg_type orig \<or> pkt_flags got \<noteq> pkt_flags orig \<or>
                pkt_seq got \<noteq> pkt_seq orig \<or> pkt_node_id got \<noteq> pkt_node_id orig \<or>
                pkt_election_term got \<noteq> pkt_election_term orig \<or> pkt_t1 got \<noteq> pkt_t1 orig \<or>
                pkt_t2 got \<noteq> pkt_t2 orig \<or> pkt_t3 got \<noteq> pkt_t3 orig \<or> pkt_t4 got \<noteq> pkt_t4 orig
             then (1, ''FAIL test_proto: roundtrip mismatch'' @ NL)
             else
               let buf = buf[6 := buf ! 6 XOR 0xFF]
               in if proto_decode ver buf \<noteq> None
                  then (1, ''FAIL test_proto: corrupt packet not rejected'' @ NL)
                  else
                    let bad = replicate (DRS_PAYLOAD_BYTES ver) 0
                    in if proto_decode ver bad \<noteq> None
                       then (1, ''FAIL test_proto: zero buf not rejected'' @ NL)
                       else (0, ''PASS test_proto'' @ NL))"

definition test_vclock :: test_result where
  "test_vclock =
     (let t0 = 1000000000;
          vc = vclock_init t0;
          g0 = vclock_now vc t0
      in if g0 \<noteq> 0 then (1, ''FAIL test_vclock: initial vclock_now != 0, got '' @ pd g0 @ NL)
         else
           let t1 = s64 (t0 + 1000000000);
               g1 = vclock_now vc t1;
               drift = s64 (g1 - 1000000000)
           in if drift < - 1000 \<or> drift > 1000
              then (1, ''FAIL test_vclock: after 1s, drift = '' @ pd drift @ '' ns (expected ~0)'' @ NL)
              else
                let vc = vclock_init t0;
                    fast_rate = DRS_RATE_NOMINAL_Q32 + word_of_int (DRS_RATE_MAX_PPM * DRS_RATE_PPM_Q32);
                    vc = vclock_set_rate vc fast_rate t0;
                    g_fast = vclock_now vc t1;
                    expected_fast = 1000000000 + 1000000;
                    err_fast = s64 (g_fast - expected_fast)
                in if err_fast < - 2000 \<or> err_fast > 2000
                   then (1, ''FAIL test_vclock: 1000ppm fast rate wrong, err='' @ pd err_fast @ '' ns'' @ NL)
                   else
                     let vc = vclock_init t0;
                         vc = vclock_step_offset vc 500000 t0;
                         g_step = vclock_now vc t0
                     in if g_step \<noteq> 500000
                        then (1, ''FAIL test_vclock: after step, vclock_now = '' @ pd g_step @ '', expected 500000'' @ NL)
                        else
                          let vc = vclock_init t0;
                              vc = vclock_set_lat_corr vc 4000;
                              target_global = 500000000;
                              t_local = vclock_local_for_global vc target_global;
                              g_check = vclock_now vc t_local;
                              inv_err = s64 (g_check - target_global)
                          in if inv_err < - 100 \<or> inv_err > 100
                             then (1, ''FAIL test_vclock: inverse error = '' @ pd inv_err @ '' ns'' @ NL)
                             else (0, ''PASS test_vclock'' @ NL))"

section \<open>They pass\<close>

lemma crc_check_bytes: "crc_spec (char_bytes ''123456789'') = 0xCBF43926"
  using crc_spec_check by (simp add: char_bytes_def)

lemma test_crc32_passes: "test_crc32 = (0, ''PASS test_crc32'' @ NL)"
proof -
  have "crc_globals_inv (snd (crc32_ieee crc_globals_init (char_bytes ''123456789'')))"
    by (rule crc32_ieee_inv [OF crc_globals_inv_init])
  then show ?thesis
    by (simp add: test_crc32_def Let_def case_prod_beta crc32_ieee_spec crc_globals_inv_init crc_check_bytes
        crc_spec_empty del: append.simps)
qed

lemma test_proto_passes: "test_proto ver = (0, ''PASS test_proto'' @ NL)"
proof -
  let ?buf = "proto_encode ver test_packet"
  have ok: "packet_ok test_packet" by (simp add: packet_ok_def test_packet_def in_i64_def)
  have b: "?buf ! 6 = 5" "6 < length ?buf"
    by (cases ver; simp add: proto_encode_layout frame_head_def test_packet_def nth_append drs_const)+
  have "\<not> frame_ok ver (put_bytes ?buf 6 [0xFA])"
    using b by (intro frame_ok_burst [OF frame_ok_encode])
      (simp_all add: get_bytes_def take_Suc_conv_app_nth Cons_nth_drop_Suc [symmetric])
  moreover have "put_bytes ?buf 6 [0xFA] = ?buf[6 := ?buf ! 6 XOR 0xFF]"
    using b by (simp add: put_bytes_def upd_conv_take_nth_drop)
  moreover have "\<not> frame_ok ver (replicate (DRS_PAYLOAD_BYTES ver) 0)"
    by (cases ver) (simp_all add: frame_ok_def get_bytes_def be_dec_def drs_const eval_nat_numeral)
  ultimately show ?thesis
    by (simp add: test_proto_def Let_def proto_decode_eq frame_ok_encode frame_fields_encode [OF ok]
        del: append.simps)
qed

text \<open>The values the clock test reads; the fast clock gains 1000007 ns in a second.\<close>

lemma vclock_test_values:
  "vclock_now (vclock_init 1000000000) 1000000000 = 0"
  "vclock_now (vclock_init 1000000000) 2000000000 = 1000000000"
  "vclock_now (vclock_set_rate (vclock_init 1000000000)
     (DRS_RATE_NOMINAL_Q32 + word_of_int (DRS_RATE_MAX_PPM * DRS_RATE_PPM_Q32)) 1000000000) 2000000000 = 1001000007"
  "vclock_now (vclock_step_offset (vclock_init 1000000000) 500000 1000000000) 1000000000 = 500000"
  "vclock_local_for_global (vclock_set_lat_corr (vclock_init 1000000000) 4000) 500000000 = 1500004000"
  "vclock_now (vclock_set_lat_corr (vclock_init 1000000000) 4000) 1500004000 = 500000000"
proof -
  have even: "even (vc_seq (vclock_init t))" "even (vc_seq (vclock_set_rate (vclock_init t) r t))"
    "even (vc_seq (vclock_step_offset (vclock_init t) d t))" "even (vc_seq (vclock_set_lat_corr (vclock_init t) l))"
    for t r d l by (simp_all add: vclock_ops vclock_init_def)
  show "vclock_now (vclock_init 1000000000) 1000000000 = 0"
    "vclock_now (vclock_init 1000000000) 2000000000 = 1000000000"
    "vclock_now (vclock_set_rate (vclock_init 1000000000)
       (DRS_RATE_NOMINAL_Q32 + word_of_int (DRS_RATE_MAX_PPM * DRS_RATE_PPM_Q32)) 1000000000) 2000000000 = 1001000007"
    "vclock_now (vclock_step_offset (vclock_init 1000000000) 500000 1000000000) 1000000000 = 500000"
    "vclock_local_for_global (vclock_set_lat_corr (vclock_init 1000000000) 4000) 500000000 = 1500004000"
    "vclock_now (vclock_set_lat_corr (vclock_init 1000000000) 4000) 1500004000 = 500000000"
    unfolding vclock_now_eq [OF even(1)] vclock_now_eq [OF even(2)] vclock_now_eq [OF even(3)]
      vclock_now_eq [OF even(4)] vclock_local_for_global_eq [OF even(4)] by code_simp+
qed

lemma test_vclock_passes: "test_vclock = (0, ''PASS test_vclock'' @ NL)"
  by (simp add: test_vclock_def vclock_test_values s64_def Let_def
      del: append.simps vclock_now_eq vclock_local_for_global_eq of_int_mult)

lemma test_min_delay_passes: "test_min_delay f = (0, ''PASS test_min_delay'' @ NL)"
proof -
  let ?f = "\<lparr>mdf_window = [], mdf_count = 0, mdf_head = 0, mdf_current_min = 0\<rparr>"
  have "min_delay_init f = min_delay_init ?f"
    by (cases f) (simp add: min_delay_init_def min_delay_reset_def)
  then have "test_min_delay f = test_min_delay ?f" by (simp only: test_min_delay_def)
  also have "\<dots> = (0, ''PASS test_min_delay'' @ NL)" by code_simp
  finally show ?thesis .
qed

lemma test_pi_ctrl_passes: "test_pi_ctrl pi = (0, ''PASS test_pi_ctrl'' @ NL)"
proof -
  let ?pi = "\<lparr>pi_integrator_ns = 0, pi_step_counter = 0, pi_step_accum_ns = pi_step_accum_ns pi\<rparr>"
  have "pi_ctrl_init pi = pi_ctrl_init ?pi" by (cases pi) (simp add: pi_ctrl_init_def)
  then have "test_pi_ctrl pi = test_pi_ctrl ?pi" by (simp only: test_pi_ctrl_def)
  also have "test_pi_ctrl \<lparr>pi_integrator_ns = 0, pi_step_counter = 0, pi_step_accum_ns = a\<rparr> =
      (0, ''PASS test_pi_ctrl'' @ NL)" for a
    by code_simp
  finally show ?thesis .
qed

section \<open>Properties\<close>

text \<open>
  The repository's own unit tests pass in the model, each with exit status 0 and its one line of
  output: the CRC check value and the empty message, the acceptance, rejection and reset of the
  minimum-delay filter, the step, slew and clamp of the controller, the round trip and the rejection of
  damaged frames in both protocol versions, and the five checks of the virtual clock, whatever the
  uninitialised variables of the programs hold.
\<close>

lemma unit_tests_pass:
  "test_crc32 = (0, ''PASS test_crc32'' @ NL) \<and> test_min_delay f = (0, ''PASS test_min_delay'' @ NL) \<and>
   test_pi_ctrl pi = (0, ''PASS test_pi_ctrl'' @ NL) \<and> test_proto ver = (0, ''PASS test_proto'' @ NL) \<and>
   test_vclock = (0, ''PASS test_vclock'' @ NL)"
  by (simp only: test_crc32_passes test_min_delay_passes test_pi_ctrl_passes test_proto_passes
      test_vclock_passes)

end
