(* ===== verification/Spec2Isabelle.thy ===== *)
theory Spec2Isabelle
  imports Pulse_Alignment Seqlock Tool_Output Startup_Run Agent_Control Agent_Errors Agent_Net Telemetry_Stream Unit_Tests
begin

text \<open>
  A verification development for \<open>drs_syncd\<close>, the clock synchronisation daemon in
  \<open>src/code/daemon\<close>, its two telemetry tools, its unit tests, and the Python programs that read its
  shared memory and its telemetry stream.

  \<^bold>\<open>The program.\<close> Each node of a cluster runs one daemon. It elects a leader over multicast
  ANNOUNCE heartbeats, followers measure their offset to the leader by SYNC\_REQ/SYNC\_RESP
  exchanges, a min-delay filter and a PI controller discipline a virtual clock, and a pulse thread
  raises a GPIO pin on every whole second of that clock. State is shown to other processes through
  shared memory (telemetry record, error ring, command slot) and a UDP telemetry stream. A Python agent
  serves the shared memory over HTTP and posts commands; a Python listener prints the stream.

  \<^bold>\<open>Which theory models what\<close> (files under \<open>src/code/daemon/src\<close> unless said otherwise):

    \<^item> \<open>DRS_Prelude\<close>: 64-bit wrap-around \<open>s64\<close>, truncating division, byte codecs, and the locales
      \<open>sliding_window\<close> and \<open>bounded_fifo\<close>; \<open>DRS_Config\<close>: \<open>include/drs_sync_config.h\<close>.
    \<^item> \<open>Crc32\<close> (\<open>crc32.c\<close>), \<open>Proto_V2\<close> (\<open>proto_v2.c\<close>, both protocol versions), \<open>Net_Io\<close> (\<open>net_io.c\<close>).
    \<^item> \<open>Vclock\<close> (\<open>vclock.c\<close>), \<open>Min_Delay\<close> (\<open>min_delay.c\<close>), \<open>Pi_Ctrl\<close> (\<open>pi_ctrl.c\<close>), \<open>Calibrate\<close> (\<open>calibrate.c\<close>).
    \<^item> \<open>Seqlock_Protocol\<close>: the sequence lock of the virtual clock and of the telemetry record as an
      interleaving of single accesses, with the locale \<open>seqlock\<close>; \<open>Seqlock\<close> interprets it on \<open>vclock.c\<close>,
      \<open>Monitor\<close> on the telemetry record.
    \<^item> \<open>Election\<close> (\<open>election.c\<close>), \<open>Errors\<close> (\<open>errors.c\<close>), \<open>Cmd\<close> (\<open>cmd.c\<close>), \<open>Gpio\<close> (\<open>gpio_bcm2711.c\<close>), \<open>Telemetry\<close>
      (\<open>telemetry.c\<close>), \<open>Telemetry_Udp\<close> (\<open>telemetry_udp.c\<close>), \<open>Pulse_Engine\<close> (\<open>pulse_engine.c\<close>).
    \<^item> \<open>Statemachine\<close> (\<open>statemachine.c\<close>): every handler over the record \<open>daemon\<close>, which gathers \<open>sm_t\<close>, what
      it points to and the static variables of the components; \<open>Sm_Transitions\<close> and \<open>Sync_Exchange\<close> hold
      its properties.
    \<^item> \<open>Transition_System\<close>: reachability by labelled steps and the locale \<open>safety\<close>. \<open>Daemon\<close> (\<open>main.c\<close>):
      start-up, event dispatch, shutdown, and the steps \<open>node_step\<close> in which loop iterations, pulse
      thread, telemetry sender and signals interleave. \<open>Startup_Guard\<close>: two further invariants, about
      what may happen before a calibration; \<open>Startup_Run\<close>: a sample run and the outcome of start-up.
    \<^item> \<open>Cluster\<close>: several daemons; what one sends another receives. \<open>Servo\<close>: \<open>pi_ctrl_update\<close> and
      \<open>vclock_set_rate\<close> in a closed loop, as a linear system with rounding, and the locale \<open>shrinking\<close>;
      \<open>Exchange_Run\<close>: sequences of responses handled by \<open>sm_on_sync_resp\<close>; \<open>Convergence\<close>: their limit;
      \<open>Pulse_Alignment\<close>: the pulses of a converged follower against the clock of its leader.
    \<^item> \<open>Monitor\<close> and \<open>Tool_Output\<close>: \<open>tools/drs_mon.c\<close> and \<open>tools/drs_sync_inspect.c\<close>; \<open>Unit_Tests\<close>: the
      programs under \<open>tests/\<close>.
    \<^item> \<open>Byte_Layout\<close>: little-endian integers, the placement of members by a C compiler, Python's \<open>struct\<close>;
      \<open>Shm_Image\<close>: the bytes of the four shared structures (\<open>telemetry.h\<close>, \<open>cmd.h\<close>, \<open>errors.h\<close>, \<open>telemetry_udp.h\<close>).
    \<^item> \<open>Agent\<close> and \<open>Agent_Net\<close>: \<open>src/code/agent/agent.py\<close>, what works on the shared memory and what runs
      programs and probes the network; \<open>Agent_Views\<close>, \<open>Agent_Errors\<close> and \<open>Agent_Control\<close> join the first with the
      bytes and with the daemon. \<open>Telemetry_Stream\<close>: \<open>src/telemetry_listen.py\<close>, the sender thread, and the
      handlers that emit records.

  \<^bold>\<open>State and operations.\<close> C structs are records, enums datatypes, \<open>uint\<close> types words; \<open>int64_t\<close> is
  \<open>int\<close> with \<open>s64\<close> around every operation that can overflow. A function that changes a struct returns
  it changed. Answers of the operating system are parameters: clocks, \<open>sendto\<close> and calibration are
  streams in \<open>os_env\<close> read by counters in the daemon, the outcomes of start-up calls are in \<open>boot_env\<close>,
  those of one event in \<open>event\<close>; the theorems hold for all of them. Where a theorem assumes something
  of them, it is a named hypothesis and a witness shows it can hold.

  \<^bold>\<open>What the lemmas show.\<close> Per component: functional correctness on every branch (calibration, GPIO,
  network set-up, election), equivalence with a reference (table-driven CRC and its bit-serial
  definition, PI controller and its ideal formula, ring buffers and queues), round trips (frames,
  clock and inverse clock, error ring), bounds (advance of the clock over any history of updates,
  offset error), the level of the health pin from boot on. For the state machine: the
  transition diagram, election without rivals, the end of holdover. For the daemon: an invariant of
  all reachable states, the start-up guards, the outcome of start-up. For the cluster: split-brain
  resolution, the time exchange end to end, datagrams that are not intact frames, and the convergence of a follower's clock: a
  quadratic form of offset and integrator shrinks by a twentieth at each exchange, up to a constant given
  by rounding, path asymmetry, exchange duration, period jitter and drift; its pulses are then raised
  where the leader's clock is near a whole second. For shared memory: consistency of
  snapshots and of clock reads under every interleaving, when a read ends, and the way a torn value is
  returned for any clock. Across
  the languages: C layouts and Python formats agree, the agent decodes records and error rings faithfully,
  a posted command is executed once, and the listener prints what was emitted, in order.
  Several theorems state behaviour that differs from what the comments of the code promise; their
  text says so.

  \<^bold>\<open>Bounds and fuel.\<close> Loops are structural recursions (the calibration loop over its remaining rounds)
  or have a termination proof, except two that may not end and are partial functions: the busy-wait of
  the pulse thread, \<open>None\<close> where the clock never reaches the target, and the retry loop of the virtual
  clock, which spins while an update is left unfinished; theorems state when they end. Sequence-lock
  theorems allow fewer than \<open>2^31\<close> updates during one read, beyond which the 32-bit sequence number can
  return to its old value. Range hypotheses on times (\<open>ns_range\<close>, 36 years in nanoseconds) keep \<open>int64_t\<close>
  arithmetic exact. Convergence is shown for offsets up to 300 us, where the loop does not saturate, and from
  1.3 ms to 1 s, where it makes a phase step; between the two the controller is held at its 1000 ppm limit
  while its integrator winds up, and only its bounds are stated.

  \<^bold>\<open>Not modelled.\<close> Of the agent: JSON texts, the HTTP library, and what \<open>ipaddress\<close> makes of a text that
  is no IPv4 address with a prefix length (parameters); the argument parsing of the listener;
  the web page and the systemd units; the messages \<open>main\<close> prints on standard error; the text of floating-point
  numbers in the tools (a parameter); scheduling priorities, CPU affinity and memory locking beyond their
  error messages; \<open>make_nonblock\<close>, which is not used; memory orders weaker than sequential
  consistency. \<open>sync_fail_count\<close> is unbounded here, as it would take years to overflow an \<open>int\<close>.
\<close>

section \<open>Properties\<close>

text \<open>
  C3: the invariant of the running daemon. In every state reachable from a successful start-up, by
  any interleaving of event-loop iterations, pulse thread, telemetry sender and signals, and whatever
  the operating system and the network deliver: the virtual clock is not left in the middle of an
  update and runs within 1000 ppm of nominal, the last rate too; the min-delay window is well formed;
  the election timeout lies in [250 ms, 500 ms) and its generator has not died; the request interval
  is one of the two configured ones; the telemetry block has an even sequence number, its version and
  an error count of 0; the rings keep their sizes.
\<close>

theorem daemon_invariant:
  assumes "reachable os be argv n"
  shows "let d = n_d n; sm = d_sm d in
    even (vc_seq (sm_vc sm)) \<and> rate_ok (vc_rate_q32 (sm_vc sm)) \<and> rate_ok (sm_last_rate_q32 sm) \<and>
    min_delay_inv (sm_mdf sm) \<and>
    250000000 \<le> el_election_timeout_ns (sm_el sm) \<and> el_election_timeout_ns (sm_el sm) < 500000000 \<and> d_xr d \<noteq> 0 \<and>
    sm_sync_rate_ns sm \<in> {DRS_SYNC_EXCHANGE_NS, DRS_RETRY_STORM_RATE_NS} \<and> pi_step_accum_ns (sm_pi sm) = 0 \<and>
    (\<forall>tel. tg_tel (d_tel d) = Some tel \<longrightarrow> even (tel_seqlock tel) \<and> tel_version tel = DRS_TELEMETRY_VERSION \<and>
       tel_error_count tel = 0) \<and>
    (\<forall>ring. eg_ring (d_err d) = Some ring \<longrightarrow> error_ring_inv ring) \<and>
    length (tu_ring (d_udp d)) = 64 \<and> 0 \<le> n_link_check_ticks n \<and> n_link_check_ticks n < 10"
  using daemon_safe.reach_invar [OF assms]
  by (auto simp: node_inv_def daemon_inv_def sm_inv_def vclock_ok_def election_ok_def telemetry_ok_def
      errors_ok_def TELEM_RING_SIZE_def Let_def DRS_ELECTION_MIN_NS_def DRS_ELECTION_MAX_NS_def)

theorem daemon_invariant_witness:
  "\<exists>n. reachable run_os run_boot [''drs_syncd''] n \<and> sm_state (d_sm (n_d n)) = DRS_STATE_LISTEN \<and>
     rate_ok (vc_rate_q32 (sm_vc (d_sm (n_d n)))) \<and> d_xr (n_d n) \<noteq> 0"
proof -
  obtain n where n: "reachable run_os run_boot [''drs_syncd''] n" "sm_state (d_sm (n_d n)) = DRS_STATE_LISTEN"
    using run_reaches_listen by blast
  from daemon_invariant [OF n(1)] n show ?thesis by (auto simp: Let_def)
qed

text \<open>
  C2: no pulse before calibration. In every reachable state, if a pulse has been emitted or one is
  scheduled, one of the calibrations made so far was successful; also operator commands that force
  the node out of start-up do not arm the pulse engine.
\<close>

theorem no_pulse_before_calibration:
  assumes "reachable os be argv n"
    and "pe_pulse_count (d_pe (n_d n)) \<noteq> 0 \<or> pe_timer_at (d_pe (n_d n)) \<noteq> None \<or>
         pe_pulse_low_at (d_pe (n_d n)) \<noteq> None"
  shows "\<exists>k < d_calib_n (n_d n). \<forall>vc. fst (calibrate_loopback (os_calib os k) vc) = 0"
  using pulse_safe.reach_invar [OF assms(1)] assms(2)
  by (auto simp: pulse_guard_def engine_used_def calib_done_def calib_ok_any)

theorem no_pulse_before_calibration_witness:
  "\<exists>n. reachable run_os run_boot [''drs_syncd''] n \<and> pe_timer_at (d_pe (n_d n)) \<noteq> None \<and> d_calib_n (n_d n) = 1 \<and>
     (\<forall>vc. fst (calibrate_loopback (os_calib run_os 0) vc) = 0)"
proof -
  obtain n where n: "reachable run_os run_boot [''drs_syncd''] n" "pe_timer_at (d_pe (n_d n)) \<noteq> None"
    "d_calib_n (n_d n) = 1"
    using run_reaches_listen by blast
  from no_pulse_before_calibration [OF n(1)] n show ?thesis by auto
qed

text \<open>
  C1: the start-up guard. As long as no operator command arrives (the sequence number of the command
  channel stays what it was when the daemon mapped it), a node takes part in elections and
  synchronisation, that is leaves GROUND and CALIBRATION, only after a successful calibration.
\<close>

theorem active_only_after_calibration:
  assumes "reach (booted os be argv) (node_step os) (quiet_action (cc_seq (be_channel be))) n"
    and "sm_state (d_sm (n_d n)) \<notin> {DRS_STATE_GROUND, DRS_STATE_CALIBRATION}"
  shows "\<exists>k < d_calib_n (n_d n). \<forall>vc. fst (calibrate_loopback (os_calib os k) vc) = 0"
  using active_safe.reach_invar [OF assms(1)] assms(2)
  by (auto simp: active_guard_def sm_is_active_def calib_done_def calib_ok_any)

theorem active_only_after_calibration_witness:
  "\<exists>n. reach (booted run_os run_boot [''drs_syncd'']) (node_step run_os)
       (quiet_action (cc_seq (be_channel run_boot))) n \<and>
     sm_state (d_sm (n_d n)) = DRS_STATE_LISTEN \<and> d_calib_n (n_d n) = 1 \<and>
     (\<forall>vc. fst (calibrate_loopback (os_calib run_os 0) vc) = 0)"
proof -
  obtain n where n: "reach (booted run_os run_boot [''drs_syncd'']) (node_step run_os)
      (quiet_action (cc_seq (be_channel run_boot))) n"
    "sm_state (d_sm (n_d n)) = DRS_STATE_LISTEN" "d_calib_n (n_d n) = 1"
    using run_to_listen by blast
  from active_only_after_calibration [OF n(1)] n show ?thesis by (intro exI [of _ n]) auto
qed

text \<open>
  C7: the outcome of start-up. The daemon reaches its event loop exactly if both sockets, the two
  pulse timers, the pulse thread and the epoll instance were obtained; GPIO, the shared memories, the
  telemetry sender, real-time priorities and the two loop timers are not required. Otherwise it exits
  with status 70 if the network failed and 1 if something else did; unless only epoll was missing, the
  GPIO registers and the sockets are released by then.
\<close>

theorem boot_outcome:
  "(case boot os be argv of
      Inr n \<Rightarrow> resources_ok be \<and> n_running n \<and> sm_state (d_sm (n_d n)) = DRS_STATE_GROUND
    | Inl (code, d) \<Rightarrow> \<not> resources_ok be \<and> code = (if net_ok (be_net be) then 1 else 70) \<and>
        (net_ok (be_net be) \<and> 0 \<le> be_timer_fd be \<and> 0 \<le> be_low_fd be \<and> be_pulse_thread_ok be \<or>
         gg_gpio (d_gpio d) = None \<and> net_sock_mcast (d_net d) < 0 \<and> net_sock_ucast (d_net d) < 0))"
proof (cases "boot os be argv")
  case (Inr n)
  have "resources_ok be \<and> n_running n"
    using Inr by (auto simp: boot_def boot_epoll_def Let_def case_prod_beta net_io_init_ok pulse_engine_init_ok
        pulse_engine_start_ok resources_ok_def split: if_splits)
  with boot_guard [OF Inr] show ?thesis by (simp add: Inr)
next
  case (Inl r)
  have net: "net_sock_mcast (net_io_close net) < 0 \<and> net_sock_ucast (net_io_close net) < 0" for net
    by (simp add: net_io_close_def Let_def)
  have fail: "net_sock_mcast (snd (net_io_init env i)) < 0 \<and> net_sock_ucast (snd (net_io_init env i)) < 0"
    if "\<not> net_ok env" for env i
    using that by (auto simp: net_ok_def net_io_init_def open_mcast_socket_def open_ucast_socket_def Let_def)
  show ?thesis
    using Inl by (auto simp: boot_def Let_def case_prod_beta net_io_init_ok pulse_engine_init_ok net fail
        pulse_engine_start_ok resources_ok_def gpio_close_unmapped split: if_splits)
qed

text \<open>
  C10: \<open>main\<close> does not look at the result of \<open>make_timerfd_periodic\<close>. If the tick timer could not be
  created, the daemon starts all the same and stays in GROUND in every reachable state, whatever it
  receives.
\<close>

theorem no_tick_timer:
  assumes "be_tick_fd be < 0" "reachable os be argv n"
  shows "sm_state (d_sm (n_d n)) = DRS_STATE_GROUND"
proof -
  have "no_tick n"
    using assms(2) by (rule daemon_safe.reach_strengthen) (auto intro: boot_no_tick assms(1) node_step_no_tick)
  then show ?thesis by (simp add: no_tick_def)
qed

theorem no_tick_timer_witness:
  "\<exists>n. reachable run_os (run_boot\<lparr>be_tick_fd := - 1\<rparr>) [] n \<and> n_running n = False \<and>
     sm_state (d_sm (n_d n)) = DRS_STATE_GROUND"
proof -
  obtain n where "booted run_os (run_boot\<lparr>be_tick_fd := - 1\<rparr>) [] n" using run_boots by blast
  then have r: "reachable run_os (run_boot\<lparr>be_tick_fd := - 1\<rparr>) [] (handle_sig n)"
    by (rule reachable_signal)
  show ?thesis
    using no_tick_timer [OF _ r] r by (intro exI [of _ "handle_sig n"]) (simp add: handle_sig_def)
qed

text \<open>
  C4: a split brain is resolved. Let the leader \<open>a\<close> have the smallest id of all leaders and hear the
  heartbeats \<open>ms\<close> of the others, in any order and with any terms. Then it is still leader, and every
  one of those others that hears its next heartbeat, having kept the election state it announced and
  not being locked as leader, becomes its follower, with its term.
\<close>

theorem split_brain_resolved:
  assumes "sm_state (d_sm a) = DRS_STATE_LEADER" "el_lock_mode (sm_el (d_sm a)) \<noteq> DRS_LOCK_AS_LEADER"
    and "\<forall>m \<in> set ms. rival (os_ver os) (el_own_node_id (sm_el (d_sm a))) m"
    and "a' = fold (hears os) ms a" "sends_heartbeat os a' dg"
    and "m \<in> set ms" "sm_el (d_sm b) = sm_el (m_sender m)" "sm_state (d_sm b) = DRS_STATE_LEADER"
    and "el_lock_mode (sm_el (d_sm b)) \<noteq> DRS_LOCK_AS_LEADER" "os_ver ob = os_ver os"
    and "b' = on_mcast ob (heard dg src) t b"
  shows "sm_state (d_sm a') = DRS_STATE_LEADER \<and> sm_state (d_sm b') = DRS_STATE_FOLLOWER \<and>
    el_leader_node_id (sm_el (d_sm b')) = el_own_node_id (sm_el (d_sm a)) \<and>
    el_own_term (sm_el (d_sm b')) = el_own_term (sm_el (d_sm a'))"
proof -
  let ?pkt = "announce_packet (d_sm a')" and ?b = "b\<lparr>d_raw_n := d_raw_n b + 1\<rparr>"
  have a': "sm_state (d_sm a') = DRS_STATE_LEADER" "el_own_node_id (sm_el (d_sm a')) = el_own_node_id (sm_el (d_sm a))"
    "el_own_term (sm_el (m_sender m)) \<le> el_own_term (sm_el (d_sm a'))"
    using leader_hears_rivals [OF assms(1-4)] assms(6) by auto
  have "el_own_node_id (sm_el (d_sm a)) < el_own_node_id (sm_el (m_sender m))"
    using assms(3,6) by (simp add: rival_def)
  then have "announce_wins (sm_el (d_sm ?b)) ?pkt"
    using a' assms(7,9) by (auto simp: announce_wins_def)
  moreover have "b' = sm_on_announce ob ?pkt (Some src) t ?b"
    using sends_heartbeat_payload [OF assms(5)] assms(10,11) by (simp add: hear_announce)
  ultimately show ?thesis
    using leader_hears_winner [of ?b ?pkt b' ob src t] a' assms(8) by simp
qed

theorem split_brain_resolved_witness:
  "\<exists>dg. let a = hears sample_os sample_rival (sample_node DRS_STATE_LEADER 7 3);
        b = on_mcast sample_os (heard dg (m_src sample_rival)) 0 (sample_node DRS_STATE_LEADER 9 5)
    in sends_heartbeat sample_os a dg \<and> sm_state (d_sm b) = DRS_STATE_FOLLOWER \<and>
       el_leader_node_id (sm_el (d_sm b)) = 7 \<and> el_own_term (sm_el (d_sm b)) = el_own_term (sm_el (d_sm a))"
proof -
  let ?a = "sample_node DRS_STATE_LEADER 7 3" and ?b = "sample_node DRS_STATE_LEADER 9 5"
  let ?a' = "hears sample_os sample_rival ?a"
  have r: "\<forall>m \<in> set [sample_rival]. rival (os_ver sample_os) (el_own_node_id (sm_el (d_sm ?a))) m"
    by (simp add: sample_rival_ok sample_os_def)
  have lock: "el_lock_mode (sm_el (d_sm ?a)) \<noteq> DRS_LOCK_AS_LEADER" by (simp add: drs_const)
  have "sm_state (d_sm ?a') = DRS_STATE_LEADER"
    using leader_hears_rivals [OF _ lock r refl] by simp
  then obtain dg where dg: "sends_heartbeat sample_os ?a' dg"
    using leader_sends_heartbeat [of ?a' sample_os] by (auto simp: sample_os_def)
  show ?thesis
    using split_brain_resolved [OF _ lock r refl, of dg sample_rival ?b sample_os _ "m_src sample_rival" 0] dg
    by (intro exI [of _ dg]) (simp add: Let_def sample_rival_def drs_const)
qed

text \<open>
  C5: the time exchange end to end. A follower sends a request at its local time \<open>t1\<close>; the datagram
  reaches the leader, whose virtual clock reads \<open>t2\<close> then and \<open>t3\<close> when it answers; the answer reaches
  the follower at its local time \<open>t4\<close>. Then the request is settled, the failure count and the request
  interval are reset, and the clock of the follower is disciplined with the offset computed from these
  four times, if and only if the min-delay filter accepts their round trip; the leader's state is
  unchanged.
\<close>

theorem sync_exchange_end_to_end:
  assumes "sm_state (d_sm f) = DRS_STATE_FOLLOWER" "f1 = send_sync_req osf t f" "d_sent f1 = d_sent f @ [req]"
    and "even (vc_seq (sm_vc (d_sm l)))" "os_ver osl = os_ver osf"
    and "l1 = on_ucast osl (heard req fsrc) l" "d_sent l1 = d_sent l @ [resp]"
    and "d_sm f2 = d_sm f1" "f3 = on_ucast osf (heard resp lsrc) f2"
    and "t1 = mono_raw_ns (os_raw osf (d_raw_n f))" "t4 = mono_raw_ns (os_raw osf (d_raw_n f2))"
    and "t2 = vclock_now (sm_vc (d_sm l)) (mono_raw_ns (os_raw osl (d_raw_n l)))"
    and "t3 = vclock_now (sm_vc (d_sm l)) (mono_raw_ns (os_raw osl (d_raw_n l + 1)))"
  shows "d_sm l1 = d_sm l \<and> \<not> sm_sync_req_pending (d_sm f3) \<and> sm_sync_fail_count (d_sm f3) = 0 \<and>
    sm_sync_rate_ns (d_sm f3) = DRS_SYNC_EXCHANGE_NS \<and>
    sm_vc (d_sm f3) =
      (if fst (min_delay_update (sm_mdf (d_sm f)) (s64 (s64 (t4 - t1) - s64 (t3 - t2))))
       then disciplined (d_sm f)
         (c_div64 (s64 (s64 (t2 - vclock_now (sm_vc (d_sm f)) t1) + s64 (t3 - vclock_now (sm_vc (d_sm f)) t4))) 2)
         (mono_raw_ns (os_raw osf (d_raw_n f2 + 1)))
       else sm_vc (d_sm f))"
proof -
  let ?req = "sync_req_packet (d_sm f)" and ?l = "l\<lparr>d_raw_n := d_raw_n l + 1\<rparr>"
  let ?resp = "sync_resp_packet (d_sm l) ?req t2 t3" and ?f = "f2\<lparr>d_raw_n := d_raw_n f2 + 1\<rparr>"
  have f1: "dg_payload req = proto_encode (os_ver osf) ?req" "sm_sync_req_pending (d_sm f1)"
    "sm_state (d_sm f1) = DRS_STATE_FOLLOWER" "sm_sync_req_t1 (d_sm f1) = t1"
    "sm_mdf (d_sm f1) = sm_mdf (d_sm f)" "sm_vc (d_sm f1) = sm_vc (d_sm f)"
    "sm_pi (d_sm f1) = sm_pi (d_sm f)" "sm_last_pi_update_ns (d_sm f1) = sm_last_pi_update_ns (d_sm f)"
    "sm_last_leader_seq (d_sm f1) = sm_last_leader_seq (d_sm f)"
    using send_sync_req_sent [OF assms(2,3)] assms(1,10) by simp_all
  have l1: "l1 = sm_on_sync_req osl ?req fsrc (mono_raw_ns (os_raw osl (d_raw_n l))) ?l"
    using f1(1) assms(5,6) by (simp add: on_ucast_sync_req)
  then have resp: "dg_payload resp = proto_encode (os_ver osf) ?resp"
    using on_sync_req_sent [of osl ?req fsrc _ ?l resp] assms(5,7,12,13) by simp
  have "in_i64 t2" "in_i64 t3" "in_i64 (pkt_t1 ?req)"
    using assms(4,12,13) by (simp_all add: sync_req_packet_def zero_packet_def)
  then have "f3 = sm_on_sync_resp osf ?resp t4 ?f"
    using on_ucast_sync_resp [OF packet_ok_sync_resp resp, of lsrc f2] assms(9,11) by simp
  moreover have "pkt_seq ?resp = sm_last_leader_seq (d_sm ?f)"
    by (simp add: assms(8) f1 sync_resp_packet_def sync_req_packet_def)
  ultimately have "\<not> sm_sync_req_pending (d_sm f3) \<and> sm_sync_fail_count (d_sm f3) = 0 \<and>
    sm_sync_rate_ns (d_sm f3) = DRS_SYNC_EXCHANGE_NS \<and> sm_last_leader_seq (d_sm f3) = sm_last_leader_seq (d_sm ?f) \<and>
    sm_vc (d_sm f3) =
      (if fst (min_delay_update (sm_mdf (d_sm ?f)) (sync_rtt (sm_sync_req_t1 (d_sm ?f)) ?resp t4))
       then disciplined (d_sm ?f) (sync_theta (sm_vc (d_sm ?f)) (sm_sync_req_t1 (d_sm ?f)) ?resp t4)
              (mono_raw_ns (os_raw osf (d_raw_n ?f)))
       else sm_vc (d_sm ?f))"
    using f1(2,3) assms(8) by (intro sm_on_sync_resp_echo) simp_all
  moreover have "disciplined (d_sm f1) theta now = disciplined (d_sm f) theta now" for theta now
    by (simp add: disciplined_def pi_period_def f1 case_prod_beta)
  moreover have "d_sm l1 = d_sm l" by (simp add: l1 sm_on_sync_req_def Let_def case_prod_beta)
  ultimately show ?thesis by (simp add: assms(8) f1 sync_theta_resp)
qed

theorem sync_exchange_end_to_end_witness:
  "\<exists>req resp. let f = sample_node DRS_STATE_FOLLOWER 9 3; l = sample_node DRS_STATE_LEADER 7 3;
        f1 = send_sync_req sample_os 1000000000 f; l1 = on_ucast sample_os (heard req (m_src sample_rival)) l
    in d_sent f1 = d_sent f @ [req] \<and> d_sent l1 = d_sent l @ [resp] \<and> d_sm l1 = d_sm l \<and>
       \<not> sm_sync_req_pending (d_sm (on_ucast sample_os (heard resp (m_src sample_rival)) f1))"
proof -
  let ?f = "sample_node DRS_STATE_FOLLOWER 9 3" and ?l = "sample_node DRS_STATE_LEADER 7 3"
  have ok: "os_sendto sample_os k" for k by (simp add: sample_os_def)
  obtain req where req: "d_sent (send_sync_req sample_os 1000000000 ?f) = d_sent ?f @ [req]"
    using follower_sends_request [of ?f 1000000000 sample_os] ok by (auto simp: s64_def drs_const)
  then have "dg_payload req = proto_encode (os_ver sample_os) (sync_req_packet (d_sm ?f))"
    using send_sync_req_sent by blast
  then obtain resp where resp: "d_sent (on_ucast sample_os (heard req (m_src sample_rival)) ?l) = d_sent ?l @ [resp]"
    using leader_sends_response [of "?l\<lparr>d_raw_n := d_raw_n ?l + 1\<rparr>" sample_os "sync_req_packet (d_sm ?f)" "m_src sample_rival"
        "mono_raw_ns (os_raw sample_os (d_raw_n ?l))"] ok
    by (auto simp: on_ucast_sync_req)
  show ?thesis
    using sync_exchange_end_to_end [OF _ refl req _ refl refl resp refl refl refl refl refl refl, of "m_src sample_rival"] req resp
    by (intro exI [of _ req] exI [of _ resp]) (simp add: Let_def)
qed

text \<open>
  C6: datagrams that are not intact frames are ignored. A datagram shorter than a frame changes nothing
  but the clock readings taken. One whose magic number, version or CRC-32 (of the bit-serial
  definition) is wrong leads only to an entry in the error ring: the state machine, the network state, the
  pulse engine, the telemetry and what has been sent stay as they were. That is so after every change of up to
  four consecutive bytes of a frame wholly inside or wholly outside its checksum field; a longer or
  scattered change is noticed where it changes the checksum.
\<close>

theorem corrupt_frame_ignored:
  assumes "d' \<in> {on_mcast os (Recv_data data src) t d, on_ucast os (Recv_data data src) d}"
    and "flen = DRS_PAYLOAD_BYTES (os_ver os)"
  shows "(length data < flen \<longrightarrow> d' = d\<lparr>d_raw_n := d_raw_n d + 1\<rparr>) \<and>
    (flen \<le> length data \<and> damaged (os_ver os) (take flen data) \<longrightarrow>
      d_sm d' = d_sm d \<and> d_sent d' = d_sent d \<and> d_net d' = d_net d \<and> d_pe d' = d_pe d \<and> d_tel d' = d_tel d \<and>
      (\<exists>msg. d' = push_error os DRS_ERR_CRC_MISMATCH msg (d\<lparr>d_raw_n := d_raw_n d + 1\<rparr>))) \<and>
    (\<forall>pkt frame k as. frame = proto_encode (os_ver os) pkt \<and> length as \<le> 4 \<and> k + length as \<le> flen \<and>
      (k + length as \<le> 50 \<or> 54 \<le> k \<or> 50 \<le> k \<and> k + length as \<le> 54) \<and> as \<noteq> get_bytes frame k (length as) \<longrightarrow>
      damaged (os_ver os) (put_bytes frame k as))"
proof (intro conjI allI impI)
  show "d' = d\<lparr>d_raw_n := d_raw_n d + 1\<rparr>" if "length data < flen"
    using assms short_datagram [of data os] that by auto
next
  assume "flen \<le> length data \<and> damaged (os_ver os) (take flen data)"
  then show err: "\<exists>msg. d' = push_error os DRS_ERR_CRC_MISMATCH msg (d\<lparr>d_raw_n := d_raw_n d + 1\<rparr>)"
    using assms undecodable_datagram [of os data] by (auto simp: damaged_iff)
  then show "d_sm d' = d_sm d" "d_sent d' = d_sent d" "d_net d' = d_net d" "d_pe d' = d_pe d" "d_tel d' = d_tel d" by auto
next
  fix pkt frame k as
  assume change: "frame = proto_encode (os_ver os) pkt \<and> length as \<le> 4 \<and> k + length as \<le> flen \<and>
      (k + length as \<le> 50 \<or> 54 \<le> k \<or> 50 \<le> k \<and> k + length as \<le> 54) \<and> as \<noteq> get_bytes frame k (length as)"
  then have "\<not> frame_ok (os_ver os) (put_bytes frame k as)"
    using assms(2) by (intro frame_ok_burst) (auto simp: frame_ok_encode)
  then show "damaged (os_ver os) (put_bytes frame k as)" by (simp add: damaged_iff proto_decode_eq)
qed

theorem corrupt_frame_ignored_witness:
  "\<exists>frame. damaged PROTO_V2 (put_bytes frame 6 [0xFA]) \<and>
     d_sm (on_mcast sample_os (Recv_data (put_bytes frame 6 [0xFA]) (m_src sample_rival)) 0 (sample_daemon DRS_STATE_LEADER)) =
     sample_sm DRS_STATE_LEADER"
proof -
  let ?frame = "proto_encode PROTO_V2 (sample_announce 5 9)" and ?d = "sample_daemon DRS_STATE_LEADER"
  let ?data = "put_bytes ?frame 6 [0xFA]" and ?flen = "DRS_PAYLOAD_BYTES PROTO_V2"
  have changed: "[0xFA] \<noteq> get_bytes ?frame 6 (length [0xFA :: u8])"
    by (simp add: proto_encode_layout frame_head_def get_bytes_def sample_defs)
  have os: "os_ver sample_os = PROTO_V2" by (simp add: sample_os_def)
  have len: "length ?data = ?flen" by simp
  note ignored = corrupt_frame_ignored [of _ sample_os ?data "m_src sample_rival" 0 ?d ?flen, OF insertI1]
  have dmg: "damaged PROTO_V2 ?data"
    using ignored changed by (auto simp: os payload_bytes)
  then have "d_sm (on_mcast sample_os (Recv_data ?data (m_src sample_rival)) 0 ?d) = d_sm ?d"
    using ignored len by (simp add: os)
  with dmg show ?thesis by (intro exI [of _ ?frame]) (simp add: sample_daemon_def)
qed

text \<open>
  C8: telemetry snapshots. The monitor and the inspection tool copy the shared record, field by
  field in any order, while the daemon runs any of its updates; for every interleaving with fewer
  than \<open>2^31\<close> updates, a copy taken with an even sequence number is the record as it was after some
  number of whole updates.
\<close>

theorem telemetry_snapshot_consistent:
  assumes "even (tel_seqlock tel)" "length ops < 2 ^ 31" "set order = UNIV"
    and "s = seqlock_run telemetry_seqlock (snap_value ()) order sched (seqlock_start snap result tel ops)"
    and "rd_pc s = R_Done" "even (rd_s1 s)"
  shows "\<exists>j \<le> length ops. rd_result s = snap_value () (fold apply_tel_op (take j ops) tel)"
  using tsl.read_consistent [of tel ops order s "()" sched snap result] assms by simp

text \<open>A tick of the daemon that overlaps the copy, which is then made a second time.\<close>

definition snap_schedule :: "bool list" where
  "snap_schedule = [False, False, True, True, True] @ map (\<lambda>_. False) (tel_fields @ tel_fields) @ [False, False]"

definition sample_tel_op :: tel_op where
  "sample_tel_op = ([T_holdover_count], \<lambda>t. t\<lparr>tel_holdover_count := tel_holdover_count t + 1\<rparr>)"

theorem telemetry_snapshot_consistent_witness:
  "\<exists>j \<le> 1. rd_result (seqlock_run telemetry_seqlock (snap_value ()) tel_fields snap_schedule
       (seqlock_start zero_telemetry zero_telemetry zero_telemetry [sample_tel_op])) =
     snap_value () (fold apply_tel_op (take j [sample_tel_op]) zero_telemetry)"
  using telemetry_snapshot_consistent [OF _ _ set_tel_fields refl, of zero_telemetry "[sample_tel_op]"
      snap_schedule zero_telemetry zero_telemetry]
  by (simp add: seqlock_start_def reader_step_def writer_step_def tel_fields_def zero_telemetry_def
      tel_bump_def tel_op_stores_def apply_tel_store_def Let_def snap_schedule_def sample_tel_op_def)

text \<open>
  C9: what the tools show of a node. In every reachable state, after a tick and if the
  telemetry segment is mapped, the state names of both tools are the name of the state the node is in, the holdover
  banner is shown exactly in HOLDOVER, leader and term are those of the election; and the error line
  of the monitor always says 0, whatever has been pushed to the error ring.
\<close>

theorem monitor_shows_node:
  assumes "reachable os be argv n" "d = sm_tick os t (n_d n)" "telemetry_get (d_tel d) = Some tel"
  shows "mon_state_name (tel_state tel) = state_name (sm_state (d_sm d)) \<and>
    inspect_state_name (tel_state tel) = state_name (sm_state (d_sm d)) \<and>
    (mv_in_holdover (mon_derive tel m) \<longleftrightarrow> sm_state (d_sm d) = DRS_STATE_HOLDOVER) \<and>
    tel_leader_node_id tel = el_leader_node_id (sm_el (d_sm d)) \<and> tel_election_term tel = el_own_term (sm_el (d_sm d)) \<and>
    mon_error_line tel = BOLD @ ''  Errors     '' @ RST @ '': '' @ GRN @ ''0'' @ RST @ NL"
proof -
  have "tg_tel (d_tel (sm_tick_state os t (n_d n))) \<noteq> None"
    using assms(2,3) update_telemetry_unmapped [of "sm_tick_state os t (n_d n)" os t]
    by (cases "tg_tel (d_tel (sm_tick_state os t (n_d n)))") (simp_all add: sm_tick_def telemetry_get_def)
  then have tel: "tel_state tel = of_nat (state_code (sm_state (d_sm d)))"
    "tel_leader_node_id tel = el_leader_node_id (sm_el (d_sm d))" "tel_election_term tel = el_own_term (sm_el (d_sm d))"
    using tel_after_tick [of os t "n_d n"] assms(2,3) by (auto simp: telemetry_get_def)
  have "daemon_inv d"
    using daemon_safe.reach_invar [OF assms(1)] assms(2) by (simp add: node_inv_def inv_intros)
  then have "tel_error_count tel = 0"
    using assms(3) by (simp add: daemon_inv_def telemetry_ok_def telemetry_get_def)
  moreover have "(of_nat (state_code s) = (6 :: u32)) = (s = DRS_STATE_HOLDOVER)" for s
    by (cases s) simp_all
  ultimately show ?thesis
    by (simp add: tel mon_state_name_agrees inspect_state_name_agrees mon_derive_def mon_error_line_def)
qed

theorem monitor_shows_node_witness:
  "\<exists>(n :: node) tel. telemetry_get (d_tel (sm_tick run_os 0 (n_d n))) = Some tel \<and>
     mon_state_name (tel_state tel) = state_name (sm_state (d_sm (sm_tick run_os 0 (n_d n))))"
proof -
  obtain n tel where n: "booted run_os (run_boot\<lparr>be_tel := (3, True, True)\<rparr>) [''drs_syncd''] n"
    "sm_state (d_sm (n_d n)) = DRS_STATE_GROUND" "tg_tel (d_tel (n_d n)) = Some tel"
    using run_booted_telemetry by blast
  have st: "tg_tel (d_tel (sm_tick_state run_os 0 (n_d n))) = Some tel"
    using n(2,3) by (simp add: sm_tick_state_def d_tel_keeps)
  then obtain tel' where tel': "telemetry_get (d_tel (sm_tick run_os 0 (n_d n))) = Some tel'"
    using tel_after_tick [OF st] by (auto simp: telemetry_get_def)
  have "reachable run_os (run_boot\<lparr>be_tel := (3, True, True)\<rparr>) [''drs_syncd''] n"
    using n(1) by (rule reach.init)
  from monitor_shows_node [OF this refl tel', of mon_init]
  have "mon_state_name (tel_state tel') = state_name (sm_state (d_sm (sm_tick run_os 0 (n_d n))))" by simp
  with tel' show ?thesis by blast
qed

end
